(* ===== verification/Float64.thy ===== *)
theory Float64
  imports Complex_Main "HOL-Library.Log_Nat"
begin

text \<open>
  Go's \<open>float64\<close>. A finite float is the real number it denotes, and every operation of the
  program is the exact real operation followed by \<^term>\<open>fl\<close>, the IEEE-754 rounding to nearest,
  ties to even, with 53 bits of precision and gradual underflow at \<open>2 powi (-1074)\<close>.
  Overflow to an infinity and NaN are not modelled: the program divides only after it has
  tested its divisor (the places are named where they are modelled) and its scores, rates and
  Unix timestamps stay far below \<open>2 ^ 1024\<close>. Fused multiply-add, which the Go compiler uses on
  some processors but not on amd64, is not modelled either.

  What the rest of the development uses of this theory is that rounding is monotone
  (\<open>fl_mono\<close>), that it leaves representable numbers alone (\<open>fl_repr\<close>) and that it is close
  (\<open>fl_error\<close>).
\<close>

named_theorems repr_intros \<open>facts that a number is a float64\<close>

section \<open>Representable numbers and rounding\<close>

definition repr :: "real \<Rightarrow> bool" where
  "repr x \<longleftrightarrow> (\<exists>m e :: int. \<bar>m\<bar> \<le> 2 ^ 53 \<and> - 1074 \<le> e \<and> x = of_int m * 2 powi e)"

definition ilog2 :: "real \<Rightarrow> int" where
  "ilog2 x = (if 1 \<le> x then bitlen \<lfloor>x\<rfloor> - 1 else - bitlen (\<lceil>1 / x\<rceil> - 1))"

definition ulp_exp :: "real \<Rightarrow> int" where
  "ulp_exp x = max (- 1074) (ilog2 \<bar>x\<bar> - 52)"

definition round_even :: "real \<Rightarrow> int" where
  "round_even x =
     (let n = \<lfloor>x\<rfloor>; d = x - of_int n
      in if d < 1 / 2 then n
         else if 1 / 2 < d then n + 1
         else if even n then n else n + 1)"

definition fl :: "real \<Rightarrow> real" where
  "fl x = (if x = 0 then 0
           else of_int (round_even (x / 2 powi (ulp_exp x))) * 2 powi (ulp_exp x))"

definition fadd :: "real \<Rightarrow> real \<Rightarrow> real" where
  "fadd x y = fl (x + y)"

definition fsub :: "real \<Rightarrow> real \<Rightarrow> real" where
  "fsub x y = fl (x - y)"

definition fmul :: "real \<Rightarrow> real \<Rightarrow> real" where
  "fmul x y = fl (x * y)"

definition fdiv :: "real \<Rightarrow> real \<Rightarrow> real" where
  "fdiv x y = fl (x / y)"

definition fsqrt :: "real \<Rightarrow> real" where
  "fsqrt x = fl (sqrt x)"

text \<open>\<open>float64(n)\<close> of an integer, and a decimal literal of the source.\<close>

definition fint :: "int \<Rightarrow> real" where
  "fint n = fl (of_int n)"

text \<open>\<open>math.Round\<close>: to the nearest integer, halves away from zero (always exact).\<close>

definition go_round :: "real \<Rightarrow> real" where
  "go_round x = (if 0 \<le> x then of_int \<lfloor>x + 1 / 2\<rfloor> else - of_int \<lfloor>1 / 2 - x\<rfloor>)"

text \<open>\<open>math.Round(x*100) / 100\<close> and its siblings with 10 and 1000.\<close>

definition round_to :: "real \<Rightarrow> real \<Rightarrow> real" where
  "round_to k x = fdiv (go_round (fmul x k)) k"

text \<open>\<open>int(x)\<close> of a float: truncation towards zero.\<close>

definition go_trunc :: "real \<Rightarrow> int" where
  "go_trunc x = (if 0 \<le> x then \<lfloor>x\<rfloor> else \<lceil>x\<rceil>)"

section \<open>The binary exponent\<close>

lemma ilog2_ge_1:
  assumes "1 \<le> x"
  shows "2 powi (ilog2 x) \<le> x" and "x < 2 powi (ilog2 x + 1)"
proof -
  let ?n = "\<lfloor>x\<rfloor>"
  have pos: "0 < ?n" using assms by linarith
  have b: "1 \<le> bitlen ?n"
    using pos bitlen_eq_zero_iff[of ?n] bitlen_nonneg[of ?n] by linarith
  have lo: "2 ^ nat (bitlen ?n - 1) \<le> ?n" and hi: "?n < 2 ^ nat (bitlen ?n)"
    using bitlen_bounds[OF pos] by auto
  have e: "2 powi (ilog2 x) = (2::real) ^ nat (bitlen ?n - 1)"
    using assms b by (simp add: ilog2_def power_int_def)
  have e1: "2 powi (ilog2 x + 1) = (2::real) ^ nat (bitlen ?n)"
    using assms b by (simp add: ilog2_def power_int_def)
  have "(2::real) ^ nat (bitlen ?n - 1) = of_int (2 ^ nat (bitlen ?n - 1))" by simp
  also have "\<dots> \<le> of_int ?n" using lo by (subst of_int_le_iff)
  also have "\<dots> \<le> x" by simp
  finally show "2 powi (ilog2 x) \<le> x" using e by simp
  have "x < of_int (?n + 1)" by simp
  also have "\<dots> \<le> of_int (2 ^ nat (bitlen ?n))"
    using hi by (subst of_int_le_iff) simp
  finally show "x < 2 powi (ilog2 x + 1)" using e1 by simp
qed

lemma ilog2_lt_1:
  assumes "0 < x" "x < 1"
  shows "2 powi (ilog2 x) \<le> x" and "x < 2 powi (ilog2 x + 1)"
proof -
  let ?c = "\<lceil>1 / x\<rceil>"
  have gt: "1 < 1 / x" using assms by simp
  then have c: "2 \<le> ?c" by linarith
  then have pos: "0 < ?c - 1" by simp
  let ?b = "bitlen (?c - 1)"
  have b: "1 \<le> ?b"
    using pos bitlen_eq_zero_iff[of "?c - 1"] bitlen_nonneg[of "?c - 1"] by linarith
  have lo: "2 ^ nat (?b - 1) \<le> ?c - 1" and hi: "?c - 1 < 2 ^ nat ?b"
    using bitlen_bounds[OF pos] by auto
  have il: "ilog2 x = - ?b" using assms by (simp add: ilog2_def)
  have e: "2 powi (ilog2 x) = 1 / (2::real) ^ nat ?b"
    using b by (simp add: il power_int_minus_divide power_int_def power_one_over)
  have e1: "2 powi (ilog2 x + 1) = 1 / (2::real) ^ nat (?b - 1)"
  proof -
    have "ilog2 x + 1 = - (?b - 1)" by (simp add: il)
    then have "2 powi (ilog2 x + 1) = 1 / (2::real) powi (?b - 1)"
      by (simp only: power_int_minus_divide)
    then show ?thesis using b by (simp add: power_int_def)
  qed
  have "1 / x \<le> of_int ?c" by simp
  also have "\<dots> \<le> of_int (2 ^ nat ?b)"
    using hi by (subst of_int_le_iff) simp
  finally have "1 / x \<le> 2 ^ nat ?b" by simp
  then have "1 / 2 ^ nat ?b \<le> x"
    using assms by (simp add: field_simps)
  then show "2 powi (ilog2 x) \<le> x"
    using e by simp
  have "(2::real) ^ nat (?b - 1) = of_int (2 ^ nat (?b - 1))" by simp
  also have "\<dots> \<le> of_int (?c - 1)" using lo by (subst of_int_le_iff)
  also have "\<dots> < 1 / x" by linarith
  finally have "(2::real) ^ nat (?b - 1) < 1 / x" .
  then have "x < 1 / 2 ^ nat (?b - 1)"
    using assms by (simp add: field_simps)
  then show "x < 2 powi (ilog2 x + 1)"
    using e1 by simp
qed

lemma ilog2_bounds:
  assumes "0 < x"
  shows "2 powi (ilog2 x) \<le> x" and "x < 2 powi (ilog2 x + 1)"
  using assms ilog2_ge_1[of x] ilog2_lt_1[of x] by (cases "1 \<le> x"; simp)+

lemma ilog2_less:
  assumes "0 < x" and "x < 2 powi k"
  shows "ilog2 x < k"
proof (rule ccontr)
  assume "\<not> ilog2 x < k"
  then have "(2::real) powi k \<le> 2 powi (ilog2 x)"
    by (intro power_int_increasing) auto
  with ilog2_bounds(1)[OF assms(1)] assms(2) show False by linarith
qed

section \<open>Rounding is to nearest\<close>

lemma round_even_half: "\<bar>of_int (round_even x) - x\<bar> \<le> 1 / 2"
  unfolding round_even_def Let_def by (cases "x - of_int \<lfloor>x\<rfloor>" "1 / 2 :: real" rule: linorder_cases)
    (auto simp: abs_if; linarith)+

lemma round_even_nearest: "\<bar>of_int (round_even x) - x\<bar> \<le> \<bar>of_int k - x\<bar>"
proof (cases "k = round_even x")
  case False
  then have "1 \<le> \<bar>of_int k - (of_int (round_even x) :: real)\<bar>"
    by linarith
  with round_even_half[of x] show ?thesis by linarith
qed simp

lemma round_even_le: "x \<le> of_int k \<Longrightarrow> round_even x \<le> k"
  unfolding round_even_def Let_def by (auto; linarith)

lemma round_even_ge: "of_int k \<le> x \<Longrightarrow> k \<le> round_even x"
  unfolding round_even_def Let_def by (auto; linarith)

lemma ulp_exp_ge: "- 1074 \<le> ulp_exp x"
  by (simp add: ulp_exp_def)

lemma abs_less_ulp:
  assumes "x \<noteq> 0"
  shows "\<bar>x\<bar> < 2 ^ 53 * 2 powi (ulp_exp x)"
proof -
  have "\<bar>x\<bar> < 2 powi (ilog2 \<bar>x\<bar> + 1)" using assms ilog2_bounds(2)[of "\<bar>x\<bar>"] by simp
  also have "\<dots> \<le> 2 powi (53 + ulp_exp x)"
    by (intro power_int_increasing) (auto simp: ulp_exp_def)
  also have "\<dots> = 2 ^ 53 * 2 powi (ulp_exp x)"
    by (simp add: power_int_add)
  finally show ?thesis .
qed

lemma repr_fl [simp, repr_intros]: "repr (fl x)"
proof (cases "x = 0")
  case True
  then show ?thesis by (auto simp: fl_def repr_def intro!: exI[of _ 0])
next
  case False
  let ?u = "2 powi (ulp_exp x) :: real"
  let ?q = "x / ?u"
  have u: "0 < ?u" by simp
  have "\<bar>?q\<bar> < 2 ^ 53" using abs_less_ulp[OF False] u by (simp add: pos_divide_less_eq)
  then have "?q \<le> of_int (2 ^ 53)" and "of_int (- (2 ^ 53)) \<le> ?q" by (simp_all only: abs_less_iff) auto
  then have "round_even ?q \<le> 2 ^ 53" and "- (2 ^ 53) \<le> round_even ?q"
    by (blast intro: round_even_le round_even_ge)+
  then have "\<bar>round_even ?q\<bar> \<le> 2 ^ 53" by simp
  with False show ?thesis
    unfolding repr_def fl_def using ulp_exp_ge[of x] by auto
qed

text \<open>A representable number with a finer grid than \<open>x\<close>'s lies below \<open>x\<close>'s binade.\<close>

lemma repr_finer:
  assumes "x \<noteq> 0" and m: "\<bar>m\<bar> \<le> 2 ^ 53" and e: "- 1074 \<le> e" "e < ulp_exp x"
  shows "\<bar>of_int m * 2 powi e\<bar> \<le> 2 ^ 52 * (2::real) powi (ulp_exp x)"
    and "2 ^ 52 * 2 powi (ulp_exp x) \<le> \<bar>x\<bar>"
proof -
  have "\<bar>of_int m * 2 powi e :: real\<bar> = of_int \<bar>m\<bar> * 2 powi e"
    by (simp add: abs_mult)
  also have "\<dots> \<le> 2 ^ 53 * 2 powi e"
  proof -
    have "of_int \<bar>m\<bar> \<le> (of_int (2 ^ 53) :: real)" using m by (simp only: of_int_le_iff)
    then show ?thesis by (intro mult_right_mono) auto
  qed
  also have "\<dots> = 2 ^ 52 * 2 powi (e + 1)"
    by (simp add: power_int_add)
  also have "\<dots> \<le> 2 ^ 52 * 2 powi (ulp_exp x)"
    using e by (intro mult_left_mono power_int_increasing) auto
  finally show "\<bar>of_int m * 2 powi e\<bar> \<le> 2 ^ 52 * (2::real) powi (ulp_exp x)" .
  have "ulp_exp x = ilog2 \<bar>x\<bar> - 52"
    using e by (simp add: ulp_exp_def max_def split: if_splits)
  then have "2 ^ 52 * 2 powi (ulp_exp x) = (2::real) powi (ilog2 \<bar>x\<bar>)"
    by (simp add: power_int_diff)
  also have "\<dots> \<le> \<bar>x\<bar>" using assms(1) ilog2_bounds(1)[of "\<bar>x\<bar>"] by simp
  finally show "2 ^ 52 * 2 powi (ulp_exp x) \<le> \<bar>x\<bar>" .
qed

lemma fl_nearest_multiple:
  assumes "x \<noteq> 0"
  shows "\<bar>fl x - x\<bar> \<le> \<bar>of_int k * 2 powi (ulp_exp x) - x\<bar>"
proof -
  let ?u = "2 powi (ulp_exp x) :: real"
  have u: "0 < ?u" by simp
  have "\<bar>fl x - x\<bar> = \<bar>of_int (round_even (x / ?u)) - x / ?u\<bar> * ?u"
    using assms u by (simp add: fl_def field_simps flip: abs_mult_pos)
  also have "\<dots> \<le> \<bar>of_int k - x / ?u\<bar> * ?u"
    using round_even_nearest u by (intro mult_right_mono) auto
  also have "\<dots> = \<bar>of_int k * ?u - x\<bar>"
    using u by (simp add: field_simps flip: abs_mult_pos)
  finally show ?thesis .
qed

lemma fl_nearest:
  assumes "repr y"
  shows "\<bar>fl x - x\<bar> \<le> \<bar>y - x\<bar>"
proof (cases "x = 0")
  case True
  then show ?thesis by (simp add: fl_def)
next
  case False
  from assms obtain m e :: int where m: "\<bar>m\<bar> \<le> 2 ^ 53" and e: "- 1074 \<le> e"
    and y: "y = of_int m * 2 powi e"
    by (auto simp: repr_def)
  show ?thesis
  proof (cases "e < ulp_exp x")
    case True
    let ?s = "2 ^ 52 * (2::real) powi (ulp_exp x)"
    have ys: "\<bar>y\<bar> \<le> ?s" and sx: "?s \<le> \<bar>x\<bar>"
      using repr_finer[OF False m e True] y by auto
    have "\<bar>fl x - x\<bar> \<le> \<bar>of_int (sgn_int * 2 ^ 52) * 2 powi (ulp_exp x) - x\<bar>" for sgn_int :: int
      by (rule fl_nearest_multiple[OF False])
    from this[of 1] this[of "-1"] ys sx show ?thesis
      by (cases "0 \<le> x") (simp_all add: abs_if split: if_splits)
  next
    case False
    then have "(2::real) powi (e - ulp_exp x) = of_int (2 ^ nat (e - ulp_exp x))"
      by (simp add: power_int_def)
    moreover have "(2::real) powi e = 2 powi (e - ulp_exp x) * 2 powi (ulp_exp x)"
      by (simp flip: power_int_add)
    ultimately have "y = of_int (m * 2 ^ nat (e - ulp_exp x)) * 2 powi (ulp_exp x)"
      using y by simp
    then show ?thesis
      using fl_nearest_multiple[OF \<open>x \<noteq> 0\<close>, of "m * 2 ^ nat (e - ulp_exp x)"] by simp
  qed
qed

lemma fl_repr [simp]: "repr x \<Longrightarrow> fl x = x"
  using fl_nearest[of x x] by simp

lemma fl_idem [simp]: "fl (fl x) = fl x"
  by simp

theorem fl_mono:
  assumes "x \<le> y"
  shows "fl x \<le> fl y"
proof (rule ccontr)
  assume "\<not> fl x \<le> fl y"
  moreover have "\<bar>fl x - x\<bar> \<le> \<bar>fl y - x\<bar>" and "\<bar>fl y - y\<bar> \<le> \<bar>fl x - y\<bar>"
    by (simp_all add: fl_nearest)
  ultimately have "x = y" using assms by linarith
  with \<open>\<not> fl x \<le> fl y\<close> show False by simp
qed

section \<open>Bounds through rounding\<close>

lemma fl_le: "x \<le> c \<Longrightarrow> repr c \<Longrightarrow> fl x \<le> c"
  using fl_mono[of x c] by simp

lemma fl_ge: "c \<le> x \<Longrightarrow> repr c \<Longrightarrow> c \<le> fl x"
  using fl_mono[of c x] by simp

lemma repr_minus [repr_intros]: "repr x \<Longrightarrow> repr (- x)"
  unfolding repr_def
proof (elim exE conjE)
  fix m e :: int
  assume "\<bar>m\<bar> \<le> 2 ^ 53" "- 1074 \<le> e" "x = of_int m * 2 powi e"
  then show "\<exists>m e. \<bar>m\<bar> \<le> 2 ^ 53 \<and> - 1074 \<le> e \<and> - x = of_int m * 2 powi e"
    by (intro exI[of _ "- m"] exI[of _ e]) simp
qed

lemma repr_of_int: "\<bar>n\<bar> \<le> 2 ^ 53 \<Longrightarrow> repr (of_int n)"
  unfolding repr_def by (intro exI[of _ n] exI[of _ 0]) simp

lemma repr_numeral: "numeral w \<le> (2::int) ^ 53 \<Longrightarrow> repr (numeral w)"
  using repr_of_int[of "numeral w"] by simp

lemma repr_dyadic:
  assumes "\<bar>n\<bar> \<le> 2 ^ 53" and "k \<le> 1074"
  shows "repr (of_int n / 2 ^ k)"
proof -
  have "of_int n / 2 ^ k = of_int n * (2::real) powi (- int k)"
    by (simp add: power_int_minus_divide)
  with assms show ?thesis unfolding repr_def by (intro exI[of _ n] exI[of _ "- int k"]) simp
qed

lemma repr_0 [simp, repr_intros]: "repr 0"
  using repr_of_int[of 0] by simp

lemma repr_1 [simp, repr_intros]: "repr 1"
  using repr_of_int[of 1] by simp

lemma repr_small [simp, repr_intros]:
  "repr 2" "repr 3" "repr 4" "repr 5" "repr 7" "repr 8" "repr 10" "repr 60" "repr 100" "repr 300"
  "repr 600" "repr 1000"
  by (rule repr_numeral; simp)+

lemma repr_half [simp, repr_intros]: "repr (1 / 2)" "repr (5 / 2)" "repr (15 / 2)"
  using repr_dyadic[of 1 1] repr_dyadic[of 5 1] repr_dyadic[of 15 1] by simp_all

lemma fl_0 [simp]: "fl 0 = 0"
  by (simp add: fl_def)

lemma fl_nonneg [simp]: "0 \<le> x \<Longrightarrow> 0 \<le> fl x"
  by (rule fl_ge) auto

lemma fl_nonpos: "x \<le> 0 \<Longrightarrow> fl x \<le> 0"
  by (rule fl_le) auto

lemma fint_exact: "\<bar>n\<bar> \<le> 2 ^ 53 \<Longrightarrow> fint n = of_int n"
  by (simp add: fint_def repr_of_int)

lemma fint_0 [simp]: "fint 0 = 0" and fint_1 [simp]: "fint 1 = 1"
  by (simp_all add: fint_def)

lemma fint_nonneg [simp]: "0 \<le> n \<Longrightarrow> 0 \<le> fint n"
  by (simp add: fint_def)

lemma fint_mono: "m \<le> n \<Longrightarrow> fint m \<le> fint n"
  by (simp add: fint_def fl_mono)

lemma fint_pos: "1 \<le> n \<Longrightarrow> 0 < fint n"
  using fint_mono[of 1 n] by simp

lemma fadd_mono: "x \<le> x' \<Longrightarrow> y \<le> y' \<Longrightarrow> fadd x y \<le> fadd x' y'"
  by (simp add: fadd_def fl_mono)

lemma fsub_mono: "x \<le> x' \<Longrightarrow> y' \<le> y \<Longrightarrow> fsub x y \<le> fsub x' y'"
  by (simp add: fsub_def fl_mono)

lemma fmul_mono: "x \<le> x' \<Longrightarrow> y \<le> y' \<Longrightarrow> 0 \<le> x' \<Longrightarrow> 0 \<le> y \<Longrightarrow> fmul x y \<le> fmul x' y'"
  by (simp add: fmul_def fl_mono mult_mono)

lemma fdiv_mono: "x \<le> x' \<Longrightarrow> 0 < y \<Longrightarrow> fdiv x y \<le> fdiv x' y"
  by (simp add: fdiv_def fl_mono divide_right_mono)

lemma fadd_nonneg [simp]: "0 \<le> x \<Longrightarrow> 0 \<le> y \<Longrightarrow> 0 \<le> fadd x y"
  by (simp add: fadd_def)

lemma fmul_nonneg [simp]: "0 \<le> x \<Longrightarrow> 0 \<le> y \<Longrightarrow> 0 \<le> fmul x y"
  by (simp add: fmul_def)

lemma fdiv_nonneg [simp]: "0 \<le> x \<Longrightarrow> 0 \<le> y \<Longrightarrow> 0 \<le> fdiv x y"
  by (simp add: fdiv_def)

lemma fsqrt_nonneg [simp]: "0 \<le> x \<Longrightarrow> 0 \<le> fsqrt x"
  by (simp add: fsqrt_def)

lemma fadd_0_left [simp]: "fadd 0 x = fl x" and fadd_0_right [simp]: "fadd x 0 = fl x"
  by (simp_all add: fadd_def)

lemma fsub_0_right [simp]: "fsub x 0 = fl x" and fsub_self [simp]: "fsub x x = 0"
  by (simp_all add: fsub_def)

lemma fmul_0 [simp]: "fmul 0 x = 0" "fmul x 0 = 0"
  by (simp_all add: fmul_def)

lemma fdiv_0 [simp]: "fdiv 0 x = 0"
  by (simp add: fdiv_def)

lemma repr_ops [simp, repr_intros]:
  "repr (fadd x y)" "repr (fsub x y)" "repr (fmul x y)" "repr (fdiv x y)" "repr (fsqrt x)"
  "repr (fint n)" "repr (round_to k x)"
  by (simp_all add: fadd_def fsub_def fmul_def fdiv_def fsqrt_def fint_def round_to_def)

lemma repr_min [repr_intros]: "repr x \<Longrightarrow> repr y \<Longrightarrow> repr (min x y)"
  and repr_max [repr_intros]: "repr x \<Longrightarrow> repr y \<Longrightarrow> repr (max x y)"
  by (auto simp: min_def max_def)

section \<open>Rounding error\<close>

lemma fl_error:
  assumes "\<bar>x\<bar> < 2 ^ k" and "k \<le> 53"
  shows "\<bar>fl x - x\<bar> \<le> 2 ^ k / 2 ^ 54"
proof (cases "x = 0")
  case False
  let ?u = "2 powi (ulp_exp x) :: real"
  have "ilog2 \<bar>x\<bar> < int k"
    using False assms(1) by (intro ilog2_less) auto
  then have u: "?u \<le> 2 powi (int k - 53)"
    using assms(2) by (intro power_int_increasing) (auto simp: ulp_exp_def)
  have "\<bar>fl x - x\<bar> = \<bar>of_int (round_even (x / ?u)) - x / ?u\<bar> * ?u"
    using False by (simp add: fl_def field_simps flip: abs_mult_pos)
  also have "\<dots> \<le> 1 / 2 * ?u"
    using round_even_half by (intro mult_right_mono) auto
  also have "\<dots> \<le> 1 / 2 * 2 powi (int k - 53)"
    using u by simp
  also have "\<dots> = 2 ^ k / 2 ^ 54"
    by (simp add: power_int_diff)
  finally show ?thesis .
qed simp

section \<open>Rounding to decimals\<close>

lemma go_round_int: "\<exists>n. go_round x = of_int n"
  by (auto simp: go_round_def intro: exI[of _ "- k" for k])

lemma go_round_mono:
  assumes "x \<le> y"
  shows "go_round x \<le> go_round y"
proof -
  have neg: "go_round z \<le> 0" if "\<not> 0 \<le> z" for z
    using that by (simp add: go_round_def)
  have pos: "0 \<le> go_round z" if "0 \<le> z" for z
    using that by (simp add: go_round_def)
  consider "0 \<le> x" | "\<not> 0 \<le> y" | "\<not> 0 \<le> x" "0 \<le> y" using assms by linarith
  then show ?thesis
  proof cases
    case 1
    then show ?thesis using assms by (simp add: go_round_def floor_mono)
  next
    case 2
    then show ?thesis using assms by (simp add: go_round_def floor_mono)
  next
    case 3
    then show ?thesis using neg[of x] pos[of y] by linarith
  qed
qed

lemma go_round_of_int [simp]: "go_round (of_int n) = of_int n"
proof -
  have "\<lfloor>real_of_int n + 1 / 2\<rfloor> = n" and "\<lfloor>1 / 2 - real_of_int n\<rfloor> = - n" by linarith+
  then show ?thesis by (simp add: go_round_def)
qed

lemma go_round_near:
  assumes "\<bar>x - of_int n\<bar> < 1 / 2"
  shows "go_round x = of_int n"
proof -
  from assms have "x < of_int n + 1 / 2" and "of_int n - 1 / 2 < x"
    by linarith+
  then have "0 \<le> x \<Longrightarrow> \<lfloor>x + 1 / 2\<rfloor> = n" and "\<not> 0 \<le> x \<Longrightarrow> \<lfloor>1 / 2 - x\<rfloor> = - n"
    by linarith+
  then show ?thesis by (auto simp: go_round_def)
qed

lemma go_round_error: "\<bar>go_round x - x\<bar> \<le> 1 / 2"
  by (auto simp: go_round_def abs_if; linarith)

lemma round_to_mono: "x \<le> y \<Longrightarrow> 0 < k \<Longrightarrow> round_to k x \<le> round_to k y"
  unfolding round_to_def fmul_def
  by (intro fdiv_mono go_round_mono fl_mono) auto

lemma round_to_0 [simp]: "round_to k 0 = 0"
  using go_round_of_int[of 0] by (simp add: round_to_def)

text \<open>A bound with at most as many decimals as the rounding keeps survives it.\<close>

lemma round_to_le:
  assumes "x \<le> c" "0 < k" "round_to k c = c"
  shows "round_to k x \<le> c"
  using round_to_mono[OF assms(1,2)] assms(3) by simp

lemma round_to_ge:
  assumes "c \<le> x" "0 < k" "round_to k c = c"
  shows "c \<le> round_to k x"
  using round_to_mono[OF assms(1,2)] assms(3) by simp

lemma round_to_int [simp]:
  assumes "\<bar>n\<bar> \<le> 2 ^ 40" and "k \<in> {10, 100, 1000}"
  shows "round_to (of_int k) (of_int n) = of_int n"
proof -
  have "\<bar>n * k\<bar> \<le> 2 ^ 40 * 1000"
    unfolding abs_mult using assms by (intro mult_mono) auto
  then have "repr (of_int (n * k))" by (intro repr_of_int) simp
  moreover have "repr (of_int n)" using assms by (intro repr_of_int) simp
  moreover have "k \<noteq> 0" using assms by auto
  ultimately show ?thesis
    using go_round_of_int[of "n * k"] by (simp add: round_to_def fmul_def fdiv_def)
qed

lemma round_to_small [simp]:
  "round_to 100 1 = 1" "round_to 100 2 = 2" "round_to 100 3 = 3" "round_to 100 4 = 4"
  "round_to 100 5 = 5" "round_to 100 8 = 8" "round_to 100 10 = 10" "round_to 1000 1 = 1"
  using round_to_int[of 1 100] round_to_int[of 2 100] round_to_int[of 3 100]
    round_to_int[of 4 100] round_to_int[of 5 100] round_to_int[of 8 100]
    round_to_int[of 10 100] round_to_int[of 1 1000] by simp_all

text \<open>Rounding to two decimals moves a score by at most one hundredth.\<close>

lemma round_to_100_error:
  assumes "0 \<le> x" and "x \<le> 10"
  shows "\<bar>round_to 100 x - x\<bar> \<le> 1 / 100"
proof -
  define r where "r = go_round (fmul x 100)"
  have "\<bar>fmul x 100 - x * 100\<bar> \<le> 2 ^ 10 / 2 ^ 54"
    unfolding fmul_def using assms by (intro fl_error) auto
  also have "(2 :: real) ^ 10 / 2 ^ 54 \<le> 1 / 10" by simp
  finally have "\<bar>fmul x 100 - x * 100\<bar> \<le> 1 / 10" .
  then have near: "\<bar>r - x * 100\<bar> \<le> 3 / 5"
    using go_round_error[of "fmul x 100"] unfolding r_def by linarith
  then have "\<bar>r\<bar> < 1600" using assms by linarith
  then have "\<bar>r / 100\<bar> < 2 ^ 4" by simp
  then have "\<bar>fl (r / 100) - r / 100\<bar> \<le> 2 ^ 4 / 2 ^ 54" by (rule fl_error) simp
  also have "(2 :: real) ^ 4 / 2 ^ 54 \<le> 1 / 500" by simp
  finally have "\<bar>fl (r / 100) - r / 100\<bar> \<le> 1 / 500" .
  with near show ?thesis unfolding round_to_def fdiv_def r_def[symmetric] by linarith
qed

end
