(* ===== verification/Prelude.thy ===== *)
theory Prelude
  imports Float64 "HOL-Library.Sublist" "HOL-Library.FSet" "HOL-Library.Finite_Map"
begin

text \<open>
  What the components share: Go's byte strings, its 64-bit integers, maps of slices, bounded
  histories, and the two enumerations every layer speaks about, the decision and the severity
  of a runtime effect, each with its order.

  A Go \<open>string\<close> is a sequence of bytes, and so is HOL's \<^typ>\<open>string\<close> (a \<^typ>\<open>char\<close> is 8 bits wide).
  Counters and sizes are Go's \<open>int\<close>; they count requests and bytes and are modelled as
  \<^typ>\<open>int\<close>. Where a request chooses the numbers (\<open>strconv.Atoi\<close> of a query value) the 64-bit
  range is written out: \<open>atoi\<close> fails outside it and \<open>wrap64\<close> wraps a difference.
\<close>

named_theorems step_simps \<open>how the operations act on the fields of a state\<close>

section \<open>Formatted messages\<close>

text \<open>
  A reason is the unrendered \<open>fmt.Sprintf\<close> call that makes it: the format and its arguments.
  A Go map printed with \<open>%v\<close> is the set of its keys.
\<close>

datatype fmt_arg = FmtInt int | FmtFloat real | FmtStr string | FmtKeys "string fset" | FmtStrs "string list"

datatype message = Sprintf string "fmt_arg list"

section \<open>Strings\<close>

definition is_digit :: "char \<Rightarrow> bool" where
  "is_digit c \<longleftrightarrow> (48::nat) \<le> of_char c \<and> of_char c \<le> (57::nat)"

definition digit_val :: "char \<Rightarrow> int" where
  "digit_val c = int (of_char c :: nat) - 48"

definition digits_val :: "string \<Rightarrow> int" where
  "digits_val ds = foldl (\<lambda>n c. 10 * n + digit_val c) 0 ds"

text \<open>\<open>strings.Split\<close> at a one-byte separator: never the empty list.\<close>

fun go_split :: "char \<Rightarrow> string \<Rightarrow> string list" where
  "go_split c [] = [[]]"
| "go_split c (x # xs) =
     (if x = c then [] # go_split c xs
      else (case go_split c xs of [] \<Rightarrow> [[x]] | w # ws \<Rightarrow> (x # w) # ws))"

lemma go_split_not_Nil [simp]: "go_split c s \<noteq> []"
  by (induction s) (auto split: list.splits)

section \<open>64-bit integers\<close>

definition in_int64 :: "int \<Rightarrow> bool" where
  "in_int64 n \<longleftrightarrow> - (2 ^ 63) \<le> n \<and> n < 2 ^ 63"

definition wrap64 :: "int \<Rightarrow> int" where
  "wrap64 n = (n + 2 ^ 63) mod 2 ^ 64 - 2 ^ 63"

lemma wrap64_range: "in_int64 (wrap64 n)"
  using pos_mod_bound[of "2 ^ 64" "n + 2 ^ 63"] pos_mod_sign[of "2 ^ 64" "n + 2 ^ 63"]
  unfolding wrap64_def in_int64_def by simp

lemma wrap64_id [simp]: "in_int64 n \<Longrightarrow> wrap64 n = n"
  by (simp add: in_int64_def wrap64_def)

text \<open>\<open>strconv.Atoi\<close>: an optional sign, then digits only; out of range is an error.\<close>

definition atoi :: "string \<Rightarrow> int option" where
  "atoi s =
     (let (neg, ds) = (case s of
            [] \<Rightarrow> (False, [])
          | c # cs \<Rightarrow> if c = CHR ''-'' then (True, cs)
                      else if c = CHR ''+'' then (False, cs) else (False, s));
          v = (if neg then - digits_val ds else digits_val ds)
      in if ds \<noteq> [] \<and> list_all is_digit ds \<and> in_int64 v then Some v else None)"

lemma atoi_in_int64: "atoi s = Some v \<Longrightarrow> in_int64 v"
  by (auto simp: atoi_def Let_def split: prod.splits if_splits)

lemma digits_val_nonneg:
  assumes "list_all is_digit ds"
  shows "0 \<le> digits_val ds"
proof -
  have nn: "0 \<le> digit_val c" if "is_digit c" for c
    using that unfolding is_digit_def digit_val_def by linarith
  have "0 \<le> acc \<Longrightarrow> list_all is_digit ds \<Longrightarrow>
        0 \<le> foldl (\<lambda>n c. 10 * n + digit_val c) acc ds" for acc
    using nn by (induction ds arbitrary: acc) auto
  with assms show ?thesis by (simp add: digits_val_def)
qed

lemma digit_not_sign: "is_digit c \<Longrightarrow> c \<noteq> CHR ''-'' \<and> c \<noteq> CHR ''+''"
  by (auto simp: is_digit_def)

lemma atoi_digits:
  assumes "ds \<noteq> []" and "list_all is_digit ds"
  shows "atoi ds = (if digits_val ds < 2 ^ 63 then Some (digits_val ds) else None)"
  using assms digits_val_nonneg[OF assms(2)] digit_not_sign
  by (cases ds) (auto simp: atoi_def Let_def in_int64_def)

section \<open>Maps whose values are slices\<close>

text \<open>Reading a missing key of a \<open>map[string][]T\<close> gives the nil slice.\<close>

definition mget :: "('k \<rightharpoonup> 'v list) \<Rightarrow> 'k \<Rightarrow> 'v list" where
  "mget m k = (case m k of None \<Rightarrow> [] | Some v \<Rightarrow> v)"

lemma mget_upd [simp]: "mget (m(k \<mapsto> v)) k' = (if k' = k then v else mget m k')"
  by (simp add: mget_def)

lemma mget_empty [simp]: "mget (\<lambda>_. None) k = []"
  by (simp add: mget_def)

section \<open>Bounded histories\<close>

lemma in_set_tlD: "x \<in> set (tl xs) \<Longrightarrow> x \<in> set xs"
  by (cases xs) auto

text \<open>
  The program keeps several bounded slices (recent scores, runtime effects, corrections) and
  has two ways to push onto one: append and then drop the oldest when too long, or drop the
  oldest when full and then append. The interface says what a client may rely on: the newest
  entry is last, a bound that holds is kept, and nothing but the oldest entry goes.
\<close>

locale bounded_log =
  fixes push :: "'a list \<Rightarrow> 'a \<Rightarrow> 'a list" and cap :: nat
  assumes push_room: "length xs < cap \<Longrightarrow> push xs x = xs @ [x]"
    and push_full: "length xs = cap \<Longrightarrow> push xs x = tl xs @ [x]"
    and cap_pos: "0 < cap"
begin

lemma push_bound: "length xs \<le> cap \<Longrightarrow> length (push xs x) \<le> cap"
  using cap_pos by (cases "length xs = cap") (auto simp: push_room push_full)

lemma push_last: "length xs \<le> cap \<Longrightarrow> push xs x \<noteq> [] \<and> last (push xs x) = x"
  by (cases "length xs = cap") (auto simp: push_room push_full)

lemma push_set: "length xs \<le> cap \<Longrightarrow> set (push xs x) \<subseteq> insert x (set xs)"
  by (cases "length xs = cap") (auto simp: push_room push_full dest: in_set_tlD)

lemma pushes_bound: "length xs \<le> cap \<Longrightarrow> length (foldl push xs ys) \<le> cap"
  by (induction ys arbitrary: xs) (auto intro: push_bound)

text \<open>After any number of pushes onto an empty history it holds exactly the newest entries.\<close>

lemma pushes_recent: "foldl push [] ys = drop (length ys - cap) ys"
proof (induction ys rule: rev_induct)
  case (snoc y ys)
  show ?case
  proof (cases "length ys < cap")
    case True
    with snoc show ?thesis by (simp add: push_room)
  next
    case False
    then have "length (drop (length ys - cap) ys) = cap" by simp
    moreover have "Suc 0 - cap = 0" using cap_pos by simp
    ultimately show ?thesis
      using snoc False by (simp add: push_full tl_drop Suc_diff_le flip: drop_Suc)
  qed
qed simp

end

text \<open>Append, then drop the oldest if the bound is exceeded.\<close>

definition append_trim :: "nat \<Rightarrow> 'a list \<Rightarrow> 'a \<Rightarrow> 'a list" where
  "append_trim cap xs x = (let ys = xs @ [x] in if cap < length ys then tl ys else ys)"

text \<open>Drop the oldest if the bound is reached, then append.\<close>

definition trim_append :: "nat \<Rightarrow> 'a list \<Rightarrow> 'a \<Rightarrow> 'a list" where
  "trim_append cap xs x = (if cap \<le> length xs then tl xs else xs) @ [x]"

lemma append_trim_log: "0 < cap \<Longrightarrow> bounded_log (append_trim cap) cap"
  by unfold_locales (auto simp: append_trim_def Let_def)

lemma trim_append_log: "0 < cap \<Longrightarrow> bounded_log (trim_append cap) cap"
  by unfold_locales (auto simp: trim_append_def)

lemma append_trim_last [simp]: "append_trim cap xs x \<noteq> []" "last (append_trim cap xs x) = x"
  if "0 < cap"
  using that by (cases xs; auto simp: append_trim_def Let_def)+

lemma trim_append_last [simp]: "trim_append cap xs x \<noteq> []" "last (trim_append cap xs x) = x"
  by (simp_all add: trim_append_def)

section \<open>Decisions\<close>

text \<open>The five decision strings, least severe first.\<close>

datatype decision = Allow | AllowStricter | Challenge | Block | Ban

fun decision_str :: "decision \<Rightarrow> string" where
  "decision_str Allow = ''allow''"
| "decision_str AllowStricter = ''allow+stricter''"
| "decision_str Challenge = ''challenge''"
| "decision_str Block = ''block''"
| "decision_str Ban = ''ban''"

lemma decision_str_inject [simp]: "decision_str a = decision_str b \<longleftrightarrow> a = b"
  by (cases a; cases b) auto

fun decision_rank :: "decision \<Rightarrow> nat" where
  "decision_rank Allow = 0"
| "decision_rank AllowStricter = 1"
| "decision_rank Challenge = 2"
| "decision_rank Block = 3"
| "decision_rank Ban = 4"

lemma decision_rank_inject [simp]: "decision_rank a = decision_rank b \<longleftrightarrow> a = b"
  by (cases a; cases b) auto

instantiation decision :: linorder
begin

definition less_eq_decision :: "decision \<Rightarrow> decision \<Rightarrow> bool" where
  "less_eq_decision a b \<longleftrightarrow> decision_rank a \<le> decision_rank b"

definition less_decision :: "decision \<Rightarrow> decision \<Rightarrow> bool" where
  "less_decision a b \<longleftrightarrow> decision_rank a < decision_rank b"

instance
  by standard (auto simp: less_eq_decision_def less_decision_def)

end

lemmas decision_order = less_eq_decision_def less_decision_def

section \<open>Severities of runtime effects\<close>

datatype severity = SevNone | SevLow | SevMedium | SevHigh | SevCritical

fun severity_int :: "severity \<Rightarrow> int" where
  "severity_int SevNone = 0"
| "severity_int SevLow = 1"
| "severity_int SevMedium = 2"
| "severity_int SevHigh = 3"
| "severity_int SevCritical = 4"

lemma severity_int_inject [simp]: "severity_int a = severity_int b \<longleftrightarrow> a = b"
  by (cases a; cases b) auto

instantiation severity :: linorder
begin

definition less_eq_severity :: "severity \<Rightarrow> severity \<Rightarrow> bool" where
  "less_eq_severity a b \<longleftrightarrow> severity_int a \<le> severity_int b"

definition less_severity :: "severity \<Rightarrow> severity \<Rightarrow> bool" where
  "less_severity a b \<longleftrightarrow> severity_int a < severity_int b"

instance
  by standard (auto simp: less_eq_severity_def less_severity_def)

end

lemmas severity_order = less_eq_severity_def less_severity_def

end
