(* ===== verification/Trust_Types.thy ===== *)
theory Trust_Types
  imports Prelude
begin

text \<open>
  The data of the trust engine (\<open>trustscore/types.go\<close>, \<open>detection_signals.go\<close>, \<open>config.go\<close>,
  with the RASP and Tier 1 records the profiles embed). Fields keep the source's names behind
  a prefix for the struct they belong to: \<open>c_\<close> Config, \<open>e_\<close> RequestEvent, \<open>p_\<close> IPProfile,
  \<open>s_\<close> DetectionSignals, \<open>o_\<close> RequestOutcome. Mutexes are left out: an operation of the model
  is one call with the profile locked as the code locks it.
\<close>

section \<open>Configuration\<close>

record config =
  c_ReconHighRate404 :: real
  c_ReconMediumRate404 :: real
  c_ReconHighRate403 :: real
  c_EndpointDiversityThreshold :: real
  c_IDEnumMinSequence :: int
  c_MethodProbeMin :: int
  c_BruteLoginHigh :: int
  c_BruteLoginMedium :: int
  c_BruteResetHigh :: int
  c_BruteRegisterHigh :: int
  c_BruteCVBotThreshold :: real
  c_BruteCumulativeLogin :: int
  c_DDOSBurstHigh :: int
  c_DDOSBurstMedium :: int
  c_DDOSRateHigh :: real
  c_DDOSRateMedium :: real
  c_DDOSExpensiveRate :: int
  c_DDOSLargePayloadBytes :: int
  c_ScrapePaginationHigh :: int
  c_ScrapePaginationMedium :: int
  c_ScrapeCVThreshold :: real
  c_EvasionUARotationHigh :: int
  c_EvasionUARotationMedium :: int
  c_EvasionJA4Rotation :: int
  c_EvasionPeriodicCV :: real
  c_EvasionPauseResumeCount :: int
  c_VulnFuzzMinSeq :: int
  c_Vuln500High :: int
  c_Vuln500Medium :: int
  c_VulnOptionsFlood :: int
  c_AbuseRegisterHigh :: int
  c_AbuseRegisterMedium :: int
  c_AbuseResetHigh :: int
  c_AbuseCumulativeHigh :: int
  c_BoostHumanCVMin :: real
  c_BoostAssetRatioMin :: real
  c_Tier1ScoreGain :: real

definition DefaultConfig :: config where
  "DefaultConfig =
   \<lparr> c_ReconHighRate404 = fl 0.50,
     c_ReconMediumRate404 = fl 0.25,
     c_ReconHighRate403 = fl 0.40,
     c_EndpointDiversityThreshold = fl 20,
     c_IDEnumMinSequence = 5,
     c_MethodProbeMin = 4,
     c_BruteLoginHigh = 20,
     c_BruteLoginMedium = 10,
     c_BruteResetHigh = 5,
     c_BruteRegisterHigh = 10,
     c_BruteCVBotThreshold = fl 0.20,
     c_BruteCumulativeLogin = 50,
     c_DDOSBurstHigh = 20,
     c_DDOSBurstMedium = 10,
     c_DDOSRateHigh = fl 20,
     c_DDOSRateMedium = fl 8,
     c_DDOSExpensiveRate = 5,
     c_DDOSLargePayloadBytes = 1000000,
     c_ScrapePaginationHigh = 30,
     c_ScrapePaginationMedium = 10,
     c_ScrapeCVThreshold = fl 0.25,
     c_EvasionUARotationHigh = 5,
     c_EvasionUARotationMedium = 3,
     c_EvasionJA4Rotation = 3,
     c_EvasionPeriodicCV = fl 0.05,
     c_EvasionPauseResumeCount = 2,
     c_VulnFuzzMinSeq = 6,
     c_Vuln500High = 5,
     c_Vuln500Medium = 3,
     c_VulnOptionsFlood = 10,
     c_AbuseRegisterHigh = 5,
     c_AbuseRegisterMedium = 3,
     c_AbuseResetHigh = 3,
     c_AbuseCumulativeHigh = 100,
     c_BoostHumanCVMin = fl 0.80,
     c_BoostAssetRatioMin = fl 0.30,
     c_Tier1ScoreGain = fl 3 \<rparr>"

section \<open>Events, effects, corrections\<close>

record request_event =
  e_IP :: string
  e_SessionID :: string
  e_Timestamp :: real
  e_Method :: string
  e_Path :: string
  e_QueryString :: string
  e_StatusCode :: int
  e_ResponseSize :: int
  e_RequestSize :: int
  e_ContentType :: string
  e_UserAgent :: string
  e_Referer :: string
  e_Accept :: string
  e_AcceptLanguage :: string
  e_JA4Fingerprint :: string
  e_ASN :: string
  e_ChallengePassed :: bool
  e_CountryCode :: string
  e_IsTor :: bool
  e_IsVPN :: bool
  e_IsDatacenter :: bool
  e_IsAssetRequest :: bool

record sensitive_hit =
  sh_Path :: string
  sh_Timestamp :: real

record rasp_hit =
  rh_Category :: string
  rh_Severity :: severity
  rh_Evidence :: string
  rh_Timestamp :: real

record tier1_correction =
  tc_Delta :: real
  tc_Reason :: string
  tc_Timestamp :: real

section \<open>What the detectors report to the profile\<close>

record recon_signals =
  s_SensitivePathHit :: bool
  s_SensitiveHit :: sensitive_hit
  s_IDSequenceLength :: int
  s_NewNumericID :: int
  s_IDSequenceBasePath :: string

record session_signals =
  s_HadHomepage :: bool
  s_HadLoginFlow :: bool

record scraping_signals =
  s_PaginationPath :: string
  s_PageNumber :: int

record vuln_signals =
  s_ParamFuzzing :: bool
  s_ParamFuzzingBase :: string
  s_ParamFuzzingVal :: string
  s_Repeated500 :: bool
  s_Repeated500Path :: string

record boost_signals =
  s_PassedChallenge :: bool

record rasp_signals =
  s_ConfirmedExploit :: bool

record detection_signals =
  s_Recon :: recon_signals
  s_Session :: session_signals
  s_Scraping :: scraping_signals
  s_VulnProbe :: vuln_signals
  s_Boost :: boost_signals
  s_RASP :: rasp_signals

record request_outcome =
  o_FinalScore :: real
  o_Decision :: decision
  o_WasBlocked :: bool
  o_WasChallenged :: bool

section \<open>The profile of an address\<close>

record ip_profile =
  p_IP :: string
  p_FirstSeen :: real
  p_LastSeen :: real
  p_TotalRequests :: int
  p_Total404 :: int
  p_Total403 :: int
  p_Total500 :: int
  p_Total200 :: int
  p_UniqueEndpoints :: "string fset"
  p_EndpointMethods :: "(string, string fset) fmap"
  p_SensitivePathHits :: "sensitive_hit list"
  p_NumericIDSequences :: "string \<rightharpoonup> int list"
  p_RecentTimestamps :: "real list"
  p_BurstTimestamps :: "real list"
  p_EndpointTimestamps :: "string \<rightharpoonup> real list"
  p_LoginAttempts :: int
  p_PasswordResetAttempts :: int
  p_RegistrationAttempts :: int
  p_SessionID :: string
  p_SessionStart :: real
  p_PagesVisited :: "string list"
  p_HadHomepage :: bool
  p_HadLoginFlow :: bool
  p_CountryCode :: string
  p_ASN :: string
  p_IsTor :: bool
  p_IsVPN :: bool
  p_IsDatacenter :: bool
  p_SeenCountryCodes :: "string fset"
  p_SeenUserAgents :: "string fset"
  p_SeenJA4 :: "string fset"
  p_FirstUserAgent :: string
  p_FirstJA4 :: string
  p_AssetRequestCount :: int
  p_NonAssetRequestCount :: int
  p_HasValidReferer :: bool
  p_PaginationSequences :: "string \<rightharpoonup> int list"
  p_RateLimitPauses :: int
  p_Last429Ts :: real
  p_ParamFuzzingSequences :: "string \<rightharpoonup> string list"
  p_Repeated500Endpoints :: "string \<rightharpoonup> int"
  p_PreviousScores :: "real list"
  p_WasBlocked :: bool
  p_WasChallenged :: bool
  p_ChallengeSolvedRecently :: bool
  p_ChallengeSolvedAt :: real
  p_EWMAScore :: real
  p_Tier1Corrections :: "tier1_correction list"
  p_RASPHits :: "rasp_hit list"
  p_ConfirmedExploit :: bool

definition NewIPProfile :: "string \<Rightarrow> ip_profile" where
  "NewIPProfile ip =
   \<lparr> p_IP = ip, p_FirstSeen = 0, p_LastSeen = 0, p_TotalRequests = 0,
     p_Total404 = 0, p_Total403 = 0, p_Total500 = 0, p_Total200 = 0,
     p_UniqueEndpoints = {||}, p_EndpointMethods = fmempty,
     p_SensitivePathHits = [], p_NumericIDSequences = Map.empty,
     p_RecentTimestamps = [], p_BurstTimestamps = [], p_EndpointTimestamps = Map.empty,
     p_LoginAttempts = 0, p_PasswordResetAttempts = 0, p_RegistrationAttempts = 0,
     p_SessionID = [], p_SessionStart = 0, p_PagesVisited = [],
     p_HadHomepage = False, p_HadLoginFlow = False,
     p_CountryCode = [], p_ASN = [],
     p_IsTor = False, p_IsVPN = False, p_IsDatacenter = False,
     p_SeenCountryCodes = {||}, p_SeenUserAgents = {||}, p_SeenJA4 = {||},
     p_FirstUserAgent = [], p_FirstJA4 = [],
     p_AssetRequestCount = 0, p_NonAssetRequestCount = 0, p_HasValidReferer = False,
     p_PaginationSequences = Map.empty, p_RateLimitPauses = 0, p_Last429Ts = 0,
     p_ParamFuzzingSequences = Map.empty, p_Repeated500Endpoints = Map.empty,
     p_PreviousScores = [], p_WasBlocked = False, p_WasChallenged = False,
     p_ChallengeSolvedRecently = False, p_ChallengeSolvedAt = 0,
     p_EWMAScore = fl 0.5, p_Tier1Corrections = [],
     p_RASPHits = [], p_ConfirmedExploit = False \<rparr>"

section \<open>Helpers of the update\<close>

definition trimTimestamps :: "real list \<Rightarrow> real \<Rightarrow> real \<Rightarrow> real list" where
  "trimTimestamps timestamps now window = filter (\<lambda>t. fsub now t \<le> window) timestamps"

definition contains :: "string \<Rightarrow> string \<Rightarrow> bool" where
  "contains s substr \<longleftrightarrow>
     list_ex (\<lambda>i. take (length substr) (drop i s) = substr) [0..<length s + 1 - length substr]"

definition isValidReferer :: "string \<Rightarrow> bool" where
  "isValidReferer referer \<longleftrightarrow>
     list_all (\<lambda>s. \<not> contains referer s) [''sqlmap'', ''nikto'', ''burp'', ''scanner'']"

fun dedupLoop :: "int list \<Rightarrow> int fset \<Rightarrow> int list" where
  "dedupLoop [] seen = []"
| "dedupLoop (n # ns) seen =
     (if n |\<in>| seen then dedupLoop ns seen else n # dedupLoop ns (finsert n seen))"

definition removeDuplicatesAndSort :: "int list \<Rightarrow> int list" where
  "removeDuplicatesAndSort nums = sort (dedupLoop nums {||})"

definition methods_at :: "ip_profile \<Rightarrow> string \<Rightarrow> string fset" where
  "methods_at p path = (case fmlookup (p_EndpointMethods p) path of None \<Rightarrow> {||} | Some ms \<Rightarrow> ms)"

lemma contains_iff: "contains s substr \<longleftrightarrow> sublist substr s"
proof
  assume "contains s substr"
  then obtain i where "take (length substr) (drop i s) = substr"
    by (auto simp: contains_def list_ex_iff)
  then have "s = take i s @ substr @ drop (length substr) (drop i s)"
    by (metis append_take_drop_id)
  then show "sublist substr s" unfolding sublist_def by blast
next
  assume "sublist substr s"
  then obtain us vs where s: "s = us @ substr @ vs" by (auto simp: sublist_def)
  then have "length us \<in> set [0..<length s + 1 - length substr]" by auto
  moreover from s have "take (length substr) (drop (length us) s) = substr" by simp
  ultimately show "contains s substr" unfolding contains_def list_ex_iff by blast
qed

lemma set_dedupLoop: "set (dedupLoop ns seen) = set ns - fset seen"
  by (induction ns seen rule: dedupLoop.induct) auto

lemma distinct_dedupLoop: "distinct (dedupLoop ns seen)"
  by (induction ns seen rule: dedupLoop.induct) (auto simp: set_dedupLoop)

lemma removeDuplicatesAndSort_spec: "removeDuplicatesAndSort ns = sorted_list_of_set (set ns)"
proof -
  have "sorted_list_of_set (set (removeDuplicatesAndSort ns)) = removeDuplicatesAndSort ns"
    by (rule sorted_list_of_set.idem_if_sorted_distinct)
      (simp_all add: removeDuplicatesAndSort_def distinct_dedupLoop)
  then show ?thesis by (simp add: removeDuplicatesAndSort_def set_dedupLoop)
qed

section \<open>IPProfile.Update\<close>

text \<open>
  \<open>Update\<close> is one method; it is modelled as the composition of its consecutive blocks: the
  arrival of the request, the detectors' signals, the reset that a passed challenge earns, the
  tracking of endpoints, timestamps and identities, the rate-limit pauses and the outcome.
\<close>

definition upd_arrival :: "ip_profile \<Rightarrow> request_event \<Rightarrow> ip_profile" where
  "upd_arrival p event =
     (let now = e_Timestamp event;
          p = (if p_ChallengeSolvedRecently p \<and> fsub now (p_ChallengeSolvedAt p) > 600
               then p\<lparr>p_ChallengeSolvedRecently := False\<rparr> else p);
          p = (if p_FirstSeen p = 0
               then p\<lparr>p_FirstSeen := now, p_FirstUserAgent := e_UserAgent event,
                      p_FirstJA4 := e_JA4Fingerprint event, p_SessionStart := now,
                      p_SessionID := e_SessionID event\<rparr>
               else p);
          p = p\<lparr>p_LastSeen := now, p_TotalRequests := p_TotalRequests p + 1\<rparr>
      in if e_StatusCode event = 404 then p\<lparr>p_Total404 := p_Total404 p + 1\<rparr>
         else if e_StatusCode event = 403 then p\<lparr>p_Total403 := p_Total403 p + 1\<rparr>
         else if e_StatusCode event = 500 then p\<lparr>p_Total500 := p_Total500 p + 1\<rparr>
         else if e_StatusCode event = 200 then p\<lparr>p_Total200 := p_Total200 p + 1\<rparr>
         else p)"

definition upd_recon :: "ip_profile \<Rightarrow> recon_signals \<Rightarrow> ip_profile" where
  "upd_recon p sg =
     (let p = (if s_SensitivePathHit sg
               then p\<lparr>p_SensitivePathHits := p_SensitivePathHits p @ [s_SensitiveHit sg]\<rparr> else p);
          base = s_IDSequenceBasePath sg
      in if s_NewNumericID sg \<noteq> 0
         then p\<lparr>p_NumericIDSequences := (p_NumericIDSequences p)(base \<mapsto>
                  removeDuplicatesAndSort
                    (mget (p_NumericIDSequences p) base @ [s_NewNumericID sg]))\<rparr>
         else p)"

definition upd_signals :: "ip_profile \<Rightarrow> detection_signals \<Rightarrow> ip_profile" where
  "upd_signals p signals =
     (let p = upd_recon p (s_Recon signals);
          ses = s_Session signals; scr = s_Scraping signals; vul = s_VulnProbe signals;
          p = p\<lparr>p_HadHomepage := p_HadHomepage p \<or> s_HadHomepage ses,
                p_HadLoginFlow := p_HadLoginFlow p \<or> s_HadLoginFlow ses\<rparr>;
          p = (if s_PaginationPath scr \<noteq> []
               then p\<lparr>p_PaginationSequences := (p_PaginationSequences p)(s_PaginationPath scr \<mapsto>
                        mget (p_PaginationSequences p) (s_PaginationPath scr) @ [s_PageNumber scr])\<rparr>
               else p);
          p = (if s_ParamFuzzing vul
               then p\<lparr>p_ParamFuzzingSequences := (p_ParamFuzzingSequences p)(s_ParamFuzzingBase vul \<mapsto>
                        mget (p_ParamFuzzingSequences p) (s_ParamFuzzingBase vul)
                          @ [s_ParamFuzzingVal vul])\<rparr>
               else p)
      in if s_Repeated500 vul
         then p\<lparr>p_Repeated500Endpoints := (p_Repeated500Endpoints p)(s_Repeated500Path vul \<mapsto>
                  (case p_Repeated500Endpoints p (s_Repeated500Path vul) of None \<Rightarrow> 0 | Some n \<Rightarrow> n) + 1)\<rparr>
         else p)"

definition upd_boost :: "ip_profile \<Rightarrow> boost_signals \<Rightarrow> ip_profile" where
  "upd_boost p sg =
     (if s_PassedChallenge sg
      then p\<lparr>p_Total403 := 0, p_Total404 := 0, p_Total500 := 0, p_LoginAttempts := 0,
             p_PasswordResetAttempts := 0, p_RegistrationAttempts := 0\<rparr>
      else p)"

definition upd_tracking :: "ip_profile \<Rightarrow> request_event \<Rightarrow> ip_profile" where
  "upd_tracking p event =
     (let now = e_Timestamp event; path = e_Path event;
          p = p\<lparr>p_UniqueEndpoints := finsert path (p_UniqueEndpoints p),
                p_EndpointMethods := fmupd path (finsert (e_Method event) (methods_at p path))
                                       (p_EndpointMethods p),
                p_RecentTimestamps := trimTimestamps (p_RecentTimestamps p @ [now]) now 60,
                p_BurstTimestamps := trimTimestamps (p_BurstTimestamps p @ [now]) now 1,
                p_EndpointTimestamps := (p_EndpointTimestamps p)(path \<mapsto>
                  trimTimestamps (mget (p_EndpointTimestamps p) path @ [now]) now 60),
                p_SeenUserAgents := finsert (e_UserAgent event) (p_SeenUserAgents p),
                p_SeenJA4 := finsert (e_JA4Fingerprint event) (p_SeenJA4 p),
                p_CountryCode := e_CountryCode event,
                p_SeenCountryCodes := finsert (e_CountryCode event) (p_SeenCountryCodes p),
                p_IsTor := e_IsTor event, p_IsVPN := e_IsVPN event,
                p_IsDatacenter := e_IsDatacenter event\<rparr>;
          p = (if e_IsAssetRequest event
               then p\<lparr>p_AssetRequestCount := p_AssetRequestCount p + 1\<rparr>
               else p\<lparr>p_NonAssetRequestCount := p_NonAssetRequestCount p + 1,
                      p_PagesVisited := p_PagesVisited p @ [path]\<rparr>)
      in if e_Referer event \<noteq> [] \<and> isValidReferer (e_Referer event)
         then p\<lparr>p_HasValidReferer := True\<rparr> else p)"

definition upd_pause :: "ip_profile \<Rightarrow> request_event \<Rightarrow> ip_profile" where
  "upd_pause p event =
     (let now = e_Timestamp event
      in if e_StatusCode event = 429 then p\<lparr>p_Last429Ts := now\<rparr>
         else if p_Last429Ts p > 0 \<and> fsub now (p_Last429Ts p) > 5
         then p\<lparr>p_RateLimitPauses := p_RateLimitPauses p + 1, p_Last429Ts := 0\<rparr>
         else p)"

definition upd_outcome :: "ip_profile \<Rightarrow> request_outcome \<Rightarrow> ip_profile" where
  "upd_outcome p outcome =
     (let p = p\<lparr>p_PreviousScores := append_trim 10 (p_PreviousScores p) (o_FinalScore outcome)\<rparr>;
          p = (if o_WasBlocked outcome then p\<lparr>p_WasBlocked := True\<rparr> else p)
      in if o_WasChallenged outcome then p\<lparr>p_WasChallenged := True\<rparr> else p)"

definition Update ::
    "ip_profile \<Rightarrow> request_event \<Rightarrow> detection_signals \<Rightarrow> request_outcome \<Rightarrow> ip_profile" where
  "Update p event signals outcome =
     upd_outcome
       (upd_pause
         (upd_tracking
           (upd_boost (upd_signals (upd_arrival p event) signals) (s_Boost signals))
           event)
         event)
       outcome"

interpretation recent_scores: bounded_log "append_trim 10" 10
  by (rule append_trim_log) simp

text \<open>How each block acts on the fields that later theories look at.\<close>

lemma upd_arrival_sel [step_simps]:
  "p_SensitivePathHits (upd_arrival p ev) = p_SensitivePathHits p"
  "p_PreviousScores (upd_arrival p ev) = p_PreviousScores p"
  "p_WasBlocked (upd_arrival p ev) = p_WasBlocked p"
  "p_WasChallenged (upd_arrival p ev) = p_WasChallenged p"
  "p_RASPHits (upd_arrival p ev) = p_RASPHits p"
  "p_ConfirmedExploit (upd_arrival p ev) = p_ConfirmedExploit p"
  "p_EWMAScore (upd_arrival p ev) = p_EWMAScore p"
  "p_Tier1Corrections (upd_arrival p ev) = p_Tier1Corrections p"
  "p_LoginAttempts (upd_arrival p ev) = p_LoginAttempts p"
  "p_BurstTimestamps (upd_arrival p ev) = p_BurstTimestamps p"
  "p_RecentTimestamps (upd_arrival p ev) = p_RecentTimestamps p"
  "p_EndpointTimestamps (upd_arrival p ev) = p_EndpointTimestamps p"
  "p_NumericIDSequences (upd_arrival p ev) = p_NumericIDSequences p"
  "p_SeenCountryCodes (upd_arrival p ev) = p_SeenCountryCodes p"
  "p_AssetRequestCount (upd_arrival p ev) = p_AssetRequestCount p"
  "p_NonAssetRequestCount (upd_arrival p ev) = p_NonAssetRequestCount p"
  "p_TotalRequests (upd_arrival p ev) = p_TotalRequests p + 1"
  "p_LastSeen (upd_arrival p ev) = e_Timestamp ev"
  by (simp_all add: upd_arrival_def Let_def)

lemma upd_signals_sel [step_simps]:
  "p_PreviousScores (upd_signals p sg) = p_PreviousScores p"
  "p_WasBlocked (upd_signals p sg) = p_WasBlocked p"
  "p_WasChallenged (upd_signals p sg) = p_WasChallenged p"
  "p_RASPHits (upd_signals p sg) = p_RASPHits p"
  "p_ConfirmedExploit (upd_signals p sg) = p_ConfirmedExploit p"
  "p_EWMAScore (upd_signals p sg) = p_EWMAScore p"
  "p_Tier1Corrections (upd_signals p sg) = p_Tier1Corrections p"
  "p_LoginAttempts (upd_signals p sg) = p_LoginAttempts p"
  "p_BurstTimestamps (upd_signals p sg) = p_BurstTimestamps p"
  "p_RecentTimestamps (upd_signals p sg) = p_RecentTimestamps p"
  "p_EndpointTimestamps (upd_signals p sg) = p_EndpointTimestamps p"
  "p_SeenCountryCodes (upd_signals p sg) = p_SeenCountryCodes p"
  "p_AssetRequestCount (upd_signals p sg) = p_AssetRequestCount p"
  "p_NonAssetRequestCount (upd_signals p sg) = p_NonAssetRequestCount p"
  "p_TotalRequests (upd_signals p sg) = p_TotalRequests p"
  "p_LastSeen (upd_signals p sg) = p_LastSeen p"
  "p_SensitivePathHits (upd_signals p sg) =
     p_SensitivePathHits p @
       (if s_SensitivePathHit (s_Recon sg) then [s_SensitiveHit (s_Recon sg)] else [])"
  by (simp_all add: upd_signals_def upd_recon_def Let_def)

lemma upd_boost_sel [step_simps]:
  "p_PreviousScores (upd_boost p sg) = p_PreviousScores p"
  "p_WasBlocked (upd_boost p sg) = p_WasBlocked p"
  "p_WasChallenged (upd_boost p sg) = p_WasChallenged p"
  "p_RASPHits (upd_boost p sg) = p_RASPHits p"
  "p_ConfirmedExploit (upd_boost p sg) = p_ConfirmedExploit p"
  "p_EWMAScore (upd_boost p sg) = p_EWMAScore p"
  "p_Tier1Corrections (upd_boost p sg) = p_Tier1Corrections p"
  "p_SensitivePathHits (upd_boost p sg) = p_SensitivePathHits p"
  "p_BurstTimestamps (upd_boost p sg) = p_BurstTimestamps p"
  "p_RecentTimestamps (upd_boost p sg) = p_RecentTimestamps p"
  "p_EndpointTimestamps (upd_boost p sg) = p_EndpointTimestamps p"
  "p_NumericIDSequences (upd_boost p sg) = p_NumericIDSequences p"
  "p_SeenCountryCodes (upd_boost p sg) = p_SeenCountryCodes p"
  "p_AssetRequestCount (upd_boost p sg) = p_AssetRequestCount p"
  "p_NonAssetRequestCount (upd_boost p sg) = p_NonAssetRequestCount p"
  "p_TotalRequests (upd_boost p sg) = p_TotalRequests p"
  "p_LastSeen (upd_boost p sg) = p_LastSeen p"
  "p_LoginAttempts (upd_boost p sg) = (if s_PassedChallenge sg then 0 else p_LoginAttempts p)"
  by (simp_all add: upd_boost_def)

lemma upd_tracking_sel [step_simps]:
  "p_PreviousScores (upd_tracking p ev) = p_PreviousScores p"
  "p_WasBlocked (upd_tracking p ev) = p_WasBlocked p"
  "p_WasChallenged (upd_tracking p ev) = p_WasChallenged p"
  "p_RASPHits (upd_tracking p ev) = p_RASPHits p"
  "p_ConfirmedExploit (upd_tracking p ev) = p_ConfirmedExploit p"
  "p_EWMAScore (upd_tracking p ev) = p_EWMAScore p"
  "p_Tier1Corrections (upd_tracking p ev) = p_Tier1Corrections p"
  "p_SensitivePathHits (upd_tracking p ev) = p_SensitivePathHits p"
  "p_LoginAttempts (upd_tracking p ev) = p_LoginAttempts p"
  "p_NumericIDSequences (upd_tracking p ev) = p_NumericIDSequences p"
  "p_TotalRequests (upd_tracking p ev) = p_TotalRequests p"
  "p_LastSeen (upd_tracking p ev) = p_LastSeen p"
  "p_BurstTimestamps (upd_tracking p ev) =
     trimTimestamps (p_BurstTimestamps p @ [e_Timestamp ev]) (e_Timestamp ev) 1"
  "p_RecentTimestamps (upd_tracking p ev) =
     trimTimestamps (p_RecentTimestamps p @ [e_Timestamp ev]) (e_Timestamp ev) 60"
  "p_EndpointTimestamps (upd_tracking p ev) = (p_EndpointTimestamps p)(e_Path ev \<mapsto>
     trimTimestamps (mget (p_EndpointTimestamps p) (e_Path ev) @ [e_Timestamp ev])
       (e_Timestamp ev) 60)"
  "p_SeenCountryCodes (upd_tracking p ev) = finsert (e_CountryCode ev) (p_SeenCountryCodes p)"
  by (simp_all add: upd_tracking_def Let_def)

lemma upd_pause_sel [step_simps]:
  "p_PreviousScores (upd_pause p ev) = p_PreviousScores p"
  "p_WasBlocked (upd_pause p ev) = p_WasBlocked p"
  "p_WasChallenged (upd_pause p ev) = p_WasChallenged p"
  "p_RASPHits (upd_pause p ev) = p_RASPHits p"
  "p_ConfirmedExploit (upd_pause p ev) = p_ConfirmedExploit p"
  "p_EWMAScore (upd_pause p ev) = p_EWMAScore p"
  "p_Tier1Corrections (upd_pause p ev) = p_Tier1Corrections p"
  "p_SensitivePathHits (upd_pause p ev) = p_SensitivePathHits p"
  "p_LoginAttempts (upd_pause p ev) = p_LoginAttempts p"
  "p_NumericIDSequences (upd_pause p ev) = p_NumericIDSequences p"
  "p_TotalRequests (upd_pause p ev) = p_TotalRequests p"
  "p_LastSeen (upd_pause p ev) = p_LastSeen p"
  "p_BurstTimestamps (upd_pause p ev) = p_BurstTimestamps p"
  "p_RecentTimestamps (upd_pause p ev) = p_RecentTimestamps p"
  "p_EndpointTimestamps (upd_pause p ev) = p_EndpointTimestamps p"
  "p_SeenCountryCodes (upd_pause p ev) = p_SeenCountryCodes p"
  by (simp_all add: upd_pause_def Let_def)

lemma upd_outcome_sel [step_simps]:
  "p_RASPHits (upd_outcome p oc) = p_RASPHits p"
  "p_ConfirmedExploit (upd_outcome p oc) = p_ConfirmedExploit p"
  "p_EWMAScore (upd_outcome p oc) = p_EWMAScore p"
  "p_Tier1Corrections (upd_outcome p oc) = p_Tier1Corrections p"
  "p_SensitivePathHits (upd_outcome p oc) = p_SensitivePathHits p"
  "p_LoginAttempts (upd_outcome p oc) = p_LoginAttempts p"
  "p_NumericIDSequences (upd_outcome p oc) = p_NumericIDSequences p"
  "p_TotalRequests (upd_outcome p oc) = p_TotalRequests p"
  "p_LastSeen (upd_outcome p oc) = p_LastSeen p"
  "p_BurstTimestamps (upd_outcome p oc) = p_BurstTimestamps p"
  "p_RecentTimestamps (upd_outcome p oc) = p_RecentTimestamps p"
  "p_EndpointTimestamps (upd_outcome p oc) = p_EndpointTimestamps p"
  "p_SeenCountryCodes (upd_outcome p oc) = p_SeenCountryCodes p"
  "p_PreviousScores (upd_outcome p oc) = append_trim 10 (p_PreviousScores p) (o_FinalScore oc)"
  "p_WasBlocked (upd_outcome p oc) = (p_WasBlocked p \<or> o_WasBlocked oc)"
  "p_WasChallenged (upd_outcome p oc) = (p_WasChallenged p \<or> o_WasChallenged oc)"
  by (simp_all add: upd_outcome_def Let_def)

end
