(* ===== verification/Event_Parsing.thy ===== *)
theory Event_Parsing
  imports Trust_Types
begin

text \<open>
  From a raw event to a \<open>RequestEvent\<close>: \<open>ParseRawEvent\<close> (\<open>trustscore/api.go\<close>), the asset test
  (\<open>assets.go\<close>) and the two address lookups (\<open>proxy_detect.go\<close>, \<open>location_detect.go\<close>).

  A raw event is a map to dynamic values; a type assertion that fails is \<open>None\<close>. The IP2Proxy
  and IP2Location databases are outside the program: an opened database is a function from the
  address to its record, \<open>None\<close> for an error; a database that is not open is \<open>None\<close> itself.
\<close>

datatype raw_value = RawString string | RawFloat real | RawBool bool | RawOther

type_synonym raw_event = "string \<rightharpoonup> raw_value"

fun as_string :: "raw_value option \<Rightarrow> string option" where
  "as_string (Some (RawString s)) = Some s"
| "as_string _ = None"

fun as_bool :: "raw_value option \<Rightarrow> bool option" where
  "as_bool (Some (RawBool b)) = Some b"
| "as_bool _ = None"

fun as_float :: "raw_value option \<Rightarrow> real option" where
  "as_float (Some (RawFloat x)) = Some x"
| "as_float _ = None"

definition safeString :: "raw_event \<Rightarrow> string \<Rightarrow> string" where
  "safeString rawEvent key = (case as_string (rawEvent key) of Some v \<Rightarrow> v | None \<Rightarrow> [])"

text \<open>Go leaves \<open>int(val)\<close> open outside the range of \<open>int\<close>; inside it truncates.\<close>

definition safeFloatToInt :: "raw_event \<Rightarrow> string \<Rightarrow> int" where
  "safeFloatToInt rawEvent key = (case as_float (rawEvent key) of Some v \<Rightarrow> go_trunc v | None \<Rightarrow> 0)"

definition safeFloat :: "raw_event \<Rightarrow> string \<Rightarrow> real" where
  "safeFloat rawEvent key = (case as_float (rawEvent key) of Some v \<Rightarrow> v | None \<Rightarrow> 0)"

section \<open>Assets\<close>

definition assetExtensions :: "string fset" where
  "assetExtensions = fset_of_list
     [''.css'', ''.js'', ''.png'', ''.jpg'', ''.jpeg'', ''.gif'', ''.svg'', ''.ico'', ''.woff'',
      ''.woff2'', ''.ttf'', ''.eot'', ''.mp4'', ''.webm'', ''.wav'', ''.mp3'', ''.pdf'', ''.webp'',
      ''.map'']"

text \<open>\<open>path.Ext\<close>: the suffix from the last dot of the last slash-separated element.\<close>

fun ext_rev :: "string \<Rightarrow> string \<Rightarrow> string" where
  "ext_rev [] acc = []"
| "ext_rev (c # cs) acc =
     (if c = CHR ''/'' then [] else if c = CHR ''.'' then c # acc else ext_rev cs (c # acc))"

definition path_Ext :: "string \<Rightarrow> string" where
  "path_Ext p = ext_rev (rev p) []"

text \<open>
  \<open>strings.ToLower\<close> as far as a comparison with ASCII words can tell: the letters of ASCII, and
  the two other characters whose lower case is an ASCII letter, U+0130 and U+212A.
\<close>

definition lower_char :: "char \<Rightarrow> char" where
  "lower_char c = (if (65::nat) \<le> of_char c \<and> of_char c \<le> (90::nat) then char_of (of_char c + (32::nat)) else c)"

fun ToLower :: "string \<Rightarrow> string" where
  "ToLower [] = []"
| "ToLower (a # cs) =
     (case cs of
        b # cs' \<Rightarrow>
          if a = CHR 0xC4 \<and> b = CHR 0xB0 then CHR ''i'' # ToLower cs'
          else (case cs' of
                  c # cs'' \<Rightarrow>
                    if a = CHR 0xE2 \<and> b = CHR 0x84 \<and> c = CHR 0xAA then CHR ''k'' # ToLower cs''
                    else lower_char a # ToLower cs
                | [] \<Rightarrow> lower_char a # ToLower cs)
      | [] \<Rightarrow> [lower_char a])"

definition IsAssetPath :: "string \<Rightarrow> bool" where
  "IsAssetPath p \<longleftrightarrow> ToLower (path_Ext p) |\<in>| assetExtensions"

section \<open>Lookups\<close>

record lookups =
  n_Proxy :: "(string \<Rightarrow> string option) option"
  n_Geo :: "(string \<Rightarrow> (string \<times> string) option) option"
  n_Asn :: "(string \<Rightarrow> string option) option"

definition EnrichIPData :: "lookups \<Rightarrow> string \<Rightarrow> bool \<times> bool \<times> bool" where
  "EnrichIPData db ip =
     (case n_Proxy db of
        None \<Rightarrow> (False, False, False)
      | Some getProxyType \<Rightarrow>
          (case getProxyType ip of
             None \<Rightarrow> (False, False, False)
           | Some r \<Rightarrow> (r = ''TOR'', r = ''VPN'' \<or> r = ''PUB'' \<or> r = ''WEB'', r = ''DCH'')))"

definition GetASNAndRegion :: "lookups \<Rightarrow> string \<Rightarrow> string \<times> string \<times> string" where
  "GetASNAndRegion db ip =
     (let (countryCode, region) =
            (case n_Geo db of
               None \<Rightarrow> ([], [])
             | Some get_all \<Rightarrow>
                 (case get_all ip of
                    Some (cc, rg) \<Rightarrow> if cc \<noteq> ''Invalid IP address.'' then (cc, rg) else ([], [])
                  | None \<Rightarrow> ([], [])));
          asn =
            (case n_Asn db of
               None \<Rightarrow> []
             | Some get_all \<Rightarrow>
                 (case get_all ip of
                    Some a \<Rightarrow> if a \<noteq> ''Invalid IP address.'' then a else []
                  | None \<Rightarrow> []))
      in (countryCode, region, asn))"

section \<open>ParseRawEvent\<close>

definition resolve_location :: "lookups \<Rightarrow> raw_event \<Rightarrow> string \<Rightarrow> string \<times> string" where
  "resolve_location db rawEvent ip =
     (let mapASN = as_string (rawEvent ''asn'');
          mapCC = as_string (rawEvent ''country_code'');
          (geoCC, geoRegion, geoASN) =
            (if mapASN = None \<or> mapCC = None then GetASNAndRegion db ip else ([], [], []));
          asn = (case mapASN of Some a \<Rightarrow> if a \<noteq> [] then a else geoASN | None \<Rightarrow> geoASN);
          fromDB = (if geoCC \<noteq> [] \<and> geoRegion \<noteq> [] \<and> geoRegion \<noteq> ''-'' then geoCC @ ''-'' @ geoRegion
                    else if geoCC \<noteq> [] then geoCC else []);
          combinedLocation = (case mapCC of Some c \<Rightarrow> if c \<noteq> [] then c else fromDB | None \<Rightarrow> fromDB)
      in (asn, combinedLocation))"

definition ParseRawEvent :: "lookups \<Rightarrow> raw_event \<Rightarrow> request_event" where
  "ParseRawEvent db rawEvent =
     (let ip = safeString rawEvent ''ip'';
          requestPath = safeString rawEvent ''path'';
          (geoTor, geoVPN, geoDC) = EnrichIPData db ip;
          (asn, combinedLocation) = resolve_location db rawEvent ip
      in \<lparr> e_IP = ip,
           e_SessionID = safeString rawEvent ''session_id'',
           e_Timestamp = safeFloat rawEvent ''timestamp'',
           e_Method = safeString rawEvent ''method'',
           e_Path = requestPath,
           e_QueryString = safeString rawEvent ''query_string'',
           e_StatusCode = safeFloatToInt rawEvent ''status_code'',
           e_ResponseSize = safeFloatToInt rawEvent ''response_size'',
           e_RequestSize = safeFloatToInt rawEvent ''request_size'',
           e_ContentType = safeString rawEvent ''content_type'',
           e_UserAgent = safeString rawEvent ''user_agent'',
           e_Referer = safeString rawEvent ''referer'',
           e_Accept = safeString rawEvent ''accept'',
           e_AcceptLanguage = safeString rawEvent ''accept_language'',
           e_JA4Fingerprint = safeString rawEvent ''ja4_fingerprint'',
           e_ASN = asn,
           e_ChallengePassed = (case as_bool (rawEvent ''challenge_passed'') of Some v \<Rightarrow> v | None \<Rightarrow> False),
           e_CountryCode = combinedLocation,
           e_IsTor = (case as_bool (rawEvent ''is_tor'') of Some v \<Rightarrow> v | None \<Rightarrow> geoTor),
           e_IsVPN = (case as_bool (rawEvent ''is_vpn'') of Some v \<Rightarrow> v | None \<Rightarrow> geoVPN),
           e_IsDatacenter = (case as_bool (rawEvent ''is_datacenter'') of Some v \<Rightarrow> v | None \<Rightarrow> geoDC),
           e_IsAssetRequest =
             (case as_bool (rawEvent ''is_asset_request'') of Some v \<Rightarrow> v | None \<Rightarrow> IsAssetPath requestPath) \<rparr>)"

section \<open>The extension of a path\<close>

lemma ext_rev_plain:
  "CHR ''/'' \<notin> set cs \<Longrightarrow> CHR ''.'' \<notin> set cs \<Longrightarrow> ext_rev (cs @ ds) acc = ext_rev ds (rev cs @ acc)"
  by (induction cs arbitrary: acc) auto

lemma path_Ext_dot:
  assumes "CHR ''/'' \<notin> set w" and "CHR ''.'' \<notin> set w"
  shows "path_Ext (p @ ''.'' @ w) = ''.'' @ w"
  using assms ext_rev_plain[of "rev w" "CHR ''.'' # rev p" "[]"] by (simp add: path_Ext_def)

lemma path_Ext_none:
  assumes "CHR ''/'' \<notin> set w" and "CHR ''.'' \<notin> set w"
  shows "path_Ext (p @ ''/'' @ w) = []"
  using assms ext_rev_plain[of "rev w" "CHR ''/'' # rev p" "[]"] by (simp add: path_Ext_def)

text \<open>A path is an asset exactly when the last dot of its last element starts one of the known
  extensions, in upper or lower case; a last element without a dot is none, whatever the
  directories are called.\<close>

theorem asset_by_extension:
  assumes "CHR ''/'' \<notin> set w" and "CHR ''.'' \<notin> set w"
  shows "(IsAssetPath (p @ ''.'' @ w) \<longleftrightarrow> ToLower (''.'' @ w) |\<in>| assetExtensions) \<and>
         \<not> IsAssetPath (p @ ''/'' @ w)"
  unfolding IsAssetPath_def path_Ext_dot[OF assms] path_Ext_none[OF assms]
  by (simp add: assetExtensions_def)

lemma asset_by_extension_witness:
  "IsAssetPath (''/static.d/App'' @ ''.'' @ ''JS'') \<and> \<not> IsAssetPath (''/static.js'' @ ''/'' @ ''app'')"
proof -
  have js: "ToLower (''.'' @ ''JS'') |\<in>| assetExtensions" by code_simp
  have "CHR ''/'' \<notin> set ''JS''" "CHR ''.'' \<notin> set ''JS''"
    and "CHR ''/'' \<notin> set ''app''" "CHR ''.'' \<notin> set ''app''" by auto
  then show ?thesis
    using js asset_by_extension[of "''JS''" "''/static.d/App''"]
      asset_by_extension[of "''app''" "''/static.js''"] by blast
qed

end
