(* ===== verification/Go_Http.thy ===== *)
theory Go_Http
  imports Event_Parsing
begin

text \<open>
  What the front uses of Go's \<open>net/http\<close>, \<open>net/textproto\<close>, \<open>strings\<close> and \<open>net\<close>: header maps with
  canonical keys, cookies, the request, the last colon of a string, white space, and the
  addresses of version 6. A header name that is not a token is left as it is, as Go does.
\<close>

section \<open>Strings\<close>

text \<open>\<open>strings.LastIndex\<close> of a byte: the parts before and after its last occurrence.\<close>

definition split_last :: "char \<Rightarrow> string \<Rightarrow> (string \<times> string) option" where
  "split_last c s =
     (if c \<in> set s
      then Some (rev (drop 1 (dropWhile (\<lambda>x. x \<noteq> c) (rev s))), rev (takeWhile (\<lambda>x. x \<noteq> c) (rev s)))
      else None)"

lemma split_last_None [simp]: "split_last c s = None \<longleftrightarrow> c \<notin> set s"
  by (simp add: split_last_def)

lemma split_last_append [simp]:
  assumes "c \<notin> set b"
  shows "split_last c (a @ c # b) = Some (a, b)"
proof -
  have "takeWhile (\<lambda>x. x \<noteq> c) (xs @ c # ys) = xs" "dropWhile (\<lambda>x. x \<noteq> c) (xs @ c # ys) = c # ys"
    if "c \<notin> set xs" for xs ys
    using that by (induction xs) auto
  from this[of "rev b" "rev a"] assms
  show ?thesis by (simp add: split_last_def)
qed

lemma split_last_Some: "split_last c s = Some (a, b) \<longleftrightarrow> s = a @ c # b \<and> c \<notin> set b"
proof
  assume eq: "split_last c s = Some (a, b)"
  then have "c \<in> set s" by (simp add: split_last_def split: if_splits)
  from split_list_last[OF this] obtain a' b' where "s = a' @ c # b'" "c \<notin> set b'" by blast
  with eq show "s = a @ c # b \<and> c \<notin> set b" by simp
qed simp

text \<open>\<open>strings.Cut\<close> at a byte.\<close>

definition cut_at :: "char \<Rightarrow> string \<Rightarrow> string \<times> string" where
  "cut_at c s = (takeWhile (\<lambda>x. x \<noteq> c) s, drop 1 (dropWhile (\<lambda>x. x \<noteq> c) s))"

text \<open>\<open>textproto.TrimString\<close>: ASCII white space at both ends.\<close>

definition is_ascii_space :: "char \<Rightarrow> bool" where
  "is_ascii_space c \<longleftrightarrow> c \<in> set [CHR '' '', CHR 0x09, CHR 0x0A, CHR 0x0D]"

definition TrimString :: "string \<Rightarrow> string" where
  "TrimString s = rev (dropWhile is_ascii_space (rev (dropWhile is_ascii_space s)))"

text \<open>\<open>strings.TrimSpace\<close>: the encodings of the white space of Unicode at both ends.\<close>

definition space_runes :: "string list" where
  "space_runes = [[CHR 0x09], [CHR 0x0A], [CHR 0x0B], [CHR 0x0C], [CHR 0x0D], [CHR 0x20],
     [CHR 0xC2, CHR 0x85], [CHR 0xC2, CHR 0xA0], [CHR 0xE1, CHR 0x9A, CHR 0x80],
     [CHR 0xE2, CHR 0x80, CHR 0x80], [CHR 0xE2, CHR 0x80, CHR 0x81], [CHR 0xE2, CHR 0x80, CHR 0x82],
     [CHR 0xE2, CHR 0x80, CHR 0x83], [CHR 0xE2, CHR 0x80, CHR 0x84], [CHR 0xE2, CHR 0x80, CHR 0x85],
     [CHR 0xE2, CHR 0x80, CHR 0x86], [CHR 0xE2, CHR 0x80, CHR 0x87], [CHR 0xE2, CHR 0x80, CHR 0x88],
     [CHR 0xE2, CHR 0x80, CHR 0x89], [CHR 0xE2, CHR 0x80, CHR 0x8A], [CHR 0xE2, CHR 0x80, CHR 0xA8],
     [CHR 0xE2, CHR 0x80, CHR 0xA9], [CHR 0xE2, CHR 0x80, CHR 0xAF], [CHR 0xE2, CHR 0x81, CHR 0x9F],
     [CHR 0xE3, CHR 0x80, CHR 0x80]]"

definition strip_one :: "string list \<Rightarrow> string \<Rightarrow> string option" where
  "strip_one ws s = map_option (\<lambda>w. drop (length w) s) (List.find (\<lambda>w. w \<noteq> [] \<and> take (length w) s = w) ws)"

lemma strip_one_shorter [termination_simp]: "strip_one ws s = Some s' \<Longrightarrow> length s' < length s"
proof -
  assume "strip_one ws s = Some s'"
  then obtain w where w: "w \<noteq> []" "take (length w) s = w" "s' = drop (length w) s"
    unfolding strip_one_def by (auto simp: find_Some_iff)
  from w(2) have "length w \<le> length s" by (metis length_take min.cobounded1)
  moreover from w(1) have "0 < length w" by simp
  ultimately have "length s - length w < length s" by linarith
  then show ?thesis using w(3) by simp
qed

function strip_all :: "string list \<Rightarrow> string \<Rightarrow> string" where
  "strip_all ws s = (case strip_one ws s of None \<Rightarrow> s | Some s' \<Rightarrow> strip_all ws s')"
  by pat_completeness auto
termination by (relation "measure (\<lambda>(ws, s). length s)") (auto simp: strip_one_shorter)

declare strip_all.simps [simp del]

definition TrimSpace :: "string \<Rightarrow> string" where
  "TrimSpace s = rev (strip_all (map rev space_runes) (rev (strip_all space_runes s)))"

section \<open>Headers\<close>

definition upper_char :: "char \<Rightarrow> char" where
  "upper_char c = (if (97::nat) \<le> of_char c \<and> of_char c \<le> (122::nat) then char_of (of_char c - (32::nat)) else c)"

definition is_letter :: "char \<Rightarrow> bool" where
  "is_letter c \<longleftrightarrow> (65::nat) \<le> of_char (upper_char c) \<and> of_char (upper_char c) \<le> (90::nat)"

definition is_token_char :: "char \<Rightarrow> bool" where
  "is_token_char c \<longleftrightarrow> is_digit c \<or> is_letter c \<or> c \<in> set ''!#$%&*+-.^_`|~'' \<or> c = CHR 0x27"

definition is_token :: "string \<Rightarrow> bool" where
  "is_token s \<longleftrightarrow> s \<noteq> [] \<and> list_all is_token_char s"

fun canon :: "bool \<Rightarrow> string \<Rightarrow> string" where
  "canon up [] = []"
| "canon up (c # cs) = (if up then upper_char c else lower_char c) # canon (c = CHR ''-'') cs"

definition CanonicalHeaderKey :: "string \<Rightarrow> string" where
  "CanonicalHeaderKey k = (if list_all is_token_char k then canon True k else k)"

type_synonym header = "string \<rightharpoonup> string list"

definition header_Get :: "header \<Rightarrow> string \<Rightarrow> string" where
  "header_Get h k = (case h (CanonicalHeaderKey k) of Some (v # vs) \<Rightarrow> v | _ \<Rightarrow> [])"

definition header_Set :: "string \<Rightarrow> string \<Rightarrow> header \<Rightarrow> header" where
  "header_Set k v h = h(CanonicalHeaderKey k \<mapsto> [v])"

definition header_Del :: "string \<Rightarrow> header \<Rightarrow> header" where
  "header_Del k h = h(CanonicalHeaderKey k := None)"

lemma header_sel [simp]:
  "header_Del k h (CanonicalHeaderKey k) = None"
  "header_Set k v h (CanonicalHeaderKey k) = Some [v]"
  "header_Get (header_Del k h) k = []" "header_Get (header_Set k v h) k = v"
  by (simp_all add: header_Del_def header_Set_def header_Get_def)

section \<open>Requests and cookies\<close>

text \<open>A body that cannot be read is \<open>None\<close>.\<close>

record http_request =
  h_Method :: string
  h_Path :: string
  h_RawQuery :: string
  h_Header :: header
  h_Body :: "string option"
  h_RemoteAddr :: string
  h_Host :: string

definition UserAgent :: "http_request \<Rightarrow> string" where
  "UserAgent r = header_Get (h_Header r) ''User-Agent''"

definition Referer :: "http_request \<Rightarrow> string" where
  "Referer r = header_Get (h_Header r) ''Referer''"

definition valid_cookie_byte :: "char \<Rightarrow> bool" where
  "valid_cookie_byte c \<longleftrightarrow> (32::nat) \<le> of_char c \<and> of_char c < (127::nat) \<and>
     c \<notin> {CHR 0x22, CHR '';'', CHR 0x5C}"

definition parse_cookie_value :: "string \<Rightarrow> string option" where
  "parse_cookie_value raw =
     (let v = (if 1 < length raw \<and> hd raw = CHR 0x22 \<and> last raw = CHR 0x22
               then butlast (tl raw) else raw)
      in if list_all valid_cookie_byte v then Some v else None)"

text \<open>
  The value that \<open>http.SetCookie\<close> sends: it drops every byte that a value may not have, and puts
  quotes around a value with a blank or a comma.
\<close>

definition cookie_text :: "string \<Rightarrow> string" where
  "cookie_text v =
     (let w = filter valid_cookie_byte v
       in if CHR '' '' \<in> set w \<or> CHR '','' \<in> set w then CHR 0x22 # w @ [CHR 0x22] else w)"

definition cookie_part :: "string \<Rightarrow> (string \<times> string) option" where
  "cookie_part part =
     (let (name, val) = cut_at (CHR ''='') (TrimString part);
          name = TrimString name
      in if is_token name then map_option (Pair name) (parse_cookie_value val) else None)"

definition cookies :: "http_request \<Rightarrow> (string \<times> string) list" where
  "cookies r =
     (let lines = (case h_Header r ''Cookie'' of Some ls \<Rightarrow> ls | None \<Rightarrow> [])
      in List.map_filter cookie_part (concat (map (go_split (CHR '';'')) lines)))"

lemma parse_cookie_text: "parse_cookie_value (cookie_text v) = Some (filter valid_cookie_byte v)"
proof -
  define w where "w = filter valid_cookie_byte v"
  have ok: "list_all valid_cookie_byte w" by (simp add: w_def list_all_iff)
  have "\<not> valid_cookie_byte (CHR 0x22)" by (simp add: valid_cookie_byte_def)
  then have h: "hd w \<noteq> CHR 0x22" if "1 < length w"
    using that ok by (cases w) auto
  have "parse_cookie_value w = Some w" "parse_cookie_value (CHR 0x22 # w @ [CHR 0x22]) = Some w"
    using ok h by (auto simp: parse_cookie_value_def Let_def)
  then show ?thesis by (simp add: cookie_text_def Let_def flip: w_def)
qed

text \<open>\<open>r.Cookie(name)\<close>: the value of the first cookie of that name.\<close>

definition request_Cookie :: "http_request \<Rightarrow> string \<Rightarrow> string option" where
  "request_Cookie r name = map_of (cookies r) name"

section \<open>Addresses of version 6\<close>

definition hex_value :: "char \<Rightarrow> nat option" where
  "hex_value c =
     (let n = of_char (lower_char c)
      in if 48 \<le> n \<and> n \<le> 57 then Some (n - 48)
         else if 97 \<le> n \<and> n \<le> 102 then Some (n - 87) else None)"

fun those :: "'a option list \<Rightarrow> 'a list option" where
  "those [] = Some []"
| "those (x # xs) = (case x of None \<Rightarrow> None | Some y \<Rightarrow> map_option ((#) y) (those xs))"

definition hex_group :: "string \<Rightarrow> nat option" where
  "hex_group s =
     (if s = [] \<or> 4 < length s then None
      else map_option (foldl (\<lambda>n d. 16 * n + d) 0) (those (map hex_value s)))"

definition dec_octet :: "string \<Rightarrow> nat option" where
  "dec_octet s =
     (if s = [] \<or> 3 < length s \<or> \<not> list_all is_digit s \<or> (1 < length s \<and> hd s = CHR ''0'')
         \<or> 255 < digits_val s then None else Some (nat (digits_val s)))"

text \<open>The groups of one side of a double colon; the last field may be an address of version 4.\<close>

definition ip6_side :: "bool \<Rightarrow> string \<Rightarrow> nat list option" where
  "ip6_side v4 s =
     (if s = [] then Some []
      else let fs = go_split (CHR '':'') s
           in if v4 \<and> CHR ''.'' \<in> set (last fs)
              then (case those (map dec_octet (go_split (CHR ''.'') (last fs))) of
                      Some [a, b, c, d] \<Rightarrow>
                        map_option (\<lambda>gs. gs @ [256 * a + b, 256 * c + d]) (those (map hex_group (butlast fs)))
                    | _ \<Rightarrow> None)
              else those (map hex_group fs))"

fun cut_double :: "string \<Rightarrow> (string \<times> string) option" where
  "cut_double (a # b # s) =
     (if a = CHR '':'' \<and> b = CHR '':'' then Some ([], s)
      else map_option (\<lambda>(x, y). (a # x, y)) (cut_double (b # s)))"
| "cut_double _ = None"

text \<open>\<open>net.ParseIP\<close> of an address of version 6: its eight groups.\<close>

definition parse_ip6 :: "string \<Rightarrow> nat list option" where
  "parse_ip6 s =
     (case cut_double s of
        None \<Rightarrow> (case ip6_side True s of
                   Some gs \<Rightarrow> if length gs = 8 then Some gs else None
                 | None \<Rightarrow> None)
      | Some (l, r) \<Rightarrow>
          (case (ip6_side False l, ip6_side True r) of
             (Some ls, Some rs) \<Rightarrow>
               if length ls + length rs \<le> 7
               then Some (ls @ replicate (8 - length ls - length rs) 0 @ rs) else None
           | _ \<Rightarrow> None))"

fun hex_digits :: "nat \<Rightarrow> nat \<Rightarrow> string" where
  "hex_digits 0 n = []"
| "hex_digits (Suc k) n =
     (if n < 16 then [''0123456789abcdef'' ! n] else hex_digits k (n div 16) @ [''0123456789abcdef'' ! (n mod 16)])"

fun join_with :: "string \<Rightarrow> string list \<Rightarrow> string" where
  "join_with sep [] = []"
| "join_with sep [w] = w"
| "join_with sep (w # ws) = w @ sep @ join_with sep ws"

text \<open>
  The text of an address whose last four groups are zero, as a mask of 64 bits leaves it: its
  longest run of zero groups is the one at the end, which becomes the double colon.
\<close>

definition masked64_string :: "nat list \<Rightarrow> string" where
  "masked64_string gs =
     join_with '':'' (map (hex_digits 4) (rev (dropWhile (\<lambda>g. g = 0) (rev (take 4 gs))))) @ ''::''"

end
