(* ===== verification/Go_Time.thy ===== *)
theory Go_Time
  imports Prelude
begin

text \<open>
  What the front uses of Go's \<open>time\<close>: a moment is the nanoseconds since 1970 of the (monotonic)
  clock and the offset of the local time zone; \<open>Unix\<close>, \<open>Sub(..).Seconds()\<close>, and the date that
  \<open>Format("2006-01-02")\<close> prints. Dates are computed the way Go does, by the cycles of the
  Gregorian calendar, for the years 1 to 9999 that print with four digits.
\<close>

section \<open>Moments and durations\<close>

record moment =
  tm_Nanos :: int
  tm_Zone :: int

definition time_Unix :: "moment \<Rightarrow> int" where
  "time_Unix t = tm_Nanos t div 10 ^ 9"

text \<open>The field \<open>float64(t.Unix())\<close> of an event.\<close>

definition time_float :: "moment \<Rightarrow> real" where
  "time_float t = fint (time_Unix t)"

text \<open>\<open>Duration.Seconds\<close>: whole seconds and the rest, added as floats; \<open>/\<close> truncates.\<close>

definition dur_Seconds :: "int \<Rightarrow> real" where
  "dur_Seconds d =
     (let sec = go_trunc (of_int d / 10 ^ 9); nsec = d - sec * 10 ^ 9
      in fadd (fint sec) (fdiv (fint nsec) (10 ^ 9)))"

section \<open>Dates\<close>

definition leap :: "int \<Rightarrow> bool" where
  "leap y \<longleftrightarrow> y mod 4 = 0 \<and> (y mod 100 \<noteq> 0 \<or> y mod 400 = 0)"

text \<open>Year and day of the year, from the days since the first of January of the year 1.\<close>

definition year_day :: "int \<Rightarrow> int \<times> int" where
  "year_day days =
     (let a = days div 146097; d = days mod 146097;
          b = d div 36524 - d div 36524 div 4; d = d - 36524 * b;
          c = d div 1461; d = d - 1461 * c;
          e = d div 365 - d div 365 div 4; d = d - 365 * e
      in (400 * a + 100 * b + 4 * c + e + 1, d))"

definition month_lengths :: "bool \<Rightarrow> int list" where
  "month_lengths l = [31, if l then 29 else 28, 31, 30, 31, 30, 31, 31, 30, 31, 30, 31]"

fun month_day :: "int list \<Rightarrow> int \<Rightarrow> int \<Rightarrow> int \<times> int" where
  "month_day [] m d = (m, d + 1)"
| "month_day (n # ns) m d = (if d < n then (m, d + 1) else month_day ns (m + 1) (d - n))"

fun decimal :: "nat \<Rightarrow> int \<Rightarrow> string" where
  "decimal 0 n = []"
| "decimal (Suc k) n = decimal k (n div 10) @ [''0123456789'' ! nat (n mod 10)]"

definition day_string :: "int \<Rightarrow> string" where
  "day_string days =
     (let (y, yd) = year_day days;
          (m, d) = month_day (month_lengths (leap y)) 1 yd
      in decimal 4 y @ ''-'' @ decimal 2 m @ ''-'' @ decimal 2 d)"

text \<open>The local day of a moment; \<open>AddDate(0, 0, -1)\<close> is the day before.\<close>

definition local_day :: "moment \<Rightarrow> int" where
  "local_day t = (time_Unix t + tm_Zone t) div 86400 + 719162"

definition date_today :: "moment \<Rightarrow> string" where
  "date_today t = day_string (local_day t)"

definition date_yesterday :: "moment \<Rightarrow> string" where
  "date_yesterday t = day_string (local_day t - 1)"

section \<open>Different days print differently\<close>

lemma length_decimal [simp]: "length (decimal k n) = k"
  by (induction k arbitrary: n) simp_all

lemma digit_in: "''0123456789'' ! nat (n mod 10) \<in> set ''0123456789''" for n :: int
  by (rule nth_mem) (use pos_mod_bound[of 10 n] in auto)

lemma digit_inject: "''0123456789'' ! nat (m mod 10) = ''0123456789'' ! nat (n mod 10) \<longleftrightarrow> m mod 10 = n mod 10"
  for m n :: int
  using pos_mod_bound[of 10 m] pos_mod_bound[of 10 n]
  by (subst nth_eq_iff_index_eq) (auto simp: eq_nat_nat_iff)

lemma decimal_digits: "set (decimal k n) \<subseteq> set ''0123456789''"
  using digit_in by (induction k arbitrary: n) auto

lemma decimal_no_colon [simp]: "CHR '':'' \<notin> set (decimal k n)"
  using decimal_digits[of k n] by auto

lemma decimal_inject:
  assumes "decimal k m = decimal k n" and "0 \<le> m" "m < 10 ^ k" "0 \<le> n" "n < 10 ^ k"
  shows "m = n"
  using assms
proof (induction k arbitrary: m n)
  case (Suc k)
  have "m div 10 = n div 10"
    using Suc.prems by (intro Suc.IH) auto
  moreover have "m mod 10 = n mod 10" using Suc.prems(1) by (simp add: digit_inject)
  ultimately show ?case by (metis div_mult_mod_eq)
qed simp

text \<open>Four parts of \<open>n\<close> and one day more: the quotient is cut off at 3.\<close>

lemma quarter:
  fixes d n :: int
  assumes "0 < n" and "0 \<le> d" and "d \<le> 4 * n"
  shows "0 \<le> d div n - d div n div 4" "d div n - d div n div 4 \<le> 3"
    and "0 \<le> d - n * (d div n - d div n div 4)" "d - n * (d div n - d div n div 4) \<le> n"
proof -
  define q r where "q = d div n" and "r = d mod n"
  have d: "d = n * q + r" by (simp add: q_def r_def)
  have r: "0 \<le> r" "r < n" using assms(1) by (simp_all add: r_def)
  have "0 \<le> q" using assms by (simp add: q_def pos_imp_zdiv_nonneg_iff)
  moreover have "q \<le> 4"
    using zdiv_mono1[OF assms(3,1)] assms(1) by (simp add: q_def)
  ultimately consider "0 \<le> q" "q \<le> 3" | "q = 4" by linarith
  then show "0 \<le> d div n - d div n div 4" "d div n - d div n div 4 \<le> 3"
    "0 \<le> d - n * (d div n - d div n div 4)" "d - n * (d div n - d div n div 4) \<le> n"
    unfolding q_def[symmetric] by (cases; use d r assms(3) in auto)+
qed

lemma mixed_radix:
  fixes a x n :: int
  assumes "n * a + x = n * a' + x'" and "0 \<le> x" "x < n" "0 \<le> x'" "x' < n"
  shows "a = a'" "x = x'"
proof -
  have "(n * a + x) div n = a" "(n * a' + x') div n = a'"
    using assms(2-5) by (simp_all add: div_add1_eq)
  with assms(1) show "a = a'" by simp
  with assms(1) show "x = x'" by simp
qed

lemma year_day_bounds:
  assumes "year_day days = (y, d)"
  obtains a b c e where "y = 400 * a + (100 * b + (4 * c + e)) + 1"
    "days = 146097 * a + 36524 * b + 1461 * c + 365 * e + d"
    "0 \<le> b" "b \<le> 3" "0 \<le> c" "c \<le> 24" "0 \<le> e" "e \<le> 3" "0 \<le> d" "d \<le> 365"
proof -
  let ?d1 = "days mod 146097"
  define b where "b = ?d1 div 36524 - ?d1 div 36524 div 4"
  define d2 where "d2 = ?d1 - 36524 * b"
  define c where "c = d2 div 1461"
  define d3 where "d3 = d2 - 1461 * c"
  define e where "e = d3 div 365 - d3 div 365 div 4"
  define d4 where "d4 = d3 - 365 * e"
  have "?d1 < 146097" by simp
  then have d1: "0 \<le> ?d1" "?d1 \<le> 4 * 36524" by simp_all
  have b: "0 \<le> b" "b \<le> 3" "0 \<le> d2" "d2 \<le> 36524"
    unfolding b_def d2_def by (rule quarter[OF zero_less_numeral d1])+
  have d3: "d3 = d2 mod 1461" by (simp add: d3_def c_def minus_mult_div_eq_mod)
  have "c \<le> 36524 div 1461" unfolding c_def using b by (intro zdiv_mono1) simp_all
  then have c: "0 \<le> c" "c \<le> 24" using b by (simp_all add: c_def pos_imp_zdiv_nonneg_iff)
  have "d3 < 1461" "0 \<le> d3" by (simp_all add: d3)
  then have d3': "0 \<le> d3" "d3 \<le> 4 * 365" by simp_all
  have e: "0 \<le> e" "e \<le> 3" "0 \<le> d4" "d4 \<le> 365"
    unfolding e_def d4_def by (rule quarter[OF zero_less_numeral d3'])+
  have "(y, d) = (400 * (days div 146097) + (100 * b + (4 * c + e)) + 1, d4)"
    using assms[unfolded year_day_def Let_def, folded b_def, folded d2_def, folded c_def, folded d3_def,
        folded e_def, folded d4_def] by simp
  moreover have "days = 146097 * (days div 146097) + ?d1" by simp
  then have "days = 146097 * (days div 146097) + 36524 * b + 1461 * c + 365 * e + d4"
    unfolding d4_def d3_def d2_def by linarith
  ultimately show thesis using that b c e by blast
qed

lemma year_day_inject:
  assumes "year_day m = (y, d)" and "year_day n = (y, d)"
  shows "m = n"
proof (rule year_day_bounds[OF assms(1)], rule year_day_bounds[OF assms(2)])
  fix a b c e a' b' c' e' :: int
  assume y: "y = 400 * a + (100 * b + (4 * c + e)) + 1" "y = 400 * a' + (100 * b' + (4 * c' + e')) + 1"
    and r: "0 \<le> b" "b \<le> 3" "0 \<le> c" "c \<le> 24" "0 \<le> e" "e \<le> 3"
      "0 \<le> b'" "b' \<le> 3" "0 \<le> c'" "c' \<le> 24" "0 \<le> e'" "e' \<le> 3"
    and m: "m = 146097 * a + 36524 * b + 1461 * c + 365 * e + d"
    and n: "n = 146097 * a' + 36524 * b' + 1461 * c' + 365 * e' + d"
  have 1: "a = a'" "100 * b + (4 * c + e) = 100 * b' + (4 * c' + e')"
    using mixed_radix[of 400 a "100 * b + (4 * c + e)" a' "100 * b' + (4 * c' + e')"] y r by auto
  have 2: "b = b'" "4 * c + e = 4 * c' + e'" using mixed_radix[OF 1(2)] r by auto
  have 3: "c = c'" "e = e'" using mixed_radix[OF 2(2)] r by auto
  show "m = n" using m n 1 2 3 by simp
qed

lemma month_day_inject:
  assumes "month_day ns m d = month_day ns m d'"
  shows "d = d'"
proof -
  have later: "m \<le> fst (month_day ns m d)" for ns m d
    by (induction ns m d rule: month_day.induct) auto
  show ?thesis using assms
  proof (induction ns arbitrary: m d d')
    case (Cons n ns)
    have "m + 1 \<le> fst (month_day ns (m + 1) x)" for x by (rule later)
    then have "m \<noteq> fst (month_day ns (m + 1) x)" for x by (metis zle_add1_eq_le less_irrefl)
    then show ?case using Cons.prems Cons.IH[of "m + 1" "d - n" "d' - n"]
      by (auto split: if_splits) (metis fst_conv)+
  qed simp
qed

lemma month_day_range:
  assumes "0 \<le> d" "d \<le> 365" and "month_day (month_lengths l) 1 d = (m, k)"
  shows "0 \<le> m" "m < 100" "0 \<le> k" "k < 100"
proof -
  have "m \<le> fst (month_day ns m d) \<and> fst (month_day ns m d) \<le> m + int (length ns) \<and>
        (0 \<le> d \<and> d \<le> sum_list ns + 30 \<and> list_all (\<lambda>n. n \<le> 31) ns
          \<longrightarrow> 0 \<le> snd (month_day ns m d) \<and> snd (month_day ns m d) \<le> 31)" for ns m d
    by (induction ns m d rule: month_day.induct) auto
  from this[of 1 "month_lengths l" d] assms show "0 \<le> m" "m < 100" "0 \<le> k" "k < 100"
    by (auto simp: month_lengths_def split: if_splits)
qed

lemma day_string_no_colon [simp]: "CHR '':'' \<notin> set (day_string n)"
  by (simp add: day_string_def case_prod_unfold Let_def)

lemma length_day_string [simp]: "length (day_string n) = 10"
  by (simp add: day_string_def case_prod_unfold Let_def)

text \<open>The days of the years 0001 to 9999.\<close>

definition four_digit_day :: "int \<Rightarrow> bool" where
  "four_digit_day n \<longleftrightarrow> 0 \<le> n \<and> n < 3652059"

lemma four_digit_year:
  assumes "four_digit_day n" and "year_day n = (y, d)"
  shows "0 \<le> y" "y < 10000"
proof -
  have "0 \<le> y \<and> y < 10000"
    by (rule year_day_bounds[OF assms(2)]) (use assms(1) in \<open>simp add: four_digit_day_def\<close>)
  then show "0 \<le> y" "y < 10000" by simp_all
qed

lemma day_string_inject:
  assumes "four_digit_day m" "four_digit_day n" and "day_string m = day_string n"
  shows "m = n"
proof -
  obtain y d where ym: "year_day m = (y, d)" by fastforce
  obtain y' d' where yn: "year_day n = (y', d')" by fastforce
  obtain mo k where mm: "month_day (month_lengths (leap y)) 1 d = (mo, k)" by fastforce
  obtain mo' k' where mn: "month_day (month_lengths (leap y')) 1 d' = (mo', k')" by fastforce
  have "0 \<le> d" "d \<le> 365" by (rule year_day_bounds[OF ym]; simp)+
  note rm = month_day_range[OF this mm]
  have "0 \<le> d'" "d' \<le> 365" by (rule year_day_bounds[OF yn]; simp)+
  note rn = month_day_range[OF this mn]
  have "decimal 4 y = decimal 4 y'" "decimal 2 mo = decimal 2 mo'" "decimal 2 k = decimal 2 k'"
    using assms(3) by (simp_all add: day_string_def ym yn mm mn)
  then have "y = y'" "mo = mo'" "k = k'"
    using four_digit_year[OF assms(1) ym] four_digit_year[OF assms(2) yn] rm rn
    by (auto intro!: decimal_inject)
  then show ?thesis
    using ym yn mm mn month_day_inject[of "month_lengths (leap y)" 1 d d'] year_day_inject by metis
qed

end
