(* ===== verification/Sha256.thy ===== *)
theory Sha256
  imports Prelude "HOL-Library.Word"
begin

text \<open>
  The parts of Go's \<open>crypto/sha256\<close>, \<open>crypto/hmac\<close> and \<open>encoding/hex\<close> that the challenge tokens,
  the proof of work, the admin sessions and the resolver's cache use: SHA-256 on byte strings,
  HMAC over it, and lower-case hexadecimal. What the proofs use is only the shape of the result:
  32 bytes, and hexadecimal text of 64 digits without a colon.
\<close>

unbundle bit_operations_syntax

section \<open>SHA-256\<close>

type_synonym word32 = "32 word"

definition sha_K :: "word32 list" where
  "sha_K =
     [1116352408, 1899447441, 3049323471, 3921009573, 961987163, 1508970993, 2453635748,
      2870763221, 3624381080, 310598401, 607225278, 1426881987, 1925078388, 2162078206,
      2614888103, 3248222580, 3835390401, 4022224774, 264347078, 604807628, 770255983,
      1249150122, 1555081692, 1996064986, 2554220882, 2821834349, 2952996808, 3210313671,
      3336571891, 3584528711, 113926993, 338241895, 666307205, 773529912, 1294757372,
      1396182291, 1695183700, 1986661051, 2177026350, 2456956037, 2730485921, 2820302411,
      3259730800, 3345764771, 3516065817, 3600352804, 4094571909, 275423344, 430227734,
      506948616, 659060556, 883997877, 958139571, 1322822218, 1537002063, 1747873779,
      1955562222, 2024104815, 2227730452, 2361852424, 2428436474, 2756734187, 3204031479,
      3329325298]"

definition sha_H :: "word32 list" where
  "sha_H =
     [1779033703, 3144134277, 1013904242, 2773480762, 1359893119, 2600822924, 528734635,
      1541459225]"

definition big_sigma0 :: "word32 \<Rightarrow> word32" where
  "big_sigma0 x = word_rotr 2 x XOR word_rotr 13 x XOR word_rotr 22 x"

definition big_sigma1 :: "word32 \<Rightarrow> word32" where
  "big_sigma1 x = word_rotr 6 x XOR word_rotr 11 x XOR word_rotr 25 x"

definition small_sigma0 :: "word32 \<Rightarrow> word32" where
  "small_sigma0 x = word_rotr 7 x XOR word_rotr 18 x XOR drop_bit 3 x"

definition small_sigma1 :: "word32 \<Rightarrow> word32" where
  "small_sigma1 x = word_rotr 17 x XOR word_rotr 19 x XOR drop_bit 10 x"

definition sha_ch :: "word32 \<Rightarrow> word32 \<Rightarrow> word32 \<Rightarrow> word32" where
  "sha_ch x y z = (x AND y) XOR (NOT x AND z)"

definition sha_maj :: "word32 \<Rightarrow> word32 \<Rightarrow> word32 \<Rightarrow> word32" where
  "sha_maj x y z = (x AND y) XOR (x AND z) XOR (y AND z)"

fun be_words :: "string \<Rightarrow> word32 list" where
  "be_words (a # b # c # d # s) =
     (of_char a * 2 ^ 24 + of_char b * 2 ^ 16 + of_char c * 2 ^ 8 + of_char d) # be_words s"
| "be_words _ = []"

text \<open>The schedule, newest word first.\<close>

fun sha_extend :: "nat \<Rightarrow> word32 list \<Rightarrow> word32 list" where
  "sha_extend 0 ws = ws"
| "sha_extend (Suc n) ws =
     sha_extend n ((small_sigma1 (ws ! 1) + ws ! 6 + small_sigma0 (ws ! 14) + ws ! 15) # ws)"

fun sha_round :: "word32 \<times> word32 \<Rightarrow> word32 list \<Rightarrow> word32 list" where
  "sha_round (k, w) [a, b, c, d, e, f, g, h] =
     (let t1 = h + big_sigma1 e + sha_ch e f g + k + w;
          t2 = big_sigma0 a + sha_maj a b c
      in [t1 + t2, a, b, c, d + t1, e, f, g])"
| "sha_round _ s = s"

definition sha_block :: "string \<Rightarrow> word32 list \<Rightarrow> word32 list" where
  "sha_block b h =
     map2 (+) h (fold sha_round (zip sha_K (rev (sha_extend 48 (rev (be_words b))))) h)"

fun be_bytes :: "nat \<Rightarrow> nat \<Rightarrow> string" where
  "be_bytes 0 n = []"
| "be_bytes (Suc k) n = char_of (n div 256 ^ k) # be_bytes k n"

definition sha_pad :: "string \<Rightarrow> string" where
  "sha_pad s = s @ [CHR 0x80] @ replicate ((119 - length s mod 64) mod 64) (CHR 0x00)
     @ be_bytes 8 (8 * length s mod 2 ^ 64)"

fun sha_blocks :: "nat \<Rightarrow> string \<Rightarrow> word32 list \<Rightarrow> word32 list" where
  "sha_blocks 0 s h = h"
| "sha_blocks (Suc n) s h = sha_blocks n (drop 64 s) (sha_block (take 64 s) h)"

definition sha256 :: "string \<Rightarrow> string" where
  "sha256 s = concat (map (\<lambda>w. be_bytes 4 (unat w))
     (sha_blocks (length (sha_pad s) div 64) (sha_pad s) sha_H))"

section \<open>HMAC and hexadecimal text\<close>

definition xor_char :: "nat \<Rightarrow> char \<Rightarrow> char" where
  "xor_char n c = char_of (of_char c XOR n)"

definition hmac_sha256 :: "string \<Rightarrow> string \<Rightarrow> string" where
  "hmac_sha256 key msg =
     (let k = (if 64 < length key then sha256 key else key);
          k = k @ replicate (64 - length k) (CHR 0x00)
      in sha256 (map (xor_char 0x5c) k @ sha256 (map (xor_char 0x36) k @ msg)))"

definition hex_digit :: "nat \<Rightarrow> char" where
  "hex_digit n = ''0123456789abcdef'' ! (n mod 16)"

definition hex_string :: "string \<Rightarrow> string" where
  "hex_string s = concat (map (\<lambda>c. [hex_digit (of_char c div 16), hex_digit (of_char c)]) s)"

section \<open>The shape of the results\<close>

lemma length_be_bytes [simp]: "length (be_bytes k n) = k"
  by (induction k) simp_all

lemma length_sha_round: "length h = 8 \<Longrightarrow> length (sha_round kw h) = 8"
  by (cases "(kw, h)" rule: sha_round.cases) (simp_all add: Let_def)

lemma length_sha_rounds: "length h = 8 \<Longrightarrow> length (fold sha_round kws h) = 8"
  by (induction kws arbitrary: h) (simp_all add: length_sha_round)

lemma length_sha_blocks: "length h = 8 \<Longrightarrow> length (sha_blocks n s h) = 8"
  by (induction n arbitrary: s h) (simp_all add: sha_block_def length_sha_rounds)

lemma length_sha256 [simp]: "length (sha256 s) = 32"
  using length_sha_blocks[of sha_H "length (sha_pad s) div 64" "sha_pad s"]
  by (simp add: sha256_def length_concat sha_H_def comp_def sum_list_triv)

lemma length_hmac [simp]: "length (hmac_sha256 k m) = 32"
  by (simp add: hmac_sha256_def Let_def)

lemma hex_digit_in: "hex_digit n \<in> set ''0123456789abcdef''"
  unfolding hex_digit_def by (rule nth_mem) simp

lemma hex_digit_not_colon [simp]: "hex_digit n \<noteq> CHR '':''"
  using hex_digit_in[of n] by auto

lemma hex_no_colon [simp]: "CHR '':'' \<notin> set (hex_string s)"
  by (auto simp: hex_string_def dest: sym)

lemma length_hex [simp]: "length (hex_string s) = 2 * length s"
  by (induction s) (simp_all add: hex_string_def)

end
