(* ===== verification/Scoring.thy ===== *)
theory Scoring
  imports Trust_Types
begin

text \<open>
  What every detector of the trust engine has in common. A detector accumulates a penalty and
  its reasons and caps the penalty at 1 when it returns; its blocks are functions on the pair.
  The interface \<open>risk_module\<close> is what the fusion relies on: a sub-score between 0 and 1.
\<close>

named_theorems penalty_intros \<open>blocks of a detector keep the penalty nonnegative\<close>

type_synonym scored = "real \<times> message list"

text \<open>\<open>penalty += amount; reasons = append(reasons, reason)\<close>\<close>

definition add_penalty :: "real \<Rightarrow> message \<Rightarrow> scored \<Rightarrow> scored" where
  "add_penalty amount reason sc = (fadd (fst sc) amount, snd sc @ [reason])"

lemma fst_add_penalty [simp]: "fst (add_penalty a r sc) = fadd (fst sc) a"
  by (simp add: add_penalty_def)

lemma snd_add_penalty [simp]: "snd (add_penalty a r sc) = snd sc @ [r]"
  by (simp add: add_penalty_def)

lemma fl_lit_nonneg [simp]: "0 \<le> fl (numeral w)" "0 \<le> fl (numeral w / numeral v)" "0 \<le> fl (1 / numeral v)"
  by simp_all

text \<open>
  An \<open>if\<close>/\<open>else if\<close> chain whose branches each add to the penalty: the first branch whose
  condition holds is taken, and none if none does.
\<close>

fun add_first :: "(bool \<times> real \<times> message) list \<Rightarrow> scored \<Rightarrow> scored" where
  "add_first [] sc = sc"
| "add_first ((c, amount, reason) # bs) sc =
     (if c then add_penalty amount reason sc else add_first bs sc)"

lemma add_first_nonneg [penalty_intros]:
  "list_all (\<lambda>(c, a, r). c \<longrightarrow> 0 \<le> a) bs \<Longrightarrow> 0 \<le> fst sc \<Longrightarrow> 0 \<le> fst (add_first bs sc)"
  by (induction bs sc rule: add_first.induct) auto

lemma fst_pair_nonneg [penalty_intros]: "0 \<le> fst (0 :: real, rs)"
  by simp

text \<open>The context of a detector: the profile it reads, the event, the configuration.\<close>

type_synonym ctx = "ip_profile \<times> request_event \<times> config"

locale risk_module =
  fixes penalty :: "'c \<Rightarrow> real"
  assumes nonneg: "0 \<le> penalty c"
    and le_one: "penalty c \<le> 1"
begin

lemma weighted_nonneg: "0 \<le> w \<Longrightarrow> 0 \<le> fmul w (penalty c)"
  by (simp add: nonneg)

lemma weighted_le: "0 \<le> w \<Longrightarrow> repr w \<Longrightarrow> fmul w (penalty c) \<le> w"
  unfolding fmul_def using nonneg[of c] le_one[of c]
  by (intro fl_le) (auto simp: mult_left_le)

lemma rounded_range: "0 \<le> round_to 1000 (penalty c) \<and> round_to 1000 (penalty c) \<le> 1"
  using round_to_ge[OF nonneg, of 1000 c] round_to_le[OF le_one, of 1000 c] by simp

end

end
