(* ===== verification/Go_Regexp.thy ===== *)
theory Go_Regexp
  imports Prelude
begin

text \<open>
  What the program uses of Go's \<open>regexp\<close>: leftmost-first matching with captures. A match is a
  list of successes in order of preference (a greedy star prefers another round, a lazy one
  prefers to stop), and a search takes the first success at the leftmost position that has one.
  Patterns are ASCII classes and their complements, for which matching the bytes of a UTF-8
  string and matching its code points agree.
\<close>

datatype re =
    Empty
  | Cls "char \<Rightarrow> bool"
  | Cat re re
  | Alt re re
  | Star bool re
  | Group nat re
  | BeginText
  | EndText
  | WordBoundary

text \<open>The ASCII word characters.\<close>

definition is_word :: "char \<Rightarrow> bool" where
  "is_word c \<longleftrightarrow> is_digit c \<or> c = CHR ''_'' \<or> (65::nat) \<le> of_char c \<and> of_char c \<le> (90::nat)
     \<or> (97::nat) \<le> of_char c \<and> of_char c \<le> (122::nat)"

text \<open>What is before the position (reversed), what is after it, the captures so far.\<close>

type_synonym re_state = "string \<times> string \<times> (nat \<times> string) list"

definition rest_of :: "re_state \<Rightarrow> string" where
  "rest_of st = fst (snd st)"

text \<open>
  Every round of a star consumes a byte, so as many rounds as there are bytes left are enough.
\<close>

primrec star_iter :: "bool \<Rightarrow> (re_state \<Rightarrow> re_state list) \<Rightarrow> nat \<Rightarrow> re_state \<Rightarrow> re_state list" where
  "star_iter greedy f 0 st = [st]"
| "star_iter greedy f (Suc n) st =
     (let more = concat (map (star_iter greedy f n)
                   (filter (\<lambda>st'. length (rest_of st') < length (rest_of st)) (f st)))
      in if greedy then more @ [st] else st # more)"

primrec re_match :: "re \<Rightarrow> re_state \<Rightarrow> re_state list" where
  "re_match Empty st = [st]"
| "re_match (Cls P) st =
     (case st of (pre, [], caps) \<Rightarrow> []
      | (pre, c # s, caps) \<Rightarrow> if P c then [(c # pre, s, caps)] else [])"
| "re_match (Cat r1 r2) st = concat (map (re_match r2) (re_match r1 st))"
| "re_match (Alt r1 r2) st = re_match r1 st @ re_match r2 st"
| "re_match (Star greedy r) st = star_iter greedy (re_match r) (length (rest_of st)) st"
| "re_match (Group n r) st =
     map (\<lambda>(pre', s', caps'). (pre', s',
            (n, take (length (rest_of st) - length s') (rest_of st)) # caps'))
       (re_match r st)"
| "re_match BeginText st = (case st of (pre, s, caps) \<Rightarrow> if pre = [] then [st] else [])"
| "re_match EndText st = (case st of (pre, s, caps) \<Rightarrow> if s = [] then [st] else [])"
| "re_match WordBoundary st =
     (case st of (pre, s, caps) \<Rightarrow>
        if (pre \<noteq> [] \<and> is_word (hd pre)) \<noteq> (s \<noteq> [] \<and> is_word (hd s)) then [st] else [])"

definition Plus :: "re \<Rightarrow> re" where
  "Plus r = Cat r (Star True r)"

primrec Lit :: "string \<Rightarrow> re" where
  "Lit [] = Empty"
| "Lit (c # cs) = Cat (Cls (\<lambda>x. x = c)) (Lit cs)"

fun re_search :: "re \<Rightarrow> string \<Rightarrow> string \<Rightarrow> (nat \<times> string) list option" where
  "re_search r pre s =
     (case re_match r (pre, s, []) of
        (_, _, caps) # _ \<Rightarrow> Some caps
      | [] \<Rightarrow> (case s of [] \<Rightarrow> None | c # cs \<Rightarrow> re_search r (c # pre) cs))"

declare re_search.simps [simp del]

text \<open>\<open>FindStringSubmatch\<close>: the captures of the leftmost match, or nothing.\<close>

definition FindStringSubmatch :: "re \<Rightarrow> string \<Rightarrow> (nat \<rightharpoonup> string)  option" where
  "FindStringSubmatch r s = map_option map_of (re_search r [] s)"

text \<open>\<open>MatchString\<close>.\<close>

definition MatchString :: "re \<Rightarrow> string \<Rightarrow> bool" where
  "MatchString r s \<longleftrightarrow> re_search r [] s \<noteq> None"

section \<open>A match is a split of the text\<close>

definition advances :: "re_state \<Rightarrow> re_state \<Rightarrow> bool" where
  "advances st st' \<longleftrightarrow> (\<exists>u. rest_of st = u @ rest_of st' \<and> fst st' = rev u @ fst st)"

lemma advances_refl: "advances st st"
  by (auto simp: advances_def)

lemma advances_trans: "advances a b \<Longrightarrow> advances b c \<Longrightarrow> advances a c"
  unfolding advances_def by (metis append.assoc rev_append)

lemma star_iter_advances:
  assumes "\<And>st st'. st' \<in> set (f st) \<Longrightarrow> advances st st'"
  shows "st' \<in> set (star_iter g f n st) \<Longrightarrow> advances st st'"
proof (induction n arbitrary: st)
  case (Suc n)
  then consider "st' = st"
    | st1 where "st1 \<in> set (f st)" "st' \<in> set (star_iter g f n st1)"
    by (auto simp: Let_def split: if_splits)
  then show ?case
    using Suc.IH assms by cases (blast intro: advances_refl advances_trans)+
qed (simp add: advances_refl)

lemma re_match_advances: "st' \<in> set (re_match r st) \<Longrightarrow> advances st st'"
proof (induction r arbitrary: st st')
  case (Cls P)
  then show ?case
    by (auto simp: advances_def rest_of_def split: prod.splits list.splits if_splits)
next
  case (Cat r1 r2)
  from Cat.prems obtain st1 where "st1 \<in> set (re_match r1 st)" "st' \<in> set (re_match r2 st1)"
    by auto
  then show ?case using Cat.IH by (blast intro: advances_trans)
next
  case (Star g r)
  then show ?case using star_iter_advances[of "re_match r"] by auto
next
  case (Group n r)
  then obtain pre' s' caps' x where "(pre', s', caps') \<in> set (re_match r st)" "st' = (pre', s', x)"
    by auto
  with Group.IH[of "(pre', s', caps')" st] show ?case by (simp add: advances_def rest_of_def)
qed (auto split: prod.splits if_splits simp: advances_refl)

text \<open>A star of a class consumes only bytes of the class.\<close>

lemma star_class:
  assumes "st' \<in> set (star_iter g (re_match (Cls P)) n st)"
  shows "\<exists>u. rest_of st = u @ rest_of st' \<and> list_all P u \<and> snd (snd st') = snd (snd st)"
  using assms
proof (induction n arbitrary: st)
  case (Suc n)
  then consider "st' = st"
    | st1 where "st1 \<in> set (re_match (Cls P) st)" "st' \<in> set (star_iter g (re_match (Cls P)) n st1)"
    by (auto simp: Let_def simp del: re_match.simps split: if_splits)
  then show ?case
  proof cases
    case 2
    from Suc.IH[OF 2(2)] obtain u where u: "rest_of st1 = u @ rest_of st'" "list_all P u"
      "snd (snd st') = snd (snd st1)" by blast
    from 2(1) obtain c where "rest_of st = c # rest_of st1" "P c" "snd (snd st1) = snd (snd st)"
      by (auto simp: rest_of_def split: prod.splits list.splits if_splits)
    with u show ?thesis by (intro exI[of _ "c # u"]) simp
  qed (auto intro: exI[of _ "[]"])
qed (auto intro: exI[of _ "[]"])

section \<open>Which success comes first\<close>

text \<open>The positions a star of a class can reach, in the order a lazy star tries them.\<close>

primrec star_positions :: "(char \<Rightarrow> bool) \<Rightarrow> (nat \<times> string) list \<Rightarrow> string \<Rightarrow> string \<Rightarrow> re_state list" where
  "star_positions P caps [] pre = [(pre, [], caps)]"
| "star_positions P caps (c # s) pre = (pre, c # s, caps) # (if P c then star_positions P caps s (c # pre) else [])"

lemma star_star_positions:
  "length s \<le> n \<Longrightarrow> star_iter g (re_match (Cls P)) n (pre, s, caps) =
     (if g then rev (star_positions P caps s pre) else star_positions P caps s pre)"
proof (induction n arbitrary: s pre)
  case (Suc n)
  show ?case
  proof (cases s)
    case (Cons c s')
    then show ?thesis using Suc by (cases g) (auto simp: rest_of_def Let_def)
  qed (simp add: rest_of_def Let_def)
qed (simp)

lemma star_positions_skip:
  assumes "list_all P w" and "\<And>u v. w = u @ v \<Longrightarrow> v \<noteq> [] \<Longrightarrow> k (rev u @ pre, v @ s, caps) = []"
    and "k (rev w @ pre, s, caps) = x # xs"
  shows "\<exists>ys. concat (map k (star_positions P caps (w @ s) pre)) = x # ys"
  using assms
proof (induction w arbitrary: pre)
  case Nil
  then show ?case by (cases s) auto
next
  case (Cons c w)
  have "k (pre, c # w @ s, caps) = []" using Cons.prems(2)[of "[]" "c # w"] by simp
  moreover have "\<exists>ys. concat (map k (star_positions P caps (w @ s) (c # pre))) = x # ys"
  proof (rule Cons.IH)
    show "k (rev u @ c # pre, v @ s, caps) = []" if "w = u @ v" "v \<noteq> []" for u v
      using Cons.prems(2)[of "c # u" v] that by simp
  qed (use Cons.prems in simp_all)
  ultimately show ?case using Cons.prems(1) by simp
qed

lemma star_positions_none:
  assumes "\<And>u v. s = u @ v \<Longrightarrow> k (rev u @ pre, v, caps) = []"
  shows "concat (map k (star_positions P caps s pre)) = []"
  using assms
proof (induction s arbitrary: pre)
  case Nil
  then show ?case using Nil[of "[]" "[]"] by simp
next
  case (Cons c s)
  have "k (rev u @ c # pre, v, caps) = []" if "s = u @ v" for u v
    using Cons.prems[of "c # u" v] that by simp
  then show ?case using Cons.IH[of "c # pre"] Cons.prems[of "[]" "c # s"] by simp
qed

lemma rev_star_positions_full:
  "list_all P w \<Longrightarrow> s = [] \<or> \<not> P (hd s) \<Longrightarrow>
     \<exists>ys. rev (star_positions P caps (w @ s) pre) = (rev w @ pre, s, caps) # ys"
proof (induction w arbitrary: pre)
  case Nil
  then show ?case by (cases s) auto
next
  case (Cons c w)
  then obtain ys where "rev (star_positions P caps (w @ s) (c # pre)) = (rev w @ c # pre, s, caps) # ys" by auto
  with Cons.prems show ?case by simp
qed

lemma star_class_split:
  "st' \<in> set (re_match (Star g (Cls P)) st) \<Longrightarrow> \<exists>u. rest_of st = u @ rest_of st' \<and> list_all P u"
  using star_class[of st' g P "length (rest_of st)" st] by auto

lemma rest_of_triple: "rest_of (a, b, c) = b"
  by (simp add: rest_of_def)

lemma cat_step:
  "st \<in> set (re_match (Cat r1 r2) s) \<Longrightarrow> \<exists>st1. st1 \<in> set (re_match r1 s) \<and> st \<in> set (re_match r2 st1)"
  by auto

lemma group_step: "st \<in> set (re_match (Group n r) s) \<Longrightarrow> \<exists>st'. st' \<in> set (re_match r s) \<and> rest_of st = rest_of st'"
  by (force simp: rest_of_def)

lemma re_search_first:
  "re_match r (pre, s, []) = (p, q, caps) # xs \<Longrightarrow> re_search r pre s = Some caps"
  by (simp add: re_search.simps)

lemma anchored_none:
  assumes "pre \<noteq> []"
  shows "re_search (Cat BeginText r) pre s = None"
  using assms
proof (induction s arbitrary: pre)
  case (Cons c s)
  then show ?case by (subst re_search.simps) simp
qed (subst re_search.simps, simp)

lemma anchored_search_none:
  "re_match (Cat BeginText r) ([], s, []) = [] \<Longrightarrow> re_search (Cat BeginText r) [] s = None"
  by (subst re_search.simps) (simp add: anchored_none del: re_match.simps split: list.split)

end
