(* ===== verification/Recon.thy ===== *)
theory Recon
  imports Scoring Go_Regexp
begin

text \<open>
  Reconnaissance (\<open>trustscore/recon.go\<close>): error rates, sensitive paths, enumeration of numeric
  identifiers, method probing, endpoint diversity, robots/sitemap crawls.
\<close>

definition sensitivePathsMap :: "string fset" where
  "sensitivePathsMap = fset_of_list
    [''/.env'', ''/.env.local'', ''/.env.production'', ''/.env.backup'', ''/config.php'',
     ''/config.yml'', ''/config.yaml'', ''/configuration.php'', ''/wp-config.php'',
     ''/app/config/database.yml'', ''/.git'', ''/.git/config'', ''/.git/HEAD'', ''/.svn'', ''/.hg'',
     ''/admin'', ''/admin/'', ''/administrator'', ''/wp-admin'', ''/wp-admin/'', ''/phpmyadmin'',
     ''/pma'', ''/adminer.php'', ''/cpanel'', ''/backup.zip'', ''/backup.sql'', ''/db.sql'',
     ''/database.sql'', ''/backup.tar.gz'', ''/site.zip'', ''/vendor'', ''/node_modules'',
     ''/.DS_Store'', ''/actuator'', ''/actuator/env'', ''/actuator/health'', ''/__debug__'',
     ''/debug'', ''/console'', ''/id_rsa'', ''/.ssh/id_rsa'', ''/private.key'', ''/etc/passwd'',
     ''/etc/shadow'', ''/proc/self/environ'', ''/api/v1/admin'', ''/api/admin'', ''/api/internal'',
     ''/graphql'']"

text \<open>The pattern \<^verbatim>\<open>^(.*?)(\d+)([^/]*)$\<close>.\<close>

definition idPattern :: re where
  "idPattern =
     Cat BeginText
      (Cat (Group 1 (Star False (Cls (\<lambda>c. c \<noteq> CHR 0x0A))))
        (Cat (Group 2 (Plus (Cls is_digit)))
          (Cat (Group 3 (Star True (Cls (\<lambda>c. c \<noteq> CHR ''/'')))) EndText)))"

record id_probe =
  ip_Base :: string
  ip_SequenceLength :: int

text \<open>
  The run of consecutive numbers that ends at the largest one: the loop from the last index
  down, stopped by the first gap.
\<close>

fun consecutiveRun :: "int list \<Rightarrow> nat \<Rightarrow> int \<Rightarrow> int" where
  "consecutiveRun s 0 consecutive = consecutive"
| "consecutiveRun s (Suc i) consecutive =
     (if s ! (Suc i) - s ! i = 1 then consecutiveRun s i (consecutive + 1) else consecutive)"

definition detectIDSequence :: "ip_profile \<Rightarrow> string \<Rightarrow> id_probe option \<times> int \<times> string" where
  "detectIDSequence profile path =
     (case FindStringSubmatch idPattern path of
        None \<Rightarrow> (None, 0, [])
      | Some caps \<Rightarrow>
          (let base = the (caps 1); numberStr = the (caps 2)
           in case atoi numberStr of
                None \<Rightarrow> (None, 0, [])
              | Some number \<Rightarrow>
                  (let tempSeq = removeDuplicatesAndSort
                                   (mget (p_NumericIDSequences profile) base @ [number])
                   in if length tempSeq < 3 then (None, number, base)
                      else let consecutive = consecutiveRun tempSeq (length tempSeq - 1) 1
                           in if consecutive \<ge> 3
                              then (Some \<lparr>ip_Base = base, ip_SequenceLength = consecutive\<rparr>, number, base)
                              else (None, number, base))))"

definition no_recon_signals :: recon_signals where
  "no_recon_signals =
   \<lparr> s_SensitivePathHit = False, s_SensitiveHit = \<lparr>sh_Path = [], sh_Timestamp = 0\<rparr>,
     s_IDSequenceLength = 0, s_NewNumericID = 0, s_IDSequenceBasePath = [] \<rparr>"

text \<open>
  Each block of \<open>ScoreRecon\<close> adds to the penalty and appends to the reasons; a block is a
  function of the pair. Both divisions are guarded: by \<open>totalRequests >= 10\<close> and by a session
  age of at least 30 seconds.
\<close>

definition recon_rates :: "ip_profile \<Rightarrow> config \<Rightarrow> scored \<Rightarrow> scored" where
  "recon_rates profile cfg sc =
     (let total = p_TotalRequests profile;
          rate404 = fdiv (fint (p_Total404 profile)) (fint total);
          rate403 = fdiv (fint (p_Total403 profile)) (fint total);
          sc = (if total \<ge> 10
                then if rate404 > c_ReconHighRate404 cfg
                     then add_penalty (fl 0.5) (Sprintf ''high_404_rate:%.0f%%'' [FmtFloat (fmul rate404 100)]) sc
                     else if rate404 > c_ReconMediumRate404 cfg
                     then add_penalty (fl 0.25) (Sprintf ''medium_404_rate:%.0f%%'' [FmtFloat (fmul rate404 100)]) sc
                     else sc
                else sc)
      in if total \<ge> 10 \<and> rate403 > c_ReconHighRate403 cfg
         then add_penalty (fl 0.4) (Sprintf ''high_403_rate:%.0f%%'' [FmtFloat (fmul rate403 100)]) sc
         else sc)"

definition recon_sensitive :: "ip_profile \<Rightarrow> string \<Rightarrow> scored \<Rightarrow> scored" where
  "recon_sensitive profile path sc =
     (if path |\<in>| sensitivePathsMap
      then let hitCount = int (length (p_SensitivePathHits profile)) + 1
           in if hitCount = 1
              then add_penalty (fl 0.6) (Sprintf ''sensitive_path_hit:%s'' [FmtStr path]) sc
              else add_penalty (min (fadd (fl 0.6) (fmul (fl 0.1) (fint (hitCount - 1)))) 1)
                     (Sprintf ''sensitive_path_hit:%s (total:%d)'' [FmtStr path, FmtInt hitCount]) sc
      else sc)"

definition recon_enumeration :: "config \<Rightarrow> id_probe option \<Rightarrow> scored \<Rightarrow> scored" where
  "recon_enumeration cfg probe sc =
     (case probe of
        None \<Rightarrow> sc
      | Some pr \<Rightarrow>
          if ip_SequenceLength pr \<ge> c_IDEnumMinSequence cfg
          then let severity = min (fdiv (fint (ip_SequenceLength pr - 5)) 20) 1
               in add_penalty (fadd (fl 0.3) (fmul (fl 0.5) severity))
                    (Sprintf ''id_enumeration:%s (%d sequential IDs)''
                       [FmtStr (ip_Base pr), FmtInt (ip_SequenceLength pr)]) sc
          else sc)"

definition recon_methods :: "ip_profile \<Rightarrow> string \<Rightarrow> config \<Rightarrow> scored \<Rightarrow> scored" where
  "recon_methods profile path cfg sc =
     (let methods = methods_at profile path
      in if int (fcard methods) \<ge> c_MethodProbeMin cfg
         then add_penalty (fl 0.4) (Sprintf ''method_probing:%s methods=%v'' [FmtStr path, FmtKeys methods]) sc
         else sc)"

definition recon_diversity :: "ip_profile \<Rightarrow> real \<Rightarrow> config \<Rightarrow> scored \<Rightarrow> scored" where
  "recon_diversity profile now cfg sc =
     (if p_TotalRequests profile \<ge> 10
      then let sessionAgeSec = fsub now (p_FirstSeen profile)
           in if sessionAgeSec \<ge> 30
              then let sessionAgeMin = fdiv sessionAgeSec 60;
                       endpointsPerMin = fdiv (fint (int (fcard (p_UniqueEndpoints profile)))) sessionAgeMin
                   in if endpointsPerMin > c_EndpointDiversityThreshold cfg
                      then add_penalty (fl 0.5) (Sprintf ''endpoint_explosion:%.1f/min'' [FmtFloat endpointsPerMin]) sc
                      else sc
              else sc
      else sc)"

definition recon_robots :: "ip_profile \<Rightarrow> scored \<Rightarrow> scored" where
  "recon_robots profile sc =
     (case p_PagesVisited profile of
        first # _ # _ \<Rightarrow>
          if first = ''/robots.txt'' \<or> first = ''/sitemap.xml''
          then add_penalty (fl 0.3) (Sprintf ''robots_sitemap_followed_by_scan'' []) sc
          else sc
      | _ \<Rightarrow> sc)"

definition ScoreRecon ::
    "ip_profile \<Rightarrow> string \<Rightarrow> real \<Rightarrow> config \<Rightarrow> real \<times> message list \<times> recon_signals" where
  "ScoreRecon profile path now cfg =
     (let (probe, newNum, baseKey) = detectIDSequence profile path;
          sc = recon_robots profile
                (recon_diversity profile now cfg
                  (recon_methods profile path cfg
                    (recon_enumeration cfg probe
                      (recon_sensitive profile path
                        (recon_rates profile cfg (0, []))))));
          signals = no_recon_signals
                      \<lparr>s_SensitivePathHit := path |\<in>| sensitivePathsMap,
                       s_SensitiveHit := (if path |\<in>| sensitivePathsMap
                                          then \<lparr>sh_Path = path, sh_Timestamp = now\<rparr>
                                          else s_SensitiveHit no_recon_signals),
                       s_NewNumericID := newNum, s_IDSequenceBasePath := baseKey\<rparr>
      in (min (fst sc) 1, snd sc, signals))"

section \<open>The sub-score is between 0 and 1\<close>

lemma recon_blocks_nonneg [penalty_intros]:
  "0 \<le> fst sc \<Longrightarrow> 0 \<le> fst (recon_rates profile cfg sc)"
  "0 \<le> fst sc \<Longrightarrow> 0 \<le> fst (recon_sensitive profile path sc)"
  "0 \<le> fst sc \<Longrightarrow> 0 \<le> fst (recon_methods profile path cfg sc)"
  "0 \<le> fst sc \<Longrightarrow> 0 \<le> fst (recon_diversity profile now cfg sc)"
  "0 \<le> fst sc \<Longrightarrow> 0 \<le> fst (recon_robots profile sc)"
  by (auto simp: recon_rates_def recon_sensitive_def recon_methods_def recon_diversity_def
      recon_robots_def Let_def intro!: fadd_nonneg fmul_nonneg split: list.splits)

lemma consecutiveRun_ge: "c \<le> consecutiveRun s i c"
  by (induction s i c rule: consecutiveRun.induct) auto

lemma detectIDSequence_length:
  "detectIDSequence profile path = (Some pr, n, b) \<Longrightarrow> 3 \<le> ip_SequenceLength pr"
  by (auto simp: detectIDSequence_def Let_def split: option.splits if_splits)

lemma recon_enumeration_nonneg [penalty_intros]:
  assumes "\<And>pr. probe = Some pr \<Longrightarrow> 3 \<le> ip_SequenceLength pr" and "0 \<le> fst sc"
  shows "0 \<le> fst (recon_enumeration cfg probe sc)"
proof (cases probe)
  case (Some pr)
  have "fint (- 2) \<le> fint (ip_SequenceLength pr - 5)"
    using assms(1)[OF Some] by (intro fint_mono) simp
  then have "- 2 / 20 \<le> fint (ip_SequenceLength pr - 5) / 20"
    using fint_exact[of "- 2"] by simp
  then have "- (1 / 2) \<le> fdiv (fint (ip_SequenceLength pr - 5)) 20"
    unfolding fdiv_def by (intro fl_ge) (auto intro: repr_minus)
  then have sev: "- (1 / 2) \<le> min (fdiv (fint (ip_SequenceLength pr - 5)) 20) 1" by simp
  then have "- (1 / 4) \<le> fmul (fl 0.5) (min (fdiv (fint (ip_SequenceLength pr - 5)) 20) 1)"
    using repr_dyadic[of "-1" 2] unfolding fmul_def by (intro fl_ge) auto
  moreover have "1 / 4 \<le> fl 0.3" using repr_dyadic[of 1 2] by (intro fl_ge) auto
  ultimately have "0 \<le> fadd (fl 0.3) (fmul (fl 0.5) (min (fdiv (fint (ip_SequenceLength pr - 5)) 20) 1))"
    unfolding fadd_def by (intro fl_nonneg) linarith
  with Some assms(2) show ?thesis by (simp add: recon_enumeration_def Let_def)
qed (use assms in \<open>simp add: recon_enumeration_def\<close>)

lemma ScoreRecon_nonneg: "0 \<le> fst (ScoreRecon profile path now cfg)"
  using detectIDSequence_length[of profile path]
  by (auto simp: ScoreRecon_def Let_def split: prod.splits intro!: penalty_intros)

lemma ScoreRecon_le_one: "fst (ScoreRecon profile path now cfg) \<le> 1"
  by (simp add: ScoreRecon_def Let_def split: prod.splits)

interpretation recon: risk_module "\<lambda>(profile, event, cfg). fst (ScoreRecon profile (e_Path event) (e_Timestamp event) cfg)"
  by unfold_locales (auto simp: ScoreRecon_nonneg ScoreRecon_le_one)

section \<open>The identifier pattern\<close>

definition idTail :: re where
  "idTail = Cat (Group 2 (Plus (Cls is_digit)))
              (Cat (Group 3 (Star True (Cls (\<lambda>c. c \<noteq> CHR ''/'')))) EndText)"

lemma idTail_no_digit: "s = [] \<or> \<not> is_digit (hd s) \<Longrightarrow> re_match idTail (pre, s, caps) = []"
  by (cases s) (auto simp: idTail_def Plus_def)

lemma idTail_slash:
  assumes "CHR ''/'' \<in> set s"
  shows "re_match idTail (pre, s, caps) = []"
proof (rule ccontr)
  assume "re_match idTail (pre, s, caps) \<noteq> []"
  then have "hd (re_match idTail (pre, s, caps)) \<in> set (re_match idTail (pre, s, caps))" by (rule hd_in_set)
  then obtain st1 st2 st where 1: "st1 \<in> set (re_match (Group 2 (Plus (Cls is_digit))) (pre, s, caps))"
    and 2: "st2 \<in> set (re_match (Group 3 (Star True (Cls (\<lambda>c. c \<noteq> CHR ''/'')))) st1)"
    and 3: "st \<in> set (re_match EndText st2)"
    unfolding idTail_def by (blast dest: cat_step)
  from 3 have r2: "rest_of st2 = []" by (auto simp: rest_of_def split: prod.splits if_splits)
  obtain st2' where st2': "st2' \<in> set (re_match (Star True (Cls (\<lambda>c. c \<noteq> CHR ''/''))) st1)" "rest_of st2 = rest_of st2'"
    using group_step[OF 2] by blast
  then have r1: "CHR ''/'' \<notin> set (rest_of st1)"
    using star_class_split[OF st2'(1)] r2 by (auto simp: list_all_iff)
  obtain st1' where st1': "st1' \<in> set (re_match (Plus (Cls is_digit)) (pre, s, caps))"
    "rest_of st1 = rest_of st1'" using group_step[OF 1] by blast
  then obtain st0 where st0: "st0 \<in> set (re_match (Cls is_digit) (pre, s, caps))"
    "st1' \<in> set (re_match (Star True (Cls is_digit)) st0)"
    unfolding Plus_def by (blast dest: cat_step)
  obtain u where u: "rest_of st0 = u @ rest_of st1'" "list_all is_digit u"
    using star_class_split[OF st0(2)] by blast
  obtain c where "s = c # rest_of st0" "is_digit c"
    using st0(1) by (cases s) (auto simp: rest_of_def split: if_splits)
  with u st1'(2) have "s = (c # u) @ rest_of st1 \<and> list_all is_digit (c # u)" by simp
  moreover have "\<not> is_digit (CHR ''/'')" by (simp add: is_digit_def)
  ultimately show False using assms r1 by (auto simp: list_all_iff)
qed

lemma idTail_match:
  assumes "ds \<noteq> []" and "list_all is_digit ds" and "CHR ''/'' \<notin> set suf" and "suf = [] \<or> \<not> is_digit (hd suf)"
  shows "\<exists>p q xs. re_match idTail (pre, ds @ suf, caps) = (p, q, (3, suf) # (2, ds) # caps) # xs"
proof -
  obtain d ds' where ds: "ds = d # ds'" using assms(1) by (cases ds) auto
  obtain ys where ys: "rev (star_positions is_digit caps (ds' @ suf) (d # pre)) = (rev ds' @ d # pre, suf, caps) # ys"
    using rev_star_positions_full[of is_digit ds' suf caps "d # pre"] assms(2,4) ds by auto
  have plus: "re_match (Plus (Cls is_digit)) (pre, ds @ suf, caps) = (rev ds' @ d # pre, suf, caps) # ys"
    using assms(2) ys by (simp add: Plus_def ds rest_of_triple star_star_positions)
  let ?pre = "rev ds' @ d # pre" and ?caps = "(2, ds) # caps"
  obtain zs where "rev (star_positions (\<lambda>c. c \<noteq> CHR ''/'') ?caps (suf @ []) ?pre) = (rev suf @ ?pre, [], ?caps) # zs"
    using rev_star_positions_full[of "\<lambda>c. c \<noteq> CHR ''/''" suf "[]" ?caps ?pre] assms(3) by (auto simp: list_all_iff)
  then have "re_match (Star True (Cls (\<lambda>c. c \<noteq> CHR ''/''))) (?pre, suf, ?caps) = (rev suf @ ?pre, [], ?caps) # zs"
    by (simp add: rest_of_triple star_star_positions)
  then show ?thesis
    unfolding idTail_def
    by (simp add: plus rest_of_triple del: re_match.simps(5))
qed

text \<open>
  What the pattern means: the number is the first run of digits in the last element of the
  path, the base is everything before it.
\<close>

lemma idPattern_matches:
  assumes path: "path = dir @ w @ ds @ suf"
    and dir: "dir = [] \<or> last dir = CHR ''/''"
    and nl: "CHR 0x0A \<notin> set (dir @ w)"
    and w: "list_all (\<lambda>c. c \<noteq> CHR ''/'' \<and> \<not> is_digit c) w"
    and ds: "ds \<noteq> []" "list_all is_digit ds"
    and suf: "CHR ''/'' \<notin> set suf" "suf = [] \<or> \<not> is_digit (hd suf)"
  shows "FindStringSubmatch idPattern path = Some [1 \<mapsto> dir @ w, 2 \<mapsto> ds, 3 \<mapsto> suf]"
proof -
  let ?P = "\<lambda>c. c \<noteq> CHR 0x0A"
  let ?k = "\<lambda>st. re_match idTail (fst st, rest_of st,
              (1, take (length path - length (rest_of st)) path) # snd (snd st))"
  have body: "re_match idPattern ([], path, []) = concat (map ?k (star_positions ?P [] path []))"
    by (simp add: idPattern_def idTail_def[symmetric] rest_of_triple star_star_positions case_prod_unfold
        rest_of_def comp_def)
  have skip: "re_match idTail (rev u @ [], v @ ds @ suf, cs) = []"
    if uv: "dir @ w = u @ v" "v \<noteq> []" for u v cs
  proof (cases "CHR ''/'' \<in> set v")
    case True
    then show ?thesis by (intro idTail_slash) simp
  next
    case False
    obtain us where "dir = u @ us \<and> us @ w = v \<or> dir @ us = u \<and> w = us @ v"
      using uv(1) by (auto simp: append_eq_append_conv2)
    moreover have "us = []" if "dir = u @ us" "us @ w = v"
      using that dir False by (cases us rule: rev_cases) auto
    ultimately obtain u' where "w = u' @ v" by auto
    then have "\<not> is_digit (hd v)" using w uv(2) by (cases v) (auto simp: list_all_iff)
    then show ?thesis using uv(2) by (intro idTail_no_digit) (cases v; simp)
  qed
  obtain p q xs where hit: "re_match idTail (rev (dir @ w) @ [], ds @ suf, [(1, dir @ w)]) =
      (p, q, [(3, suf), (2, ds), (1, dir @ w)]) # xs"
    using idTail_match[OF ds suf] by blast
  have "\<exists>ys. concat (map ?k (star_positions ?P [] ((dir @ w) @ (ds @ suf)) [])) = (p, q, [(3, suf), (2, ds), (1, dir @ w)]) # ys"
  proof (rule star_positions_skip)
    show "list_all ?P (dir @ w)" using nl by (auto simp: list_all_iff)
    show "?k (rev u @ [], v @ ds @ suf, []) = []" if "dir @ w = u @ v" "v \<noteq> []" for u v
      using skip[OF that] by (simp add: rest_of_triple)
    show "?k (rev (dir @ w) @ [], ds @ suf, []) = (p, q, [(3, suf), (2, ds), (1, dir @ w)]) # xs"
      using hit by (simp add: rest_of_triple path)
  qed
  then have "\<exists>ys. re_match idPattern ([], path, []) = (p, q, [(3, suf), (2, ds), (1, dir @ w)]) # ys"
    unfolding body by (simp add: path)
  then have "re_search idPattern [] path = Some [(3, suf), (2, ds), (1, dir @ w)]"
    using re_search_first by blast
  then show ?thesis by (simp add: FindStringSubmatch_def fun_upd_twist)
qed

lemma idPattern_no_number:
  assumes "path = dir @ w" and "dir = [] \<or> last dir = CHR ''/''"
    and "list_all (\<lambda>c. \<not> is_digit c) w"
  shows "FindStringSubmatch idPattern path = None"
proof -
  let ?P = "\<lambda>c. c \<noteq> CHR 0x0A"
  let ?k = "\<lambda>st. re_match idTail (fst st, rest_of st,
              (1, take (length path - length (rest_of st)) path) # snd (snd st))"
  have "re_match idTail (rev u @ [], v, cs) = []" if uv: "path = u @ v" for u v cs
  proof (cases "CHR ''/'' \<in> set v")
    case False
    obtain us where "dir = u @ us \<and> us @ w = v \<or> dir @ us = u \<and> w = us @ v"
      using uv assms(1) by (auto simp: append_eq_append_conv2)
    moreover have "us = []" if "dir = u @ us" "us @ w = v"
      using that assms(2) False by (cases us rule: rev_cases) auto
    ultimately obtain u' where "w = u' @ v" by auto
    then have "v = [] \<or> \<not> is_digit (hd v)" using assms(3) by (cases v) (auto simp: list_all_iff)
    then show ?thesis by (rule idTail_no_digit)
  qed (rule idTail_slash)
  then have "concat (map ?k (star_positions ?P [] path [])) = []"
    by (intro star_positions_none) (simp add: rest_of_triple)
  then have none: "re_match idPattern ([], path, []) = []"
    by (simp add: idPattern_def idTail_def[symmetric] rest_of_triple star_star_positions case_prod_unfold
        rest_of_def comp_def)
  then have "re_search idPattern [] path = None"
    unfolding idPattern_def by (rule anchored_search_none)
  then show ?thesis by (simp add: FindStringSubmatch_def)
qed

text \<open>What the enumeration detector takes for an identifier: the first run of digits of the last
  path element, with everything before it as the base; nothing if that element has no digit or
  the number does not fit 64 bits.\<close>

theorem detected_identifier:
  assumes "dir = [] \<or> last dir = CHR ''/''" and "CHR 0x0A \<notin> set (dir @ w)"
    and "list_all (\<lambda>c. c \<noteq> CHR ''/'' \<and> \<not> is_digit c) w" and "list_all is_digit ds"
    and "CHR ''/'' \<notin> set suf" and "suf = [] \<or> \<not> is_digit (hd suf)" and "ds = [] \<longrightarrow> suf = []"
  shows "snd (detectIDSequence p (dir @ w @ ds @ suf)) =
     (if ds \<noteq> [] \<and> digits_val ds < 2 ^ 63 then (digits_val ds, dir @ w) else (0, []))"
proof (cases "ds = []")
  case True
  have "FindStringSubmatch idPattern (dir @ w) = None"
    using assms(1,3) by (intro idPattern_no_number[of _ dir w]) (auto simp: list_all_iff)
  then show ?thesis using True assms(7) by (simp add: detectIDSequence_def)
next
  case False
  note m = idPattern_matches[OF refl assms(1-3) False assms(4-6)]
  show ?thesis
    using False assms(4) by (simp add: detectIDSequence_def m atoi_digits Let_def)
qed

lemma detected_identifier_witness:
  "snd (detectIDSequence (NewIPProfile ''10.0.0.1'') (''/api/users/'' @ ''u'' @ ''42'' @ ''.json'')) = (42, ''/api/users/u'')"
  by (subst detected_identifier) (simp_all add: is_digit_def digits_val_def digit_val_def)

section \<open>The run of identifiers\<close>

lemma consecutiveRun_shift: "consecutiveRun s i c = c + consecutiveRun s i 0"
proof (induction i arbitrary: c)
  case (Suc i)
  show ?case using Suc[of "c + 1"] Suc[of 1] by simp
qed simp

lemma consecutiveRun_nonneg: "0 \<le> consecutiveRun s i 0"
  using consecutiveRun_ge[of 0 s i] .

lemma strict_sorted_gap:
  fixes s :: "int list"
  assumes "sorted_wrt (<) s" and "Suc i < length s" and "x \<in> set s" and "x < s ! Suc i"
  shows "x \<le> s ! i"
proof -
  obtain k where k: "k < length s" "x = s ! k" using assms(3) by (metis in_set_conv_nth)
  have "k \<le> i"
  proof (rule ccontr)
    assume "\<not> k \<le> i"
    then have "Suc i = k \<or> Suc i < k" by linarith
    then have "s ! Suc i \<le> s ! k" using assms(1) k(1) by (auto simp: sorted_wrt_iff_nth_less intro: less_imp_le)
    with assms(4) k(2) show False by simp
  qed
  then show ?thesis using assms(1,2) k by (cases "k = i") (auto simp: sorted_wrt_iff_nth_less intro: less_imp_le)
qed

lemma consecutiveRun_run:
  assumes "sorted_wrt (<) s" and "i < length s"
  shows "(\<forall>j. 0 \<le> j \<and> j \<le> consecutiveRun s i 0 \<longrightarrow> s ! i - j \<in> set s)
         \<and> s ! i - (consecutiveRun s i 0 + 1) \<notin> set s"
  using assms(2)
proof (induction i)
  case 0
  have "s ! 0 \<le> x" if x: "x \<in> set s" for x
  proof -
    obtain k where "k < length s" "x = s ! k" using x by (metis in_set_conv_nth)
    then show ?thesis using assms(1) by (cases k) (auto simp: sorted_wrt_iff_nth_less intro: less_imp_le)
  qed
  then have "s ! 0 - 1 \<notin> set s" by force
  moreover have "s ! 0 \<in> set s" using 0 by simp
  ultimately show ?case by (simp add: eq_iff[symmetric] conj_commute) 
next
  case (Suc i)
  note gap = strict_sorted_gap[OF assms(1) Suc.prems]
  show ?case
  proof (cases "s ! Suc i - s ! i = 1")
    case True
    let ?r = "consecutiveRun s i 0"
    have r: "consecutiveRun s (Suc i) 0 = ?r + 1" using True consecutiveRun_shift[of s i 1] by simp
    have ih: "\<forall>j. 0 \<le> j \<and> j \<le> ?r \<longrightarrow> s ! i - j \<in> set s" "s ! i - (?r + 1) \<notin> set s"
      using Suc by simp_all
    have "s ! Suc i - j \<in> set s" if j: "0 \<le> j" "j \<le> ?r + 1" for j
    proof (cases "j = 0")
      case False
      then have "s ! i - (j - 1) \<in> set s" using ih(1) j by auto
      moreover have "s ! i - (j - 1) = s ! Suc i - j" using True by simp
      ultimately show ?thesis by simp
    qed (use Suc.prems in simp)
    moreover have "s ! Suc i - (?r + 1 + 1) \<notin> set s"
    proof -
      have "s ! Suc i - (?r + 1 + 1) = s ! i - (?r + 1)" using True by simp
      then show ?thesis using ih(2) by (simp only: not_False_eq_True)
    qed
    ultimately show ?thesis unfolding r by blast
  next
    case False
    have "s ! i < s ! Suc i" using assms(1) Suc.prems by (simp add: sorted_wrt_iff_nth_less)
    then have "s ! Suc i - 1 \<notin> set s" using gap[of "s ! Suc i - 1"] False by auto
    moreover have "s ! Suc i \<in> set s" using Suc.prems by simp
    moreover have "consecutiveRun s (Suc i) 0 = 0" using False by simp
    ultimately show ?thesis by (simp add: eq_iff[symmetric] conj_commute del: consecutiveRun.simps)
  qed
qed

text \<open>
  The longest run of consecutive numbers of a finite set that ends at its largest member.
\<close>

definition is_top_run :: "int set \<Rightarrow> int \<Rightarrow> bool" where
  "is_top_run S n \<longleftrightarrow> (\<forall>j. 0 \<le> j \<and> j < n \<longrightarrow> Max S - j \<in> S) \<and> Max S - n \<notin> S"

lemma top_run:
  assumes "S = set s" and "sorted_wrt (<) s" and "s \<noteq> []"
  shows "is_top_run S (consecutiveRun s (length s - 1) 1)"
proof -
  let ?i = "length s - 1"
  have "s ! ?i = Max S"
  proof (rule Max_eqI[symmetric])
    show "x \<le> s ! ?i" if "x \<in> S" for x
    proof -
      have "x \<in> set s" using that by (simp add: assms(1))
      then obtain k where "k < length s" "x = s ! k" by (auto simp: in_set_conv_nth)
      then have "k < ?i \<or> k = ?i" by linarith
      then show ?thesis
        using \<open>x = s ! k\<close> sorted_wrt_nth_less[OF assms(2), of k ?i] assms(3) by auto
    qed
    show "finite S" "s ! ?i \<in> S" using assms by simp_all
  qed
  moreover have "consecutiveRun s ?i 1 = consecutiveRun s ?i 0 + 1"
    using consecutiveRun_shift[of s ?i 1] by simp
  moreover have "(\<forall>j. 0 \<le> j \<and> j \<le> consecutiveRun s ?i 0 \<longrightarrow> s ! ?i - j \<in> set s)
         \<and> s ! ?i - (consecutiveRun s ?i 0 + 1) \<notin> set s"
    using consecutiveRun_run[OF assms(2), of ?i] assms(3) by simp
  ultimately show ?thesis by (simp only: is_top_run_def assms(1) zle_add1_eq_le[symmetric]) blast
qed

text \<open>The probe that the enumeration detector reports is the true one: for a path whose last
  number extends the numbers seen at its base, a probe is reported exactly when at least three
  distinct numbers are known and the run of consecutive numbers ending at the largest has at
  least three members, and the length reported is the length of that run.\<close>

theorem id_probe_is_top_run:
  assumes "FindStringSubmatch idPattern path = Some caps" and "atoi (the (caps 2)) = Some number"
  shows "let S = insert number (set (mget (p_NumericIDSequences p) (the (caps 1)))) in \<exists>n. is_top_run S n \<and>
    detectIDSequence p path =
      (if 3 \<le> card S \<and> 3 \<le> n then Some \<lparr>ip_Base = the (caps 1), ip_SequenceLength = n\<rparr> else None,
       number, the (caps 1))"
proof -
  define S where "S = insert number (set (mget (p_NumericIDSequences p) (the (caps 1))))"
  let ?seq = "removeDuplicatesAndSort (mget (p_NumericIDSequences p) (the (caps 1)) @ [number])"
  have seq: "?seq = sorted_list_of_set S"
    by (simp add: removeDuplicatesAndSort_spec S_def)
  have S: "finite S" "S = set ?seq" "length ?seq = card S" "sorted_wrt (<) ?seq" "?seq \<noteq> []"
  proof -
    show fin: "finite S" by (simp add: S_def)
    show "S = set ?seq" "length ?seq = card S" "sorted_wrt (<) ?seq"
      unfolding seq using fin by (simp_all del: sorted_list_of_set_insert_remove)
    show "?seq \<noteq> []" unfolding seq using fin by (simp add: S_def del: sorted_list_of_set_insert_remove)
  qed
  show ?thesis
    using top_run[OF S(2,4,5)] S(3) unfolding S_def[symmetric] Let_def
    by (intro exI[of _ "consecutiveRun ?seq (length ?seq - 1) 1"])
      (simp add: detectIDSequence_def assms(1,2) Let_def)
qed

lemma id_probe_is_top_run_witness:
  "\<exists>n. is_top_run {5, 6, 7} n \<and>
    detectIDSequence ((NewIPProfile ''10.0.0.1'')\<lparr>p_NumericIDSequences := [''/u'' \<mapsto> [5, 6]]\<rparr>) ''/u7'' =
      (if 3 \<le> n then Some \<lparr>ip_Base = ''/u'', ip_SequenceLength = n\<rparr> else None, 7, ''/u'')"
proof -
  have m: "FindStringSubmatch idPattern ''/u7'' = Some [1 \<mapsto> ''/u'', 2 \<mapsto> ''7'', 3 \<mapsto> []]"
    using idPattern_matches[of "''/u7''" "''/''" "''u''" "''7''" "[]"] by (simp add: is_digit_def)
  have a: "atoi (the ([1 \<mapsto> ''/u'', (2 :: nat) \<mapsto> ''7'', 3 \<mapsto> []] 2)) = Some 7"
    by (simp add: atoi_def digits_val_def digit_val_def in_int64_def is_digit_def)
  let ?p = "(NewIPProfile ''10.0.0.1'')\<lparr>p_NumericIDSequences := [''/u'' \<mapsto> [5, 6]]\<rparr>"
  have b: "the ([1 \<mapsto> ''/u'', (2 :: nat) \<mapsto> ''7'', 3 \<mapsto> []] 1) = ''/u''" by simp
  have "insert 7 (set (mget (p_NumericIDSequences ?p) ''/u'')) = {5, 6, 7}" "card {5, 6, 7 :: int} = 3"
    by (auto simp: mget_def)
  then show ?thesis
    using id_probe_is_top_run[OF m a, of ?p] unfolding b Let_def by (simp only: order_refl simp_thms)
qed

end
