(* ===== verification/Time_Window.thy ===== *)
theory Time_Window
  imports Prelude "HOL-Library.Multiset"
begin

text \<open>
  Sliding windows and inter-arrival statistics (\<open>trustscore/time_window.go\<close>). The sort is the
  code's own in-place Lomuto quicksort on an array of floats, kept as array swaps; it is proved
  to sort and to permute. On top of it: intervals, mean, deviation and coefficient of variation
  are never negative, and a client that is exactly periodic has coefficient 0.
\<close>

section \<open>Windows\<close>

definition slidingWindowCount :: "real list \<Rightarrow> real \<Rightarrow> real \<Rightarrow> int" where
  "slidingWindowCount timestamps windowSeconds now =
     foldl (\<lambda>count t. if fsub now t \<le> windowSeconds then count + 1 else count) 0 timestamps"

definition slidingWindowRate :: "real list \<Rightarrow> real \<Rightarrow> real \<Rightarrow> real" where
  "slidingWindowRate timestamps windowSeconds now =
     (let count = slidingWindowCount timestamps windowSeconds now
      in if windowSeconds = 0 then 0 else fdiv (fint count) windowSeconds)"

lemma slidingWindowCount_filter:
  "slidingWindowCount ts w now = int (length (filter (\<lambda>t. fsub now t \<le> w) ts))"
proof -
  have "foldl (\<lambda>count t. if fsub now t \<le> w then count + 1 else count) c ts =
        c + int (length (filter (\<lambda>t. fsub now t \<le> w) ts))" for c
    by (induction ts arbitrary: c) auto
  then show ?thesis by (simp add: slidingWindowCount_def)
qed

section \<open>Quicksort\<close>

definition swap :: "real list \<Rightarrow> nat \<Rightarrow> nat \<Rightarrow> real list" where
  "swap arr i j = arr[i := arr ! j, j := arr ! i]"

text \<open>
  The loop of \<open>partition\<close>. The code's \<open>i\<close> starts at \<open>low - 1\<close> and is incremented before each
  swap; \<open>k\<close> is \<open>i + 1\<close>, so it never leaves the array.
\<close>

function partitionLoop :: "real list \<Rightarrow> real \<Rightarrow> nat \<Rightarrow> nat \<Rightarrow> nat \<Rightarrow> real list \<times> nat" where
  "partitionLoop arr pivot k j high =
     (if j < high
      then if arr ! j < pivot
           then partitionLoop (swap arr k j) pivot (Suc k) (Suc j) high
           else partitionLoop arr pivot k (Suc j) high
      else (arr, k))"
  by pat_completeness auto
termination
  by (relation "measure (\<lambda>(arr, pivot, k, j, high). high - j)") auto

declare partitionLoop.simps [simp del]

definition partition_at :: "real list \<Rightarrow> nat \<Rightarrow> nat \<Rightarrow> real list \<times> nat" where
  "partition_at arr low high =
     (let pivot = arr ! high;
          (arr, k) = partitionLoop arr pivot low low high
      in (swap arr k high, k))"

lemma length_swap [simp]: "length (swap arr i j) = length arr"
  by (simp add: swap_def)

lemma mset_swap_at: "i < length arr \<Longrightarrow> j < length arr \<Longrightarrow> mset (swap arr i j) = mset arr"
  by (simp add: swap_def mset_swap)

lemma nth_swap:
  "i < length arr \<Longrightarrow> j < length arr \<Longrightarrow>
   swap arr i j ! n = (if n = j then arr ! i else if n = i then arr ! j else arr ! n)"
  by (auto simp: swap_def nth_list_update)

text \<open>What the loop keeps: it only touches \<open>low .. high - 1\<close>, below \<open>k\<close> is less than the pivot.\<close>

lemma partitionLoop_inv:
  assumes "partitionLoop arr pivot k j high = (arr', k')"
    and "low \<le> k" "k \<le> j" "j \<le> high" "high < length arr"
    and "\<forall>n. low \<le> n \<and> n < k \<longrightarrow> arr ! n < pivot"
    and "\<forall>n. k \<le> n \<and> n < j \<longrightarrow> pivot \<le> arr ! n"
  shows "mset arr' = mset arr \<and> length arr' = length arr \<and> k \<le> k' \<and> k' \<le> high
    \<and> (\<forall>n. n < low \<or> high \<le> n \<longrightarrow> arr' ! n = arr ! n)
    \<and> (\<forall>n. low \<le> n \<and> n < k' \<longrightarrow> arr' ! n < pivot)
    \<and> (\<forall>n. k' \<le> n \<and> n < high \<longrightarrow> pivot \<le> arr' ! n)"
  using assms
proof (induction arr pivot k j high rule: partitionLoop.induct)
  case (1 arr pivot k j high)
  show ?case
  proof (cases "j < high")
    case False
    with "1.prems" show ?thesis by (auto simp: partitionLoop.simps[of arr])
  next
    case True
    show ?thesis
    proof (cases "arr ! j < pivot")
      case less: True
      have run: "partitionLoop (swap arr k j) pivot (Suc k) (Suc j) high = (arr', k')"
        using "1.prems"(1) True less by (simp add: partitionLoop.simps[of arr])
      have kj: "k < length arr" "j < length arr" using "1.prems" True by auto
      have below: "\<forall>n. low \<le> n \<and> n < Suc k \<longrightarrow> swap arr k j ! n < pivot"
        using "1.prems" less kj by (auto simp: nth_swap less_Suc_eq)
      have above: "\<forall>n. Suc k \<le> n \<and> n < Suc j \<longrightarrow> pivot \<le> swap arr k j ! n"
        using "1.prems" kj by (auto simp: nth_swap less_Suc_eq)
      have "\<forall>n. n < low \<or> high \<le> n \<longrightarrow> swap arr k j ! n = arr ! n"
        using "1.prems" True kj by (auto simp: nth_swap)
      with "1.IH"(1)[OF True less run] below above "1.prems" True kj show ?thesis
        by (auto simp: mset_swap_at)
    next
      case ge: False
      have run: "partitionLoop arr pivot k (Suc j) high = (arr', k')"
        using "1.prems"(1) True ge by (simp add: partitionLoop.simps[of arr])
      have above: "\<forall>n. k \<le> n \<and> n < Suc j \<longrightarrow> pivot \<le> arr ! n"
        using "1.prems" ge by (auto simp: less_Suc_eq)
      show ?thesis
        using "1.IH"(2)[OF True ge run] above "1.prems" True by simp
    qed
  qed
qed

lemma partition_at_spec:
  assumes "partition_at arr low high = (arr', p)" and "low \<le> high" "high < length arr"
  shows "mset arr' = mset arr" and "length arr' = length arr" and "low \<le> p" and "p \<le> high"
    and "\<And>n. n < low \<or> high < n \<Longrightarrow> arr' ! n = arr ! n"
    and "\<And>n. low \<le> n \<Longrightarrow> n < p \<Longrightarrow> arr' ! n < arr' ! p"
    and "\<And>n. p \<le> n \<Longrightarrow> n \<le> high \<Longrightarrow> arr' ! p \<le> arr' ! n"
proof -
  obtain arr1 where run: "partitionLoop arr (arr ! high) low low high = (arr1, p)"
    and arr': "arr' = swap arr1 p high"
    using assms(1) by (auto simp: partition_at_def Let_def split: prod.splits)
  from partitionLoop_inv[OF run, of low] assms(2,3)
  have inv: "mset arr1 = mset arr" "length arr1 = length arr" "low \<le> p" "p \<le> high"
    "\<forall>n. n < low \<or> high \<le> n \<longrightarrow> arr1 ! n = arr ! n"
    "\<forall>n. low \<le> n \<and> n < p \<longrightarrow> arr1 ! n < arr ! high"
    "\<forall>n. p \<le> n \<and> n < high \<longrightarrow> arr ! high \<le> arr1 ! n"
    by auto
  have lt: "p < length arr1" "high < length arr1" using inv assms by auto
  show "mset arr' = mset arr" and "length arr' = length arr" and "low \<le> p" and "p \<le> high"
    using inv lt by (auto simp: arr' mset_swap_at)
  show "arr' ! n = arr ! n" if "n < low \<or> high < n" for n
    using that inv lt by (auto simp: arr' nth_swap)
  show "arr' ! n < arr' ! p" if "low \<le> n" "n < p" for n
    using that inv lt by (auto simp: arr' nth_swap)
  show "arr' ! p \<le> arr' ! n" if "p \<le> n" "n \<le> high" for n
    using that inv lt by (auto simp: arr' nth_swap)
qed

text \<open>
  \<open>quickSortHelper(arr, low, pi-1)\<close> with \<open>pi = 0\<close> has \<open>high = -1\<close> in the code and \<open>0\<close> here; both
  calls return at once. The test that \<open>high\<close> is an index is the program's bounds check: the code
  is only ever called with one.
\<close>

function quickSortHelper :: "real list \<Rightarrow> nat \<Rightarrow> nat \<Rightarrow> real list" where
  "quickSortHelper arr low high =
     (if low < high \<and> high < length arr
      then (let (arr, p) = partition_at arr low high;
                arr = quickSortHelper arr low (p - 1)
            in quickSortHelper arr (p + 1) high)
      else arr)"
  by pat_completeness auto
termination
proof (relation "measure (\<lambda>(arr, low, high). high - low)", goal_cases)
  case 1
  show ?case by simp
next
  case (2 arr low high x arr1 p)
  from partition_at_spec(3,4)[of arr low high arr1 p] 2 show ?case by auto
next
  case (3 arr low high x arr1 p)
  from partition_at_spec(3,4)[of arr low high arr1 p] 3 show ?case by auto
qed

declare quickSortHelper.simps [simp del]

definition quickSort :: "real list \<Rightarrow> real list" where
  "quickSort arr = (if length arr \<le> 1 then arr else quickSortHelper arr 0 (length arr - 1))"

text \<open>Rearranging a range keeps the values that occur in it.\<close>

lemma range_values:
  fixes r a :: "real list"
  assumes m: "mset r = mset a"
    and out: "\<And>n. n < l \<or> h < n \<Longrightarrow> r ! n = a ! n"
    and h: "h < length a" and l: "l \<le> h"
  shows "(\<lambda>n. r ! n) ` {l..h} = (\<lambda>n. a ! n) ` {l..h}"
proof -
  let ?sl = "\<lambda>xs. take (Suc h - l) (drop l xs)"
  have len: "length r = length a" using m by (rule mset_eq_length)
  have split: "xs = take l xs @ ?sl xs @ drop (Suc h) xs" if "length xs = length a" for xs :: "real list"
    using that h l by (simp add: append_assoc[symmetric] take_add[symmetric] del: append_assoc)
  have "take l r = take l a" by (rule nth_equalityI) (use len out in auto)
  moreover have "drop (Suc h) r = drop (Suc h) a" by (rule nth_equalityI) (use len out in auto)
  ultimately have "mset (?sl r) = mset (?sl a)"
    using m split[of r, OF len] split[of a, OF refl] by (metis add_left_cancel add_right_cancel mset_append)
  then have "set (?sl r) = set (?sl a)" by (rule mset_eq_setD)
  moreover have "set (?sl xs) = (\<lambda>n. xs ! n) ` {l..h}" if "length xs = length a" for xs :: "real list"
  proof -
    have "?sl xs = map (\<lambda>n. xs ! n) [l..<Suc h]"
      by (rule nth_equalityI) (use that h l in \<open>auto simp del: upt_Suc\<close>)
    then show ?thesis by (simp add: atLeastLessThanSuc_atLeastAtMost del: upt_Suc)
  qed
  ultimately show ?thesis using len by simp
qed

lemma quickSortHelper_spec:
  assumes "high < length arr"
  shows "mset (quickSortHelper arr low high) = mset arr
    \<and> (\<forall>n. n < low \<or> high < n \<longrightarrow> quickSortHelper arr low high ! n = arr ! n)
    \<and> (\<forall>i j. low \<le> i \<and> i \<le> j \<and> j \<le> high \<longrightarrow>
         quickSortHelper arr low high ! i \<le> quickSortHelper arr low high ! j)"
  using assms
proof (induction arr low high rule: quickSortHelper.induct)
  case (1 arr low high)
  show ?case
  proof (cases "low < high")
    case False
    then show ?thesis by (auto simp: quickSortHelper.simps[of arr] dest: le_antisym)
  next
    case True
    obtain a1 p where part: "partition_at arr low high = (a1, p)" by force
    note P = partition_at_spec[OF part order.strict_implies_order[OF True] "1.prems"]
    define a2 where "a2 = quickSortHelper a1 low (p - 1)"
    define a3 where "a3 = quickSortHelper a2 (p + 1) high"
    have res: "quickSortHelper arr low high = a3"
      using True "1.prems" part by (simp add: quickSortHelper.simps[of arr] a2_def a3_def)
    have p: "p < length a1" "p - 1 < length a1" "high < length a1" using P "1.prems" by auto
    have L: "mset a2 = mset a1" "\<And>n. n < low \<or> p - 1 < n \<Longrightarrow> a2 ! n = a1 ! n"
      "\<And>i j. low \<le> i \<Longrightarrow> i \<le> j \<Longrightarrow> j \<le> p - 1 \<Longrightarrow> a2 ! i \<le> a2 ! j"
      using "1.IH"(1)[OF conjI[OF True "1.prems"] part[symmetric] refl p(2)] by (auto simp: a2_def)
    have len2: "high < length a2" using p(3) mset_eq_length[OF L(1)] by simp
    have R: "mset a3 = mset a2" "\<And>n. n < p + 1 \<or> high < n \<Longrightarrow> a3 ! n = a2 ! n"
      "\<And>i j. p + 1 \<le> i \<Longrightarrow> i \<le> j \<Longrightarrow> j \<le> high \<Longrightarrow> a3 ! i \<le> a3 ! j"
      using "1.IH"(2)[OF conjI[OF True "1.prems"] part[symmetric] refl a2_def len2]
      by (auto simp: a3_def)
    have mid: "a3 ! p = a1 ! p"
    proof (cases "p = 0 \<or> p = low")
      case True
      then show ?thesis using R(2)[of p] L(2)[of p] P(3)
        quickSortHelper.simps[of a1 low "p - 1"] by (auto simp: a2_def)
    next
      case False
      then show ?thesis using R(2)[of p] L(2)[of p] by simp
    qed
    have left: "a3 ! n \<le> a1 ! p" if "low \<le> n" "n < p" for n
    proof -
      have "a2 ! n \<in> (\<lambda>n. a2 ! n) ` {low..p - 1}" using that by auto
      also have "\<dots> = (\<lambda>n. a1 ! n) ` {low..p - 1}"
        by (rule range_values) (use L p that in auto)
      finally obtain n' where "n' \<in> {low..p - 1}" "a2 ! n = a1 ! n'" by blast
      moreover from this that have "a1 ! n' < a1 ! p" by (intro P(6)) auto
      ultimately show ?thesis using that R(2)[of n] by simp
    qed
    have right: "a1 ! p \<le> a3 ! n" if "p < n" "n \<le> high" for n
    proof -
      have "a3 ! n \<in> (\<lambda>n. a3 ! n) ` {p + 1..high}" using that by auto
      also have "\<dots> = (\<lambda>n. a2 ! n) ` {p + 1..high}"
        by (rule range_values) (use R len2 that in auto)
      finally obtain n' where "n' \<in> {p + 1..high}" "a3 ! n = a2 ! n'" by blast
      moreover from this that have "a1 ! p \<le> a1 ! n'" by (intro P(7)) auto
      moreover from \<open>n' \<in> {p + 1..high}\<close> have "a2 ! n' = a1 ! n'" by (intro L(2)) auto
      ultimately show ?thesis by simp
    qed
    have "a3 ! i \<le> a3 ! j" if "low \<le> i" "i \<le> j" "j \<le> high" for i j
    proof (cases i p rule: linorder_cases)
      case less
      show ?thesis
      proof (cases j p rule: linorder_cases)
        case less
        with that L(3)[of i j] R(2)[of i] R(2)[of j] show ?thesis by simp
      qed (use less that left[of i] right[of j] mid in auto)
    next
      case equal
      with that right[of j] mid show ?thesis by (cases "j = p") auto
    next
      case greater
      with that R(3)[of i j] show ?thesis by simp
    qed
    moreover have "a3 ! n = arr ! n" if "n < low \<or> high < n" for n
      using that P(3,4) P(5)[of n] L(2)[of n] R(2)[of n] by auto
    ultimately show ?thesis
      using res L(1) R(1) P(1) by auto
  qed
qed

lemma quickSort_sort: "quickSort arr = sort arr"
proof (cases "length arr \<le> 1")
  case True
  then have "sorted arr" by (rule sorted01)
  with True show ?thesis by (simp add: quickSort_def sort_key_id_if_sorted sorted_sort_id)
next
  case False
  then have "length arr - 1 < length arr" by simp
  note spec = quickSortHelper_spec[OF this, of 0]
  have len: "length (quickSort arr) = length arr"
    using spec False by (auto simp: quickSort_def dest: mset_eq_length)
  have "sorted (quickSort arr)"
    using spec False len by (auto simp: quickSort_def sorted_iff_nth_mono)
  then show ?thesis
    using spec False by (intro properties_for_sort[symmetric]) (auto simp: quickSort_def)
qed

section \<open>Inter-arrival statistics\<close>

definition intervals_of :: "real list \<Rightarrow> real list" where
  "intervals_of srt = map (\<lambda>i. fsub (srt ! (i + 1)) (srt ! i)) [0..<length srt - 1]"

definition interArrivalStats :: "real list \<Rightarrow> real \<times> real" where
  "interArrivalStats timestamps =
     (if length timestamps < 3 then (0, 0)
      else let intervals = intervals_of (quickSort timestamps);
               n = fint (int (length intervals));
               mean = fdiv (foldl fadd 0 intervals) n;
               variance = fdiv (foldl (\<lambda>variance v.
                   fadd variance (fmul (fsub v mean) (fsub v mean))) 0 intervals) n
           in (mean, fsqrt variance))"

definition coefficientOfVariation :: "real list \<Rightarrow> real" where
  "coefficientOfVariation timestamps =
     (let (mean, stddev) = interArrivalStats timestamps
      in if mean = 0 then 0 else fdiv stddev mean)"

lemma foldl_fadd_nonneg:
  assumes "0 \<le> a" and "\<forall>v \<in> set vs. 0 \<le> f v"
  shows "0 \<le> foldl (\<lambda>acc v. fadd acc (f v)) a vs"
  using assms by (induction vs arbitrary: a) auto

lemma fmul_square_nonneg [simp]: "0 \<le> fmul x x"
  by (simp add: fmul_def)

lemma intervals_nonneg: "\<forall>v \<in> set (intervals_of (quickSort ts)). 0 \<le> v"
  by (auto simp: intervals_of_def quickSort_sort fsub_def sorted_iff_nth_mono
      intro!: fl_nonneg sorted_nth_mono[OF sorted_sort, simplified])

lemma mean_nonneg: "0 \<le> fst (interArrivalStats ts)"
  using foldl_fadd_nonneg[of 0 "intervals_of (quickSort ts)" "\<lambda>v. v"] intervals_nonneg[of ts]
  by (auto simp: interArrivalStats_def Let_def)

lemma stddev_nonneg: "0 \<le> snd (interArrivalStats ts)"
  by (auto simp: interArrivalStats_def Let_def intro!: fsqrt_nonneg fdiv_nonneg foldl_fadd_nonneg)

lemma coefficientOfVariation_nonneg: "0 \<le> coefficientOfVariation ts"
  using mean_nonneg[of ts] stddev_nonneg[of ts]
  by (cases "interArrivalStats ts") (simp add: coefficientOfVariation_def)

text \<open>
  Intervals that are all \<open>d\<close> whole seconds: the sum, the mean and the deviation are exact, so
  the coefficient is exactly 0.
\<close>

lemma foldl_fadd_const:
  assumes "(k + int (length vs)) * d \<le> 2 ^ 53" "0 \<le> k" "0 \<le> d"
    and "\<forall>v \<in> set vs. v = of_int d"
  shows "foldl fadd (of_int (k * d)) vs = of_int ((k + int (length vs)) * d)"
  using assms
proof (induction vs arbitrary: k)
  case (Cons v vs)
  have "(k + 1) * d \<le> (k + int (length (v # vs))) * d"
    using Cons.prems by (intro mult_right_mono) auto
  then have "\<bar>(k + 1) * d\<bar> \<le> 2 ^ 53" using Cons.prems by simp
  then have "repr (of_int ((k + 1) * d))" by (rule repr_of_int)
  then have "fadd (of_int (k * d)) v = of_int ((k + 1) * d)"
    using Cons.prems by (simp add: fadd_def algebra_simps)
  moreover have "foldl fadd (of_int ((k + 1) * d)) vs = of_int ((k + 1 + int (length vs)) * d)"
    using Cons.prems by (intro Cons.IH) (auto simp: algebra_simps)
  ultimately show ?case by (simp add: algebra_simps)
qed simp

lemma foldl_fadd_zeros: "\<forall>v \<in> set vs. f v = 0 \<Longrightarrow> foldl (\<lambda>acc v. fadd acc (f v)) 0 vs = 0"
  by (induction vs) auto

text \<open>A client that is exactly periodic is recognised whatever order its requests were recorded
  in: if the times are, in any order, t0, t0 + d, t0 + 2d, ... in whole seconds, the coefficient
  of variation that the bot detectors compare with their thresholds is exactly 0.\<close>

theorem periodic_cv_zero:
  assumes perm: "mset ts = mset (map (\<lambda>k. of_int (t0 + int k * d)) [0..<n])"
    and d: "0 \<le> d" and range: "\<bar>t0\<bar> \<le> 2 ^ 52" "int n * d \<le> 2 ^ 52"
  shows "coefficientOfVariation ts = 0"
proof (cases "length ts < 3")
  case True
  then show ?thesis by (simp add: coefficientOfVariation_def interArrivalStats_def)
next
  case False
  let ?ts = "map (\<lambda>k. of_int (t0 + int k * d)) [0..<n] :: real list"
  have n: "length ts = n" using perm mset_eq_length by fastforce
  have "sorted ?ts"
    using d by (auto simp: sorted_iff_nth_mono intro!: mult_right_mono)
  then have srt: "quickSort ts = ?ts"
    unfolding quickSort_sort using perm by (metis properties_for_sort)
  have "\<bar>d\<bar> \<le> 2 ^ 53"
  proof -
    have "1 * d \<le> int n * d" using False n d by (intro mult_right_mono) auto
    then show ?thesis using range d by simp
  qed
  then have "repr (of_int d)" by (rule repr_of_int)
  then have iv: "\<forall>v \<in> set (intervals_of ?ts). v = of_int d"
    by (auto simp: intervals_of_def fsub_def algebra_simps)
  have len: "length (intervals_of ?ts) = n - 1" by (simp add: intervals_of_def)
  have n1: "(0 + int (n - 1)) * d \<le> 2 ^ 53"
  proof -
    have "int (n - 1) * d \<le> int n * d" using d by (intro mult_right_mono) auto
    then show ?thesis using range by simp
  qed
  have sum: "foldl fadd 0 (intervals_of ?ts) = of_int (int (n - 1) * d)"
    using foldl_fadd_const[of 0 "intervals_of ?ts" d] n1 d iv len by simp
  show ?thesis
  proof (cases "d = 0")
    case True
    then show ?thesis using False n sum
      by (simp add: coefficientOfVariation_def interArrivalStats_def srt Let_def)
  next
    case d0: False
    have "int (n - 1) * 1 \<le> int (n - 1) * d" using d d0 by (intro mult_left_mono) auto
    then have cnt: "fint (int (n - 1)) = of_int (int (n - 1))"
      using n1 by (intro fint_exact) auto
    have mean: "fdiv (foldl fadd 0 (intervals_of ?ts)) (fint (int (length (intervals_of ?ts))))
                = of_int d"
      using sum cnt len False n \<open>repr (of_int d)\<close> by (simp add: fdiv_def)
    have "\<forall>v \<in> set (intervals_of ?ts). fmul (fsub v (of_int d)) (fsub v (of_int d)) = 0"
    proof
      fix v assume "v \<in> set (intervals_of ?ts)"
      with iv have "v = of_int d" by blast
      then show "fmul (fsub v (of_int d)) (fsub v (of_int d)) = 0" by simp
    qed
    then have "foldl (\<lambda>acc v. fadd acc (fmul (fsub v (of_int d)) (fsub v (of_int d)))) 0
                 (intervals_of ?ts) = 0"
      by (rule foldl_fadd_zeros)
    then have "interArrivalStats ts = (of_int d, 0)"
      using False mean by (simp only: interArrivalStats_def srt Let_def) (simp add: fsqrt_def)
    then show ?thesis by (simp add: coefficientOfVariation_def)
  qed
qed

lemma periodic_cv_zero_witness: "coefficientOfVariation [120, 100, 110, 130] = 0"
  by (rule periodic_cv_zero[of _ 100 10 4]) (simp_all add: upt_rec add_mset_commute)

text \<open>C36: The hand-written quicksort sorts: its result is ascending and holds the same times, each
  as often.\<close>

theorem quickSort_sorts: "sorted (quickSort arr) \<and> mset (quickSort arr) = mset arr"
  by (simp add: quickSort_sort)

end
