(* ===== verification/Detectors.thy ===== *)
theory Detectors
  imports Scoring Time_Window Go_Regexp
begin

text \<open>
  The detectors of \<open>trustscore\<close> with one source file each that need no theory of their own: brute
  force, DDoS, session anomalies, scraping, evasion, account abuse, and the trust boosters. Each
  returns its capped penalty, its reasons and what it wants recorded.
\<close>

section \<open>Brute force (\<open>bruteforce.go\<close>)\<close>

definition BruteForceEndpoints :: "string \<rightharpoonup> string" where
  "BruteForceEndpoints = map_of
    [(''/login'', ''login''), (''/api/login'', ''login''), (''/auth/login'', ''login''),
     (''/signin'', ''login''), (''/api/token'', ''login''),
     (''/forgot-password'', ''password_reset''), (''/reset-password'', ''password_reset''),
     (''/api/password/reset'', ''password_reset''),
     (''/register'', ''registration''), (''/signup'', ''registration''),
     (''/api/register'', ''registration'')]"

text \<open>
  The \<open>switch\<close> over the endpoint's type. The detector counts the attempt on the profile right
  away, in the read phase of the scoring, so the profile is part of its result.
\<close>

definition brute_switch ::
    "string \<Rightarrow> int \<Rightarrow> config \<Rightarrow> ip_profile \<Rightarrow> scored \<Rightarrow> scored \<times> ip_profile" where
  "brute_switch endpointType recent cfg profile sc =
     (if endpointType = ''login''
      then (add_first
                  [(recent > c_BruteLoginHigh cfg, fl 0.85,
                    Sprintf ''login_brute_force:%d/60s'' [FmtInt recent]),
                   (recent > c_BruteLoginMedium cfg, fl 0.5,
                    Sprintf ''login_high_rate:%d/60s'' [FmtInt recent])] sc,
            profile\<lparr>p_LoginAttempts := p_LoginAttempts profile + 1\<rparr>)
      else if endpointType = ''password_reset''
      then (add_first
             [(recent > c_BruteResetHigh cfg, fl 0.7, Sprintf ''password_reset_flood:%d/60s'' [FmtInt recent])] sc,
            profile\<lparr>p_PasswordResetAttempts := p_PasswordResetAttempts profile + 1\<rparr>)
      else if endpointType = ''registration''
      then (add_first
             [(recent > c_BruteRegisterHigh cfg, fl 0.6, Sprintf ''registration_flood:%d/60s'' [FmtInt recent])] sc,
            profile\<lparr>p_RegistrationAttempts := p_RegistrationAttempts profile + 1\<rparr>)
      else (sc, profile))"

definition ScoreBruteForce ::
    "ip_profile \<Rightarrow> request_event \<Rightarrow> config \<Rightarrow> (real \<times> message list) \<times> ip_profile" where
  "ScoreBruteForce profile event cfg =
     (case BruteForceEndpoints (e_Path event) of
        None \<Rightarrow> ((0, []), profile)
      | Some endpointType \<Rightarrow>
          if e_Method event \<noteq> ''POST'' then ((0, []), profile)
          else
            (let timestamps = mget (p_EndpointTimestamps profile) (e_Path event);
                 recent = slidingWindowCount timestamps 60 (e_Timestamp event);
                 (sc, profile) = brute_switch endpointType recent cfg profile (0, []);
                 cv = coefficientOfVariation timestamps;
                 sc = add_first
                  [(8 \<le> length timestamps \<and> cv < c_BruteCVBotThreshold cfg, fl 0.4,
                    Sprintf ''bot_timing_cv:%.3f'' [FmtFloat cv])] sc;
                 sc = add_first
                  [(p_LoginAttempts profile > c_BruteCumulativeLogin cfg, fl 0.5,
                    Sprintf ''cumulative_login_attempts:%d'' [FmtInt (p_LoginAttempts profile)])] sc
             in ((min (fst sc) 1, snd sc), profile)))"

section \<open>DDoS (\<open>ddos.go\<close>)\<close>

definition ExpensiveEndpoints :: "string fset" where
  "ExpensiveEndpoints = fset_of_list
    [''/search'', ''/api/search'', ''/export'', ''/report'', ''/api/export'', ''/download/all'',
     ''/api/report/generate'', ''/api/analytics'', ''/admin/logs'']"

definition ScoreDDoS :: "ip_profile \<Rightarrow> request_event \<Rightarrow> config \<Rightarrow> real \<times> message list" where
  "ScoreDDoS profile event cfg =
     (let burstCount = int (length (p_BurstTimestamps profile));
          sc = add_first
                  [(burstCount > c_DDOSBurstHigh cfg, fl 0.9,
                    Sprintf ''burst:%dreq/s'' [FmtInt burstCount]),
                   (burstCount > c_DDOSBurstMedium cfg, fl 0.5,
                    Sprintf ''high_burst:%dreq/s'' [FmtInt burstCount])] (0, []);
          rate60s = fdiv (fint (int (length (p_RecentTimestamps profile)))) 60;
          sc = add_first
                  [(rate60s > c_DDOSRateHigh cfg, fl 0.7,
                    Sprintf ''sustained_rate:%.1freq/s'' [FmtFloat rate60s]),
                   (rate60s > c_DDOSRateMedium cfg, fl 0.35,
                    Sprintf ''elevated_rate:%.1freq/s'' [FmtFloat rate60s])] sc;
          recent = slidingWindowCount (mget (p_EndpointTimestamps profile) (e_Path event)) 60
                     (e_Timestamp event);
          sc = add_first
                  [(e_Path event |\<in>| ExpensiveEndpoints \<and> recent > c_DDOSExpensiveRate cfg, fl 0.6,
                    Sprintf ''expensive_endpoint_hammer:%s:%d/60s'' [FmtStr (e_Path event), FmtInt recent])] sc;
          sc = add_first
                  [(e_RequestSize event > c_DDOSLargePayloadBytes cfg, fl 0.3,
                    Sprintf ''large_payload:%db'' [FmtInt (e_RequestSize event)])] sc
      in (min (fst sc) 1, snd sc))"

section \<open>Session anomalies (\<open>session.go\<close>)\<close>

definition ProtectedEndpoints :: "string fset" where
  "ProtectedEndpoints = fset_of_list
    [''/dashboard'', ''/admin'', ''/profile'', ''/settings'', ''/api/user'', ''/checkout'',
     ''/api/orders'', ''/account'']"

definition WarmupPages :: "string fset" where
  "WarmupPages = fset_of_list [''/'', ''/home'', ''/index'', ''/login'', ''/signup'']"

definition page_string :: "string list \<Rightarrow> string" where
  "page_string pages = foldl (\<lambda>acc p. acc @ '' '' @ p) [] pages"

definition ScoreSession ::
    "ip_profile \<Rightarrow> request_event \<Rightarrow> config \<Rightarrow> real \<times> message list \<times> session_signals" where
  "ScoreSession profile event cfg =
     (let path = e_Path event;
          protected = (path |\<in>| ProtectedEndpoints);
          sc = add_first
                  [(protected \<and> \<not> p_HadHomepage profile \<and> \<not> p_HadLoginFlow profile
                     \<and> p_TotalRequests profile < 3, fl 0.5,
                    Sprintf ''no_warmup:direct_access_to:%s'' [FmtStr path])] (0, []);
          signals = \<lparr> s_HadHomepage = (path |\<in>| WarmupPages),
                      s_HadLoginFlow = ((path = ''/login'' \<or> path = ''/auth/login'' \<or> path = ''/signin'')
                                        \<and> e_StatusCode event = 200) \<rparr>;
          sc = add_first
                  [(fcard (p_SeenCountryCodes profile) > 1 \<and> p_SessionID profile = e_SessionID event, fl 0.7,
                    Sprintf ''impossible_travel:countries=%v'' [FmtKeys (p_SeenCountryCodes profile)])] sc;
          pages = p_PagesVisited profile;
          sc = add_first
                  [(path = ''/checkout/confirm'' \<and> ''/cart'' \<notin> set pages, fl 0.4,
                    Sprintf ''order_violation:checkout_without_cart'' [])] sc;
          sc = add_first
                  [(length path > length ''/api/orders/''
                     \<and> take (length ''/api/orders/'') path = ''/api/orders/''
                     \<and> e_Method event = ''POST''
                     \<and> \<not> contains (page_string pages) ''/checkout'', fl 0.35,
                    Sprintf ''order_violation:order_without_checkout_flow'' [])] sc;
          sc = add_first
                  [(protected \<and> e_StatusCode event = 200 \<and> \<not> p_HadLoginFlow profile
                     \<and> p_TotalRequests profile < 5, fl 0.55,
                    Sprintf ''auth_bypass_attempt:%s'' [FmtStr path])] sc
      in (min (fst sc) 1, snd sc, signals))"

section \<open>Scraping (\<open>scraping.go\<close>)\<close>

text \<open>The pattern \<^verbatim>\<open>[?&](page|p|offset|start|from)=(\d+)\<close>.\<close>

definition PaginationPattern :: re where
  "PaginationPattern =
     Cat (Cls (\<lambda>c. c = CHR ''?'' \<or> c = CHR ''&''))
      (Cat (Group 1 (Alt (Lit ''page'') (Alt (Lit ''p'')
              (Alt (Lit ''offset'') (Alt (Lit ''start'') (Lit ''from''))))))
        (Cat (Cls (\<lambda>c. c = CHR ''='')) (Group 2 (Plus (Cls is_digit)))))"

definition scraping_pagination ::
    "ip_profile \<Rightarrow> request_event \<Rightarrow> config \<Rightarrow> scored \<times> scraping_signals" where
  "scraping_pagination profile event cfg =
     (let none = ((0, []), \<lparr>s_PaginationPath = [], s_PageNumber = 0\<rparr>)
      in case FindStringSubmatch PaginationPattern (e_QueryString event) of
           None \<Rightarrow> none
         | Some pageMatch \<Rightarrow>
             (case atoi (the (pageMatch 2)) of
                None \<Rightarrow> none
              | Some pageNum \<Rightarrow>
                  (let basePath = e_Path event;
                       pageCount = int (length (mget (p_PaginationSequences profile) basePath)) + 1
                   in (add_first
                  [(pageCount > c_ScrapePaginationHigh cfg, fl 0.5,
                    Sprintf ''pagination_scrape:%s:%d_pages'' [FmtStr basePath, FmtInt pageCount]),
                   (pageCount > c_ScrapePaginationMedium cfg, fl 0.25,
                    Sprintf ''pagination_elevated:%s:%d_pages'' [FmtStr basePath, FmtInt pageCount])] (0, []),
                       \<lparr>s_PaginationPath = basePath, s_PageNumber = pageNum\<rparr>))))"

definition ScoreScraping ::
    "ip_profile \<Rightarrow> request_event \<Rightarrow> config \<Rightarrow> real \<times> message list \<times> scraping_signals" where
  "ScoreScraping profile event cfg =
     (let (sc, signals) = scraping_pagination profile event cfg;
          successRate = fdiv (fint (p_Total200 profile)) (fint (p_TotalRequests profile));
          sc = add_first
                  [(p_TotalRequests profile \<ge> 20 \<and> successRate > fl 0.9
                     \<and> fcard (p_UniqueEndpoints profile) > 30, fl 0.4,
                    Sprintf ''bulk_resource_download:success_rate=%.0f%%'' [FmtFloat (fmul successRate 100)])] sc;
          sc = add_first
                  [(p_NonAssetRequestCount profile \<ge> 10 \<and> p_AssetRequestCount profile = 0, fl 0.45,
                    Sprintf ''no_asset_requests:likely_headless_client'' [])] sc;
          total = p_AssetRequestCount profile + p_NonAssetRequestCount profile;
          assetRatio = fdiv (fint (p_AssetRequestCount profile)) (fint total);
          sc = add_first
                  [(total \<ge> 20 \<and> assetRatio < fl 0.1, fl 0.3,
                    Sprintf ''low_asset_ratio:%.0f%%'' [FmtFloat (fmul assetRatio 100)])] sc;
          cv = coefficientOfVariation (p_RecentTimestamps profile);
          sc = add_first
                  [(length (p_RecentTimestamps profile) \<ge> 10 \<and> cv < c_ScrapeCVThreshold cfg, fl 0.35,
                    Sprintf ''robot_timing:CV=%.3f'' [FmtFloat cv])] sc
      in (min (fst sc) 1, snd sc, signals))"

section \<open>Evasion (\<open>evasion.go\<close>)\<close>

definition ScoreEvasion :: "ip_profile \<Rightarrow> request_event \<Rightarrow> config \<Rightarrow> real \<times> message list" where
  "ScoreEvasion profile event cfg =
     (let uaCount = int (fcard (p_SeenUserAgents profile));
          sc = add_first
                  [(uaCount \<ge> c_EvasionUARotationHigh cfg, fl 0.65,
                    Sprintf ''ua_rotation:%d_distinct_UAs'' [FmtInt uaCount]),
                   (uaCount \<ge> c_EvasionUARotationMedium cfg, fl 0.3,
                    Sprintf ''ua_change:%d_UAs'' [FmtInt uaCount])] (0, []);
          ja4Count = int (fcard (p_SeenJA4 profile));
          sc = add_first
                  [(ja4Count \<ge> c_EvasionJA4Rotation cfg, fl 0.5,
                    Sprintf ''ja4_rotation:%d_distinct_fingerprints'' [FmtInt ja4Count])] sc;
          cv = coefficientOfVariation (p_RecentTimestamps profile);
          sc = add_first
                  [(length (p_RecentTimestamps profile) \<ge> 6 \<and> cv < c_EvasionPeriodicCV cfg, fl 0.4,
                    Sprintf ''periodic_bot:CV=%.4f'' [FmtFloat cv])] sc;
          sc = add_first
                  [(p_RateLimitPauses profile \<ge> c_EvasionPauseResumeCount cfg, fl 0.55,
                    Sprintf ''rate_limit_evasion:paused_and_resumed_%dx'' [FmtInt (p_RateLimitPauses profile)])] sc;
          sc = add_first
                  [(p_IsTor profile, fl 0.7,
                    Sprintf ''tor_exit_node'' [])] sc;
          sc = add_first
                  [(p_IsVPN profile, fl 0.35,
                    Sprintf ''vpn_detected'' [])] sc;
          sc = add_first
                  [(p_IsDatacenter profile, fl 0.2,
                    Sprintf ''datacenter_asn'' [])] sc
      in (min (fst sc) 1, snd sc))"

section \<open>Account abuse (\<open>account_abuse.go\<close>)\<close>

definition ScoreAccountAbuse :: "ip_profile \<Rightarrow> request_event \<Rightarrow> config \<Rightarrow> real \<times> message list" where
  "ScoreAccountAbuse profile event cfg =
     (let count = (\<lambda>path. slidingWindowCount (mget (p_EndpointTimestamps profile) path) 300
                            (e_Timestamp event));
          regRecent = count ''/register'' + count ''/signup'';
          sc = add_first
                  [(regRecent > c_AbuseRegisterHigh cfg, fl 0.7,
                    Sprintf ''mass_registration:%d/5min'' [FmtInt regRecent]),
                   (regRecent > c_AbuseRegisterMedium cfg, fl 0.4,
                    Sprintf ''elevated_registration:%d/5min'' [FmtInt regRecent])] (0, []);
          resetRecent = count ''/forgot-password'' + count ''/reset-password'';
          sc = add_first
                  [(resetRecent > c_AbuseResetHigh cfg, fl 0.6,
                    Sprintf ''password_reset_flood:%d/5min'' [FmtInt resetRecent])] sc;
          totalAccountOps = p_LoginAttempts profile + p_RegistrationAttempts profile
                              + p_PasswordResetAttempts profile;
          sc = add_first
                  [(totalAccountOps > c_AbuseCumulativeHigh cfg, fl 0.5,
                    Sprintf ''high_account_ops_total:%d'' [FmtInt totalAccountOps])] sc
      in (min (fst sc) 1, snd sc))"

section \<open>Trust boosters (\<open>trust_boosters.go\<close>)\<close>

text \<open>The mean of the last five scores, or of all of them when there are fewer.\<close>

definition average_previous :: "real list \<Rightarrow> real" where
  "average_previous scores =
     (let take_n = min (length scores) 5
      in fdiv (foldl fadd 0 (drop (length scores - take_n) scores)) (fint (int take_n)))"

definition boost_blocks :: "ip_profile \<Rightarrow> request_event \<Rightarrow> config \<Rightarrow> scored" where
  "boost_blocks profile event cfg =
     (let sessionAge = fsub (e_Timestamp event) (p_FirstSeen profile);
          cv = coefficientOfVariation (p_RecentTimestamps profile);
          sc = add_first
                  [(sessionAge > 300 \<and> length (p_RecentTimestamps profile) \<ge> 5
                     \<and> cv > c_BoostHumanCVMin cfg, fl 0.3,
                    Sprintf ''human_timing:session_age=%.0fs,CV=%.2f'' [FmtFloat sessionAge, FmtFloat cv])] (0, []);
          sc = add_first
                  [(fcard (p_SeenUserAgents profile) = 1 \<and> fcard (p_SeenJA4 profile) = 1
                     \<and> p_TotalRequests profile \<ge> 10 \<and> sessionAge \<ge> 60, fl 0.2,
                    Sprintf ''consistent_identity:single_UA_and_JA4'' [])] sc;
          total = p_AssetRequestCount profile + p_NonAssetRequestCount profile;
          assetRatio = fdiv (fint (p_AssetRequestCount profile)) (fint total);
          sc = add_first
                  [(total \<ge> 10 \<and> assetRatio > c_BoostAssetRatioMin cfg, fl 0.25,
                    Sprintf ''normal_browser_behavior:asset_ratio=%.0f%%'' [FmtFloat (fmul assetRatio 100)])] sc;
          sc = add_first
                  [(p_HasValidReferer profile, fl 0.15,
                    Sprintf ''valid_referer_chain'' [])] sc;
          sc = add_first
                  [(\<not> p_IsDatacenter profile \<and> \<not> p_IsTor profile \<and> \<not> p_IsVPN profile
                     \<and> fcard (p_SeenCountryCodes profile) = 1, fl 0.2,
                    Sprintf ''residential_ip:consistent_geo'' [])] sc;
          errorRate = fdiv (fint (p_Total404 profile + p_Total403 profile + p_Total500 profile))
                        (fint (p_TotalRequests profile));
          sc = add_first
                  [(p_TotalRequests profile \<ge> 20 \<and> errorRate < fl 0.05, fl 0.15,
                    Sprintf ''low_error_rate:%.1f%%'' [FmtFloat (fmul errorRate 100)])] sc;
          avgPrev = average_previous (p_PreviousScores profile);
          sc = add_first
                  [(length (p_PreviousScores profile) \<ge> 3 \<and> \<not> p_WasBlocked profile
                     \<and> \<not> p_WasChallenged profile \<and> avgPrev \<ge> 7, fl 0.25,
                    Sprintf ''returning_clean_visitor:avg_prev_score=%.1f'' [FmtFloat avgPrev])] sc
      in add_first
           [(p_HadHomepage profile \<and> p_HadLoginFlow profile, fl 0.15,
             Sprintf ''proper_session_warmup'' [])] sc)"

definition ComputeTrustBoost ::
    "ip_profile \<Rightarrow> request_event \<Rightarrow> config \<Rightarrow> real \<times> message list \<times> boost_signals" where
  "ComputeTrustBoost profile event cfg =
     (let sc = boost_blocks profile event cfg
      in if e_ChallengePassed event
         then (fadd (fst sc) 5, snd sc @ [Sprintf ''passed JS Proof-of-Work challenge'' []],
               \<lparr>s_PassedChallenge = True\<rparr>)
         else (min (fst sc) 1, snd sc, \<lparr>s_PassedChallenge = False\<rparr>))"

section \<open>Sub-scores are between 0 and 1, boosts are not negative\<close>

lemma capped_range: "0 \<le> fst sc \<Longrightarrow> 0 \<le> min (fst sc) (1 :: real)"
  by simp

lemma brute_switch_nonneg [penalty_intros]:
  "0 \<le> fst sc \<Longrightarrow> 0 \<le> fst (fst (brute_switch ty recent cfg profile sc))"
  by (simp add: brute_switch_def add_first_nonneg)

lemma ScoreBruteForce_nonneg: "0 \<le> fst (fst (ScoreBruteForce profile event cfg))"
proof -
  have "0 \<le> fst sc" if "brute_switch ty recent cfg profile (0, []) = (sc, p')" for ty recent sc p'
    using brute_switch_nonneg[of "(0, [])" ty recent cfg profile] that by simp
  then show ?thesis
    by (auto simp: ScoreBruteForce_def Let_def simp del: add_first.simps
        split: option.split prod.split intro!: add_first_nonneg)
qed

lemma ScoreBruteForce_le_one: "fst (fst (ScoreBruteForce profile event cfg)) \<le> 1"
  by (simp add: ScoreBruteForce_def Let_def del: add_first.simps split: option.split prod.split)

lemma ScoreDDoS_range: "0 \<le> fst (ScoreDDoS profile event cfg)" "fst (ScoreDDoS profile event cfg) \<le> 1"
  unfolding ScoreDDoS_def Let_def fst_conv
  by (rule capped_range, intro penalty_intros) auto

lemma ScoreSession_range:
  "0 \<le> fst (ScoreSession profile event cfg)" "fst (ScoreSession profile event cfg) \<le> 1"
  unfolding ScoreSession_def Let_def fst_conv
  by (rule capped_range, intro penalty_intros) auto

lemma scraping_pagination_nonneg: "0 \<le> fst (fst (scraping_pagination profile event cfg))"
  by (simp add: scraping_pagination_def Let_def split: option.split)

lemma ScoreScraping_nonneg: "0 \<le> fst (ScoreScraping profile event cfg)"
  using scraping_pagination_nonneg[of profile event cfg]
  unfolding ScoreScraping_def Let_def
  by (cases "scraping_pagination profile event cfg")
    (simp add: add_first_nonneg del: add_first.simps)

lemma ScoreScraping_le_one: "fst (ScoreScraping profile event cfg) \<le> 1"
  by (simp add: ScoreScraping_def Let_def del: add_first.simps split: prod.split)

lemma ScoreEvasion_range:
  "0 \<le> fst (ScoreEvasion profile event cfg)" "fst (ScoreEvasion profile event cfg) \<le> 1"
  unfolding ScoreEvasion_def Let_def fst_conv
  by (rule capped_range, intro penalty_intros) auto

lemma ScoreAccountAbuse_range:
  "0 \<le> fst (ScoreAccountAbuse profile event cfg)" "fst (ScoreAccountAbuse profile event cfg) \<le> 1"
  unfolding ScoreAccountAbuse_def Let_def fst_conv
  by (rule capped_range, intro penalty_intros) auto

lemma boost_blocks_nonneg: "0 \<le> fst (boost_blocks profile event cfg)"
  unfolding boost_blocks_def Let_def
  by (intro penalty_intros) auto

lemma ComputeTrustBoost_nonneg: "0 \<le> fst (ComputeTrustBoost profile event cfg)"
  using boost_blocks_nonneg[of profile event cfg] by (simp add: ComputeTrustBoost_def Let_def)

lemma ComputeTrustBoost_le_one:
  "\<not> e_ChallengePassed event \<Longrightarrow> fst (ComputeTrustBoost profile event cfg) \<le> 1"
  by (simp add: ComputeTrustBoost_def Let_def)

interpretation bruteforce: risk_module "\<lambda>(profile, event, cfg). fst (fst (ScoreBruteForce profile event cfg))"
  by unfold_locales (auto simp: ScoreBruteForce_nonneg ScoreBruteForce_le_one)

interpretation ddos: risk_module "\<lambda>(profile, event, cfg). fst (ScoreDDoS profile event cfg)"
  by unfold_locales (auto simp: ScoreDDoS_range)

interpretation session: risk_module "\<lambda>(profile, event, cfg). fst (ScoreSession profile event cfg)"
  by unfold_locales (auto simp: ScoreSession_range)

interpretation scraping: risk_module "\<lambda>(profile, event, cfg). fst (ScoreScraping profile event cfg)"
  by unfold_locales (auto simp: ScoreScraping_nonneg ScoreScraping_le_one)

interpretation evasion: risk_module "\<lambda>(profile, event, cfg). fst (ScoreEvasion profile event cfg)"
  by unfold_locales (auto simp: ScoreEvasion_range)

interpretation abuse: risk_module "\<lambda>(profile, event, cfg). fst (ScoreAccountAbuse profile event cfg)"
  by unfold_locales (auto simp: ScoreAccountAbuse_range)

section \<open>What the detectors do not see\<close>

lemma search_needs_first:
  assumes "list_all (\<lambda>c. \<not> P c) s"
  shows "re_search (Cat (Cls P) r) pre s = None"
  using assms by (induction s arbitrary: pre) (simp_all add: re_search.simps)

text \<open>The scraping detector never sees the first parameter of a query: the pattern wants a question mark or
  an ampersand in front, and the query string has none there, so a client that pages through results with
  a single parameter has no pagination on record and no penalty for it.\<close>

theorem single_parameter_paging_unseen:
  assumes "list_all (\<lambda>c. c \<noteq> CHR ''?'' \<and> c \<noteq> CHR ''&'') (e_QueryString event)"
  shows "scraping_pagination profile event cfg = ((0, []), \<lparr>s_PaginationPath = [], s_PageNumber = 0\<rparr>)"
proof -
  have "FindStringSubmatch PaginationPattern (e_QueryString event) = None"
    using assms unfolding PaginationPattern_def FindStringSubmatch_def
    by (subst search_needs_first) (auto simp: list_all_iff)
  then show ?thesis by (simp add: scraping_pagination_def Let_def)
qed

definition paging_event :: request_event where
  "paging_event = \<lparr> e_IP = ''10.0.0.1'', e_SessionID = ''s'', e_Timestamp = 100, e_Method = ''GET'',
     e_Path = ''/products'', e_QueryString = ''page=7'', e_StatusCode = 200, e_ResponseSize = 10,
     e_RequestSize = 10, e_ContentType = [], e_UserAgent = ''ua'', e_Referer = [], e_Accept = [],
     e_AcceptLanguage = [], e_JA4Fingerprint = ''j'', e_ASN = [], e_ChallengePassed = False,
     e_CountryCode = ''FR'', e_IsTor = False, e_IsVPN = False, e_IsDatacenter = False,
     e_IsAssetRequest = False \<rparr>"

lemma single_parameter_paging_unseen_witness:
  "scraping_pagination (NewIPProfile ''10.0.0.1'') paging_event DefaultConfig
     = ((0, []), \<lparr>s_PaginationPath = [], s_PageNumber = 0\<rparr>)"
  by (rule single_parameter_paging_unseen) (simp add: paging_event_def)

text \<open>The five-minute windows of the account-abuse detector are one-minute windows: the times of
  an endpoint are trimmed to a minute whenever one is recorded, so right after a request the
  count over 300 seconds is the count over 60.\<close>

theorem abuse_window_is_a_minute:
  "slidingWindowCount (mget (p_EndpointTimestamps (Update p event sg oc)) (e_Path event)) 300 (e_Timestamp event)
     = slidingWindowCount (mget (p_EndpointTimestamps (Update p event sg oc)) (e_Path event)) 60 (e_Timestamp event)"
proof -
  have "p_EndpointTimestamps (Update p event sg oc) (e_Path event) =
      Some (trimTimestamps (mget (p_EndpointTimestamps p) (e_Path event) @ [e_Timestamp event]) (e_Timestamp event) 60)"
    by (simp add: Update_def step_simps)
  then have "mget (p_EndpointTimestamps (Update p event sg oc)) (e_Path event) =
      filter (\<lambda>t. fsub (e_Timestamp event) t \<le> 60) (mget (p_EndpointTimestamps p) (e_Path event) @ [e_Timestamp event])"
    by (simp add: mget_def trimTimestamps_def)
  then show ?thesis
    by (simp only: slidingWindowCount_filter filter_filter) (auto intro!: arg_cong[of _ _ length] filter_cong)
qed

end
