(* ===== verification/Vuln_Probe.thy ===== *)
theory Vuln_Probe
  imports Scoring
begin

text \<open>
  Vulnerability probing (\<open>trustscore/vuln_probe.go\<close>): parameter fuzzing, repeated server errors,
  OPTIONS floods. \<open>isIncrementalSequence\<close> is characterised against its mathematical meaning, an
  arithmetic progression modulo \<open>2^64\<close>.
\<close>

section \<open>The code\<close>

definition extractBaseParam :: "string \<Rightarrow> string \<Rightarrow> string" where
  "extractBaseParam path queryString =
     (if queryString = [] then []
      else let parts = go_split CHR ''&'' queryString
           in if parts = [] then []
              else path @ ''?'' @ hd (go_split CHR ''='' (hd parts)) @ ''='')"

definition extractLastParamValue :: "string \<Rightarrow> string" where
  "extractLastParamValue queryString =
     (if queryString = [] then []
      else let parts = go_split CHR ''&'' queryString
           in if parts = [] then []
              else let valueParts = go_split CHR ''='' (hd parts)
                   in if length valueParts > 1 then valueParts ! 1 else [])"

text \<open>The differences of neighbours, in Go's wrapping \<open>int\<close>.\<close>

definition diffs_of :: "int list \<Rightarrow> int list" where
  "diffs_of ns = map (\<lambda>i. wrap64 (ns ! (i + 1) - ns ! i)) [0..<length ns - 1]"

definition last_five :: "'a list \<Rightarrow> 'a list" where
  "last_five values = (if length values > 5 then drop (length values - 5) values else values)"

definition numeric_steps :: "int list \<Rightarrow> bool" where
  "numeric_steps nums \<longleftrightarrow>
     length nums > 1 \<and>
     (let diffs = diffs_of nums
      in diffs \<noteq> [] \<and> list_all (\<lambda>d. d = hd diffs) (tl diffs))"

definition length_steps :: "int list \<Rightarrow> bool" where
  "length_steps lengths \<longleftrightarrow>
     length lengths > 1 \<and>
     (let lengthDiffs = diffs_of lengths
      in lengthDiffs \<noteq> [] \<and> hd lengthDiffs > 0
         \<and> list_all (\<lambda>d. \<not> (d \<noteq> hd lengthDiffs \<or> d \<le> 0)) lengthDiffs)"

definition isIncrementalSequence :: "string list \<Rightarrow> bool" where
  "isIncrementalSequence values =
     (if length values < 4 then False
      else let recent = last_five values;
               nums = List.map_filter atoi recent
           in if numeric_steps nums then True
              else length_steps (map (\<lambda>v. int (length v)) recent))"

definition vuln_fuzzing :: "ip_profile \<Rightarrow> request_event \<Rightarrow> config \<Rightarrow> scored" where
  "vuln_fuzzing profile event cfg =
     (let baseKey = extractBaseParam (e_Path event) (e_QueryString event);
          seq = mget (p_ParamFuzzingSequences profile) baseKey;
          seqLen = int (length seq) + 1;
          tempSeq = seq @ [extractLastParamValue (e_QueryString event)]
      in add_first
           [(baseKey \<noteq> [] \<and> isIncrementalSequence tempSeq \<and> seqLen \<ge> c_VulnFuzzMinSeq cfg, fl 0.55,
             Sprintf ''param_fuzzing:%s:%d_mutations'' [FmtStr baseKey, FmtInt seqLen])] (0, []))"

definition options_count :: "ip_profile \<Rightarrow> int" where
  "options_count profile =
     int (fcard (ffilter (\<lambda>path. ''OPTIONS'' |\<in>| methods_at profile path)
                   (fmdom (p_EndpointMethods profile))))"

definition ScoreVulnProbe ::
    "ip_profile \<Rightarrow> request_event \<Rightarrow> config \<Rightarrow> real \<times> message list \<times> vuln_signals" where
  "ScoreVulnProbe profile event cfg =
     (let baseKey = extractBaseParam (e_Path event) (e_QueryString event);
          sc = vuln_fuzzing profile event cfg;
          is500 = (e_StatusCode event = 500);
          count = (case p_Repeated500Endpoints profile (e_Path event) of None \<Rightarrow> 0 | Some n \<Rightarrow> n) + 1;
          sc = add_first
                 [(is500 \<and> count \<ge> c_Vuln500High cfg, fl 0.7,
                   Sprintf ''repeated_500:%s:%dx'' [FmtStr (e_Path event), FmtInt count]),
                  (is500 \<and> count \<ge> c_Vuln500Medium cfg, fl 0.4,
                   Sprintf ''multiple_500:%s:%dx'' [FmtStr (e_Path event), FmtInt count])] sc;
          optionsCount = options_count profile;
          sc = add_first
                 [(optionsCount \<ge> c_VulnOptionsFlood cfg, fl 0.4,
                   Sprintf ''options_flood:%d_endpoints'' [FmtInt optionsCount])] sc
      in (min (fst sc) 1, snd sc,
          \<lparr> s_ParamFuzzing = (baseKey \<noteq> []),
            s_ParamFuzzingBase = baseKey,
            s_ParamFuzzingVal = (if baseKey \<noteq> [] then extractLastParamValue (e_QueryString event) else []),
            s_Repeated500 = is500,
            s_Repeated500Path = (if is500 then e_Path event else []) \<rparr>))"

section \<open>The sub-score\<close>

lemma capped_nonneg: "0 \<le> fst sc \<Longrightarrow> 0 \<le> min (fst sc) (1 :: real)"
  by simp

lemma vuln_fuzzing_nonneg [penalty_intros]: "0 \<le> fst (vuln_fuzzing profile event cfg)"
  unfolding vuln_fuzzing_def Let_def by (intro penalty_intros) auto

lemma ScoreVulnProbe_range:
  "0 \<le> fst (ScoreVulnProbe profile event cfg)" "fst (ScoreVulnProbe profile event cfg) \<le> 1"
  unfolding ScoreVulnProbe_def Let_def fst_conv
  by (rule capped_nonneg, intro penalty_intros) auto

interpretation vuln_probe: risk_module "\<lambda>(profile, event, cfg). fst (ScoreVulnProbe profile event cfg)"
  by unfold_locales (auto simp: ScoreVulnProbe_range)

section \<open>What counts as incremental\<close>

lemma wrap64_eq_iff: "wrap64 a = wrap64 b \<longleftrightarrow> a mod 2 ^ 64 = b mod 2 ^ 64"
proof -
  have "wrap64 a = wrap64 b \<longleftrightarrow> (a + 2 ^ 63) mod 2 ^ 64 = (b + 2 ^ 63) mod 2 ^ 64"
    by (simp add: wrap64_def)
  also have "\<dots> \<longleftrightarrow> a mod 2 ^ 64 = b mod 2 ^ 64"
    by (simp add: mod_eq_dvd_iff)
  finally show ?thesis .
qed

lemma wrap64_mod: "wrap64 a mod 2 ^ 64 = a mod 2 ^ 64"
  unfolding wrap64_def by (simp add: mod_diff_left_eq)

lemma wrap64_eqI: "in_int64 n \<Longrightarrow> n mod 2 ^ 64 = m mod 2 ^ 64 \<Longrightarrow> n = wrap64 m"
  using wrap64_eq_iff[of n m] by simp

lemma length_diffs_of [simp]: "length (diffs_of ns) = length ns - 1"
  by (simp add: diffs_of_def)

lemma nth_diffs_of [simp]: "i < length ns - 1 \<Longrightarrow> diffs_of ns ! i = wrap64 (ns ! (i + 1) - ns ! i)"
  by (simp add: diffs_of_def)

lemma all_equal_nth:
  "xs \<noteq> [] \<Longrightarrow> list_all (\<lambda>d. d = hd xs) (tl xs) \<longleftrightarrow> (\<forall>i<length xs. xs ! i = xs ! 0)"
  by (cases xs) (auto simp: list_all_length nth_Cons split: nat.split dest: spec[of _ "Suc _"])

text \<open>The numbers are \<open>a, a + d, a + 2d, \<dots>\<close> in wrapping arithmetic.\<close>

definition progression :: "int list \<Rightarrow> bool" where
  "progression ns \<longleftrightarrow> (\<exists>d. \<forall>i<length ns. ns ! i = wrap64 (ns ! 0 + int i * d))"

lemma progression_steps:
  assumes "\<forall>i<length ns - 1. wrap64 (ns ! (i + 1) - ns ! i) = wrap64 d"
    and "\<forall>n\<in>set ns. in_int64 n" and "i < length ns"
  shows "ns ! i mod 2 ^ 64 = (ns ! 0 + int i * d) mod 2 ^ 64"
  using assms(3)
proof (induction i)
  case (Suc i)
  then have "(ns ! Suc i - ns ! i) mod 2 ^ 64 = d mod 2 ^ 64"
    using assms(1)[rule_format, of i] by (simp add: wrap64_eq_iff)
  moreover have "ns ! i mod 2 ^ 64 = (ns ! 0 + int i * d) mod 2 ^ 64" using Suc by simp
  ultimately have "(ns ! i + (ns ! Suc i - ns ! i)) mod 2 ^ 64 = (ns ! 0 + int i * d + d) mod 2 ^ 64"
    by (intro mod_add_cong)
  then show ?case by (simp add: algebra_simps)
qed simp

lemma numeric_steps_iff:
  assumes "\<forall>n\<in>set ns. in_int64 n"
  shows "numeric_steps ns \<longleftrightarrow> length ns > 1 \<and> progression ns"
proof (cases "length ns > 1")
  case True
  then have ne: "diffs_of ns \<noteq> []" by (metis length_diffs_of list.size(3) not_less_iff_gr_or_eq zero_less_diff)
  have steps: "numeric_steps ns \<longleftrightarrow>
      (\<forall>i<length ns - 1. wrap64 (ns ! (i + 1) - ns ! i) = wrap64 (ns ! 1 - ns ! 0))"
    using True by (simp add: numeric_steps_def Let_def ne all_equal_nth)
  show ?thesis
  proof
    assume "numeric_steps ns"
    then have "\<forall>i<length ns. ns ! i mod 2 ^ 64 = (ns ! 0 + int i * (ns ! 1 - ns ! 0)) mod 2 ^ 64"
      using progression_steps[OF _ assms] steps by blast
    then have "\<forall>i<length ns. ns ! i = wrap64 (ns ! 0 + int i * (ns ! 1 - ns ! 0))"
      using assms by (auto intro: wrap64_eqI)
    then show "length ns > 1 \<and> progression ns" unfolding progression_def using True by blast
  next
    assume "length ns > 1 \<and> progression ns"
    then obtain d where d: "\<forall>i<length ns. ns ! i = wrap64 (ns ! 0 + int i * d)"
      unfolding progression_def by blast
    have "wrap64 (ns ! (i + 1) - ns ! i) = wrap64 d" if "i < length ns - 1" for i
    proof -
      have "(ns ! (i + 1) - ns ! i) mod 2 ^ 64
          = ((ns ! 0 + int (i + 1) * d) - (ns ! 0 + int i * d)) mod 2 ^ 64"
        using d[rule_format, of "i + 1"] d[rule_format, of i] that
        by (intro mod_diff_cong) (simp_all add: wrap64_mod[simplified])
      also have "\<dots> = d mod 2 ^ 64" by (simp add: algebra_simps)
      finally show ?thesis by (simp add: wrap64_eq_iff)
    qed
    then show "numeric_steps ns" using steps True by simp
  qed
qed (simp add: numeric_steps_def)

lemma length_steps_iff:
  "length_steps ns \<longleftrightarrow>
     length ns > 1 \<and>
     (\<exists>d>0. \<forall>i<length ns - 1. wrap64 (ns ! (i + 1) - ns ! i) = d)"
proof (cases "length ns > 1")
  case True
  then have ne: "diffs_of ns \<noteq> []" by (simp flip: length_greater_0_conv)
  then have hd: "hd (diffs_of ns) = diffs_of ns ! 0" by (rule hd_conv_nth)
  show ?thesis
    using True unfolding length_steps_def Let_def hd by (auto simp: ne list_all_length)
qed (simp add: length_steps_def)

lemma atoi_all_in_int64: "\<forall>n\<in>set (List.map_filter atoi vs). in_int64 n"
  by (auto simp: List.map_filter_def atoi_in_int64)

text \<open>C35: What the fuzzing detector calls incremental: among the last five values, at least two are
  numbers and the numbers form an arithmetic progression modulo 2^64, or the lengths of the
  values grow by the same positive step.\<close>

theorem isIncrementalSequence_iff:
  "isIncrementalSequence values \<longleftrightarrow>
     4 \<le> length values \<and>
     (let nums = List.map_filter atoi (last_five values);
          lengths = map (\<lambda>v. int (length v)) (last_five values)
      in 1 < length nums \<and> progression nums \<or>
         (\<exists>d>0. \<forall>i<length lengths - 1. wrap64 (lengths ! (i + 1) - lengths ! i) = d))"
  by (auto simp: isIncrementalSequence_def Let_def numeric_steps_iff[OF atoi_all_in_int64]
      length_steps_iff last_five_def)

lemma isIncrementalSequence_iff_witness:
  "isIncrementalSequence [''a'', ''bb'', ''ccc'', ''dddd'']"
  by (subst isIncrementalSequence_iff)
    (auto simp: last_five_def wrap64_def Let_def nth_Cons' intro!: exI[of _ 1])

text \<open>Repeating one number is taken for fuzzing: four or more requests with the same numeric
  value of the parameter count as an incremental sequence, with difference 0.\<close>

theorem constant_value_counts_as_incremental:
  assumes "atoi v = Some k" and "4 \<le> n"
  shows "isIncrementalSequence (replicate n v)"
proof -
  obtain m where lf: "last_five (replicate n v) = replicate m v" and m: "4 \<le> m"
    using assms(2) by (cases "5 < n") (auto simp: last_five_def)
  have "List.map_filter atoi (replicate m v) = replicate m k"
    using assms(1) by (induction m) (simp_all add: List.map_filter_simps)
  moreover have "in_int64 k" using atoi_in_int64[OF assms(1)] .
  moreover have "numeric_steps (replicate m k)"
    using m \<open>in_int64 k\<close> by (subst numeric_steps_iff) (auto simp: progression_def intro: exI[of _ 0])
  ultimately show ?thesis using assms(2) by (simp add: isIncrementalSequence_def lf Let_def)
qed

lemma constant_value_counts_as_incremental_witness: "isIncrementalSequence [''7'', ''7'', ''7'', ''7'']"
  using constant_value_counts_as_incremental[of "''7''" 7 4]
  by (simp add: atoi_def digits_val_def digit_val_def in_int64_def is_digit_def numeral_eq_Suc)

end
