(* ===== verification/Rasp_Effects.thy ===== *)
theory Rasp_Effects
  imports Scoring
begin

text \<open>
  Runtime effects reported by the RASP agent (\<open>trustscore/rasp.go\<close>): how an effect is recorded
  on the profile of an address, the sub-score it gives, the highest severity on record.
\<close>

definition parseSeverity :: "string \<Rightarrow> severity" where
  "parseSeverity s =
     (if s = ''critical'' then SevCritical
      else if s = ''high'' then SevHigh
      else if s = ''medium'' then SevMedium
      else if s = ''low'' then SevLow
      else SevNone)"

text \<open>One verdict of the agent, as decoded from its stream.\<close>

record rasp_event =
  x_RequestID :: string
  x_IP :: string
  x_UserID :: string
  x_Timestamp :: real
  x_Category :: string
  x_Severity :: string
  x_Action :: string
  x_Evidence :: string

definition maxRASPHits :: nat where
  "maxRASPHits = 100"

definition AddRASPHit :: "ip_profile \<Rightarrow> rasp_hit \<Rightarrow> ip_profile" where
  "AddRASPHit p hit =
     (let p = p\<lparr>p_RASPHits := trim_append maxRASPHits (p_RASPHits p) hit\<rparr>
      in if rh_Severity hit = SevCritical
         then p\<lparr>p_ConfirmedExploit := True, p_WasBlocked := True,
                p_PreviousScores := p_PreviousScores p @ [0]\<rparr>
         else p)"

fun rasp_step :: "rasp_hit \<Rightarrow> scored \<times> bool \<Rightarrow> scored \<times> bool" where
  "rasp_step hit ((penalty, reasons), exploit) =
     (case rh_Severity hit of
        SevCritical \<Rightarrow> ((1, reasons @ [Sprintf ''rasp_critical:%s:%s'' [FmtStr (rh_Category hit), FmtStr (rh_Evidence hit)]]), True)
      | SevHigh \<Rightarrow> ((if penalty < fl 0.85 then fl 0.85 else penalty,
                    reasons @ [Sprintf ''rasp_high:'' [FmtStr (rh_Category hit)]]), exploit)
      | SevMedium \<Rightarrow> ((if penalty < fl 0.45 then fl 0.45 else penalty,
                    reasons @ [Sprintf ''rasp_medium:'' [FmtStr (rh_Category hit)]]), exploit)
      | SevLow \<Rightarrow> ((if penalty < fl 0.20 then fl 0.20 else penalty,
                    reasons @ [Sprintf ''rasp_low:'' [FmtStr (rh_Category hit)]]), exploit)
      | SevNone \<Rightarrow> ((penalty, reasons), exploit))"

definition ScoreRASP ::
    "ip_profile \<Rightarrow> request_event \<Rightarrow> config \<Rightarrow> real \<times> message list \<times> rasp_signals" where
  "ScoreRASP profile event cfg =
     (let ((penalty, reasons), exploit) = fold rasp_step (p_RASPHits profile) ((0, []), False)
      in (penalty, reasons, \<lparr>s_ConfirmedExploit = exploit\<rparr>))"

definition raspMaxSeverity :: "ip_profile \<Rightarrow> severity" where
  "raspMaxSeverity profile =
     fold (\<lambda>hit maxSev. if rh_Severity hit > maxSev then rh_Severity hit else maxSev)
       (p_RASPHits profile) SevNone"

section \<open>The highest severity, and the penalty it stands for\<close>

fun sev_penalty :: "severity \<Rightarrow> real" where
  "sev_penalty SevCritical = 1"
| "sev_penalty SevHigh = fl 0.85"
| "sev_penalty SevMedium = fl 0.45"
| "sev_penalty SevLow = fl 0.20"
| "sev_penalty SevNone = 0"

lemma SevNone_least [simp]: "SevNone \<le> s"
  by (cases s) (simp_all add: less_eq_severity_def)

lemma SevCritical_greatest [simp]: "s \<le> SevCritical"
  by (cases s) (simp_all add: less_eq_severity_def)

lemma sev_penalty_mono: "s \<le> t \<Longrightarrow> sev_penalty s \<le> sev_penalty t"
proof -
  have "0 \<le> fl (0.20::real)" "fl (0.20::real) \<le> fl 0.45" "fl (0.45::real) \<le> fl 0.85" "fl (0.85::real) \<le> 1"
    by (auto intro: fl_mono fl_le)
  then show "s \<le> t \<Longrightarrow> sev_penalty s \<le> sev_penalty t"
    by (cases s; cases t) (auto simp: less_eq_severity_def)
qed

lemma sev_penalty_range: "0 \<le> sev_penalty s" "sev_penalty s \<le> 1"
  using sev_penalty_mono[of SevNone s] sev_penalty_mono[of s SevCritical] by simp_all

lemma sev_penalty_max: "max (sev_penalty s) (sev_penalty t) = sev_penalty (max s t)"
  by (metis max.absorb1 max.absorb2 linear sev_penalty_mono)

lemma fold_max_severity:
  "fold (\<lambda>hit m. if rh_Severity hit > m then rh_Severity hit else m) hs m0
     = Max (insert m0 (rh_Severity ` set hs))"
proof (induction hs arbitrary: m0)
  case (Cons h hs)
  have "(if rh_Severity h > m0 then rh_Severity h else m0) = max (rh_Severity h) m0" by (auto simp: max_def)
  with Cons show ?case
    by (cases "hs = []") (auto simp: max.commute max.left_commute max.assoc)
qed simp

lemma raspMaxSeverity_Max:
  "raspMaxSeverity p = Max (insert SevNone (rh_Severity ` set (p_RASPHits p)))"
  by (simp only: raspMaxSeverity_def fold_max_severity)

lemma raspMaxSeverity_upper: "hit \<in> set (p_RASPHits p) \<Longrightarrow> rh_Severity hit \<le> raspMaxSeverity p"
  by (simp add: raspMaxSeverity_Max)

lemma raspMaxSeverity_eq_iff:
  "s \<noteq> SevNone \<Longrightarrow> raspMaxSeverity p = s \<longleftrightarrow>
     (\<exists>hit\<in>set (p_RASPHits p). rh_Severity hit = s) \<and> (\<forall>hit\<in>set (p_RASPHits p). rh_Severity hit \<le> s)"
  by (subst raspMaxSeverity_Max, subst Max_eq_iff) auto

lemma fst_rasp_step:
  "fst (fst (rasp_step hit acc)) =
     (if rh_Severity hit = SevCritical then 1 else max (fst (fst acc)) (sev_penalty (rh_Severity hit)))"
  if "0 \<le> fst (fst acc)"
  using that by (cases acc rule: prod.exhaust) (auto simp: max_def split: severity.split)

lemma fold_rasp_step:
  "fst (fst (fold rasp_step hs acc)) = sev_penalty (fold (\<lambda>hit m. if rh_Severity hit > m then rh_Severity hit else m) hs m)
   \<and> (snd (fold rasp_step hs acc) \<longleftrightarrow> snd acc \<or> (\<exists>h\<in>set hs. rh_Severity h = SevCritical))"
  if "fst (fst acc) = sev_penalty m"
  using that
proof (induction hs arbitrary: acc m)
  case (Cons h hs)
  have "fst (fst (rasp_step h acc)) = sev_penalty (if rh_Severity h > m then rh_Severity h else m)"
  proof (cases "rh_Severity h = SevCritical")
    case True
    moreover have "m = SevCritical" if "\<not> m < SevCritical" using that SevCritical_greatest[of m] by simp
    ultimately show ?thesis using sev_penalty_range[of m] Cons.prems
      by (auto simp: fst_rasp_step)
  next
    case False
    have "(if rh_Severity h > m then rh_Severity h else m) = max m (rh_Severity h)" by (auto simp: max_def)
    with False show ?thesis using sev_penalty_range[of m] Cons.prems
      by (simp add: fst_rasp_step sev_penalty_max)
  qed
  moreover have "snd (rasp_step h acc) \<longleftrightarrow> snd acc \<or> rh_Severity h = SevCritical"
    by (cases acc rule: prod.exhaust) (auto split: severity.splits)
  ultimately show ?case using Cons.IH[of "rasp_step h acc"] by auto
qed simp

lemma ScoreRASP_penalty: "fst (ScoreRASP p event cfg) = sev_penalty (raspMaxSeverity p)"
  using fold_rasp_step[of "((0, []), False)" SevNone "p_RASPHits p"]
  by (auto simp: ScoreRASP_def raspMaxSeverity_def split: prod.split)

lemma ScoreRASP_exploit:
  "s_ConfirmedExploit (snd (snd (ScoreRASP p event cfg))) \<longleftrightarrow> raspMaxSeverity p = SevCritical"
proof -
  have "raspMaxSeverity p = SevCritical \<longleftrightarrow> (\<exists>h\<in>set (p_RASPHits p). rh_Severity h = SevCritical)"
    by (subst raspMaxSeverity_eq_iff) auto
  then show ?thesis
    using fold_rasp_step[of "((0, []), False)" SevNone "p_RASPHits p"]
    by (auto simp: ScoreRASP_def split: prod.split)
qed

lemma ScoreRASP_range: "0 \<le> fst (ScoreRASP p event cfg)" "fst (ScoreRASP p event cfg) \<le> 1"
  by (simp_all add: ScoreRASP_penalty sev_penalty_range)

interpretation rasp: risk_module "\<lambda>(profile, event, cfg). fst (ScoreRASP profile event cfg)"
  by unfold_locales (auto simp: ScoreRASP_range)

text \<open>The sub-score for runtime effects is that of the most severe effect on record, whatever
  the order and number of the others, and the exploit signal is set exactly when one of them is
  critical.\<close>

theorem rasp_score_is_worst_effect:
  "fst (ScoreRASP p event cfg) = sev_penalty (Max (insert SevNone (rh_Severity ` set (p_RASPHits p)))) \<and>
   (s_ConfirmedExploit (snd (snd (ScoreRASP p event cfg))) \<longleftrightarrow> SevCritical \<in> rh_Severity ` set (p_RASPHits p))"
proof -
  have "raspMaxSeverity p = SevCritical \<longleftrightarrow> SevCritical \<in> rh_Severity ` set (p_RASPHits p)"
    by (subst raspMaxSeverity_eq_iff) (auto simp: image_iff eq_commute[of SevCritical])
  then show ?thesis by (simp add: ScoreRASP_penalty ScoreRASP_exploit flip: raspMaxSeverity_Max)
qed

section \<open>Recording an effect\<close>

interpretation rasp_hits: bounded_log "trim_append maxRASPHits" maxRASPHits
  by (rule trim_append_log) (simp add: maxRASPHits_def)

lemma AddRASPHit_sel [step_simps]:
  "p_RASPHits (AddRASPHit p hit) = trim_append maxRASPHits (p_RASPHits p) hit"
  "p_ConfirmedExploit (AddRASPHit p hit) = (p_ConfirmedExploit p \<or> rh_Severity hit = SevCritical)"
  "p_WasBlocked (AddRASPHit p hit) = (p_WasBlocked p \<or> rh_Severity hit = SevCritical)"
  "p_PreviousScores (AddRASPHit p hit) =
     p_PreviousScores p @ (if rh_Severity hit = SevCritical then [0] else [])"
  "p_EWMAScore (AddRASPHit p hit) = p_EWMAScore p"
  "p_Tier1Corrections (AddRASPHit p hit) = p_Tier1Corrections p"
  "p_SensitivePathHits (AddRASPHit p hit) = p_SensitivePathHits p"
  "p_LoginAttempts (AddRASPHit p hit) = p_LoginAttempts p"
  "p_BurstTimestamps (AddRASPHit p hit) = p_BurstTimestamps p"
  "p_IP (AddRASPHit p hit) = p_IP p"
  by (simp_all add: AddRASPHit_def Let_def)

lemma AddRASPHit_max: "rh_Severity hit \<le> raspMaxSeverity (AddRASPHit p hit)"
  by (rule raspMaxSeverity_upper) (simp add: step_simps trim_append_def)

end
