(* ===== verification/Fusion.thy ===== *)
theory Fusion
  imports Recon Detectors Vuln_Probe Rasp_Effects
begin

text \<open>
  The fusion of the detectors (\<open>trustscore/fusion.go\<close>): hard overrides, the weighted risk, the
  corrections, the decision bands, the policy layer, and \<open>ComputeTrustScore\<close>, which scores a
  request against the profile of its address and records it there.

  Go iterates over the map of reasons in an unspecified order and then sorts by sub-score with
  an unstable sort; the model lists the modules in the order they are scored and sorts stably.
  The three phases of \<open>ComputeTrustScore\<close> take the profile's lock separately; the model is the
  run in which no other request touches the profile in between.
\<close>

section \<open>Weights, sub-scores and results\<close>

record module_weights =
  w_Recon :: real
  w_Bruteforce :: real
  w_Ddos :: real
  w_Session :: real
  w_Scraping :: real
  w_Evasion :: real
  w_VulnProbe :: real
  w_AccountAbuse :: real
  w_Rasp :: real

definition liveWeights :: module_weights where
  "liveWeights =
   \<lparr> w_Recon = fl 0.20, w_Bruteforce = fl 0.18, w_Ddos = fl 0.15, w_Session = fl 0.12,
     w_Scraping = fl 0.10, w_Evasion = fl 0.10, w_VulnProbe = fl 0.10, w_AccountAbuse = fl 0.05,
     w_Rasp = fl 0.40 \<rparr>"

text \<open>\<open>SubScores\<close> is what a result shows; \<open>subScoresMap\<close> has one key more.\<close>

record sub_scores =
  ss_recon :: real
  ss_bruteforce :: real
  ss_ddos :: real
  ss_session :: real
  ss_scraping :: real
  ss_evasion :: real
  ss_vuln_probe :: real
  ss_account_abuse :: real

record score_map = sub_scores +
  ss_rasp :: real

definition sub_score_values :: "score_map \<Rightarrow> real list" where
  "sub_score_values ss =
     [ss_recon ss, ss_bruteforce ss, ss_ddos ss, ss_session ss, ss_scraping ss, ss_evasion ss,
      ss_vuln_probe ss, ss_account_abuse ss, ss_rasp ss]"

record reason_item =
  ri_Module :: string
  ri_Reason :: message
  ri_SubScore :: real

record trust_result =
  r_IP :: string
  r_Score :: real
  r_Decision :: decision
  r_SubScores :: sub_scores
  r_Boost :: real
  r_Reasons :: "reason_item list"
  r_BoostReasons :: "message list"
  r_ProfileAgeSec :: real
  r_Timestamp :: real

section \<open>Overrides, bands and policy\<close>

definition checkHardOverrides :: "ip_profile \<Rightarrow> score_map \<Rightarrow> real option" where
  "checkHardOverrides profile subScores =
     (if p_ConfirmedExploit profile then Some 0
      else if raspMaxSeverity profile = SevHigh then Some 2
      else if p_IsTor profile \<and> list_ex (\<lambda>v. v > 1 / 2) (sub_score_values subScores) then Some 4
      else if p_LoginAttempts profile \<ge> 40 then Some 0
      else if p_LoginAttempts profile \<ge> 8 then Some 2
      else if length (p_SensitivePathHits profile) \<ge> 8 then Some 0
      else if length (p_SensitivePathHits profile) \<ge> 3 then Some 2
      else if length (p_SensitivePathHits profile) \<ge> 1 then Some 4
      else if fcard (p_SeenCountryCodes profile) > 2 then Some 2
      else let nb = length (p_BurstTimestamps profile)
           in if nb > 50 then Some 0 else if nb > 15 then Some 4 else None)"

definition makeDecision :: "real \<Rightarrow> decision" where
  "makeDecision score =
     (if score \<ge> 8 then Allow
      else if score \<ge> 5 then AllowStricter
      else if score \<ge> 3 then Challenge
      else if score \<ge> 1 then Block
      else Ban)"

definition applyPolicyOverrides ::
    "ip_profile \<Rightarrow> score_map \<Rightarrow> real \<Rightarrow> decision \<Rightarrow> decision" where
  "applyPolicyOverrides profile subScores score decision =
     (if (p_IsVPN profile \<or> p_IsDatacenter profile) \<and> length (p_SensitivePathHits profile) > 0
         \<and> decision = Allow
      then AllowStricter
      else if p_IsTor profile \<and> ss_recon subScores > 0
              \<and> (decision = Allow \<or> decision = AllowStricter)
      then Challenge
      else decision)"

section \<open>The number\<close>

definition weighted_risk :: "module_weights \<Rightarrow> score_map \<Rightarrow> real" where
  "weighted_risk w ss =
     (let risk = 0;
          risk = fadd risk (fmul (w_Recon w) (ss_recon ss));
          risk = fadd risk (fmul (w_Bruteforce w) (ss_bruteforce ss));
          risk = fadd risk (fmul (w_Ddos w) (ss_ddos ss));
          risk = fadd risk (fmul (w_Session w) (ss_session ss));
          risk = fadd risk (fmul (w_Scraping w) (ss_scraping ss));
          risk = fadd risk (fmul (w_Evasion w) (ss_evasion ss));
          risk = fadd risk (fmul (w_VulnProbe w) (ss_vuln_probe ss));
          risk = fadd risk (fmul (w_AccountAbuse w) (ss_account_abuse ss))
      in fadd risk (fmul (w_Rasp w) (ss_rasp ss)))"

definition clamp10 :: "real \<Rightarrow> real" where
  "clamp10 x = max 0 (min 10 x)"

definition base_score :: "real option \<Rightarrow> module_weights \<Rightarrow> score_map \<Rightarrow> real \<Rightarrow> real" where
  "base_score override w ss boost =
     (case override of
        Some v \<Rightarrow> v
      | None \<Rightarrow>
          (let risk = weighted_risk w ss;
               risk = max 0 (fsub risk (fmul boost (fl 0.3)))
           in fmul 10 (fsub 1 risk)))"

definition challenge_boost :: "bool \<Rightarrow> real \<Rightarrow> real" where
  "challenge_boost solved score = (if solved then min 10 (fadd score (fl 0.15)) else score)"

definition tier1_delta :: "real \<Rightarrow> real \<Rightarrow> real" where
  "tier1_delta gain adj = fmul (fmul (fsub adj (1 / 2)) 2) gain"

definition tier1_applies :: "real option \<Rightarrow> real \<Rightarrow> bool" where
  "tier1_applies override delta \<longleftrightarrow> override = None \<and> \<bar>delta\<bar> \<ge> fl 0.01"

definition tier1_nudge :: "real option \<Rightarrow> real \<Rightarrow> real \<Rightarrow> real" where
  "tier1_nudge override delta score =
     (if tier1_applies override delta then clamp10 (fadd score delta) else score)"

definition final_score :: "real option \<Rightarrow> real \<Rightarrow> bool \<Rightarrow> real \<Rightarrow> real" where
  "final_score override base solved delta =
     round_to 100 (tier1_nudge override delta (challenge_boost solved (clamp10 base)))"

section \<open>ComputeTrustScore\<close>

text \<open>What the first phase of \<open>ComputeTrustScore\<close> captures from the profile.\<close>

record assessment =
  a_SubScores :: score_map
  a_Reasons :: "(string \<times> message list) list"
  a_Boost :: real
  a_BoostReasons :: "message list"
  a_Signals :: detection_signals

definition assess :: "ip_profile \<Rightarrow> request_event \<Rightarrow> config \<Rightarrow> assessment \<times> ip_profile" where
  "assess profile event cfg =
     (let (reconPenalty, reconReasons, reconSignals) =
            ScoreRecon profile (e_Path event) (e_Timestamp event) cfg;
          ((bfPenalty, bfReasons), profile) = ScoreBruteForce profile event cfg;
          (ddosPenalty, ddosReasons) = ScoreDDoS profile event cfg;
          (sessionPenalty, sessionReasons, sessionSignals) = ScoreSession profile event cfg;
          (scrapePenalty, scrapeReasons, scrapeSignals) = ScoreScraping profile event cfg;
          (evasionPenalty, evasionReasons) = ScoreEvasion profile event cfg;
          (vulnPenalty, vulnReasons, vulnSignals) = ScoreVulnProbe profile event cfg;
          (abusePenalty, abuseReasons) = ScoreAccountAbuse profile event cfg;
          (raspPenalty, raspReasons, raspSignals) = ScoreRASP profile event cfg;
          (boost, boostReasons, boostSignals) = ComputeTrustBoost profile event cfg
      in (\<lparr> a_SubScores =
              \<lparr> ss_recon = reconPenalty, ss_bruteforce = bfPenalty, ss_ddos = ddosPenalty,
                ss_session = sessionPenalty, ss_scraping = scrapePenalty,
                ss_evasion = evasionPenalty, ss_vuln_probe = vulnPenalty,
                ss_account_abuse = abusePenalty, ss_rasp = raspPenalty \<rparr>,
            a_Reasons =
              [(''recon'', reconReasons), (''bruteforce'', bfReasons), (''ddos'', ddosReasons),
               (''session'', sessionReasons), (''scraping'', scrapeReasons),
               (''evasion'', evasionReasons), (''vuln_probe'', vulnReasons),
               (''account_abuse'', abuseReasons), (''rasp'', raspReasons)],
            a_Boost = boost, a_BoostReasons = boostReasons,
            a_Signals =
              \<lparr> s_Recon = reconSignals, s_Session = sessionSignals, s_Scraping = scrapeSignals,
                s_VulnProbe = vulnSignals, s_Boost = boostSignals, s_RASP = raspSignals \<rparr> \<rparr>,
          profile))"

definition sub_score_of :: "score_map \<Rightarrow> string \<Rightarrow> real" where
  "sub_score_of ss mdl =
     (case map_of (zip [''recon'', ''bruteforce'', ''ddos'', ''session'', ''scraping'', ''evasion'',
                        ''vuln_probe'', ''account_abuse'', ''rasp''] (sub_score_values ss)) mdl of
        None \<Rightarrow> 0 | Some v \<Rightarrow> v)"

definition reason_items :: "score_map \<Rightarrow> (string \<times> message list) list \<Rightarrow> reason_item list" where
  "reason_items ss reasons =
     sort_key (\<lambda>r. - ri_SubScore r)
       (concat (map (\<lambda>(mdl, rs).
           map (\<lambda>reason. \<lparr> ri_Module = mdl, ri_Reason = reason,
                           ri_SubScore = round_to 1000 (sub_score_of ss mdl) \<rparr>) rs) reasons))"

definition round_sub_scores :: "score_map \<Rightarrow> sub_scores" where
  "round_sub_scores ss =
     \<lparr> ss_recon = round_to 1000 (ss_recon ss), ss_bruteforce = round_to 1000 (ss_bruteforce ss),
       ss_ddos = round_to 1000 (ss_ddos ss), ss_session = round_to 1000 (ss_session ss),
       ss_scraping = round_to 1000 (ss_scraping ss), ss_evasion = round_to 1000 (ss_evasion ss),
       ss_vuln_probe = round_to 1000 (ss_vuln_probe ss),
       ss_account_abuse = round_to 1000 (ss_account_abuse ss) \<rparr>"

definition make_outcome :: "real \<Rightarrow> decision \<Rightarrow> request_outcome" where
  "make_outcome score decision =
     \<lparr> o_FinalScore = score, o_Decision = decision,
       o_WasBlocked = (decision = Block \<or> decision = Ban),
       o_WasChallenged = (decision = Challenge) \<rparr>"

definition ComputeTrustScore ::
    "config \<Rightarrow> module_weights \<Rightarrow> ip_profile \<Rightarrow> request_event \<Rightarrow> trust_result \<times> ip_profile" where
  "ComputeTrustScore cfg weights profile event =
     (let (a, profile) = assess profile event cfg;
          ss = a_SubScores a;
          challengeSolvedRecently = p_ChallengeSolvedRecently profile;
          delta = tier1_delta (c_Tier1ScoreGain cfg) (p_EWMAScore profile);
          override = checkHardOverrides profile ss;
          base = base_score override weights ss (a_Boost a);
          score = final_score override base challengeSolvedRecently delta;
          boostReasons = a_BoostReasons a @
            (if challengeSolvedRecently then [Sprintf ''challenge_solved'' []] else []);
          reasons = a_Reasons a @
            (if tier1_applies override delta
             then [(''tier1'', [Sprintf ''tier1_correction:%+.2f'' [FmtFloat delta]])] else []);
          decision = applyPolicyOverrides profile ss score (makeDecision score);
          profile = Update profile event (a_Signals a) (make_outcome score decision);
          profileAge = fsub (e_Timestamp event) (p_FirstSeen profile);
          profileAge = (if profileAge < 0 then 0 else profileAge)
      in (\<lparr> r_IP = e_IP event, r_Score = score, r_Decision = decision,
            r_SubScores = round_sub_scores ss, r_Boost = round_to 1000 (a_Boost a),
            r_Reasons = reason_items ss reasons, r_BoostReasons = boostReasons,
            r_ProfileAgeSec = round_to 10 profileAge, r_Timestamp = e_Timestamp event \<rparr>,
          profile))"

section \<open>The decision bands\<close>

lemma makeDecision_antimono: "s \<le> t \<Longrightarrow> makeDecision t \<le> makeDecision s"
  by (auto simp: makeDecision_def decision_order)

lemma makeDecision_ge_iff:
  "makeDecision s \<ge> Challenge \<longleftrightarrow> s < 5" "makeDecision s \<ge> Block \<longleftrightarrow> s < 3"
  "makeDecision s = Allow \<longleftrightarrow> 8 \<le> s" "makeDecision s = Ban \<longleftrightarrow> s < 1"
  by (auto simp: makeDecision_def decision_order)

lemma makeDecision_bands:
  "0 \<le> s \<Longrightarrow> s < 1 \<Longrightarrow> makeDecision s = Ban"
  "1 \<le> s \<Longrightarrow> s < 3 \<Longrightarrow> makeDecision s = Block"
  "3 \<le> s \<Longrightarrow> s < 5 \<Longrightarrow> makeDecision s = Challenge"
  by (auto simp: makeDecision_def)

lemma applyPolicyOverrides_ge: "decision \<le> applyPolicyOverrides profile ss score decision"
  by (cases decision) (auto simp: applyPolicyOverrides_def decision_order)

lemma applyPolicyOverrides_severe:
  "Challenge \<le> decision \<Longrightarrow> applyPolicyOverrides profile ss score decision = decision"
  by (cases decision) (auto simp: applyPolicyOverrides_def decision_order)

section \<open>The range of the number\<close>

lemma clamp10_range [simp]: "0 \<le> clamp10 x" "clamp10 x \<le> 10"
  by (simp_all add: clamp10_def)

lemma clamp10_mono: "x \<le> y \<Longrightarrow> clamp10 x \<le> clamp10 y"
  by (auto simp: clamp10_def)

lemma challenge_boost_range: "0 \<le> x \<Longrightarrow> x \<le> 10 \<Longrightarrow> 0 \<le> challenge_boost b x \<and> challenge_boost b x \<le> 10"
  by (simp add: challenge_boost_def)

lemma challenge_boost_mono: "x \<le> y \<Longrightarrow> challenge_boost b x \<le> challenge_boost b y"
  by (auto simp: challenge_boost_def min_le_iff_disj intro: fadd_mono)

lemma tier1_nudge_range: "0 \<le> x \<Longrightarrow> x \<le> 10 \<Longrightarrow> 0 \<le> tier1_nudge ov d x \<and> tier1_nudge ov d x \<le> 10"
  by (simp add: tier1_nudge_def)

lemma tier1_nudge_mono: "x \<le> y \<Longrightarrow> tier1_nudge ov d x \<le> tier1_nudge ov d y"
  by (auto simp: tier1_nudge_def intro!: clamp10_mono fadd_mono)

lemma final_score_range: "0 \<le> final_score ov base b d" "final_score ov base b d \<le> 10"
proof -
  let ?x = "tier1_nudge ov d (challenge_boost b (clamp10 base))"
  have "0 \<le> ?x \<and> ?x \<le> 10" by (intro tier1_nudge_range) (simp_all add: challenge_boost_range)
  then show "0 \<le> final_score ov base b d" "final_score ov base b d \<le> 10"
    unfolding final_score_def using round_to_ge[of 0 ?x 100] round_to_le[of ?x 10 100] by simp_all
qed

lemma final_score_mono_base: "x \<le> y \<Longrightarrow> final_score ov x b d \<le> final_score ov y b d"
  unfolding final_score_def
  by (intro round_to_mono tier1_nudge_mono challenge_boost_mono clamp10_mono) auto

section \<open>Monotone in the evidence\<close>

definition weights_ok :: "module_weights \<Rightarrow> bool" where
  "weights_ok w \<longleftrightarrow> list_all (\<lambda>x. 0 \<le> x)
     [w_Recon w, w_Bruteforce w, w_Ddos w, w_Session w, w_Scraping w, w_Evasion w, w_VulnProbe w,
      w_AccountAbuse w, w_Rasp w]"

lemma liveWeights_ok: "weights_ok liveWeights"
  by (simp add: weights_ok_def liveWeights_def)

definition no_worse :: "score_map \<Rightarrow> score_map \<Rightarrow> bool" where
  "no_worse ss ss' \<longleftrightarrow> list_all2 (\<le>) (sub_score_values ss) (sub_score_values ss')"

lemma weighted_risk_mono:
  assumes "weights_ok w" and "no_worse ss ss'" and "list_all (\<lambda>v. 0 \<le> v) (sub_score_values ss)"
  shows "weighted_risk w ss \<le> weighted_risk w ss'"
  using assms
  unfolding weighted_risk_def Let_def no_worse_def sub_score_values_def weights_ok_def
  by (intro fadd_mono fmul_mono order_refl) auto

lemma weighted_risk_nonneg:
  assumes "weights_ok w" and "list_all (\<lambda>v. 0 \<le> v) (sub_score_values ss)"
  shows "0 \<le> weighted_risk w ss"
  using assms unfolding weighted_risk_def Let_def sub_score_values_def weights_ok_def
  by (intro fadd_nonneg fmul_nonneg order_refl) auto

lemma base_score_antimono:
  assumes "weights_ok w" and "no_worse ss ss'" and "list_all (\<lambda>v. 0 \<le> v) (sub_score_values ss)"
    and "boost' \<le> boost" and "0 \<le> boost"
  shows "base_score None w ss' boost' \<le> base_score None w ss boost"
proof -
  have "fmul boost' (fl 0.3) \<le> fmul boost (fl 0.3)"
    using assms(4,5) by (intro fmul_mono) auto
  then have "fsub (weighted_risk w ss) (fmul boost (fl 0.3)) \<le> fsub (weighted_risk w ss') (fmul boost' (fl 0.3))"
    using weighted_risk_mono[OF assms(1-3)] by (intro fsub_mono)
  then have "fsub 1 (max 0 (fsub (weighted_risk w ss') (fmul boost' (fl 0.3))))
      \<le> fsub 1 (max 0 (fsub (weighted_risk w ss) (fmul boost (fl 0.3))))"
    by (intro fsub_mono) auto
  then have "10 * fsub 1 (max 0 (fsub (weighted_risk w ss') (fmul boost' (fl 0.3))))
      \<le> 10 * fsub 1 (max 0 (fsub (weighted_risk w ss) (fmul boost (fl 0.3))))"
    by simp
  then show ?thesis unfolding base_score_def Let_def fmul_def by (auto intro: fl_mono)
qed

section \<open>Overrides decide\<close>

lemma fl_015: "0 \<le> fl (0.15 :: real)" "fl (0.15 :: real) \<le> 1 / 4"
  using fl_le[of "0.15" "1 / 4"] repr_dyadic[of 1 2] by simp_all

lemma round_to_quarter [simp]:
  "round_to 100 (1 / 4) = 1 / 4" "round_to 100 (9 / 4) = 9 / 4" "round_to 100 (17 / 4) = 17 / 4"
proof -
  have r: "repr (1 / 4)" "repr (9 / 4)" "repr (17 / 4)" "repr 25" "repr 225" "repr 425"
    using repr_dyadic[of 1 2] repr_dyadic[of 9 2] repr_dyadic[of 17 2]
      repr_of_int[of 25] repr_of_int[of 225] repr_of_int[of 425] by simp_all
  have "go_round 25 = 25" "go_round 225 = 225" "go_round 425 = 425"
    using go_round_of_int[of 25] go_round_of_int[of 225] go_round_of_int[of 425] by simp_all
  then show "round_to 100 (1 / 4) = 1 / 4" "round_to 100 (9 / 4) = 9 / 4" "round_to 100 (17 / 4) = 17 / 4"
    by (simp_all add: round_to_def fmul_def fdiv_def r)
qed

lemma final_score_override:
  assumes "v \<in> {0, 2, 4}"
  shows "v \<le> final_score (Some v) v b d" "final_score (Some v) v b d \<le> v + 1 / 4"
proof -
  let ?x = "challenge_boost b v"
  have v: "clamp10 v = v" "repr v" "repr (v + 1 / 4)" "round_to 100 v = v" "round_to 100 (v + 1 / 4) = v + 1 / 4"
    using assms repr_dyadic[of 1 2] repr_dyadic[of 9 2] repr_dyadic[of 17 2]
    by (auto simp: clamp10_def)
  have "v \<le> fadd v (fl 0.15)" "fadd v (fl 0.15) \<le> v + 1 / 4" unfolding fadd_def
    by (rule fl_ge fl_le; use fl_015 v in simp)+
  then have "v \<le> ?x" "?x \<le> v + 1 / 4" using assms by (auto simp: challenge_boost_def)
  then show "v \<le> final_score (Some v) v b d" "final_score (Some v) v b d \<le> v + 1 / 4"
    using round_to_ge[OF _ _ v(4)] round_to_le[OF _ _ v(5)]
    by (simp_all add: final_score_def tier1_nudge_def tier1_applies_def v(1))
qed

lemma checkHardOverrides_values: "checkHardOverrides p ss = Some v \<Longrightarrow> v \<in> {0, 2, 4}"
  by (auto simp: checkHardOverrides_def Let_def split: if_splits)

text \<open>The band an override asks for, whatever the challenge boost adds.\<close>

definition override_decision :: "real \<Rightarrow> decision" where
  "override_decision v = (if v = 0 then Ban else if v = 2 then Block else Challenge)"

lemma override_band:
  assumes "v \<in> {0, 2, 4}"
  shows "makeDecision (final_score (Some v) v b d) = override_decision v"
  using final_score_override[OF assms, of b d] assms
  by (auto simp: override_decision_def intro!: makeDecision_bands)

section \<open>The first phase\<close>

text \<open>Scoring changes nothing in the profile but the three attempt counters.\<close>

lemma brute_switch_profile:
  obtains l r g where
    "snd (brute_switch ty recent cfg p sc) =
       p\<lparr>p_LoginAttempts := p_LoginAttempts p + l, p_PasswordResetAttempts := r,
         p_RegistrationAttempts := g\<rparr>"
    "0 \<le> l" "l \<le> 1"
proof -
  have p: "p = p\<lparr>p_LoginAttempts := p_LoginAttempts p + 0,
      p_PasswordResetAttempts := p_PasswordResetAttempts p,
      p_RegistrationAttempts := p_RegistrationAttempts p\<rparr>" by simp
  show thesis
  proof (cases "ty = ''login''")
    case True
    then show thesis
      by (intro that[where l = 1 and r = "p_PasswordResetAttempts p" and g = "p_RegistrationAttempts p"])
        (simp_all add: brute_switch_def)
  next
    case False
    then show thesis
      by (intro that[where l = 0 and r = "p_PasswordResetAttempts p + (if ty = ''password_reset'' then 1 else 0)"
            and g = "p_RegistrationAttempts p + (if ty = ''registration'' then 1 else 0)"])
        (auto simp: brute_switch_def)
  qed
qed

lemma ScoreBruteForce_profile:
  obtains l r g where
    "snd (ScoreBruteForce p event cfg) =
       p\<lparr>p_LoginAttempts := p_LoginAttempts p + l, p_PasswordResetAttempts := r,
         p_RegistrationAttempts := g\<rparr>"
    "0 \<le> l" "l \<le> 1"
proof -
  note goal = that
  have none: thesis if eq: "snd (ScoreBruteForce p event cfg) = p"
    by (rule goal[where l = 0 and r = "p_PasswordResetAttempts p" and g = "p_RegistrationAttempts p"])
      (simp_all add: eq)
  show thesis
  proof (cases "BruteForceEndpoints (e_Path event)")
    case None
    then show thesis by (intro none) (simp add: ScoreBruteForce_def)
  next
    case (Some ty)
    show thesis
    proof (cases "e_Method event = ''POST''")
      case False
      with Some show thesis by (intro none) (simp add: ScoreBruteForce_def)
    next
      case True
      let ?b = "brute_switch ty (slidingWindowCount (mget (p_EndpointTimestamps p) (e_Path event)) 60
                  (e_Timestamp event)) cfg p (0, [])"
      have "snd (ScoreBruteForce p event cfg) = snd ?b"
        using Some True by (simp add: ScoreBruteForce_def Let_def del: add_first.simps split: prod.split)
      then show thesis using brute_switch_profile that by metis
    qed
  qed
qed

lemma assess_profile: "snd (assess p event cfg) = snd (ScoreBruteForce p event cfg)"
  by (simp add: assess_def split: prod.split)

lemma assess_sel [step_simps]:
  "p_ConfirmedExploit (snd (assess p event cfg)) = p_ConfirmedExploit p"
  "p_RASPHits (snd (assess p event cfg)) = p_RASPHits p"
  "p_SensitivePathHits (snd (assess p event cfg)) = p_SensitivePathHits p"
  "p_IsTor (snd (assess p event cfg)) = p_IsTor p"
  "p_IsVPN (snd (assess p event cfg)) = p_IsVPN p"
  "p_IsDatacenter (snd (assess p event cfg)) = p_IsDatacenter p"
  "p_EWMAScore (snd (assess p event cfg)) = p_EWMAScore p"
  "p_PreviousScores (snd (assess p event cfg)) = p_PreviousScores p"
  "p_WasBlocked (snd (assess p event cfg)) = p_WasBlocked p"
  "p_WasChallenged (snd (assess p event cfg)) = p_WasChallenged p"
  "p_ChallengeSolvedRecently (snd (assess p event cfg)) = p_ChallengeSolvedRecently p"
  "p_Tier1Corrections (snd (assess p event cfg)) = p_Tier1Corrections p"
  "p_BurstTimestamps (snd (assess p event cfg)) = p_BurstTimestamps p"
  "p_RecentTimestamps (snd (assess p event cfg)) = p_RecentTimestamps p"
  "p_EndpointTimestamps (snd (assess p event cfg)) = p_EndpointTimestamps p"
  "p_SeenCountryCodes (snd (assess p event cfg)) = p_SeenCountryCodes p"
  "p_TotalRequests (snd (assess p event cfg)) = p_TotalRequests p"
  "p_FirstSeen (snd (assess p event cfg)) = p_FirstSeen p"
  "p_IP (snd (assess p event cfg)) = p_IP p"
  "p_LoginAttempts p \<le> p_LoginAttempts (snd (assess p event cfg))"
  "p_LoginAttempts (snd (assess p event cfg)) \<le> p_LoginAttempts p + 1"
proof -
  obtain l r g where eq: "snd (ScoreBruteForce p event cfg) =
       p\<lparr>p_LoginAttempts := p_LoginAttempts p + l, p_PasswordResetAttempts := r,
         p_RegistrationAttempts := g\<rparr>" and l: "0 \<le> l" "l \<le> 1"
    by (rule ScoreBruteForce_profile)
  from l show
    "p_LoginAttempts p \<le> p_LoginAttempts (snd (assess p event cfg))"
    "p_LoginAttempts (snd (assess p event cfg)) \<le> p_LoginAttempts p + 1"
    by (simp_all add: assess_profile eq)
qed (rule ScoreBruteForce_profile[of p event cfg]; simp add: assess_profile)+

lemma assess_max [step_simps]: "raspMaxSeverity (snd (assess p event cfg)) = raspMaxSeverity p"
  by (simp add: raspMaxSeverity_def step_simps)

lemma assess_sub_scores:
  "ss_recon (a_SubScores (fst (assess p event cfg))) = fst (ScoreRecon p (e_Path event) (e_Timestamp event) cfg)"
  "ss_bruteforce (a_SubScores (fst (assess p event cfg))) = fst (fst (ScoreBruteForce p event cfg))"
  "ss_ddos (a_SubScores (fst (assess p event cfg))) = fst (ScoreDDoS (snd (assess p event cfg)) event cfg)"
  "ss_session (a_SubScores (fst (assess p event cfg))) = fst (ScoreSession (snd (assess p event cfg)) event cfg)"
  "ss_scraping (a_SubScores (fst (assess p event cfg))) = fst (ScoreScraping (snd (assess p event cfg)) event cfg)"
  "ss_evasion (a_SubScores (fst (assess p event cfg))) = fst (ScoreEvasion (snd (assess p event cfg)) event cfg)"
  "ss_vuln_probe (a_SubScores (fst (assess p event cfg))) = fst (ScoreVulnProbe (snd (assess p event cfg)) event cfg)"
  "ss_account_abuse (a_SubScores (fst (assess p event cfg))) = fst (ScoreAccountAbuse (snd (assess p event cfg)) event cfg)"
  "ss_rasp (a_SubScores (fst (assess p event cfg))) = fst (ScoreRASP (snd (assess p event cfg)) event cfg)"
  "a_Boost (fst (assess p event cfg)) = fst (ComputeTrustBoost (snd (assess p event cfg)) event cfg)"
  by (simp_all add: assess_def split: prod.split)

lemma assess_range:
  "list_all (\<lambda>v. 0 \<le> v \<and> v \<le> 1) (sub_score_values (a_SubScores (fst (assess p event cfg))))"
  by (simp add: sub_score_values_def assess_sub_scores ScoreRecon_nonneg ScoreRecon_le_one
      ScoreBruteForce_nonneg ScoreBruteForce_le_one ScoreDDoS_range ScoreSession_range
      ScoreScraping_nonneg ScoreScraping_le_one ScoreEvasion_range ScoreVulnProbe_range
      ScoreAccountAbuse_range ScoreRASP_range)

section \<open>The result\<close>

text \<open>The override a request meets, and the score and decision it gets.\<close>

definition override_of :: "config \<Rightarrow> ip_profile \<Rightarrow> request_event \<Rightarrow> real option" where
  "override_of cfg p event =
     checkHardOverrides (snd (assess p event cfg)) (a_SubScores (fst (assess p event cfg)))"

lemma ComputeTrustScore_score:
  "r_Score (fst (ComputeTrustScore cfg w p event)) =
     (let a = fst (assess p event cfg); ov = override_of cfg p event
      in final_score ov (base_score ov w (a_SubScores a) (a_Boost a)) (p_ChallengeSolvedRecently p)
           (tier1_delta (c_Tier1ScoreGain cfg) (p_EWMAScore p)))"
  using assess_sel(7,11)[of p event cfg]
  by (cases "assess p event cfg") (simp add: ComputeTrustScore_def override_of_def Let_def)

lemma ComputeTrustScore_decision:
  "r_Decision (fst (ComputeTrustScore cfg w p event)) =
     applyPolicyOverrides (snd (assess p event cfg)) (a_SubScores (fst (assess p event cfg)))
       (r_Score (fst (ComputeTrustScore cfg w p event)))
       (makeDecision (r_Score (fst (ComputeTrustScore cfg w p event))))"
  by (simp add: ComputeTrustScore_def Let_def split: prod.split)

lemma ComputeTrustScore_profile:
  "snd (ComputeTrustScore cfg w p event) =
     Update (snd (assess p event cfg)) event (a_Signals (fst (assess p event cfg)))
       (make_outcome (r_Score (fst (ComputeTrustScore cfg w p event)))
          (r_Decision (fst (ComputeTrustScore cfg w p event))))"
  by (simp add: ComputeTrustScore_def Let_def split: prod.split)

lemma ComputeTrustScore_range:
  "0 \<le> r_Score (fst (ComputeTrustScore cfg w p event))"
  "r_Score (fst (ComputeTrustScore cfg w p event)) \<le> 10"
  by (simp_all add: ComputeTrustScore_score Let_def final_score_range)

lemma ComputeTrustScore_no_softer:
  "makeDecision (r_Score (fst (ComputeTrustScore cfg w p event)))
     \<le> r_Decision (fst (ComputeTrustScore cfg w p event))"
  by (simp add: ComputeTrustScore_decision[of cfg w p event] applyPolicyOverrides_ge)

lemma ComputeTrustScore_override:
  assumes "override_of cfg p event = Some v"
  shows "r_Decision (fst (ComputeTrustScore cfg w p event)) = override_decision v"
proof -
  have v: "v \<in> {0, 2, 4}" using assms checkHardOverrides_values unfolding override_of_def by blast
  have "makeDecision (r_Score (fst (ComputeTrustScore cfg w p event))) = override_decision v"
    using override_band[OF v] by (simp add: ComputeTrustScore_score Let_def assms base_score_def)
  moreover have "Challenge \<le> override_decision v"
    by (simp add: override_decision_def decision_order)
  ultimately show ?thesis
    by (subst ComputeTrustScore_decision) (simp add: applyPolicyOverrides_severe)
qed

end
