(* ===== verification/User_Profile.thy ===== *)
theory User_Profile
  imports Trust_Types Rasp_Effects
begin

text \<open>
  The long-term reputation of an authenticated user (\<open>trustscore/user_profile.go\<close>, with the
  user's \<open>AddRASPHit\<close> of \<open>rasp.go\<close>): the profile, the exponentially weighted score, the bounded
  history, the identities seen at login. Field prefix \<open>u_\<close>.
\<close>

record user_profile =
  u_UserID :: string
  u_Score :: real
  u_Alpha :: real
  u_TotalSessions :: int
  u_TotalRequests :: int
  u_TotalFailedLogins :: int
  u_TotalSuccessLogins :: int
  u_TotalFlaggedEvents :: int
  u_SessionFailedLogins :: int
  u_KnownIPs :: "string list"
  u_KnownCountries :: "string list"
  u_KnownJA4s :: "string list"
  u_AverageSessionDurationSec :: real
  u_LastSeenTimestamp :: real
  u_AccountCreatedAt :: real
  u_MFAEnabled :: bool
  u_EmailVerified :: bool
  u_EverBlocked :: bool
  u_EverChallenged :: bool
  u_IPRiskAtLogin :: real
  u_ScoreHistory :: "real list"
  u_ChallengeSolvedRecently :: bool
  u_ChallengeSolvedAt :: real
  u_EWMAScore :: real
  u_Tier1Corrections :: "tier1_correction list"
  u_RASPHits :: "rasp_hit list"
  u_ConfirmedExploit :: bool
  u_CreatedAt :: real
  u_UpdatedAt :: real

definition NewUserProfile :: "string \<Rightarrow> real \<Rightarrow> user_profile" where
  "NewUserProfile userID now =
   \<lparr> u_UserID = userID, u_Score = fl 7.5, u_Alpha = fl 0.15,
     u_TotalSessions = 0, u_TotalRequests = 0, u_TotalFailedLogins = 0, u_TotalSuccessLogins = 0,
     u_TotalFlaggedEvents = 0, u_SessionFailedLogins = 0,
     u_KnownIPs = [], u_KnownCountries = [], u_KnownJA4s = [],
     u_AverageSessionDurationSec = 0, u_LastSeenTimestamp = 0, u_AccountCreatedAt = 0,
     u_MFAEnabled = False, u_EmailVerified = False, u_EverBlocked = False, u_EverChallenged = False,
     u_IPRiskAtLogin = 0, u_ScoreHistory = [],
     u_ChallengeSolvedRecently = False, u_ChallengeSolvedAt = 0,
     u_EWMAScore = fl 0.5, u_Tier1Corrections = [], u_RASPHits = [], u_ConfirmedExploit = False,
     u_CreatedAt = now, u_UpdatedAt = now \<rparr>"

definition AddScoreHistory :: "user_profile \<Rightarrow> real \<Rightarrow> user_profile" where
  "AddScoreHistory u score = u\<lparr>u_ScoreHistory := append_trim 30 (u_ScoreHistory u) score\<rparr>"

definition ewma :: "real \<Rightarrow> real \<Rightarrow> real \<Rightarrow> real" where
  "ewma alpha observed old = fadd (fmul alpha observed) (fmul (fsub 1 alpha) old)"

definition UpdateEWMA :: "user_profile \<Rightarrow> real \<Rightarrow> user_profile" where
  "UpdateEWMA u newObservedScore =
     (let score = ewma (u_Alpha u) newObservedScore (u_Score u);
          score = max 0 (min 10 score);
          score = round_to 100 score
      in u\<lparr>u_Score := score, u_ScoreHistory := append_trim 30 (u_ScoreHistory u) score\<rparr>)"

definition AverageRecentScore :: "user_profile \<Rightarrow> int \<Rightarrow> real" where
  "AverageRecentScore u n =
     (if u_ScoreHistory u = [] then u_Score u
      else let tk = (if n > int (length (u_ScoreHistory u)) then int (length (u_ScoreHistory u)) else n);
               sum = foldl fadd 0 (drop (length (u_ScoreHistory u) - nat tk) (u_ScoreHistory u))
           in fdiv sum (fint tk))"

definition AccountAgeSec :: "user_profile \<Rightarrow> real \<Rightarrow> real" where
  "AccountAgeSec u now =
     (if u_AccountCreatedAt u = 0 then 0
      else let age = fsub now (u_AccountCreatedAt u) in if age < 0 then 0 else age)"

definition IsKnownIP :: "user_profile \<Rightarrow> string \<Rightarrow> bool" where
  "IsKnownIP u ip \<longleftrightarrow> list_ex (\<lambda>known. known = ip) (u_KnownIPs u)"

definition IsKnownCountry :: "user_profile \<Rightarrow> string \<Rightarrow> bool" where
  "IsKnownCountry u cc \<longleftrightarrow> list_ex (\<lambda>known. known = cc) (u_KnownCountries u)"

definition IsKnownJA4 :: "user_profile \<Rightarrow> string \<Rightarrow> bool" where
  "IsKnownJA4 u ja4 \<longleftrightarrow> list_ex (\<lambda>known. known = ja4) (u_KnownJA4s u)"

definition login_identities :: "user_profile \<Rightarrow> request_event \<Rightarrow> user_profile" where
  "login_identities u event =
     (let u = (if \<not> IsKnownIP u (e_IP event)
               then u\<lparr>u_KnownIPs := u_KnownIPs u @ [e_IP event]\<rparr> else u);
          u = (if \<not> IsKnownCountry u (e_CountryCode event)
               then u\<lparr>u_KnownCountries := u_KnownCountries u @ [e_CountryCode event]\<rparr> else u)
      in if e_JA4Fingerprint event \<noteq> [] \<and> \<not> IsKnownJA4 u (e_JA4Fingerprint event)
         then u\<lparr>u_KnownJA4s := u_KnownJA4s u @ [e_JA4Fingerprint event]\<rparr> else u)"

definition RecordLogin :: "user_profile \<Rightarrow> request_event \<Rightarrow> bool \<Rightarrow> user_profile" where
  "RecordLogin u event success =
     (let u = (if success
               then login_identities
                      (u\<lparr>u_TotalSuccessLogins := u_TotalSuccessLogins u + 1, u_SessionFailedLogins := 0\<rparr>) event
               else u\<lparr>u_TotalFailedLogins := u_TotalFailedLogins u + 1,
                      u_SessionFailedLogins := u_SessionFailedLogins u + 1\<rparr>)
      in u\<lparr>u_TotalRequests := u_TotalRequests u + 1, u_LastSeenTimestamp := e_Timestamp event,
           u_UpdatedAt := e_Timestamp event\<rparr>)"

definition AddUserRASPHit :: "user_profile \<Rightarrow> rasp_hit \<Rightarrow> user_profile" where
  "AddUserRASPHit u hit =
     (let u = u\<lparr>u_RASPHits := trim_append maxRASPHits (u_RASPHits u) hit\<rparr>
      in if rh_Severity hit = SevCritical
         then u\<lparr>u_ConfirmedExploit := True, u_EverBlocked := True, u_Score := 0,
                u_ScoreHistory := append_trim 30 (u_ScoreHistory u) 0\<rparr>
         else u)"

section \<open>The history\<close>

interpretation score_history: bounded_log "append_trim 30" 30
  by (rule append_trim_log) simp

text \<open>The history is bounded and its newest entry is the score, once there is one.\<close>

definition history_ok :: "user_profile \<Rightarrow> bool" where
  "history_ok u \<longleftrightarrow> length (u_ScoreHistory u) \<le> 30 \<and> 0 \<le> u_Score u \<and> u_Score u \<le> 10
     \<and> list_all (\<lambda>s. 0 \<le> s \<and> s \<le> 10) (u_ScoreHistory u)"

lemma clamped_score_range:
  "0 \<le> round_to 100 (max 0 (min 10 x))" "round_to 100 (max 0 (min 10 x)) \<le> 10"
  by (rule round_to_ge round_to_le; simp)+

lemma append_trim_all: "list_all P xs \<Longrightarrow> P x \<Longrightarrow> list_all P (append_trim cap xs x)"
  by (cases xs) (auto simp: append_trim_def Let_def)

lemma history_ok_push:
  assumes "history_ok u" and "0 \<le> s" and "s \<le> 10"
  shows "history_ok (u\<lparr>u_Score := s, u_ScoreHistory := append_trim 30 (u_ScoreHistory u) s\<rparr>)"
  using assms score_history.push_bound[of "u_ScoreHistory u" s]
  by (simp add: history_ok_def append_trim_all)

lemma history_ok_new: "history_ok (NewUserProfile uid now)"
  by (simp add: history_ok_def NewUserProfile_def fl_le)

lemma history_ok_UpdateEWMA: "history_ok u \<Longrightarrow> history_ok (UpdateEWMA u x)"
  unfolding UpdateEWMA_def Let_def by (rule history_ok_push) (simp_all add: clamped_score_range)

lemma history_ok_AddUserRASPHit: "history_ok u \<Longrightarrow> history_ok (AddUserRASPHit u hit)"
  using history_ok_push[of u 0] by (simp add: AddUserRASPHit_def Let_def history_ok_def)

section \<open>Blending\<close>

lemma ewma_mono:
  "0 \<le> alpha \<Longrightarrow> alpha \<le> 1 \<Longrightarrow> x \<le> y \<Longrightarrow> s \<le> t \<Longrightarrow> ewma alpha x s \<le> ewma alpha y t"
  unfolding ewma_def fmul_def fadd_def fsub_def
  by (intro fl_mono add_mono mult_left_mono) auto

text \<open>
  The blend lies between the observed and the stored score, up to the rounding of its four
  floating-point operations.
\<close>

lemma fl_error_small: "\<bar>x\<bar> < 16 \<Longrightarrow> \<bar>fl x - x\<bar> \<le> 1 / 2 ^ 50"
  using fl_error[of x 4] by simp

lemma ewma_error:
  assumes a: "0 \<le> alpha" "alpha \<le> 1" and x: "0 \<le> x" "x \<le> 10" and s: "0 \<le> s" "s \<le> 10"
  shows "\<bar>ewma alpha x s - (alpha * x + (1 - alpha) * s)\<bar> \<le> 1 / 2 ^ 46"
proof -
  define b where "b = fsub 1 alpha"
  have b: "0 \<le> b" "b \<le> 1" using a unfolding b_def fsub_def by (auto intro: fl_le)
  have e1: "\<bar>b - (1 - alpha)\<bar> \<le> 1 / 2 ^ 50"
    unfolding b_def fsub_def using a by (intro fl_error_small) auto
  have ax: "0 \<le> alpha * x" "alpha * x \<le> 10" using a x mult_mono[of alpha 1 x 10] by auto
  have bs: "0 \<le> b * s" "b * s \<le> 10" using b s mult_mono[of b 1 s 10] by auto
  have e2: "\<bar>fmul alpha x - alpha * x\<bar> \<le> 1 / 2 ^ 50"
    unfolding fmul_def using ax by (intro fl_error_small) auto
  have e3: "\<bar>fmul b s - b * s\<bar> \<le> 1 / 2 ^ 50"
    unfolding fmul_def using bs by (intro fl_error_small) auto
  have e4: "\<bar>b * s - (1 - alpha) * s\<bar> \<le> 10 / 2 ^ 50"
  proof -
    have "\<bar>b * s - (1 - alpha) * s\<bar> = \<bar>b - (1 - alpha)\<bar> * s"
      using s by (simp add: abs_mult flip: left_diff_distrib)
    also have "\<dots> \<le> 1 / 2 ^ 50 * 10" using e1 s by (intro mult_mono) auto
    finally show ?thesis by simp
  qed
  have conv: "alpha * x + (1 - alpha) * s \<le> 10"
    using convex_bound_le[of x 10 s alpha "1 - alpha"] a x s by simp
  have "0 \<le> fmul alpha x + fmul b s" using a b x s by simp
  moreover have "fmul alpha x + fmul b s < 16"
  proof -
    have "\<bar>fmul alpha x - alpha * x\<bar> \<le> 1" by (rule order_trans[OF e2]) simp
    moreover have "\<bar>fmul b s - b * s\<bar> \<le> 1" by (rule order_trans[OF e3]) simp
    moreover have "\<bar>b * s - (1 - alpha) * s\<bar> \<le> 1" by (rule order_trans[OF e4]) simp
    ultimately show ?thesis using conv by linarith
  qed
  ultimately have e5: "\<bar>fadd (fmul alpha x) (fmul b s) - (fmul alpha x + fmul b s)\<bar> \<le> 1 / 2 ^ 50"
    unfolding fadd_def by (intro fl_error_small) auto
  have "1 / 2 ^ 50 + 1 / 2 ^ 50 + 1 / 2 ^ 50 + 10 / 2 ^ 50 \<le> (1 :: real) / 2 ^ 46" by simp
  then show ?thesis unfolding ewma_def b_def[symmetric] using e2 e3 e4 e5 by linarith
qed

end
