(* ===== verification/User_Behavior.thy ===== *)
theory User_Behavior
  imports Fusion User_Profile
begin

text \<open>
  The behavioural module of the user layer (\<open>trustscore/user_behavior.go\<close>): the signals drawn
  from an event and the result of the IP layer, the penalty and the boost they give.
\<close>

record user_signals =
  b_IsLoginEvent :: bool
  b_LoginSucceeded :: bool
  b_LoginFailed :: bool
  b_IsNewIP :: bool
  b_IsNewCountry :: bool
  b_IsNewJA4 :: bool
  b_AccountAgeSec :: real
  b_MFAEnabled :: bool
  b_EmailVerified :: bool
  b_SessionDurationSec :: real
  b_AvgSessionDurationSec :: real
  b_IsProtectedEndpoint :: bool
  b_IPScore :: real
  b_IPWasBlocked :: bool

definition is_login_event :: "request_event \<Rightarrow> bool" where
  "is_login_event event \<longleftrightarrow> BruteForceEndpoints (e_Path event) \<noteq> None \<and> e_Method event = ''POST''"

definition buildUserBehaviorSignals ::
    "user_profile \<Rightarrow> request_event \<Rightarrow> trust_result option \<Rightarrow> real \<Rightarrow> user_signals" where
  "buildUserBehaviorSignals profile event ipResult sessionStartTs =
     (let isLoginEvent = is_login_event event
      in \<lparr> b_IsLoginEvent = isLoginEvent,
           b_LoginSucceeded = (isLoginEvent \<and> e_StatusCode event = 200),
           b_LoginFailed = (isLoginEvent \<and> (e_StatusCode event = 401 \<or> e_StatusCode event = 403)),
           b_IsNewIP = (\<not> IsKnownIP profile (e_IP event)),
           b_IsNewCountry = (\<not> IsKnownCountry profile (e_CountryCode event)),
           b_IsNewJA4 = (\<not> IsKnownJA4 profile (e_JA4Fingerprint event)),
           b_AccountAgeSec = AccountAgeSec profile (e_Timestamp event),
           b_MFAEnabled = u_MFAEnabled profile,
           b_EmailVerified = u_EmailVerified profile,
           b_SessionDurationSec =
             (if sessionStartTs > 0 then fsub (e_Timestamp event) sessionStartTs else 0),
           b_AvgSessionDurationSec = u_AverageSessionDurationSec profile,
           b_IsProtectedEndpoint = (e_Path event |\<in>| ProtectedEndpoints),
           b_IPScore = (case ipResult of None \<Rightarrow> 10 | Some r \<Rightarrow> r_Score r),
           b_IPWasBlocked =
             (case ipResult of None \<Rightarrow> False | Some r \<Rightarrow> r_Decision r = Block \<or> r_Decision r = Ban) \<rparr>)"

type_synonym penalties = "real \<times> reason_item list"

text \<open>The local closure \<open>add\<close>, guarded, and the \<open>if\<close>/\<open>else if\<close> chains over it.\<close>

definition user_add :: "string \<Rightarrow> real \<Rightarrow> message \<Rightarrow> penalties \<Rightarrow> penalties" where
  "user_add mdl amount reason sc =
     (fadd (fst sc) amount,
      snd sc @ [\<lparr> ri_Module = mdl, ri_Reason = reason, ri_SubScore = round_to 1000 amount \<rparr>])"

fun add_user_first :: "string \<Rightarrow> (bool \<times> real \<times> message) list \<Rightarrow> penalties \<Rightarrow> penalties" where
  "add_user_first mdl [] sc = sc"
| "add_user_first mdl ((c, amount, reason) # bs) sc =
     (if c then user_add mdl amount reason sc else add_user_first mdl bs sc)"

definition user_login_penalties ::
    "user_profile \<Rightarrow> request_event \<Rightarrow> user_signals \<Rightarrow> penalties \<Rightarrow> penalties" where
  "user_login_penalties profile event sg sc =
     (let failed = u_TotalFailedLogins profile;
          sc = add_user_first ''user_auth''
                 [(failed \<ge> 10, fl 0.70, Sprintf ''repeated_failed_logins:%d_total'' [FmtInt failed]),
                  (failed \<ge> 5, fl 0.45, Sprintf ''elevated_failed_logins:%d_total'' [FmtInt failed]),
                  (failed \<ge> 3, fl 0.20, Sprintf ''multiple_failed_logins:%d_total'' [FmtInt failed])] sc;
          sc = add_user_first ''user_geo''
                 [(b_IsLoginEvent sg \<and> b_IsNewIP sg \<and> u_TotalSuccessLogins profile > 0, fl 0.15,
                   Sprintf ''new_ip_login:%s'' [FmtStr (e_IP event)])] sc;
          sc = add_user_first ''user_geo''
                 [(b_IsLoginEvent sg \<and> b_IsNewCountry sg \<and> u_KnownCountries profile \<noteq> [], fl 0.30,
                   Sprintf ''new_country_login:%s (known:%v)''
                     [FmtStr (e_CountryCode event), FmtStrs (u_KnownCountries profile)])] sc;
          sc = add_user_first ''user_device''
                 [(b_IsLoginEvent sg \<and> b_IsNewJA4 sg \<and> u_KnownJA4s profile \<noteq> [], fl 0.15,
                   Sprintf ''new_ja4_fingerprint:%s'' [FmtStr (e_JA4Fingerprint event)])] sc
      in add_user_first ''user_ip''
           [(b_IPWasBlocked sg, fl 0.55,
             Sprintf ''login_from_blocked_ip:%s'' [FmtStr (e_IP event)])] sc)"

definition user_other_penalties ::
    "user_profile \<Rightarrow> request_event \<Rightarrow> user_signals \<Rightarrow> penalties \<Rightarrow> penalties" where
  "user_other_penalties profile event sg sc =
     (let young = (b_AccountAgeSec sg > 0 \<and> b_AccountAgeSec sg < 86400);
          reqs = u_TotalRequests profile;
          sc = add_user_first ''user_account''
                 [(young \<and> reqs > 50, fl 0.40,
                   Sprintf ''new_account_high_activity:age=%.0fs,reqs=%d''
                     [FmtFloat (b_AccountAgeSec sg), FmtInt reqs]),
                  (young \<and> reqs > 20, fl 0.20,
                   Sprintf ''new_account_elevated_activity:age=%.0fs,reqs=%d''
                     [FmtFloat (b_AccountAgeSec sg), FmtInt reqs])] sc;
          sc = add_user_first ''user_session''
                 [(b_AvgSessionDurationSec sg > 60 \<and> b_SessionDurationSec sg > 0
                     \<and> b_SessionDurationSec sg < 30 \<and> b_AvgSessionDurationSec sg > 300, fl 0.20,
                   Sprintf ''session_duration_collapse:avg=%.0fs,current=%.0fs''
                     [FmtFloat (b_AvgSessionDurationSec sg), FmtFloat (b_SessionDurationSec sg)])] sc;
          sc = add_user_first ''user_device''
                 [(b_IsProtectedEndpoint sg \<and> b_IsNewJA4 sg \<and> length (u_KnownJA4s profile) > 1, fl 0.35,
                   Sprintf ''new_device_protected_access:%s'' [FmtStr (e_Path event)])] sc;
          ipPenalty = min (fmul (fdiv (fsub 3 (b_IPScore sg)) 3) (1 / 2)) (1 / 2)
      in add_user_first ''user_ip''
           [(b_IPScore sg < 3, ipPenalty,
             Sprintf ''high_risk_ip:ip_score=%.2f'' [FmtFloat (b_IPScore sg)])] sc)"

definition user_boosts :: "user_profile \<Rightarrow> user_signals \<Rightarrow> scored" where
  "user_boosts profile sg =
     (let sc = add_first
                 [(b_AccountAgeSec sg > 30 * 86400, fl 0.20,
                   Sprintf ''established_account:age=%.0fd'' [FmtFloat (fdiv (b_AccountAgeSec sg) 86400)])]
                 (0, []);
          sc = add_first
                 [(length (u_KnownCountries profile) = 1 \<and> u_TotalSuccessLogins profile \<ge> 3, fl 0.15,
                   Sprintf ''consistent_login_country:%s'' [FmtStr (hd (u_KnownCountries profile))])] sc;
          avg = AverageRecentScore profile 10;
          enough = (length (u_ScoreHistory profile) \<ge> 5);
          sc = add_first
                 [(enough \<and> avg \<ge> 8, fl 0.25, Sprintf ''high_historical_trust:avg=%.2f'' [FmtFloat avg]),
                  (enough \<and> avg \<ge> 13 / 2, fl 0.10, Sprintf ''good_historical_trust:avg=%.2f'' [FmtFloat avg])] sc;
          sc = add_first [(b_MFAEnabled sg, fl 0.30, Sprintf ''mfa_enabled'' [])] sc;
          sc = add_first [(b_EmailVerified sg, fl 0.10, Sprintf ''email_verified'' [])] sc
      in add_first
           [(b_IPScore sg \<ge> 8, fl 0.15, Sprintf ''clean_ip:ip_score=%.2f'' [FmtFloat (b_IPScore sg)])] sc)"

definition ScoreUserBehavior ::
    "user_profile \<Rightarrow> request_event \<Rightarrow> user_signals \<Rightarrow> real \<times> real \<times> reason_item list \<times> message list" where
  "ScoreUserBehavior profile event sg =
     (let sc = user_other_penalties profile event sg (user_login_penalties profile event sg (0, []));
          bo = user_boosts profile sg
      in (min (fst sc) 1, min (fst bo) 1, snd sc, snd bo))"

section \<open>Penalty and boost are between 0 and 1\<close>

lemma add_user_first_nonneg [penalty_intros]:
  "list_all (\<lambda>(c, a, r). c \<longrightarrow> 0 \<le> a) bs \<Longrightarrow> 0 \<le> fst sc \<Longrightarrow> 0 \<le> fst (add_user_first mdl bs sc)"
  by (induction mdl bs sc rule: add_user_first.induct) (auto simp: user_add_def)

lemma user_penalties_nonneg:
  "0 \<le> fst sc \<Longrightarrow> 0 \<le> fst (user_login_penalties profile event sg sc)"
  "0 \<le> fst sc \<Longrightarrow> 0 \<le> fst (user_other_penalties profile event sg sc)"
  unfolding user_login_penalties_def user_other_penalties_def Let_def
  by (intro add_user_first_nonneg; auto simp: fsub_def)+

lemma user_boosts_nonneg: "0 \<le> fst (user_boosts profile sg)"
  unfolding user_boosts_def Let_def by (intro penalty_intros) auto

lemma ScoreUserBehavior_range:
  "0 \<le> fst (ScoreUserBehavior profile event sg)" "fst (ScoreUserBehavior profile event sg) \<le> 1"
  "0 \<le> fst (snd (ScoreUserBehavior profile event sg))" "fst (snd (ScoreUserBehavior profile event sg)) \<le> 1"
  by (simp_all add: ScoreUserBehavior_def Let_def user_penalties_nonneg user_boosts_nonneg)

interpretation user_penalty: risk_module "\<lambda>(profile, event, sg). fst (ScoreUserBehavior profile event sg)"
  by unfold_locales (auto simp: ScoreUserBehavior_range)

interpretation user_boost: risk_module "\<lambda>(profile, event, sg). fst (snd (ScoreUserBehavior profile event sg))"
  by unfold_locales (auto simp: ScoreUserBehavior_range)

end
