(* ===== verification/Stores.thy ===== *)
theory Stores
  imports Trust_Types User_Profile
begin

text \<open>
  The profile stores (\<open>trustscore/ip_store.go\<close>, \<open>user_store.go\<close>). \<open>Load\<close> creates a missing
  profile and returns a live pointer; what the caller does through the pointer is \<open>put\<close>, and
  \<open>Save\<close> does nothing. The interface \<open>profile_store\<close> states what the scoring code relies on, and
  its client lemmas say that operations on different keys do not touch each other.
\<close>

section \<open>The interface\<close>

locale profile_store =
  fixes load :: "'s \<Rightarrow> 'k \<Rightarrow> 'p \<times> 's"
    and put :: "'s \<Rightarrow> 'k \<Rightarrow> 'p \<Rightarrow> 's"
    and del :: "'s \<Rightarrow> 'k \<Rightarrow> 's"
    and fresh :: "'k \<Rightarrow> 'p"
  assumes load_stored: "load (snd (load s k)) k = load s k"
    and load_other: "k' \<noteq> k \<Longrightarrow> fst (load (snd (load s k)) k') = fst (load s k')"
    and load_put: "load (put s k p) k = (p, put s k p)"
    and put_other: "k' \<noteq> k \<Longrightarrow> fst (load (put s k p) k') = fst (load s k')"
    and load_del: "fst (load (del s k) k) = fresh k"
    and del_other: "k' \<noteq> k \<Longrightarrow> fst (load (del s k) k') = fst (load s k')"
begin

definition view :: "'s \<Rightarrow> 'k \<Rightarrow> 'p" where
  "view s k = fst (load s k)"

text \<open>Load a profile and change it through the pointer.\<close>

definition modify :: "'k \<Rightarrow> ('p \<Rightarrow> 'p) \<Rightarrow> 's \<Rightarrow> 's" where
  "modify k f s = (let (p, s') = load s k in put s' k (f p))"

lemma view_load [simp]: "view (snd (load s k)) k' = view s k'"
  by (cases "k' = k") (simp_all add: view_def load_stored load_other)

lemma view_put [simp]: "view (put s k p) k' = (if k' = k then p else view s k')"
  by (simp add: view_def load_put put_other)

lemma view_del [simp]: "view (del s k) k' = (if k' = k then fresh k else view s k')"
  by (simp add: view_def load_del del_other)

lemma view_modify [simp]: "view (modify k f s) k' = (if k' = k then f (view s k) else view s k')"
  by (simp add: modify_def Let_def split: prod.split) (metis fst_conv snd_conv view_def view_load)

text \<open>After any interleaving of operations a profile has seen exactly those on its own key.\<close>

lemma view_modifies:
  "view (fold (\<lambda>(k, f). modify k f) ops s) k =
     fold (\<lambda>(k', f) p. if k' = k then f p else p) ops (view s k)"
  by (induction ops arbitrary: s) (auto split: prod.split)

lemma view_modifies_own:
  "view (fold (\<lambda>(k, f). modify k f) ops s) k =
     fold snd (filter (\<lambda>(k', f). k' = k) ops) (view s k)"
  by (induction ops arbitrary: s) auto

end

section \<open>The memory store of address profiles\<close>

type_synonym ip_store = "string \<rightharpoonup> ip_profile"

definition LoadIP :: "ip_store \<Rightarrow> string \<Rightarrow> ip_profile \<times> ip_store" where
  "LoadIP s ip =
     (case s ip of
        Some p \<Rightarrow> (p, s)
      | None \<Rightarrow> let p = NewIPProfile ip in (p, s(ip \<mapsto> p)))"

definition PutIP :: "ip_store \<Rightarrow> string \<Rightarrow> ip_profile \<Rightarrow> ip_store" where
  "PutIP s ip p = s(ip \<mapsto> p)"

definition DeleteIP :: "ip_store \<Rightarrow> string \<Rightarrow> ip_store" where
  "DeleteIP s ip = s(ip := None)"

text \<open>One sweep of \<open>evictLoop\<close> at time \<open>now\<close>.\<close>

definition evict :: "real \<Rightarrow> ip_store \<Rightarrow> ip_store" where
  "evict now s = (\<lambda>ip. case s ip of
      Some p \<Rightarrow> if fsub now (p_LastSeen p) > 3600 then None else Some p
    | None \<Rightarrow> None)"

interpretation ips: profile_store LoadIP PutIP DeleteIP NewIPProfile
  by unfold_locales (auto simp: LoadIP_def PutIP_def DeleteIP_def Let_def split: option.split)

lemma LoadIP_hit: "s ip = Some p \<Longrightarrow> LoadIP s ip = (p, s)"
  by (simp add: LoadIP_def)

lemma evict_keeps: "s ip = Some p \<Longrightarrow> fsub now (p_LastSeen p) \<le> 3600 \<Longrightarrow> fst (LoadIP (evict now s) ip) = p"
  by (simp add: evict_def LoadIP_def)

lemma evict_drops: "s ip = Some p \<Longrightarrow> fsub now (p_LastSeen p) > 3600 \<Longrightarrow> fst (LoadIP (evict now s) ip) = NewIPProfile ip"
  by (simp add: evict_def LoadIP_def Let_def)

section \<open>The memory store of user profiles\<close>

type_synonym user_store = "string \<rightharpoonup> user_profile"

definition LoadUser :: "real \<Rightarrow> user_store \<Rightarrow> string \<Rightarrow> user_profile \<times> user_store" where
  "LoadUser now s userID =
     (case s userID of
        Some p \<Rightarrow> (p, s)
      | None \<Rightarrow> let p = NewUserProfile userID now in (p, s(userID \<mapsto> p)))"

definition PutUser :: "user_store \<Rightarrow> string \<Rightarrow> user_profile \<Rightarrow> user_store" where
  "PutUser s userID p = s(userID \<mapsto> p)"

definition DeleteUser :: "user_store \<Rightarrow> string \<Rightarrow> user_store" where
  "DeleteUser s userID = s(userID := None)"

interpretation users: profile_store "LoadUser now" PutUser DeleteUser "\<lambda>userID. NewUserProfile userID now"
  for now
  by unfold_locales (auto simp: LoadUser_def PutUser_def DeleteUser_def Let_def split: option.split)

end
