(* ===== verification/Engine.thy ===== *)
theory Engine
  imports Stores Fusion
begin

text \<open>
  The package's global state and the operations on it as a whole: the two stores, the session
  starts of \<open>user_fusion.go\<close>, the live configuration (\<open>config.go\<close>) and weights (\<open>fusion.go\<close>,
  \<open>user_fusion.go\<close>), and what the engine publishes in Redis (\<open>redis_exporter.go\<close>, \<open>rasp.go\<close>).

  Redis is outside the program. What the code writes there is kept as the contents its commands
  give: \<open>SET\<close> of a score per identifier, a list of runtime effects that \<open>LPUSH\<close> and \<open>LTRIM\<close> keep
  at a hundred. A client that was not initialised is \<open>None\<close>; the code ignores failing commands.
\<close>

record user_weights =
  uw_IP :: real
  uw_User :: real
  uw_Boost :: real

definition UserWeights :: user_weights where
  "UserWeights = \<lparr> uw_IP = fl 0.40, uw_User = fl 0.60, uw_Boost = fl 0.30 \<rparr>"

record redis =
  k_Scores :: "string \<rightharpoonup> real"
  k_Feed :: "rasp_event list"

record engine =
  g_IPs :: ip_store
  g_Users :: user_store
  g_Sessions :: "string \<rightharpoonup> real"
  g_Config :: config
  g_Weights :: module_weights
  g_UserWeights :: user_weights
  g_Redis :: "redis option"

definition init_engine :: engine where
  "init_engine = \<lparr> g_IPs = Map.empty, g_Users = Map.empty, g_Sessions = Map.empty,
     g_Config = DefaultConfig, g_Weights = liveWeights, g_UserWeights = UserWeights, g_Redis = None \<rparr>"

definition SetUserWeights :: "real \<Rightarrow> real \<Rightarrow> real \<Rightarrow> engine \<Rightarrow> engine" where
  "SetUserWeights ip user boost g =
     g\<lparr>g_UserWeights := \<lparr> uw_IP = ip, uw_User = user, uw_Boost = boost \<rparr>\<rparr>"

definition SetModuleWeights :: "module_weights \<Rightarrow> engine \<Rightarrow> engine" where
  "SetModuleWeights w g = g\<lparr>g_Weights := w\<rparr>"

definition SetConfig :: "config \<Rightarrow> engine \<Rightarrow> engine" where
  "SetConfig c g = g\<lparr>g_Config := c\<rparr>"

text \<open>One sweep of the session cleanup at time \<open>now\<close>.\<close>

definition cleanup_sessions :: "real \<Rightarrow> engine \<Rightarrow> engine" where
  "cleanup_sessions now g = g\<lparr>g_Sessions := (\<lambda>k. case g_Sessions g k of
      Some v \<Rightarrow> if fsub now v > 1800 then None else Some v
    | None \<Rightarrow> None)\<rparr>"

text \<open>One sweep of the eviction of address profiles.\<close>

definition evict_profiles :: "real \<Rightarrow> engine \<Rightarrow> engine" where
  "evict_profiles now g = g\<lparr>g_IPs := evict now (g_IPs g)\<rparr>"

text \<open>\<open>FlushDB\<close> empties the database; the session starts are not reset.\<close>

definition ResetAllData :: "engine \<Rightarrow> engine" where
  "ResetAllData g =
     g\<lparr>g_IPs := Map.empty, g_Users := Map.empty,
       g_Redis := map_option (\<lambda>_. \<lparr> k_Scores = Map.empty, k_Feed = [] \<rparr>) (g_Redis g)\<rparr>"

definition ExportScore :: "string \<Rightarrow> real \<Rightarrow> engine \<Rightarrow> engine" where
  "ExportScore ident score g =
     (case g_Redis g of
        None \<Rightarrow> g
      | Some k \<Rightarrow> g\<lparr>g_Redis := Some (k\<lparr>k_Scores := (k_Scores k)(ident \<mapsto> score)\<rparr>)\<rparr>)"

definition pushRASPEventToRedis :: "rasp_event \<Rightarrow> engine \<Rightarrow> engine" where
  "pushRASPEventToRedis ev g =
     (case g_Redis g of
        None \<Rightarrow> g
      | Some k \<Rightarrow> g\<lparr>g_Redis := Some (k\<lparr>k_Feed := take 100 (ev # k_Feed k)\<rparr>)\<rparr>)"

lemma ExportScore_sel [step_simps]:
  "g_IPs (ExportScore i s g) = g_IPs g" "g_Users (ExportScore i s g) = g_Users g"
  "g_Sessions (ExportScore i s g) = g_Sessions g" "g_Config (ExportScore i s g) = g_Config g"
  "g_Weights (ExportScore i s g) = g_Weights g" "g_UserWeights (ExportScore i s g) = g_UserWeights g"
  by (simp_all add: ExportScore_def split: option.split)

lemma pushRASPEventToRedis_sel [step_simps]:
  "g_IPs (pushRASPEventToRedis ev g) = g_IPs g" "g_Users (pushRASPEventToRedis ev g) = g_Users g"
  "g_Sessions (pushRASPEventToRedis ev g) = g_Sessions g" "g_Config (pushRASPEventToRedis ev g) = g_Config g"
  "g_Weights (pushRASPEventToRedis ev g) = g_Weights g"
  "g_UserWeights (pushRASPEventToRedis ev g) = g_UserWeights g"
  by (simp_all add: pushRASPEventToRedis_def split: option.split)

end
