(* ===== verification/User_Fusion.thy ===== *)
theory User_Fusion
  imports User_Behavior Engine
begin

text \<open>
  The fusion of the user layer (\<open>trustscore/user_fusion.go\<close>): \<open>ComputeUserTrustScore\<close> as a
  function on the package's state \<open>engine\<close>, in the order of the source.
\<close>

section \<open>Identity and result\<close>

record identity_context =
  i_UserID :: string
  i_AccountCreatedAt :: real
  i_EmailVerified :: bool
  i_MFAEnabled :: bool
  i_ResolvedBy :: string

record user_result =
  ur_UserID :: string
  ur_Score :: real
  ur_ScoreDelta :: real
  ur_PreviousScore :: real
  ur_Decision :: decision
  ur_IPScore :: real
  ur_Signals :: "reason_item list"
  ur_BoostSignals :: "message list"
  ur_RawEventScore :: real
  ur_AccountAgeSec :: real
  ur_Timestamp :: real

section \<open>Overrides and policy\<close>

definition checkUserHardOverrides ::
    "user_profile \<Rightarrow> user_signals \<Rightarrow> trust_result \<Rightarrow> real option" where
  "checkUserHardOverrides profile sg ipResult =
     (if u_ConfirmedExploit profile then Some 0
      else if u_TotalFailedLogins profile \<ge> 20 then Some (1 / 2)
      else if r_Decision ipResult = Ban \<and> b_IsLoginEvent sg then Some 0
      else if u_EverBlocked profile \<and> b_IsNewCountry sg \<and> b_IsNewJA4 sg then Some (1 / 2)
      else None)"

definition applyUserPolicyOverrides ::
    "user_profile \<Rightarrow> user_signals \<Rightarrow> trust_result \<Rightarrow> decision \<Rightarrow> decision" where
  "applyUserPolicyOverrides profile sg ipResult decision =
     (if b_IsLoginEvent sg \<and> b_IsNewCountry sg \<and> u_KnownCountries profile \<noteq> [] \<and> decision = Allow
      then AllowStricter
      else if u_EverBlocked profile \<and> b_IsNewJA4 sg \<and> (decision = Allow \<or> decision = AllowStricter)
      then Challenge
      else if (r_Decision ipResult = Block \<or> r_Decision ipResult = Ban)
              \<and> (decision = Allow \<or> decision = AllowStricter)
      then Challenge
      else decision)"

section \<open>The steps of ComputeUserTrustScore\<close>

definition refresh_identity :: "identity_context \<Rightarrow> user_profile \<Rightarrow> user_profile" where
  "refresh_identity ctx u =
     (let u = (if i_AccountCreatedAt ctx > 0 then u\<lparr>u_AccountCreatedAt := i_AccountCreatedAt ctx\<rparr> else u)
      in u\<lparr>u_EmailVerified := i_EmailVerified ctx, u_MFAEnabled := i_MFAEnabled ctx\<rparr>)"

definition session_start ::
    "(string \<rightharpoonup> real) \<Rightarrow> request_event \<Rightarrow> real \<times> (string \<rightharpoonup> real)" where
  "session_start sessions event =
     (case sessions (e_SessionID event) of
        Some v \<Rightarrow> (v, sessions)
      | None \<Rightarrow> (e_Timestamp event, sessions(e_SessionID event \<mapsto> e_Timestamp event)))"

definition count_request :: "user_profile \<Rightarrow> request_event \<Rightarrow> user_profile" where
  "count_request u event =
     (if is_login_event event then RecordLogin u event (e_StatusCode event = 200)
      else u\<lparr>u_TotalRequests := u_TotalRequests u + 1, u_LastSeenTimestamp := e_Timestamp event,
             u_UpdatedAt := e_Timestamp event\<rparr>)"

definition merged_risk :: "user_weights \<Rightarrow> real \<Rightarrow> real \<Rightarrow> real \<Rightarrow> real" where
  "merged_risk uw ipScore userPenalty userBoost =
     (let ipRisk = max 0 (min 1 (fdiv (fsub 10 ipScore) 10));
          combinedRisk = fadd (fmul (uw_IP uw) ipRisk) (fmul (uw_User uw) userPenalty);
          combinedRisk = max 0 (fsub combinedRisk (fmul (uw_Boost uw) userBoost))
      in max 0 (min 1 combinedRisk))"

definition raw_event_score :: "user_weights \<Rightarrow> real \<Rightarrow> real \<Rightarrow> real \<Rightarrow> real" where
  "raw_event_score uw ipScore userPenalty userBoost =
     clamp10 (fmul 10 (fsub 1 (merged_risk uw ipScore userPenalty userBoost)))"

definition expire_challenge :: "user_profile \<Rightarrow> request_event \<Rightarrow> user_profile" where
  "expire_challenge u event =
     (if u_ChallengeSolvedRecently u \<and> fsub (e_Timestamp event) (u_ChallengeSolvedAt u) > 600
      then u\<lparr>u_ChallengeSolvedRecently := False\<rparr> else u)"

definition user_tier1 :: "real \<Rightarrow> real \<Rightarrow> real" where
  "user_tier1 delta raw = (if \<bar>delta\<bar> \<ge> fl 0.01 then clamp10 (fadd raw delta) else raw)"

text \<open>A hard override sets the stored score directly; otherwise the raw score is blended in.\<close>

definition store_score :: "real option \<Rightarrow> real \<Rightarrow> user_profile \<Rightarrow> user_profile" where
  "store_score hardOverride raw u =
     (case hardOverride of
        Some v \<Rightarrow>
          (let score = round_to 100 (max 0 (min 10 v))
           in u\<lparr>u_Score := score, u_ScoreHistory := append_trim 30 (u_ScoreHistory u) score\<rparr>)
      | None \<Rightarrow> UpdateEWMA u raw)"

definition write_flags ::
    "decision \<Rightarrow> user_signals \<Rightarrow> trust_result \<Rightarrow> real \<Rightarrow> user_profile \<Rightarrow> user_profile" where
  "write_flags decision sg ipResult userPenalty u =
     (let u = (if decision = Block \<or> decision = Ban then u\<lparr>u_EverBlocked := True\<rparr>
               else if decision = Challenge then u\<lparr>u_EverChallenged := True\<rparr> else u);
          u = (if b_IsLoginEvent sg \<and> b_LoginSucceeded sg
               then u\<lparr>u_IPRiskAtLogin := r_Score ipResult, u_TotalSessions := u_TotalSessions u + 1\<rparr>
               else u)
      in if userPenalty \<ge> fl 0.20 then u\<lparr>u_TotalFlaggedEvents := u_TotalFlaggedEvents u + 1\<rparr> else u)"

text \<open>
  The part of \<open>ComputeUserTrustScore\<close> that follows the loads: the user's profile, the result of
  the IP layer and whether the address solved a challenge are given.
\<close>

definition score_user ::
    "config \<Rightarrow> user_weights \<Rightarrow> identity_context \<Rightarrow> request_event \<Rightarrow> trust_result \<Rightarrow> bool \<Rightarrow> real
       \<Rightarrow> user_profile \<Rightarrow> user_result \<times> user_profile" where
  "score_user cfg uw ctx event ipResult ipSolved sessionStart u =
     (let u = refresh_identity ctx u;
          previousScore = u_Score u;
          sg = buildUserBehaviorSignals u event (Some ipResult) sessionStart;
          u = count_request u event;
          (userPenalty, userBoost, penaltyReasons, boostReasons) = ScoreUserBehavior u event sg;
          raw = raw_event_score uw (r_Score ipResult) userPenalty userBoost;
          u = expire_challenge u event;
          solved = (ipSolved \<or> u_ChallengeSolvedRecently u);
          raw = challenge_boost solved raw;
          boostReasons = boostReasons @ (if solved then [Sprintf ''challenge_solved'' []] else []);
          raw = user_tier1 (tier1_delta (c_Tier1ScoreGain cfg) (u_EWMAScore u)) raw;
          hardOverride = checkUserHardOverrides u sg ipResult;
          raw = (case hardOverride of Some v \<Rightarrow> v | None \<Rightarrow> raw);
          u = store_score hardOverride raw u;
          finalScore = u_Score u;
          decision = applyUserPolicyOverrides u sg ipResult (makeDecision finalScore);
          u = write_flags decision sg ipResult userPenalty u
      in (\<lparr> ur_UserID = i_UserID ctx, ur_Score = finalScore,
            ur_ScoreDelta = round_to 100 (fsub finalScore previousScore),
            ur_PreviousScore = previousScore, ur_Decision = decision,
            ur_IPScore = r_Score ipResult,
            ur_Signals = sort_key (\<lambda>r. - ri_SubScore r) (r_Reasons ipResult @ penaltyReasons),
            ur_BoostSignals = r_BoostReasons ipResult @ boostReasons,
            ur_RawEventScore = round_to 100 raw,
            ur_AccountAgeSec = round_to 10 (AccountAgeSec u (e_Timestamp event)),
            ur_Timestamp = e_Timestamp event \<rparr>,
          u))"

definition ComputeUserTrustScore ::
    "engine \<Rightarrow> identity_context \<Rightarrow> request_event \<Rightarrow> user_result \<times> engine" where
  "ComputeUserTrustScore g ctx event =
     (let (ipProfile, ips) = LoadIP (g_IPs g) (e_IP event);
          (ipResult, ipProfile) = ComputeTrustScore (g_Config g) (g_Weights g) ipProfile event;
          ips = PutIP ips (e_IP event) ipProfile;
          (userProfile, users) = LoadUser (e_Timestamp event) (g_Users g) (i_UserID ctx);
          (sessionStart, sessions) = session_start (g_Sessions g) event;
          (result, userProfile) =
            score_user (g_Config g) (g_UserWeights g) ctx event ipResult
              (p_ChallengeSolvedRecently ipProfile) sessionStart userProfile
      in (result, g\<lparr>g_IPs := ips, g_Users := PutUser users (i_UserID ctx) userProfile,
                    g_Sessions := sessions\<rparr>))"

end
