(* ===== verification/Api.thy ===== *)
theory Api
  imports User_Fusion Event_Parsing
begin

text \<open>
  The entry points of the engine (\<open>trustscore/api.go\<close>, \<open>rasp.go\<close>): the gatekeeper that is asked
  before a request is served, the processing of an event with and without a user, the record of
  a solved challenge, and the ingest of a runtime effect. Each is a function on \<open>engine\<close>.
\<close>

record gatekeeper_verdict =
  v_IPScore :: real
  v_UserScore :: real
  v_EverBlocked :: bool
  v_Recommended :: decision

definition GetGatekeeperProfiles ::
    "engine \<Rightarrow> string \<Rightarrow> string \<Rightarrow> real \<Rightarrow> (ip_profile \<times> user_profile option) \<times> engine" where
  "GetGatekeeperProfiles g ip userID timestamp =
     (let (ipProfile, ips) = LoadIP (g_IPs g) ip;
          g = g\<lparr>g_IPs := ips\<rparr>
      in if userID \<noteq> []
         then let (u, users) = LoadUser timestamp (g_Users g) userID
              in ((ipProfile, Some u), g\<lparr>g_Users := users\<rparr>)
         else ((ipProfile, None), g))"

definition verdict_of :: "ip_profile \<Rightarrow> user_profile option \<Rightarrow> gatekeeper_verdict" where
  "verdict_of ipProfile userProfile =
     (let ipScore = (if p_PreviousScores ipProfile \<noteq> [] then last (p_PreviousScores ipProfile)
                     else if p_LastSeen ipProfile > 0 then 15 / 2 else 15 / 2);
          (userScore, everBlocked, scoreToUse) =
            (case userProfile of
               None \<Rightarrow> (- 1, p_WasBlocked ipProfile, ipScore)
             | Some u \<Rightarrow> (u_Score u, p_WasBlocked ipProfile \<or> u_EverBlocked u, u_Score u));
          recommended = makeDecision scoreToUse;
          recommended = (if everBlocked \<and> (recommended = Allow \<or> recommended = AllowStricter)
                         then Challenge else recommended)
      in \<lparr> v_IPScore = ipScore, v_UserScore = userScore, v_EverBlocked = everBlocked,
           v_Recommended = recommended \<rparr>)"

definition Gatekeeper :: "engine \<Rightarrow> string \<Rightarrow> string \<Rightarrow> real \<Rightarrow> gatekeeper_verdict \<times> engine" where
  "Gatekeeper g ip userID timestamp =
     (let ((ipProfile, userProfile), g) = GetGatekeeperProfiles g ip userID timestamp
      in (verdict_of ipProfile userProfile, g))"

text \<open>The maps the two entry points return hold the fields of the results.\<close>

definition ProcessEvent :: "lookups \<Rightarrow> engine \<Rightarrow> raw_event \<Rightarrow> trust_result \<times> engine" where
  "ProcessEvent db g rawEvent =
     (let event = ParseRawEvent db rawEvent;
          (profile, ips) = LoadIP (g_IPs g) (e_IP event);
          (result, profile) = ComputeTrustScore (g_Config g) (g_Weights g) profile event;
          g = g\<lparr>g_IPs := PutIP ips (e_IP event) profile\<rparr>
      in (result, ExportScore (e_IP event) (r_Score result) g))"

definition ProcessEventForUser ::
    "lookups \<Rightarrow> engine \<Rightarrow> identity_context \<Rightarrow> raw_event \<Rightarrow> user_result \<times> engine" where
  "ProcessEventForUser db g ctx rawEvent =
     (let event = ParseRawEvent db rawEvent;
          (result, g) = ComputeUserTrustScore g ctx event
      in (result, ExportScore (i_UserID ctx) (ur_Score result) g))"

definition RecordChallengeSolved :: "string \<Rightarrow> string \<Rightarrow> real \<Rightarrow> engine \<Rightarrow> engine" where
  "RecordChallengeSolved ip userID now g =
     (let (profile, ips) = LoadIP (g_IPs g) ip;
          g = g\<lparr>g_IPs := PutIP ips ip
                  (profile\<lparr>p_ChallengeSolvedRecently := True, p_ChallengeSolvedAt := now\<rparr>)\<rparr>
      in if userID \<noteq> []
         then let (u, users) = LoadUser now (g_Users g) userID
              in g\<lparr>g_Users := PutUser users userID
                     (u\<lparr>u_ChallengeSolvedRecently := True, u_ChallengeSolvedAt := now\<rparr>)\<rparr>
         else g)"

definition export_severity :: "string \<Rightarrow> severity \<Rightarrow> engine \<Rightarrow> engine" where
  "export_severity ident sev g =
     (if sev = SevCritical then ExportScore ident 0 g
      else if sev = SevHigh then ExportScore ident 2 g else g)"

definition hit_of :: "rasp_event \<Rightarrow> rasp_hit" where
  "hit_of ev = \<lparr> rh_Category = x_Category ev, rh_Severity = parseSeverity (x_Severity ev),
                 rh_Evidence = x_Evidence ev, rh_Timestamp = x_Timestamp ev \<rparr>"

definition ProcessRASPEvent :: "rasp_event \<Rightarrow> engine \<Rightarrow> engine" where
  "ProcessRASPEvent ev g =
     (let sev = parseSeverity (x_Severity ev)
      in if sev = SevNone \<or> x_IP ev = [] then g
         else
           (let (ipProfile, ips) = LoadIP (g_IPs g) (x_IP ev);
                g = g\<lparr>g_IPs := PutIP ips (x_IP ev) (AddRASPHit ipProfile (hit_of ev))\<rparr>;
                g = export_severity (x_IP ev) sev g;
                g = (if x_UserID ev \<noteq> []
                     then let (up, users) = LoadUser (x_Timestamp ev) (g_Users g) (x_UserID ev);
                              g = g\<lparr>g_Users := PutUser users (x_UserID ev)
                                       (AddUserRASPHit up (hit_of ev))\<rparr>
                          in export_severity (x_UserID ev) sev g
                     else g)
            in pushRASPEventToRedis ev g))"

section \<open>The profiles a request sees\<close>

definition ip_view :: "engine \<Rightarrow> string \<Rightarrow> ip_profile" where
  "ip_view g ip = fst (LoadIP (g_IPs g) ip)"

definition account_view :: "engine \<Rightarrow> real \<Rightarrow> string \<Rightarrow> user_profile" where
  "account_view g now uid = fst (LoadUser now (g_Users g) uid)"

lemma ip_view_ips: "ip_view g ip = ips.view (g_IPs g) ip"
  by (simp add: ip_view_def ips.view_def)

lemma account_view_users: "account_view g now uid = users.view now (g_Users g) uid"
  by (simp add: account_view_def users.view_def)

lemmas views = ip_view_ips account_view_users

lemma export_severity_sel [step_simps]:
  "g_IPs (export_severity i s g) = g_IPs g" "g_Users (export_severity i s g) = g_Users g"
  "g_Sessions (export_severity i s g) = g_Sessions g"
  by (simp_all add: export_severity_def step_simps)

text \<open>The user store's loads at different times differ only in the creation time of new profiles.\<close>

lemma LoadUser_put [simp]: "fst (LoadUser now (PutUser s uid u) uid') =
    (if uid' = uid then u else fst (LoadUser now s uid'))"
  using users.view_put[of now s uid u uid'] by (simp add: users.view_def)

lemma PutUser_load: "PutUser (snd (LoadUser now s uid)) uid u = PutUser s uid u"
  by (simp add: PutUser_def LoadUser_def Let_def split: option.split)

lemma PutIP_load: "PutIP (snd (LoadIP s ip)) ip p = PutIP s ip p"
  by (simp add: PutIP_def LoadIP_def Let_def split: option.split)

lemma LoadIP_put [simp]: "fst (LoadIP (PutIP s ip p) ip') = (if ip' = ip then p else fst (LoadIP s ip'))"
  using ips.view_put[of s ip p ip'] by (simp add: ips.view_def)

lemma Gatekeeper_verdict:
  "fst (Gatekeeper g ip uid now) =
     verdict_of (ip_view g ip) (if uid = [] then None else Some (account_view g now uid))"
  by (simp add: Gatekeeper_def GetGatekeeperProfiles_def Let_def ip_view_def account_view_def case_prod_unfold)

lemma ProcessRASPEvent_stores [step_simps]:
  assumes "parseSeverity (x_Severity ev) \<noteq> SevNone" and "x_IP ev \<noteq> []"
  shows "g_IPs (ProcessRASPEvent ev g) = PutIP (g_IPs g) (x_IP ev) (AddRASPHit (ip_view g (x_IP ev)) (hit_of ev))"
    and "g_Users (ProcessRASPEvent ev g) =
      (if x_UserID ev = [] then g_Users g
       else PutUser (g_Users g) (x_UserID ev)
              (AddUserRASPHit (account_view g (x_Timestamp ev) (x_UserID ev)) (hit_of ev)))"
  using assms
  by (simp_all add: ProcessRASPEvent_def Let_def case_prod_unfold step_simps ip_view_def account_view_def
      PutIP_load PutUser_load)

end
