(* ===== verification/Tier1_Feedback.thy ===== *)
theory Tier1_Feedback
  imports Api
begin

text \<open>
  The feedback of the deep tier into the profiles (\<open>trustscore/tier1_feedback.go\<close>, with the job,
  the grey zone and the model's answer of \<open>tier1_types.go\<close> and \<open>tier1_model.go\<close>). The audit log
  is outside the program: it is a function to the error it returns, \<open>None\<close> for success. The
  clock is an argument.
\<close>

record grey_zone =
  z_Center :: real
  z_Width :: real

definition zone_Contains :: "grey_zone \<Rightarrow> real \<Rightarrow> bool" where
  "zone_Contains z prob \<longleftrightarrow> prob \<ge> fsub (z_Center z) (z_Width z) \<and> prob \<le> fadd (z_Center z) (z_Width z)"

record tier1_job =
  j_ID :: string
  j_Event :: request_event
  j_LGBMProb :: real
  j_Tier0Decision :: string
  j_ClientIP :: string
  j_UserID :: string
  j_BodySnippet :: string
  j_GreyZone :: grey_zone
  j_EnqueuedAt :: real
  j_Retries :: int

record predict_response =
  m_Label :: string
  m_Confidence :: real
  m_BenignProb :: real
  m_MaliciousProb :: real

definition maxCorrections :: nat where
  "maxCorrections = 100"

record feedback_engine =
  f_correctionDelta :: real
  f_confidenceThreshold :: real
  f_audit :: "(string \<Rightarrow> real \<Rightarrow> string \<Rightarrow> string option) option"

definition NewFeedbackEngine ::
    "real \<Rightarrow> real \<Rightarrow> (string \<Rightarrow> real \<Rightarrow> string \<Rightarrow> string option) option \<Rightarrow> feedback_engine" where
  "NewFeedbackEngine delta confidenceThreshold audit =
     \<lparr> f_correctionDelta = delta, f_confidenceThreshold = confidenceThreshold, f_audit = audit \<rparr>"

text \<open>The two \<open>if\<close>s that keep a correction score between 0 and 1.\<close>

definition clamp01 :: "real \<Rightarrow> real" where
  "clamp01 x = (let x = (if x > 1 then 1 else x) in if x < 0 then 0 else x)"

definition correct_ip :: "real \<Rightarrow> string \<Rightarrow> real \<Rightarrow> ip_profile \<Rightarrow> ip_profile" where
  "correct_ip delta reason now p =
     p\<lparr>p_EWMAScore := clamp01 (fadd (p_EWMAScore p) delta),
       p_Tier1Corrections := trim_append maxCorrections (p_Tier1Corrections p)
         \<lparr> tc_Delta = delta, tc_Reason = reason, tc_Timestamp = now \<rparr>\<rparr>"

definition correct_user :: "real \<Rightarrow> user_profile \<Rightarrow> user_profile" where
  "correct_user delta u = u\<lparr>u_EWMAScore := clamp01 (fadd (u_EWMAScore u) delta)\<rparr>"

text \<open>The verdict of the comparison of the two tiers: no correction, or its sign and reason.\<close>

definition correction :: "feedback_engine \<Rightarrow> tier1_job \<Rightarrow> predict_response \<Rightarrow> (real \<times> string) option" where
  "correction f job result =
     (if m_Confidence result < f_confidenceThreshold f then None
      else
        (let isTier0Malicious = (j_Tier0Decision job = ''challenge'' \<or> j_Tier0Decision job = ''block''
                                 \<or> j_Tier0Decision job = ''ban'');
             isTier0Benign = (j_Tier0Decision job = ''allow+stricter'' \<or> j_Tier0Decision job = ''allow'')
         in if isTier0Malicious \<and> m_Label result = ''benign''
            then Some (f_correctionDelta f, ''tier1_false_positive'')
            else if isTier0Benign \<and> m_Label result = ''malicious''
            then Some (- f_correctionDelta f, ''tier1_false_negative'')
            else None))"

definition ApplyFeedback ::
    "feedback_engine \<Rightarrow> tier1_job \<Rightarrow> predict_response \<Rightarrow> real \<Rightarrow> engine
       \<Rightarrow> (bool \<times> real \<times> string \<times> string option) \<times> engine" where
  "ApplyFeedback f job result now g =
     (case correction f job result of
        None \<Rightarrow> ((False, 0, [], None), g)
      | Some (delta, reason) \<Rightarrow>
          (let (p, ips) = LoadIP (g_IPs g) (j_ClientIP job);
               g = g\<lparr>g_IPs := PutIP ips (j_ClientIP job) (correct_ip delta reason now p)\<rparr>;
               g = (if j_UserID job \<noteq> []
                    then let (u, users) = LoadUser now (g_Users g) (j_UserID job)
                         in g\<lparr>g_Users := PutUser users (j_UserID job) (correct_user delta u)\<rparr>
                    else g);
               err = (case f_audit f of
                        None \<Rightarrow> None
                      | Some logFeedback \<Rightarrow>
                          map_option (\<lambda>e. ''audit feedback: '' @ e) (logFeedback (j_ID job) delta reason))
           in ((True, delta, reason, err), g)))"

lemma clamp01_range [simp]: "0 \<le> clamp01 x" "clamp01 x \<le> 1"
  by (simp_all add: clamp01_def Let_def)

interpretation corrections: bounded_log "trim_append maxCorrections" maxCorrections
  by (rule trim_append_log) (simp add: maxCorrections_def)

lemma correct_ip_sel [step_simps]:
  "p_EWMAScore (correct_ip d r now p) = clamp01 (fadd (p_EWMAScore p) d)"
  "p_Tier1Corrections (correct_ip d r now p) =
     trim_append maxCorrections (p_Tier1Corrections p) \<lparr> tc_Delta = d, tc_Reason = r, tc_Timestamp = now \<rparr>"
  "p_PreviousScores (correct_ip d r now p) = p_PreviousScores p"
  "p_RASPHits (correct_ip d r now p) = p_RASPHits p"
  "p_ConfirmedExploit (correct_ip d r now p) = p_ConfirmedExploit p"
  "p_WasBlocked (correct_ip d r now p) = p_WasBlocked p"
  by (simp_all add: correct_ip_def)

lemma ApplyFeedback_stores [step_simps]:
  assumes "correction f job result = Some (delta, reason)"
  shows "g_IPs (snd (ApplyFeedback f job result now g)) =
      PutIP (g_IPs g) (j_ClientIP job) (correct_ip delta reason now (ip_view g (j_ClientIP job)))"
    and "g_Users (snd (ApplyFeedback f job result now g)) =
      (if j_UserID job = [] then g_Users g
       else PutUser (g_Users g) (j_UserID job) (correct_user delta (account_view g now (j_UserID job))))"
  using assms
  by (simp_all add: ApplyFeedback_def Let_def case_prod_unfold ip_view_def account_view_def
      PutIP_load PutUser_load)

lemma ApplyFeedback_none: "correction f job result = None \<Longrightarrow> snd (ApplyFeedback f job result now g) = g"
  by (simp add: ApplyFeedback_def)

end
