(* ===== verification/Waf_Config.thy ===== *)
theory Waf_Config
  imports Tier1_Feedback
begin

text \<open>
  The configuration of the front (\<open>tier-0/config_manager.go\<close>) and of the deep tier
  (\<open>trustscore/tier1_types.go\<close>), with the built-in defaults and the secret that signs the
  challenge tokens, which is read from a file or made once and written there. The file system is
  an argument: the contents of the file, \<open>None\<close> when it cannot be read.
\<close>

record tier1_config =
  tk_Enabled :: bool
  tk_ModelURL :: string
  tk_ModelAPIKey :: string
  tk_ConfidenceThreshold :: real
  tk_WorkerCount :: int
  tk_MaxRetries :: int
  tk_CorrectionDelta :: real
  tk_GreyZones :: "string \<rightharpoonup> grey_zone"
  tk_RedisQueueKey :: string
  tk_RedisFailedKey :: string
  tk_RedisResultPrefix :: string
  tk_AuditDBPath :: string

record waf_config =
  d_Threshold :: real
  d_StricterMargin :: real
  d_WeightIP :: real
  d_WeightUser :: real
  d_WeightBoost :: real
  d_IdentityMode :: string
  d_JWTSecret :: string
  d_OpaqueURL :: string
  d_AuthAPIFailOpen :: bool
  d_UseTLS :: bool
  d_CorazaRulesPath :: string
  d_EnableCoraza :: bool
  d_TierAllowRate :: real
  d_TierAllowBurst :: real
  d_TierStricterRate :: real
  d_TierStricterBurst :: real
  d_TierChallengeRate :: real
  d_TierChallengeBurst :: real
  d_Trustscore :: config
  d_Tier1Config :: tier1_config
  d_EnableRASP :: bool
  d_RASPSocketPath :: string
  d_TrustXForwardedFor :: bool

definition zone :: "real \<Rightarrow> real \<Rightarrow> grey_zone" where
  "zone c w = \<lparr> z_Center = fl c, z_Width = fl w \<rparr>"

definition default_tier1 :: tier1_config where
  "default_tier1 = \<lparr>
     tk_Enabled = True, tk_ModelURL = ''http://localhost:5001'', tk_ModelAPIKey = [],
     tk_ConfidenceThreshold = fl 0.85, tk_WorkerCount = 3, tk_MaxRetries = 3,
     tk_CorrectionDelta = fl 0.20,
     tk_GreyZones = [''allow'' \<mapsto> zone 0.15 0.10, ''allow+stricter'' \<mapsto> zone 0.40 0.15,
       ''challenge'' \<mapsto> zone 0.65 0.15, ''block'' \<mapsto> zone 0.85 0.10, ''ban'' \<mapsto> zone 0.95 0.05],
     tk_RedisQueueKey = ''tier1:queue'', tk_RedisFailedKey = ''tier1:failed'',
     tk_RedisResultPrefix = ''tier1:result'', tk_AuditDBPath = ''./tier1_audit.db'' \<rparr>"

text \<open>\<open>GetConfig\<close> of the trust engine and the secret are arguments.\<close>

definition defaultConfig :: "real \<Rightarrow> string \<Rightarrow> config \<Rightarrow> waf_config" where
  "defaultConfig threshold secret trustscore = \<lparr>
     d_Threshold = threshold, d_StricterMargin = fl 0.2,
     d_WeightIP = fl 0.40, d_WeightUser = fl 0.60, d_WeightBoost = fl 0.30,
     d_IdentityMode = ''jwt'', d_JWTSecret = secret,
     d_OpaqueURL = ''http://localhost:8080/auth/verify'', d_AuthAPIFailOpen = True, d_UseTLS = False,
     d_CorazaRulesPath = ''crs'', d_EnableCoraza = True,
     d_TierAllowRate = 100, d_TierAllowBurst = 150, d_TierStricterRate = 30, d_TierStricterBurst = 50,
     d_TierChallengeRate = 10, d_TierChallengeBurst = 20, d_Trustscore = trustscore,
     d_Tier1Config = default_tier1, d_EnableRASP = False, d_RASPSocketPath = ''/run/waf-rasp.sock'',
     d_TrustXForwardedFor = False \<rparr>"

text \<open>The zero value that a field has when the configuration file does not name it.\<close>

definition zero_config :: "config \<Rightarrow> waf_config" where
  "zero_config trustscore = \<lparr>
     d_Threshold = 0, d_StricterMargin = 0, d_WeightIP = 0, d_WeightUser = 0, d_WeightBoost = 0,
     d_IdentityMode = [], d_JWTSecret = [], d_OpaqueURL = [], d_AuthAPIFailOpen = False,
     d_UseTLS = False, d_CorazaRulesPath = [], d_EnableCoraza = False,
     d_TierAllowRate = 0, d_TierAllowBurst = 0, d_TierStricterRate = 0, d_TierStricterBurst = 0,
     d_TierChallengeRate = 0, d_TierChallengeBurst = 0, d_Trustscore = trustscore,
     d_Tier1Config = \<lparr> tk_Enabled = False, tk_ModelURL = [], tk_ModelAPIKey = [],
       tk_ConfidenceThreshold = 0, tk_WorkerCount = 0, tk_MaxRetries = 0, tk_CorrectionDelta = 0,
       tk_GreyZones = Map.empty, tk_RedisQueueKey = [], tk_RedisFailedKey = [],
       tk_RedisResultPrefix = [], tk_AuditDBPath = [] \<rparr>,
     d_EnableRASP = False, d_RASPSocketPath = [], d_TrustXForwardedFor = False \<rparr>"

end
