(* ===== verification/Clearance.thy ===== *)
theory Clearance
  imports Go_Http Go_Time Sha256 Waf_Config
begin

text \<open>
  The challenge tokens (\<open>tier-0/crypto.go\<close>) and the functions of \<open>tier-0/proxy.go\<close> that read a
  request: the address of the client, the session identifier, the check of the clearance cookie
  and of the proof of work. A token is \<open>salt:nonce:signature\<close> with the salt \<open>address:date\<close>.
\<close>

section \<open>Tokens\<close>

definition generateClearanceToken :: "string \<Rightarrow> string \<Rightarrow> string \<Rightarrow> string" where
  "generateClearanceToken salt nonce secret =
     (let payload = salt @ '':'' @ nonce
      in payload @ '':'' @ hex_string (hmac_sha256 secret payload))"

text \<open>The part after the last colon, or everything when there is none.\<close>

definition after_colon :: "string \<Rightarrow> string" where
  "after_colon s = (case split_last (CHR '':'') s of Some (a, b) \<Rightarrow> b | None \<Rightarrow> s)"

text \<open>The named results are returned as they are at each \<open>return\<close>.\<close>

definition verifyClearanceToken :: "string \<Rightarrow> string \<Rightarrow> moment \<Rightarrow> string \<times> string \<times> bool" where
  "verifyClearanceToken token secret now =
     (case split_last (CHR '':'') token of
        None \<Rightarrow> ([], [], False)
      | Some (beforeSig, sig) \<Rightarrow>
          (case split_last (CHR '':'') beforeSig of
             None \<Rightarrow> ([], [], False)
           | Some (salt, nonce) \<Rightarrow>
               (let dateStr = after_colon salt
                in if dateStr \<noteq> date_today now \<and> dateStr \<noteq> date_yesterday now
                   then (salt, nonce, False)
                   else if token \<noteq> generateClearanceToken salt nonce secret
                   then (salt, nonce, False) else (salt, nonce, True))))"

definition ipv4Mask24 :: "string \<Rightarrow> string" where
  "ipv4Mask24 ip =
     (case go_split (CHR ''.'') ip of
        [a, b, c, d] \<Rightarrow> a @ ''.'' @ b @ ''.'' @ c @ ''.0''
      | _ \<Rightarrow> [])"

text \<open>\<open>To4\<close> also succeeds on the addresses of version 6 that stand for one of version 4.\<close>

definition ipv6Mask64 :: "string \<Rightarrow> string" where
  "ipv6Mask64 ip =
     (case parse_ip6 ip of
        None \<Rightarrow> []
      | Some gs \<Rightarrow> if take 6 gs = [0, 0, 0, 0, 0, 65535] then [] else masked64_string gs)"

section \<open>Reading a request\<close>

definition verifyChallengeCookie :: "waf_config \<Rightarrow> http_request \<Rightarrow> string \<Rightarrow> moment \<Rightarrow> bool" where
  "verifyChallengeCookie cfg r clientIP now =
     (if d_JWTSecret cfg = [] then False
      else (case request_Cookie r ''waf_clearance'' of
              None \<Rightarrow> False
            | Some cookie \<Rightarrow>
                (let (salt, nonce, valid) = verifyClearanceToken cookie (d_JWTSecret cfg) now
                 in if \<not> valid then False
                    else (case split_last (CHR '':'') salt of
                            None \<Rightarrow> False
                          | Some (saltIP, date) \<Rightarrow>
                              if saltIP = clientIP then True
                              else if ipv4Mask24 clientIP \<noteq> [] \<and> saltIP = ipv4Mask24 clientIP then True
                              else if ipv6Mask64 clientIP \<noteq> [] \<and> saltIP = ipv6Mask64 clientIP then True
                              else False))))"

definition getClientIP :: "waf_config \<Rightarrow> http_request \<Rightarrow> string" where
  "getClientIP cfg r =
     (let xff = header_Get (h_Header r) ''X-Forwarded-For'';
          first = TrimSpace (hd (go_split (CHR '','') xff))
      in if d_TrustXForwardedFor cfg \<and> xff \<noteq> [] \<and> first \<noteq> [] then first
         else (case split_last (CHR '':'') (h_RemoteAddr r) of
                 Some (ip, port) \<Rightarrow> ip
               | None \<Rightarrow> h_RemoteAddr r))"

definition verifyNonce :: "string \<Rightarrow> string \<Rightarrow> bool" where
  "verifyNonce nonce expectedSalt \<longleftrightarrow>
     prefix ''00000'' (hex_string (sha256 (expectedSalt @ nonce)))"

definition extractSessionID :: "http_request \<Rightarrow> string \<Rightarrow> string" where
  "extractSessionID r clientIP =
     (let cookie = (\<lambda>name. case request_Cookie r name of Some v \<Rightarrow> v | None \<Rightarrow> []);
          h = header_Get (h_Header r) ''X-Session-ID''
      in if cookie ''session_id'' \<noteq> [] then cookie ''session_id''
         else if cookie ''waf_session'' \<noteq> [] then cookie ''waf_session''
         else if h \<noteq> [] then h
         else take 16 (hex_string (sha256 (clientIP @ '':'' @ UserAgent r))))"

text \<open>The salt that a client has to solve and that its token carries.\<close>

definition challenge_salt :: "string \<Rightarrow> moment \<Rightarrow> string" where
  "challenge_salt clientIP now = clientIP @ '':'' @ date_today now"

section \<open>What a token proves\<close>

text \<open>A token is accepted exactly when the server signed that salt and nonce for today or yesterday.\<close>

lemma verify_generated:
  assumes "CHR '':'' \<notin> set nonce"
  shows "verifyClearanceToken (generateClearanceToken salt nonce secret) secret now =
    (salt, nonce, after_colon salt = date_today now \<or> after_colon salt = date_yesterday now)"
proof -
  have t: "split_last (CHR '':'') (generateClearanceToken salt nonce secret) =
      Some (salt @ '':'' @ nonce, hex_string (hmac_sha256 secret (salt @ '':'' @ nonce)))"
    by (simp add: generateClearanceToken_def Let_def split_last_Some)
  have "split_last (CHR '':'') (salt @ '':'' @ nonce) = Some (salt, nonce)"
    using assms by (simp add: split_last_Some)
  with t show ?thesis by (simp add: verifyClearanceToken_def Let_def)
qed

lemma verify_valid_iff:
  "verifyClearanceToken token secret now = (salt, nonce, True) \<longleftrightarrow>
     token = generateClearanceToken salt nonce secret \<and> CHR '':'' \<notin> set nonce \<and>
     (after_colon salt = date_today now \<or> after_colon salt = date_yesterday now)"
proof
  assume v: "verifyClearanceToken token secret now = (salt, nonce, True)"
  then obtain a sig where a: "split_last (CHR '':'') token = Some (a, sig)"
    by (auto simp: verifyClearanceToken_def split: option.splits)
  with v obtain s n where s: "split_last (CHR '':'') a = Some (s, n)"
    by (auto simp: verifyClearanceToken_def split: option.splits)
  from s have "CHR '':'' \<notin> set n" by (simp add: split_last_Some)
  with v a s show "token = generateClearanceToken salt nonce secret \<and> CHR '':'' \<notin> set nonce \<and>
      (after_colon salt = date_today now \<or> after_colon salt = date_yesterday now)"
    by (auto simp: verifyClearanceToken_def Let_def split: if_splits)
next
  assume "token = generateClearanceToken salt nonce secret \<and> CHR '':'' \<notin> set nonce \<and>
     (after_colon salt = date_today now \<or> after_colon salt = date_yesterday now)"
  then show "verifyClearanceToken token secret now = (salt, nonce, True)"
    by (auto simp: verify_generated)
qed

lemma after_salt [simp]: "after_colon (ip @ CHR '':'' # day_string n) = day_string n"
  by (simp add: after_colon_def)

lemma mask24_shape: "ipv4Mask24 ip = [] \<or> suffix ''.0'' (ipv4Mask24 ip)"
proof -
  have "suffix ''.0'' (xs @ ''.0'')" for xs :: string by (simp add: suffix_def)
  from this[of "a @ ''.'' @ b @ ''.'' @ c" for a b c] show ?thesis
    by (simp add: ipv4Mask24_def split: list.split)
qed

lemma mask64_shape: "ipv6Mask64 ip = [] \<or> suffix ''::'' (ipv6Mask64 ip)"
  by (auto simp: ipv6Mask64_def masked64_string_def suffix_def split: option.split)

text \<open>The days of two moments that print with four-digit years.\<close>

lemma date_today_iff:
  assumes "four_digit_day (local_day t)" "four_digit_day (local_day now)" "four_digit_day (local_day now - 1)"
  shows "date_today t = date_today now \<longleftrightarrow> local_day now = local_day t"
    and "date_today t = date_yesterday now \<longleftrightarrow> local_day now = local_day t + 1"
  using day_string_inject[OF assms(1,2)] day_string_inject[OF assms(1,3)]
  by (auto simp: date_today_def date_yesterday_def)


definition token_request :: "string \<Rightarrow> http_request" where
  "token_request token = \<lparr> h_Method = ''GET'', h_Path = ''/'', h_RawQuery = [],
     h_Header = [''Cookie'' \<mapsto> [''waf_clearance='' @ cookie_text token]], h_Body = Some [],
     h_RemoteAddr = ''10.0.0.1:5000'', h_Host = ''example.org'' \<rparr>"

text \<open>The characters that a cookie needs no quotes for.\<close>

definition plain_char :: "char \<Rightarrow> bool" where
  "plain_char c \<longleftrightarrow> valid_cookie_byte c \<and> c \<noteq> CHR '' ''"

lemma go_split_single: "c \<notin> set s \<Longrightarrow> go_split c s = [s]"
  by (induction s) auto

lemma TrimString_id: "list_all (\<lambda>c. \<not> is_ascii_space c) s \<Longrightarrow> TrimString s = s"
proof -
  have d: "dropWhile is_ascii_space s = s" if "list_all (\<lambda>c. \<not> is_ascii_space c) s" for s
    using that by (cases s) simp_all
  assume "list_all (\<lambda>c. \<not> is_ascii_space c) s"
  moreover from this have "list_all (\<lambda>c. \<not> is_ascii_space c) (rev s)" by simp
  ultimately show ?thesis by (simp add: TrimString_def d)
qed

lemma plain_char_not: "plain_char c \<Longrightarrow> \<not> is_ascii_space c \<and> c \<noteq> CHR '';'' \<and> c \<noteq> CHR 0x22"
proof -
  have "\<not> plain_char (CHR '' '')" "\<not> plain_char (CHR 0x09)" "\<not> plain_char (CHR 0x0A)" "\<not> plain_char (CHR 0x0D)"
    "\<not> plain_char (CHR '';'')" "\<not> plain_char (CHR 0x22)" by code_simp+
  then show "plain_char c \<Longrightarrow> \<not> is_ascii_space c \<and> c \<noteq> CHR '';'' \<and> c \<noteq> CHR 0x22"
    unfolding is_ascii_space_def by (metis empty_iff empty_set insert_iff list.set(2))
qed

lemma cut_at_append: "c \<notin> set a \<Longrightarrow> cut_at c (a @ c # b) = (a, b)"
  by (induction a) (auto simp: cut_at_def)

lemma TrimString_ends:
  assumes "s \<noteq> []" "\<not> is_ascii_space (hd s)" "\<not> is_ascii_space (last s)"
  shows "TrimString s = s"
proof -
  have d: "dropWhile is_ascii_space t = t" if "t \<noteq> []" "\<not> is_ascii_space (hd t)" for t
    using that by (cases t) simp_all
  show ?thesis using assms by (simp add: TrimString_def d hd_rev)
qed

text \<open>A request that brings one cookie back as \<open>http.SetCookie\<close> sent it.\<close>

lemma single_cookie:
  assumes "h_Header r ''Cookie'' = Some [name @ ''='' @ cookie_text v]" and "is_token name" "CHR ''='' \<notin> set name"
    and "list_all plain_char name"
  shows "request_Cookie r name = Some (filter valid_cookie_byte v)"
proof -
  let ?t = "cookie_text v"
  let ?line = "name @ ''='' @ ?t"
  have name: "name \<noteq> []" "\<forall>c\<in>set name. \<not> is_ascii_space c \<and> c \<noteq> CHR '';'' \<and> c \<noteq> CHR 0x22"
    using assms(2,4) plain_char_not by (auto simp: list_all_iff is_token_def)
  have t: "CHR '';'' \<notin> set ?t" by (auto simp: cookie_text_def Let_def valid_cookie_byte_def)
  have ctl: "\<not> valid_cookie_byte (CHR 0x09)" "\<not> valid_cookie_byte (CHR 0x0A)" "\<not> valid_cookie_byte (CHR 0x0D)"
    by code_simp+
  have "\<not> is_ascii_space (last ?line)"
  proof (cases "?t = []")
    case False
    have "\<not> is_ascii_space (last ?t)"
    proof (cases "CHR '' '' \<in> set (filter valid_cookie_byte v) \<or> CHR '','' \<in> set (filter valid_cookie_byte v)")
      case True
      then show ?thesis by (auto simp: cookie_text_def Let_def is_ascii_space_def)
    next
      case no: False
      then have "?t = filter valid_cookie_byte v" by (auto simp: cookie_text_def Let_def)
      with no False last_in_set[OF False] ctl show ?thesis by (auto simp: is_ascii_space_def)
    qed
    with False show ?thesis by simp
  qed (simp add: is_ascii_space_def)
  with name have "TrimString ?line = ?line" by (intro TrimString_ends) auto
  moreover have "go_split (CHR '';'') ?line = [?line]" by (rule go_split_single) (use name t in auto)
  moreover have "TrimString name = name" by (rule TrimString_id) (use name in \<open>simp add: list_all_iff\<close>)
  moreover have "cut_at (CHR ''='') ?line = (name, ?t)"
    using cut_at_append[OF assms(3)] by simp
  ultimately show ?thesis
    using assms(1,2) parse_cookie_text[of v]
    by (simp add: request_Cookie_def cookies_def cookie_part_def List.map_filter_def)
qed

lemma filter_plain: "list_all plain_char s \<Longrightarrow> filter valid_cookie_byte s = s"
  by (rule filter_True) (auto simp: list_all_iff plain_char_def)

lemma cookie_text_bytes:
  assumes "list_all valid_cookie_byte s"
  shows "filter valid_cookie_byte s = s"
  using assms by (intro filter_True) (simp add: list_all_iff)

lemma token_request_Cookie:
  "request_Cookie (token_request token) ''waf_clearance'' = Some (filter valid_cookie_byte token)"
proof (rule single_cookie)
  show "is_token ''waf_clearance''" "list_all plain_char ''waf_clearance''" by code_simp+
qed (simp_all add: token_request_def)

lemma plain_chars [simp]:
  "list_all plain_char (hex_string s)" "list_all plain_char (decimal k n)" "list_all plain_char (day_string n)"
proof -
  have d: "list_all plain_char ''0123456789abcdef''" by code_simp
  then have "plain_char c" if "c \<in> set ''0123456789abcdef''" for c using that unfolding list_all_iff by blast
  from this[OF hex_digit_in] show "list_all plain_char (hex_string s)"
    by (simp add: hex_string_def list_all_iff)
  show dec: "list_all plain_char (decimal k n)" for k n
    using d decimal_digits[of k n] by (auto simp: list_all_iff)
  have "plain_char (CHR ''-'')" by code_simp
  then show "list_all plain_char (day_string n)"
    using dec by (simp add: day_string_def case_prod_unfold Let_def)
qed

lemma plain_token:
  assumes "list_all plain_char ip" "list_all plain_char nonce"
  shows "list_all plain_char (generateClearanceToken (challenge_salt ip issued) nonce secret)"
proof -
  have "plain_char (CHR '':'')" by code_simp
  with assms show ?thesis
    by (simp add: generateClearanceToken_def Let_def challenge_salt_def date_today_def)
qed

definition noon :: "int \<Rightarrow> moment" where
  "noon day = \<lparr> tm_Nanos = (day * 86400 + 43200) * 10 ^ 9, tm_Zone = 0 \<rparr>"

lemma local_day_noon [simp]: "local_day (noon day) = day + 719162"
  by (simp add: noon_def local_day_def time_Unix_def)


end
