(* ===== verification/Rate_Limiter.thy ===== *)
theory Rate_Limiter
  imports Go_Http Go_Time
begin

text \<open>
  Rate limiting (\<open>tier-0/rate_limiter.go\<close>, \<open>redis_rate_limiter.go\<close>): a token bucket for every
  address and every user in memory, and a counter per minute in Redis. Both implement the
  interface \<open>RateLimiterBackend\<close>; here that is the locale \<open>rate_backend\<close>, whose laws say that a
  call reads and changes the part of the state that belongs to its own client. Times are the
  nanoseconds of \<open>time.Now()\<close>.
\<close>

section \<open>Token buckets\<close>

record token_bucket =
  tb_tokens :: real
  tb_lastFill :: int
  tb_rate :: real
  tb_burst :: real

definition NewTokenBucket :: "real \<Rightarrow> real \<Rightarrow> int \<Rightarrow> token_bucket" where
  "NewTokenBucket rate burst now =
     \<lparr> tb_tokens = burst, tb_lastFill = now, tb_rate = rate, tb_burst = burst \<rparr>"

definition bucket_Allow :: "real \<Rightarrow> real \<Rightarrow> int \<Rightarrow> token_bucket \<Rightarrow> bool \<times> token_bucket" where
  "bucket_Allow rate burst now tb =
     (let tb = tb\<lparr>tb_rate := rate, tb_burst := burst\<rparr>;
          elapsed = dur_Seconds (now - tb_lastFill tb);
          newTokens = fadd (tb_tokens tb) (fmul elapsed (tb_rate tb));
          newTokens = (if newTokens > tb_burst tb then tb_burst tb else newTokens);
          tb = tb\<lparr>tb_tokens := newTokens, tb_lastFill := now\<rparr>
      in if tb_tokens tb \<ge> 1 then (True, tb\<lparr>tb_tokens := fsub (tb_tokens tb) 1\<rparr>)
         else (False, tb))"

definition IdleTime :: "int \<Rightarrow> token_bucket \<Rightarrow> int" where
  "IdleTime now tb = now - tb_lastFill tb"

section \<open>The interface\<close>

text \<open>The two methods of the interface are one function on a client, which is an address or a user.\<close>

datatype client = AtIP string | AtUser string

type_synonym request_time = "int \<times> client \<times> real \<times> real"

locale rate_backend =
  fixes allow :: "int \<Rightarrow> client \<Rightarrow> real \<Rightarrow> real \<Rightarrow> 's \<Rightarrow> (bool \<times> bool) \<times> 's"
    and view :: "'s \<Rightarrow> client \<Rightarrow> 'v"
    and verdict :: "int \<Rightarrow> real \<Rightarrow> real \<Rightarrow> 'v \<Rightarrow> bool \<times> bool"
    and after :: "int \<Rightarrow> real \<Rightarrow> real \<Rightarrow> 'v \<Rightarrow> 'v"
  assumes allow_verdict: "fst (allow now k rate burst s) = verdict now rate burst (view s k)"
    and allow_own: "view (snd (allow now k rate burst s)) k = after now rate burst (view s k)"
    and allow_other: "k' \<noteq> k \<Longrightarrow> view (snd (allow now k rate burst s)) k' = view s k'"
begin

fun run :: "request_time list \<Rightarrow> 's \<Rightarrow> (client \<times> bool \<times> bool) list" where
  "run [] s = []"
| "run ((now, k, rate, burst) # calls) s =
     (k, fst (allow now k rate burst s)) # run calls (snd (allow now k rate burst s))"

fun own_run :: "request_time list \<Rightarrow> 'v \<Rightarrow> (bool \<times> bool) list" where
  "own_run [] v = []"
| "own_run ((now, k, rate, burst) # calls) v = verdict now rate burst v # own_run calls (after now rate burst v)"

text \<open>What a client is answered depends on its own calls only.\<close>

lemma run_own:
  "map snd (filter (\<lambda>(k', b). k' = k) (run calls s)) =
     own_run (filter (\<lambda>(now, k', rate, burst). k' = k) calls) (view s k)"
  by (induction calls s rule: run.induct) (auto simp: allow_verdict allow_own allow_other)

end

section \<open>The limiter in memory\<close>

record rate_limiter =
  rl_ipBuckets :: "string \<rightharpoonup> token_bucket"
  rl_userBuckets :: "string \<rightharpoonup> token_bucket"

definition NewRateLimiter :: rate_limiter where
  "NewRateLimiter = \<lparr> rl_ipBuckets = Map.empty, rl_userBuckets = Map.empty \<rparr>"

definition bucket_of :: "(string \<rightharpoonup> token_bucket) \<Rightarrow> string \<Rightarrow> real \<Rightarrow> real \<Rightarrow> int \<Rightarrow> token_bucket" where
  "bucket_of m key rate burst now =
     (case m key of Some tb \<Rightarrow> tb | None \<Rightarrow> NewTokenBucket rate burst now)"

definition AllowIP :: "int \<Rightarrow> string \<Rightarrow> real \<Rightarrow> real \<Rightarrow> rate_limiter \<Rightarrow> (bool \<times> bool) \<times> rate_limiter" where
  "AllowIP now ip rate burst rl =
     (let (ok, tb) = bucket_Allow rate burst now (bucket_of (rl_ipBuckets rl) ip rate burst now)
      in ((ok, True), rl\<lparr>rl_ipBuckets := (rl_ipBuckets rl)(ip \<mapsto> tb)\<rparr>))"

definition AllowUser :: "int \<Rightarrow> string \<Rightarrow> real \<Rightarrow> real \<Rightarrow> rate_limiter \<Rightarrow> (bool \<times> bool) \<times> rate_limiter" where
  "AllowUser now userID rate burst rl =
     (let (ok, tb) = bucket_Allow rate burst now (bucket_of (rl_userBuckets rl) userID rate burst now)
      in ((ok, True), rl\<lparr>rl_userBuckets := (rl_userBuckets rl)(userID \<mapsto> tb)\<rparr>))"

text \<open>One tick of the eviction.\<close>

definition drop_idle :: "int \<Rightarrow> int \<Rightarrow> (string \<rightharpoonup> token_bucket) \<Rightarrow> (string \<rightharpoonup> token_bucket)" where
  "drop_idle now maxIdle m =
     (\<lambda>k. case m k of Some b \<Rightarrow> if IdleTime now b > maxIdle then None else Some b | None \<Rightarrow> None)"

definition evict_buckets :: "int \<Rightarrow> int \<Rightarrow> rate_limiter \<Rightarrow> rate_limiter" where
  "evict_buckets now maxIdle rl =
     rl\<lparr>rl_ipBuckets := drop_idle now maxIdle (rl_ipBuckets rl),
        rl_userBuckets := drop_idle now maxIdle (rl_userBuckets rl)\<rparr>"

text \<open>The limit that \<open>NewRateLimiter\<close> starts the eviction with: ten minutes.\<close>

definition maxIdle :: int where
  "maxIdle = 600 * 10 ^ 9"

definition memory_allow :: "int \<Rightarrow> client \<Rightarrow> real \<Rightarrow> real \<Rightarrow> rate_limiter \<Rightarrow> (bool \<times> bool) \<times> rate_limiter" where
  "memory_allow now k rate burst rl =
     (case k of AtIP ip \<Rightarrow> AllowIP now ip rate burst rl | AtUser u \<Rightarrow> AllowUser now u rate burst rl)"

definition memory_view :: "rate_limiter \<Rightarrow> client \<Rightarrow> token_bucket option" where
  "memory_view rl k = (case k of AtIP ip \<Rightarrow> rl_ipBuckets rl ip | AtUser u \<Rightarrow> rl_userBuckets rl u)"

definition own_bucket :: "int \<Rightarrow> real \<Rightarrow> real \<Rightarrow> token_bucket option \<Rightarrow> bool \<times> token_bucket" where
  "own_bucket now rate burst v =
     bucket_Allow rate burst now (case v of Some tb \<Rightarrow> tb | None \<Rightarrow> NewTokenBucket rate burst now)"

lemma own_bucket_simps [simp]:
  "own_bucket now rate burst None = bucket_Allow rate burst now (NewTokenBucket rate burst now)"
  "own_bucket now rate burst (Some tb) = bucket_Allow rate burst now tb"
  by (simp_all add: own_bucket_def)

interpretation memory: rate_backend memory_allow memory_view
  "\<lambda>now rate burst v. (fst (own_bucket now rate burst v), True)"
  "\<lambda>now rate burst v. Some (snd (own_bucket now rate burst v))"
  by unfold_locales
    (auto simp: memory_allow_def memory_view_def AllowIP_def AllowUser_def bucket_of_def own_bucket_def
      case_prod_unfold Let_def split: client.splits)

section \<open>The limiter in Redis\<close>

text \<open>
  The counters by their key; \<open>None\<close> is a client that was not given. A counter expires two windows
  later, when its key is not used any more. \<open>up\<close> says whether the pipeline succeeds; a pipeline
  that fails has counted nothing.
\<close>

type_synonym redis_limiter = "(string \<rightharpoonup> int) option"

fun nat_digits :: "nat \<Rightarrow> string" where
  "nat_digits n =
     (if n < 10 then [''0123456789'' ! n] else nat_digits (n div 10) @ [''0123456789'' ! (n mod 10)])"

declare nat_digits.simps [simp del]

definition int_digits :: "int \<Rightarrow> string" where
  "int_digits n = (if n < 0 then CHR ''-'' # nat_digits (nat (- n)) else nat_digits (nat n))"

definition ratelimit_key :: "string \<Rightarrow> string \<Rightarrow> int \<Rightarrow> string" where
  "ratelimit_key kind key windowID = ''ratelimit:'' @ kind @ '':'' @ key @ '':'' @ int_digits windowID"

definition counter :: "(string \<rightharpoonup> int) \<Rightarrow> string \<Rightarrow> int" where
  "counter m key = (case m key of Some n \<Rightarrow> n | None \<Rightarrow> 0)"

definition window_of :: "int \<Rightarrow> int" where
  "window_of now = go_trunc (of_int (now div 10 ^ 9) / 60)"

definition redis_count ::
    "bool \<Rightarrow> int \<Rightarrow> string \<Rightarrow> string \<Rightarrow> real \<Rightarrow> real \<Rightarrow> redis_limiter \<Rightarrow> (bool \<times> bool) \<times> redis_limiter" where
  "redis_count up now kind key rate burst rl =
     (case rl of
        None \<Rightarrow> ((True, False), rl)
      | Some m \<Rightarrow>
          (let redisKey = ratelimit_key kind key (window_of now);
               limit = go_trunc (fmul rate (fint 60))
           in if \<not> up then ((True, False), rl)
              else let n = counter m redisKey + 1
                   in ((n \<le> limit, True), Some (m(redisKey \<mapsto> n)))))"

definition redis_allow :: "bool \<Rightarrow> int \<Rightarrow> client \<Rightarrow> real \<Rightarrow> real \<Rightarrow> redis_limiter \<Rightarrow> (bool \<times> bool) \<times> redis_limiter" where
  "redis_allow up now k rate burst rl =
     (case k of AtIP ip \<Rightarrow> redis_count up now ''ip'' ip rate burst rl
      | AtUser u \<Rightarrow> redis_count up now ''user'' u rate burst rl)"

lemma digit_char: "n < 10 \<Longrightarrow> is_digit (''0123456789'' ! n) \<and> digit_val (''0123456789'' ! n) = int n"
  by (auto simp: is_digit_def digit_val_def numeral_eq_Suc less_Suc_eq)

lemma nat_digits_val: "list_all is_digit (nat_digits n) \<and> digits_val (nat_digits n) = int n"
proof (induction n rule: nat_digits.induct)
  case (1 n)
  show ?case
  proof (cases "n < 10")
    case True
    then show ?thesis using digit_char[OF True] by (simp add: nat_digits.simps[of n] digits_val_def)
  next
    case False
    then show ?thesis
      using 1[OF False] digit_char[of "n mod 10"] zdiv_int[of n 10] zmod_int[of n 10]
      by (simp add: nat_digits.simps[of n] digits_val_def)
  qed
qed

lemma nat_digits_inject: "nat_digits m = nat_digits n \<longleftrightarrow> m = n"
  using nat_digits_val by (metis of_nat_eq_iff)

lemma nat_digits_chars: "c \<in> set (nat_digits n) \<Longrightarrow> is_digit c"
  using nat_digits_val[of n] by (simp add: list_all_iff)

lemma minus_not_digit [simp]: "\<not> is_digit (CHR ''-'')" and colon_not_digit [simp]: "\<not> is_digit (CHR '':'')"
  by (simp_all add: is_digit_def)

lemma int_digits_inject: "int_digits m = int_digits n \<longleftrightarrow> m = n"
proof
  assume eq: "int_digits m = int_digits n"
  have no: "nat_digits a \<noteq> CHR ''-'' # nat_digits b" for a b
    using nat_digits_chars[of "CHR ''-''" a] by (metis list.set_intros(1) minus_not_digit)
  from eq no no[symmetric] show "m = n"
    by (auto simp: int_digits_def nat_digits_inject split: if_splits)
qed simp

lemma int_digits_no_colon: "CHR '':'' \<notin> set (int_digits n)"
  using nat_digits_chars[of "CHR '':''"] by (auto simp: int_digits_def)

lemma ratelimit_key_inject:
  assumes "kind \<in> {''ip'', ''user''}" "kind' \<in> {''ip'', ''user''}"
  shows "ratelimit_key kind key w = ratelimit_key kind' key' w' \<longleftrightarrow> kind = kind' \<and> key = key' \<and> w = w'"
proof
  assume "ratelimit_key kind key w = ratelimit_key kind' key' w'"
  then have "split_last (CHR '':'') ((kind @ '':'' @ key) @ CHR '':'' # int_digits w) =
      split_last (CHR '':'') ((kind' @ '':'' @ key') @ CHR '':'' # int_digits w')"
    by (simp add: ratelimit_key_def)
  then have "kind @ '':'' @ key = kind' @ '':'' @ key'" "int_digits w = int_digits w'"
    by (simp_all only: split_last_append[OF int_digits_no_colon] option.inject prod.inject)
  then show "kind = kind' \<and> key = key' \<and> w = w'"
    using assms by (auto simp: int_digits_inject)
qed simp

definition client_key :: "client \<Rightarrow> int \<Rightarrow> string" where
  "client_key k w = (case k of AtIP ip \<Rightarrow> ratelimit_key ''ip'' ip w | AtUser u \<Rightarrow> ratelimit_key ''user'' u w)"

lemma client_key_inject [simp]: "client_key k w = client_key k' w' \<longleftrightarrow> k = k' \<and> w = w'"
  by (auto simp: client_key_def ratelimit_key_inject split: client.splits)

definition redis_view :: "redis_limiter \<Rightarrow> client \<Rightarrow> (int \<Rightarrow> int) option" where
  "redis_view rl k = map_option (\<lambda>m w. counter m (client_key k w)) rl"

definition own_count :: "bool \<Rightarrow> int \<Rightarrow> real \<Rightarrow> (int \<Rightarrow> int) option \<Rightarrow> bool \<times> bool" where
  "own_count up now rate v =
     (case v of Some c \<Rightarrow> if up then (c (window_of now) + 1 \<le> go_trunc (fmul rate (fint 60)), True) else (True, False)
      | None \<Rightarrow> (True, False))"

definition after_count :: "bool \<Rightarrow> int \<Rightarrow> (int \<Rightarrow> int) option \<Rightarrow> (int \<Rightarrow> int) option" where
  "after_count up now v = (if up then map_option (\<lambda>c. c(window_of now := c (window_of now) + 1)) v else v)"

lemma counter_upd [simp]: "counter (m(k \<mapsto> n)) k' = (if k' = k then n else counter m k')"
  by (simp add: counter_def)

lemma redis_allow_key:
  "redis_allow up now k rate burst rl =
     (case rl of
        None \<Rightarrow> ((True, False), rl)
      | Some m \<Rightarrow>
          if \<not> up then ((True, False), rl)
          else let n = counter m (client_key k (window_of now)) + 1
               in ((n \<le> go_trunc (fmul rate (fint 60)), True), Some (m(client_key k (window_of now) \<mapsto> n))))"
  by (simp add: redis_allow_def redis_count_def client_key_def Let_def split: client.split option.split)

interpretation redis_backend: rate_backend "redis_allow up" redis_view
  "\<lambda>now rate burst. own_count up now rate" "\<lambda>now rate burst. after_count up now" for up
  by unfold_locales
    (auto simp: redis_allow_key redis_view_def own_count_def after_count_def Let_def intro!: ext
      split: option.splits)

section \<open>What a bucket lets through\<close>

lemma abs_upper: "\<bar>a - b\<bar> \<le> c \<Longrightarrow> a \<le> b + c" for a b c :: real
  by linarith

lemma dur_Seconds_error:
  assumes "0 \<le> d" and "d < 2 ^ 20 * 10 ^ 9"
  shows "0 \<le> dur_Seconds d" "dur_Seconds d < 2 ^ 21" "\<bar>dur_Seconds d - of_int d / 10 ^ 9\<bar> \<le> 1 / 2 ^ 33"
proof -
  define sec nsec where "sec = d div 10 ^ 9" and "nsec = d mod 10 ^ 9"
  have tr: "go_trunc (of_int d / 10 ^ 9) = sec"
    using assms(1) floor_divide_of_int_eq[of d "10 ^ 9"] by (simp add: go_trunc_def sec_def)
  have d: "d = sec * 10 ^ 9 + nsec" by (simp add: sec_def nsec_def)
  then have nsec_eq: "d - sec * 10 ^ 9 = nsec" by simp
  have ns: "0 \<le> nsec" "nsec < 10 ^ 9" by (simp_all add: nsec_def)
  have sc: "0 \<le> sec" "sec < 2 ^ 20"
    using assms by (simp_all add: sec_def pos_imp_zdiv_nonneg_iff div_pos_geq)
  let ?f = "fdiv (fint nsec) (10 ^ 9)"
  have fs: "fint sec = of_int sec" "fint nsec = of_int nsec" using sc ns by (auto intro!: fint_exact)
  have q: "0 \<le> real_of_int nsec / 10 ^ 9" "real_of_int nsec / 10 ^ 9 < 1" using ns by simp_all
  have "\<bar>?f - real_of_int nsec / 10 ^ 9\<bar> \<le> 2 ^ 0 / 2 ^ 54"
    unfolding fdiv_def fs by (rule fl_error) (use q in auto)
  moreover have f1: "?f \<le> 1" unfolding fdiv_def fs by (rule fl_le) (use q in auto)
  moreover have f0: "0 \<le> ?f" using ns by simp
  moreover have ds: "dur_Seconds d = fl (of_int sec + ?f)"
    unfolding dur_Seconds_def Let_def tr nsec_eq fadd_def by (simp only: fs)
  moreover have "\<bar>fl (of_int sec + ?f) - (of_int sec + ?f)\<bar> \<le> 2 ^ 20 / 2 ^ 54"
  proof (cases "?f = 1")
    case True
    then have "fl (of_int sec + ?f) = of_int sec + ?f" using sc repr_of_int[of "sec + 1"] by simp
    then show ?thesis by simp
  next
    case False
    have "real_of_int sec \<le> 2 ^ 20 - 1" using sc by simp
    with False f1 f0 sc show ?thesis by (intro fl_error) auto
  qed
  moreover have "of_int d / 10 ^ 9 = of_int sec + real_of_int nsec / 10 ^ 9" by (simp add: d field_simps)
  ultimately have "\<bar>dur_Seconds d - of_int d / 10 ^ 9\<bar> \<le> 2 ^ 20 / 2 ^ 54 + 2 ^ 0 / 2 ^ 54" by linarith
  then show "\<bar>dur_Seconds d - of_int d / 10 ^ 9\<bar> \<le> 1 / 2 ^ 33" by (rule order_trans) simp
  show "0 \<le> dur_Seconds d" using ds sc f0 by simp
  have "dur_Seconds d \<le> 2 ^ 20" unfolding ds
    using sc f1 repr_of_int[of "2 ^ 20"] by (intro fl_le) auto
  then show "dur_Seconds d < 2 ^ 21" by simp
qed

text \<open>The limits the bound is proved for, and a bucket that respects them.\<close>

definition limits_ok :: "real \<Rightarrow> real \<Rightarrow> bool" where
  "limits_ok rate burst \<longleftrightarrow> 0 \<le> rate \<and> rate \<le> 2 ^ 10 \<and> 0 \<le> burst \<and> burst < 2 ^ 20 \<and> repr burst"

lemma bucket_step:
  assumes "limits_ok rate burst" and "0 \<le> tb_tokens tb" "tb_tokens tb \<le> burst"
    and "tb_lastFill tb \<le> now" "now - tb_lastFill tb < 2 ^ 20 * 10 ^ 9"
    and "bucket_Allow rate burst now tb = (ok, tb')"
  shows "0 \<le> tb_tokens tb'" "tb_tokens tb' \<le> burst" "tb_lastFill tb' = now"
    and "tb_tokens tb' + of_bool ok
      \<le> tb_tokens tb + rate * of_int (now - tb_lastFill tb) / 10 ^ 9 + 1 / 2 ^ 20"
proof -
  define el where "el = dur_Seconds (now - tb_lastFill tb)"
  define ex where "ex = of_int (now - tb_lastFill tb) / (10 ^ 9 :: real)"
  define x where "x = fmul el rate"
  define y where "y = fadd (tb_tokens tb) x"
  define new where "new = (if y > burst then burst else y)"
  have lim: "0 \<le> rate" "rate \<le> 2 ^ 10" "0 \<le> burst" "burst < 2 ^ 20" "repr burst"
    using assms(1) by (simp_all add: limits_ok_def)
  have el: "0 \<le> el" "el < 2 ^ 21" "\<bar>el - ex\<bar> \<le> 1 / 2 ^ 33"
    unfolding el_def ex_def using dur_Seconds_error[of "now - tb_lastFill tb"] assms(4,5) by auto
  have p: "el * rate \<le> ex * rate + 1 / 2 ^ 23" "0 \<le> el * rate" "el * rate < 2 ^ 31"
  proof -
    have "el - ex \<le> 1 / 2 ^ 33" using el(3) by linarith
    then have "(el - ex) * rate \<le> 1 / 2 ^ 33 * 2 ^ 10"
      using lim(1,2) by (intro mult_mono) auto
    then show "el * rate \<le> ex * rate + 1 / 2 ^ 23" by (simp add: algebra_simps)
    show "0 \<le> el * rate" using el(1) lim(1) by simp
    have "el * rate \<le> el * 2 ^ 10" using el(1) lim(2) by (intro mult_left_mono)
    also have "\<dots> < 2 ^ 21 * 2 ^ 10" using el(2) by simp
    finally show "el * rate < 2 ^ 31" by simp
  qed
  have "\<bar>x - el * rate\<bar> \<le> 2 ^ 31 / 2 ^ 54" unfolding x_def fmul_def by (rule fl_error) (use p in auto)
  then have "x \<le> el * rate + 2 ^ 31 / 2 ^ 54" by (rule abs_upper)
  moreover have "0 \<le> x" by (simp add: x_def el(1) lim(1))
  ultimately have x: "0 \<le> x" "x \<le> ex * rate + 1 / 2 ^ 22" "x < 2 ^ 31 + 1"
    using p by simp_all
  have "\<bar>y - (tb_tokens tb + x)\<bar> \<le> 2 ^ 32 / 2 ^ 54"
    unfolding y_def fadd_def by (rule fl_error) (use x assms(2,3) lim in auto)
  then have "y \<le> tb_tokens tb + x + 2 ^ 32 / 2 ^ 54" by (rule abs_upper)
  moreover have "0 \<le> y" using x assms(2) by (simp add: y_def)
  ultimately have y: "0 \<le> y" "y \<le> tb_tokens tb + ex * rate + 1 / 2 ^ 21"
    using x by simp_all
  have new: "0 \<le> new" "new \<le> burst" "new \<le> tb_tokens tb + ex * rate + 1 / 2 ^ 21"
    using y lim by (auto simp: new_def)
  have "bucket_Allow rate burst now tb = (if new \<ge> 1
      then (True, tb\<lparr>tb_rate := rate, tb_burst := burst, tb_tokens := fsub new 1, tb_lastFill := now\<rparr>)
      else (False, tb\<lparr>tb_rate := rate, tb_burst := burst, tb_tokens := new, tb_lastFill := now\<rparr>))"
    unfolding bucket_Allow_def Let_def new_def y_def x_def el_def by simp
  then have res: "(ok, tb') = (if new \<ge> 1
      then (True, tb\<lparr>tb_rate := rate, tb_burst := burst, tb_tokens := fsub new 1, tb_lastFill := now\<rparr>)
      else (False, tb\<lparr>tb_rate := rate, tb_burst := burst, tb_tokens := new, tb_lastFill := now\<rparr>))"
    using assms(6) by simp
  then show "tb_lastFill tb' = now" by (auto split: if_splits)
  have s: "fsub new 1 \<le> new - 1 + 1 / 2 ^ 34" "0 \<le> fsub new 1" "fsub new 1 \<le> burst" if "1 \<le> new"
  proof -
    have "\<bar>fsub new 1 - (new - 1)\<bar> \<le> 2 ^ 20 / 2 ^ 54"
      unfolding fsub_def by (rule fl_error) (use that new lim in auto)
    from abs_upper[OF this] show "fsub new 1 \<le> new - 1 + 1 / 2 ^ 34" by simp
    show "0 \<le> fsub new 1" using that by (simp add: fsub_def)
    show "fsub new 1 \<le> burst" unfolding fsub_def by (rule fl_le) (use new lim in auto)
  qed
  show "0 \<le> tb_tokens tb'" "tb_tokens tb' \<le> burst"
    using res new s by (auto split: if_splits)
  have "tb_tokens tb' + of_bool ok \<le> new + 1 / 2 ^ 34"
    using res s(1) by (auto split: if_splits)
  then show "tb_tokens tb' + of_bool ok
      \<le> tb_tokens tb + rate * of_int (now - tb_lastFill tb) / 10 ^ 9 + 1 / 2 ^ 20"
    using new(3) by (simp add: ex_def mult.commute)
qed

section \<open>One client at a time\<close>

text \<open>Clients do not use up each other's tokens: whatever addresses and users call in between, a
  client of the limiter in memory is answered as if it had been alone with its own bucket.\<close>

theorem clients_do_not_share_tokens:
  "map snd (filter (\<lambda>(k', b). k' = k) (memory.run calls NewRateLimiter)) =
     memory.own_run (filter (\<lambda>(now, k', rate, burst). k' = k) calls) None"
  by (subst memory.run_own) (simp add: memory_view_def NewRateLimiter_def split: client.split)

section \<open>Runs of the limiter\<close>

lemma own_run_bound:
  assumes "limits_ok rate burst" and "0 \<le> tb_tokens tb" "tb_tokens tb \<le> burst"
    and "sorted (tb_lastFill tb # ts)" and "\<forall>t\<in>set ts. t \<le> t1" and "t1 - tb_lastFill tb < 2 ^ 20 * 10 ^ 9"
  shows "real (length (filter fst (memory.own_run (map (\<lambda>t. (t, k, rate, burst)) ts) (Some tb))))
    \<le> tb_tokens tb + rate * of_int (max 0 (t1 - tb_lastFill tb)) / 10 ^ 9 + real (length ts) / 2 ^ 20"
  using assms(2-)
proof (induction ts arbitrary: tb)
  case Nil
  then show ?case using assms(1) by (simp add: limits_ok_def)
next
  case (Cons t ts)
  obtain ok tb' where tb': "bucket_Allow rate burst t tb = (ok, tb')" by fastforce
  have t: "tb_lastFill tb \<le> t" "t \<le> t1" "t - tb_lastFill tb < 2 ^ 20 * 10 ^ 9" using Cons.prems by auto
  note st = bucket_step[OF assms(1) Cons.prems(1,2) t(1,3) tb']
  have "real (length (filter fst (memory.own_run (map (\<lambda>t. (t, k, rate, burst)) ts) (Some tb'))))
      \<le> tb_tokens tb' + rate * of_int (t1 - t) / 10 ^ 9 + real (length ts) / 2 ^ 20"
    using Cons.IH[of tb'] st Cons.prems t by (simp add: max_def)
  moreover have "rate * of_int (t1 - t) / 10 ^ 9 + rate * of_int (t - tb_lastFill tb) / 10 ^ 9 =
      rate * of_int (t1 - tb_lastFill tb) / 10 ^ 9"
    by (simp add: algebra_simps add_divide_distrib[symmetric])
  ultimately have "real (length (filter fst (memory.own_run (map (\<lambda>t. (t, k, rate, burst)) ts) (Some tb')))) + of_bool ok
      \<le> tb_tokens tb + rate * of_int (t1 - tb_lastFill tb) / 10 ^ 9 + (real (length ts) + 1) / 2 ^ 20"
    using st(4) by (simp add: add_divide_distrib)
  then show ?case using t by (cases ok) (simp_all add: tb' max_def add.commute)
qed

text \<open>The calls of all clients, in order, and who was let through.\<close>

fun limiter_run :: "request_time list \<Rightarrow> rate_limiter \<Rightarrow> (client \<times> bool) list" where
  "limiter_run [] rl = []"
| "limiter_run ((now, k, rate, burst) # calls) rl =
     (k, fst (fst (memory_allow now k rate burst rl))) #
       limiter_run calls (snd (memory_allow now k rate burst rl))"

lemma limiter_run_own:
  "map snd (filter (\<lambda>(k', ok). k' = k) (limiter_run calls rl)) =
     map fst (memory.own_run (filter (\<lambda>(now, k', rate, burst). k' = k) calls) (memory_view rl k))"
proof -
  have "limiter_run calls rl = map (\<lambda>(k, b). (k, fst b)) (memory.run calls rl)"
    by (induction calls rl rule: limiter_run.induct) simp_all
  then have "map snd (filter (\<lambda>(k', ok). k' = k) (limiter_run calls rl)) =
      map fst (map snd (filter (\<lambda>(k', b). k' = k) (memory.run calls rl)))"
    by (simp add: filter_map comp_def case_prod_unfold)
  then show ?thesis by (simp only: memory.run_own)
qed

lemma sorted_last: "sorted xs \<Longrightarrow> x \<in> set xs \<Longrightarrow> x \<le> last xs" for x :: int
  by (induction xs) (auto split: if_splits intro: order_trans)

lemma own_run_new:
  "memory.own_run (map (\<lambda>t. (t, k, rate, burst)) (t # ts)) None =
     memory.own_run (map (\<lambda>t. (t, k, rate, burst)) (t # ts)) (Some (NewTokenBucket rate burst t))"
  by simp



section \<open>Idle buckets\<close>

lemma dur_Seconds_ge:
  assumes "of_int n * 10 ^ 9 \<le> d" and "0 \<le> n" and "n \<le> 2 ^ 53"
  shows "of_int n \<le> dur_Seconds d"
proof -
  have d0: "0 \<le> d" using assms(1,2) by (meson mult_nonneg_nonneg order_trans zero_le_numeral zero_le_power of_int_0_le_iff)
  have tr: "go_trunc (of_int d / 10 ^ 9) = d div 10 ^ 9"
    using d0 floor_divide_of_int_eq[of d "10 ^ 9"] by (simp add: go_trunc_def)
  have "n = (n * 10 ^ 9) div 10 ^ 9" by simp
  also have "\<dots> \<le> d div 10 ^ 9" using assms(1) by (intro zdiv_mono1) simp_all
  finally have "n \<le> d div 10 ^ 9" .
  from fint_mono[OF this] have "of_int n \<le> fint (d div 10 ^ 9)"
    using assms(2,3) by (simp add: fint_exact)
  moreover have "0 \<le> fdiv (fint (d - d div 10 ^ 9 * 10 ^ 9)) (10 ^ 9)"
    by (simp add: minus_div_mult_eq_mod)
  ultimately have "of_int n \<le> fint (d div 10 ^ 9) + fdiv (fint (d - d div 10 ^ 9 * 10 ^ 9)) (10 ^ 9)"
    by linarith
  then show ?thesis
    unfolding dur_Seconds_def Let_def tr fadd_def
    by (rule fl_ge) (use assms(2,3) in \<open>auto intro!: repr_of_int\<close>)
qed

lemma bucket_refilled:
  assumes "0 \<le> rate" and "0 \<le> tb_tokens tb" and "repr burst" and "0 \<le> n" "n \<le> 2 ^ 53"
    and "burst \<le> of_int n * rate" and "n * 10 ^ 9 \<le> now - tb_lastFill tb"
  shows "burst \<le> fadd (tb_tokens tb) (fmul (dur_Seconds (now - tb_lastFill tb)) rate)"
proof -
  have "of_int n \<le> dur_Seconds (now - tb_lastFill tb)" using dur_Seconds_ge[of n] assms by simp
  then have "of_int n * rate \<le> dur_Seconds (now - tb_lastFill tb) * rate"
    using assms(1) by (rule mult_right_mono)
  then have "burst \<le> fmul (dur_Seconds (now - tb_lastFill tb)) rate"
    unfolding fmul_def using assms(3,6) by (intro fl_ge) auto
  then show ?thesis unfolding fadd_def using assms(2,3) by (intro fl_ge) auto
qed

lemma dur_Seconds_0 [simp]: "dur_Seconds 0 = 0"
  by (simp add: dur_Seconds_def go_trunc_def)

lemma bucket_full:
  assumes "burst \<le> fadd (tb_tokens tb) (fmul (dur_Seconds (now - tb_lastFill tb)) rate)"
  shows "bucket_Allow rate burst now tb =
    (if 1 \<le> burst
     then (True, \<lparr> tb_tokens = fsub burst 1, tb_lastFill = now, tb_rate = rate, tb_burst = burst \<rparr>)
     else (False, \<lparr> tb_tokens = burst, tb_lastFill = now, tb_rate = rate, tb_burst = burst \<rparr>))"
proof -
  let ?y = "fadd (tb_tokens tb) (fmul (dur_Seconds (now - tb_lastFill tb)) rate)"
  consider "?y > burst" | "?y = burst" using assms by linarith
  then show ?thesis by cases (simp_all add: bucket_Allow_def Let_def)
qed

text \<open>C22: The eviction of idle buckets cannot be observed as long as a bucket refills within ten
  minutes: a client that comes back after its bucket was dropped gets the answer, and the
  bucket, that it would have had.\<close>

theorem eviction_is_unobservable:
  assumes "0 \<le> rate" and "0 \<le> burst" "repr burst" and "burst \<le> 600 * rate"
    and "\<forall>tb. rl_ipBuckets rl ip = Some tb \<longrightarrow> 0 \<le> tb_tokens tb"
    and "swept \<le> now"
  shows "fst (AllowIP now ip rate burst (evict_buckets swept maxIdle rl)) = fst (AllowIP now ip rate burst rl) \<and>
    rl_ipBuckets (snd (AllowIP now ip rate burst (evict_buckets swept maxIdle rl))) ip =
    rl_ipBuckets (snd (AllowIP now ip rate burst rl)) ip"
proof (cases "rl_ipBuckets rl ip")
  case None
  then show ?thesis by (simp add: AllowIP_def bucket_of_def evict_buckets_def drop_idle_def case_prod_unfold Let_def)
next
  case (Some tb)
  show ?thesis
  proof (cases "IdleTime swept tb > maxIdle")
    case False
    with Some show ?thesis
      by (simp add: AllowIP_def bucket_of_def evict_buckets_def drop_idle_def case_prod_unfold Let_def)
  next
    case True
    have "burst \<le> fadd (tb_tokens tb) (fmul (dur_Seconds (now - tb_lastFill tb)) rate)"
      using bucket_refilled[of rate tb burst 600 now] True Some assms by (simp add: IdleTime_def maxIdle_def)
    then have "bucket_Allow rate burst now tb = bucket_Allow rate burst now (NewTokenBucket rate burst now)"
      using assms(3) by (simp add: bucket_full NewTokenBucket_def)
    with True Some show ?thesis
      by (simp add: AllowIP_def bucket_of_def evict_buckets_def drop_idle_def case_prod_unfold Let_def)
  qed
qed

lemma eviction_is_unobservable_witness:
  "fst (AllowIP (700 * 10 ^ 9) ''a'' 30 50 (evict_buckets (650 * 10 ^ 9) maxIdle
       (NewRateLimiter\<lparr>rl_ipBuckets := [''a'' \<mapsto> NewTokenBucket 30 50 0]\<rparr>)))
   = fst (AllowIP (700 * 10 ^ 9) ''a'' 30 50
       (NewRateLimiter\<lparr>rl_ipBuckets := [''a'' \<mapsto> NewTokenBucket 30 50 0]\<rparr>))"
  using eviction_is_unobservable[of 30 50 "NewRateLimiter\<lparr>rl_ipBuckets := [''a'' \<mapsto> NewTokenBucket 30 50 0]\<rparr>"
      "''a''" "650 * 10 ^ 9" "700 * 10 ^ 9"] repr_numeral
  by (simp add: NewTokenBucket_def)

end
