(* ===== verification/Resolver.thy ===== *)
theory Resolver
  imports Go_Http Sha256 Waf_Config
begin

text \<open>
  Who sent a request (\<open>trustscore/middleware/resolver.go\<close>): the resolvers for signed tokens, for
  headers of an upstream proxy and for opaque tokens that an authentication service knows. The
  resolver of a configuration is chosen in \<open>config_manager.go\<close> and \<open>main.go\<close>.

  The JWT library is a function of the secret and the token to the claims of a valid token. The
  authentication service is a function of the address and the token to its reply.
  \<open>strconv.ParseFloat\<close> is an argument too; the code reaches it for no request.
\<close>

datatype api_reply =
  BadURL | Unreachable | Status int | Undecodable | Identity string bool bool real

record auth_libs =
  al_jwt :: "string \<Rightarrow> string \<Rightarrow> raw_event option"
  al_api :: "string \<Rightarrow> string \<Rightarrow> api_reply"
  al_parseFloat :: "string \<Rightarrow> real option"

definition anonymous :: identity_context where
  "anonymous = \<lparr> i_UserID = [], i_AccountCreatedAt = 0, i_EmailVerified = False, i_MFAEnabled = False,
     i_ResolvedBy = ''anonymous'' \<rparr>"

definition TrimPrefix :: "string \<Rightarrow> string \<Rightarrow> string" where
  "TrimPrefix s p = (if prefix p s then drop (length p) s else s)"

section \<open>Signed tokens\<close>

record jwt_resolver =
  jr_Secret :: string
  jr_TokenHeader :: string
  jr_UserIDClaim :: string
  jr_EmailClaim :: string
  jr_MFAClaim :: string
  jr_CreatedClaim :: string

definition NewJWTResolver :: "string \<Rightarrow> jwt_resolver" where
  "NewJWTResolver secret = \<lparr> jr_Secret = secret, jr_TokenHeader = ''Authorization'',
     jr_UserIDClaim = ''sub'', jr_EmailClaim = ''email_verified'', jr_MFAClaim = ''mfa_enabled'',
     jr_CreatedClaim = ''account_created_at'' \<rparr>"

definition jwt_Resolve :: "auth_libs \<Rightarrow> jwt_resolver \<Rightarrow> http_request \<Rightarrow> identity_context" where
  "jwt_Resolve libs j r =
     (let auth = header_Get (h_Header r) (jr_TokenHeader j)
      in if auth = [] then anonymous
         else (case al_jwt libs (jr_Secret j) (TrimPrefix auth ''Bearer '') of
                 None \<Rightarrow> anonymous
               | Some claims \<Rightarrow>
                   (case as_string (claims (jr_UserIDClaim j)) of
                      None \<Rightarrow> anonymous
                    | Some sub \<Rightarrow>
                        \<lparr> i_UserID = sub,
                          i_AccountCreatedAt =
                            (case as_float (claims ''account_created_at'') of
                               Some created \<Rightarrow> created
                             | None \<Rightarrow> (case as_float (claims ''created_at'') of Some created \<Rightarrow> created | None \<Rightarrow> 0)),
                          i_EmailVerified =
                            (case as_bool (claims (jr_EmailClaim j)) of Some email \<Rightarrow> email | None \<Rightarrow> False),
                          i_MFAEnabled =
                            (case as_bool (claims (jr_MFAClaim j)) of Some mfa \<Rightarrow> mfa | None \<Rightarrow> False),
                          i_ResolvedBy = ''jwt'' \<rparr>)))"

section \<open>Headers of an upstream proxy\<close>

record header_resolver =
  hr_UserIDHeader :: string
  hr_EmailHeader :: string
  hr_MFAHeader :: string
  hr_CreatedHeader :: string

definition NewHeaderResolver :: header_resolver where
  "NewHeaderResolver = \<lparr> hr_UserIDHeader = ''X-User-ID'', hr_EmailHeader = ''X-Email-Verified'',
     hr_MFAHeader = ''X-MFA-Enabled'', hr_CreatedHeader = ''X-Account-Created'' \<rparr>"

text \<open>The request is changed in place: it loses the four headers.\<close>

definition strip_identity :: "header \<Rightarrow> header" where
  "strip_identity h = header_Del ''X-Account-Created'' (header_Del ''X-MFA-Enabled''
     (header_Del ''X-Email-Verified'' (header_Del ''X-User-ID'' h)))"

definition header_Resolve ::
    "auth_libs \<Rightarrow> header_resolver \<Rightarrow> http_request \<Rightarrow> identity_context \<times> http_request" where
  "header_Resolve libs hr r =
     (let h = strip_identity (h_Header r);
          r = r\<lparr>h_Header := h\<rparr>;
          userID = header_Get h (hr_UserIDHeader hr)
      in if userID = [] then (anonymous, r)
         else (\<lparr> i_UserID = userID,
                 i_AccountCreatedAt =
                   (case al_parseFloat libs (header_Get h (hr_CreatedHeader hr)) of Some c \<Rightarrow> c | None \<Rightarrow> 0),
                 i_EmailVerified = (header_Get h (hr_EmailHeader hr) = ''true''),
                 i_MFAEnabled = (header_Get h (hr_MFAHeader hr) = ''true''),
                 i_ResolvedBy = ''headers'' \<rparr>, r))"

section \<open>Opaque tokens\<close>

record cached_identity =
  ci_ctx :: identity_context
  ci_expiresAt :: int

record opaque_resolver =
  or_URL :: string
  or_TokenSource :: string
  or_CacheTTL :: int
  or_cache :: "string \<rightharpoonup> cached_identity"
  or_cacheKey :: string
  or_failOpen :: bool

text \<open>An empty key is replaced by 32 random bytes, an argument.\<close>

definition NewOpaqueResolver :: "string \<Rightarrow> string \<Rightarrow> string \<Rightarrow> string \<Rightarrow> bool \<Rightarrow> opaque_resolver" where
  "NewOpaqueResolver random url tokenSource cacheKey failOpen = \<lparr>
     or_URL = url, or_TokenSource = tokenSource, or_CacheTTL = 300 * 10 ^ 9, or_cache = Map.empty,
     or_cacheKey = (if cacheKey = [] then random else cacheKey), or_failOpen = failOpen \<rparr>"

text \<open>One round of the sweep that drops expired entries.\<close>

definition sweep_cache :: "int \<Rightarrow> opaque_resolver \<Rightarrow> opaque_resolver" where
  "sweep_cache now o' = o'\<lparr>or_cache := (\<lambda>k. case or_cache o' k of
      Some v \<Rightarrow> if now > ci_expiresAt v then None else Some v | None \<Rightarrow> None)\<rparr>"

definition opaque_token :: "opaque_resolver \<Rightarrow> http_request \<Rightarrow> string" where
  "opaque_token o' r =
     (if CHR '':'' \<notin> set (or_TokenSource o') then []
      else let (kind, name) = cut_at (CHR '':'') (or_TokenSource o')
           in if kind = ''cookie'' then (case request_Cookie r name of Some v \<Rightarrow> v | None \<Rightarrow> [])
              else if kind = ''header'' then TrimPrefix (header_Get (h_Header r) name) ''Bearer ''
              else [])"

text \<open>An error or the identity, and the resolver with its cache.\<close>

definition opaque_Resolve ::
    "auth_libs \<Rightarrow> int \<Rightarrow> opaque_resolver \<Rightarrow> http_request \<Rightarrow> (string + identity_context) \<times> opaque_resolver" where
  "opaque_Resolve libs now o' r =
     (let token = opaque_token o' r
      in if token = [] then (Inr anonymous, o')
         else
           (let cacheKey = hex_string (hmac_sha256 (or_cacheKey o') token);
                fail = (\<lambda>err. if or_failOpen o' then Inr anonymous else Inl err);
                ask = (case al_api libs (or_URL o') token of
                         BadURL \<Rightarrow> (Inl ''create auth request'', o')
                       | Unreachable \<Rightarrow> (fail ''auth API request failed'', o')
                       | Status n \<Rightarrow> (fail ''auth API returned'', o')
                       | Undecodable \<Rightarrow> (fail ''decode auth response'', o')
                       | Identity uid email mfa created \<Rightarrow>
                           (let ctx = \<lparr> i_UserID = uid, i_AccountCreatedAt = created, i_EmailVerified = email,
                                        i_MFAEnabled = mfa, i_ResolvedBy = ''auth_api'' \<rparr>
                            in (Inr ctx, o'\<lparr>or_cache := (or_cache o')(cacheKey \<mapsto>
                                  \<lparr> ci_ctx = ctx, ci_expiresAt = now + or_CacheTTL o' \<rparr>)\<rparr>)))
            in (case or_cache o' cacheKey of
                  Some cached \<Rightarrow> if now < ci_expiresAt cached then (Inr (ci_ctx cached), o') else ask
                | None \<Rightarrow> ask)))"

section \<open>The resolver of a configuration\<close>

datatype resolver = JWT jwt_resolver | Headers header_resolver | Opaque opaque_resolver

definition new_resolver :: "string \<Rightarrow> waf_config \<Rightarrow> resolver" where
  "new_resolver random cfg =
     (if d_IdentityMode cfg = ''headers'' then Headers NewHeaderResolver
      else if d_IdentityMode cfg = ''opaque''
      then Opaque (NewOpaqueResolver random (d_OpaqueURL cfg) ''header:Authorization'' [] (d_AuthAPIFailOpen cfg))
      else JWT (NewJWTResolver (d_JWTSecret cfg)))"

text \<open>The method of the interface: the result, the request it leaves, the resolver it leaves.\<close>

definition Resolve ::
    "auth_libs \<Rightarrow> int \<Rightarrow> resolver \<Rightarrow> http_request \<Rightarrow> (string + identity_context) \<times> http_request \<times> resolver" where
  "Resolve libs now res r =
     (case res of
        JWT j \<Rightarrow> (Inr (jwt_Resolve libs j r), r, res)
      | Headers hr \<Rightarrow> (let (ctx, r) = header_Resolve libs hr r in (Inr ctx, r, res))
      | Opaque o' \<Rightarrow> (let (result, o') = opaque_Resolve libs now o' r in (result, r, Opaque o')))"

section \<open>Where an identity comes from\<close>

lemma header_Del_get:
  "header_Get (header_Del k' h) k = (if CanonicalHeaderKey k' = CanonicalHeaderKey k then [] else header_Get h k)"
  by (simp add: header_Get_def header_Del_def)

lemma strip_identity_user [simp]: "header_Get (strip_identity h) ''X-User-ID'' = []"
  by (simp add: strip_identity_def header_Del_get)

lemma anonymous_sel [simp]: "i_UserID anonymous = []"
  by (simp add: anonymous_def)

text \<open>The mode for an upstream proxy recognises nobody: the resolver deletes the headers that
  it reads next, so every request is anonymous, whoever put the headers there.\<close>

theorem headers_mode_is_anonymous:
  assumes "d_IdentityMode cfg = ''headers''"
  shows "fst (Resolve libs now (new_resolver random cfg) r) = Inr anonymous"
  using assms by (simp add: new_resolver_def Resolve_def header_Resolve_def NewHeaderResolver_def Let_def)

lemma headers_mode_is_anonymous_witness:
  "fst (Resolve \<lparr> al_jwt = \<lambda>_ _. None, al_api = \<lambda>_ _. Unreachable, al_parseFloat = \<lambda>_. None \<rparr> 0
     (new_resolver [] ((defaultConfig 1 ''key'' DefaultConfig)\<lparr>d_IdentityMode := ''headers''\<rparr>))
     \<lparr> h_Method = ''GET'', h_Path = ''/'', h_RawQuery = [], h_Header = [''X-User-Id'' \<mapsto> [''alice'']],
       h_Body = Some [], h_RemoteAddr = ''10.0.0.1:5000'', h_Host = [] \<rparr>) = Inr anonymous"
  by (rule headers_mode_is_anonymous) simp

text \<open>What vouches for an identity. In the token mode the library accepts the request's token under
  the secret of the configuration. In the opaque mode the service named the user for a token, in
  this request or in an earlier one less than five minutes old, and the tokens of the two requests
  have the same authentication code, under the random key of the resolver. The past of a resolver
  is the sequence of the requests it resolved and of the rounds of its sweep.\<close>

definition bearer_token :: "http_request \<Rightarrow> string" where
  "bearer_token r = TrimPrefix (header_Get (h_Header r) ''Authorization'') ''Bearer ''"

definition jwt_vouches :: "auth_libs \<Rightarrow> string \<Rightarrow> http_request \<Rightarrow> string \<Rightarrow> bool" where
  "jwt_vouches libs secret r uid \<longleftrightarrow>
     (case al_jwt libs secret (bearer_token r) of
        Some claims \<Rightarrow> claims ''sub'' = Some (RawString uid) | None \<Rightarrow> False)"

definition service_named :: "auth_libs \<Rightarrow> string \<Rightarrow> http_request \<Rightarrow> string \<Rightarrow> bool" where
  "service_named libs url r uid \<longleftrightarrow>
     (case al_api libs url (bearer_token r) of Identity u _ _ _ \<Rightarrow> u = uid | _ \<Rightarrow> False)"

datatype resolver_event = Asked auth_libs http_request int | Swept int

fun resolver_step :: "resolver_event \<Rightarrow> resolver \<Rightarrow> resolver" where
  "resolver_step (Asked libs r now) res = snd (snd (Resolve libs now res r))"
| "resolver_step (Swept now) res = (case res of Opaque o' \<Rightarrow> Opaque (sweep_cache now o') | _ \<Rightarrow> res)"

lemma as_string_Some: "as_string v = Some s \<longleftrightarrow> v = Some (RawString s)"
  by (cases "v" rule: as_string.cases) auto

lemma jwt_identity:
  assumes "i_UserID (jwt_Resolve libs (NewJWTResolver secret) r) = uid" and "uid \<noteq> []"
  shows "jwt_vouches libs secret r uid"
  using assms
  by (auto simp: jwt_Resolve_def NewJWTResolver_def Let_def as_string_Some jwt_vouches_def bearer_token_def
      split: if_splits option.splits)

lemma opaque_token_bearer:
  "or_TokenSource o' = ''header:Authorization'' \<Longrightarrow> opaque_token o' r = bearer_token r"
  by (simp add: opaque_token_def bearer_token_def cut_at_def)

lemma NewOpaqueResolver_source [simp]:
  "or_TokenSource (NewOpaqueResolver random url src key failOpen) = src"
  by (simp add: NewOpaqueResolver_def)

text \<open>Every entry of the cache comes from a reply of the service in the past of the resolver.\<close>

definition entry_from :: "resolver_event list \<Rightarrow> string \<Rightarrow> string \<Rightarrow> string \<Rightarrow> cached_identity \<Rightarrow> bool" where
  "entry_from evs random url k c \<longleftrightarrow>
     (\<exists>libs r now. Asked libs r now \<in> set evs \<and> service_named libs url r (i_UserID (ci_ctx c)) \<and>
        k = hex_string (hmac_sha256 random (bearer_token r)) \<and> ci_expiresAt c = now + 300 * 10 ^ 9)"

definition opaque_ok :: "resolver_event list \<Rightarrow> string \<Rightarrow> string \<Rightarrow> opaque_resolver \<Rightarrow> bool" where
  "opaque_ok evs random url o' \<longleftrightarrow>
     or_URL o' = url \<and> or_TokenSource o' = ''header:Authorization'' \<and> or_CacheTTL o' = 300 * 10 ^ 9 \<and>
     or_cacheKey o' = random \<and> (\<forall>k c. or_cache o' k = Some c \<longrightarrow> entry_from evs random url k c)"

lemma opaque_ok_new: "opaque_ok evs random url (NewOpaqueResolver random url ''header:Authorization'' [] failOpen)"
  by (simp add: opaque_ok_def NewOpaqueResolver_def)

lemma entry_from_snoc: "entry_from evs random url k c \<Longrightarrow> entry_from (evs @ [ev]) random url k c"
  unfolding entry_from_def set_append by blast

lemma opaque_ok_snoc: "opaque_ok evs random url o' \<Longrightarrow> opaque_ok (evs @ [ev]) random url o'"
  unfolding opaque_ok_def by (blast intro: entry_from_snoc)

lemma opaque_Resolve_cases:
  assumes res: "opaque_Resolve libs now o' r = (result, o2)" and src: "or_TokenSource o' = ''header:Authorization''"
  obtains (same) "o2 = o'" "\<And>ctx. result = Inr ctx \<Longrightarrow> i_UserID ctx \<noteq> [] \<Longrightarrow>
        \<exists>c. or_cache o' (hex_string (hmac_sha256 (or_cacheKey o') (bearer_token r))) = Some c \<and>
            now < ci_expiresAt c \<and> ctx = ci_ctx c"
  | (asked) ctx where "result = Inr ctx" "service_named libs (or_URL o') r (i_UserID ctx)"
      "o2 = o'\<lparr>or_cache := (or_cache o')(hex_string (hmac_sha256 (or_cacheKey o') (bearer_token r)) \<mapsto>
               \<lparr> ci_ctx = ctx, ci_expiresAt = now + or_CacheTTL o' \<rparr>)\<rparr>"
proof -
  let ?key = "hex_string (hmac_sha256 (or_cacheKey o') (bearer_token r))"
  consider (none) "bearer_token r = []"
    | (hit) c where "bearer_token r \<noteq> []" "or_cache o' ?key = Some c" "now < ci_expiresAt c"
    | (ask) "bearer_token r \<noteq> []" "\<And>c. or_cache o' ?key = Some c \<Longrightarrow> \<not> now < ci_expiresAt c"
    by blast
  then show ?thesis
  proof cases
    case none
    then show ?thesis using res by (intro same) (auto simp: opaque_Resolve_def Let_def opaque_token_bearer[OF src])
  next
    case hit
    then show ?thesis using res by (intro same) (auto simp: opaque_Resolve_def Let_def opaque_token_bearer[OF src])
  next
    case ask
    then show ?thesis
    proof (cases "al_api libs (or_URL o') (bearer_token r)")
      case (Identity uid email mfa created)
      then show ?thesis using res ask
        by (intro asked[of "\<lparr> i_UserID = uid, i_AccountCreatedAt = created, i_EmailVerified = email,
                             i_MFAEnabled = mfa, i_ResolvedBy = ''auth_api'' \<rparr>"])
          (auto simp: opaque_Resolve_def Let_def opaque_token_bearer[OF src] service_named_def split: option.splits)
    qed (use res ask in \<open>intro same; auto simp: opaque_Resolve_def Let_def opaque_token_bearer[OF src] split: option.splits if_splits\<close>)+
  qed
qed

lemma opaque_ok_asked:
  assumes ok: "opaque_ok evs random url o'"
  shows "opaque_ok (evs @ [Asked libs r now]) random url (snd (opaque_Resolve libs now o' r))"
proof (cases "opaque_Resolve libs now o' r")
  case (Pair result o2)
  have src: "or_TokenSource o' = ''header:Authorization''" using ok by (simp add: opaque_ok_def)
  note old = opaque_ok_snoc[OF ok, of "Asked libs r now"]
  show ?thesis
  proof (cases rule: opaque_Resolve_cases[OF Pair src])
    case 1
    then show ?thesis using old Pair by simp
  next
    case (2 ctx)
    have "entry_from (evs @ [Asked libs r now]) random url (hex_string (hmac_sha256 random (bearer_token r)))
        \<lparr> ci_ctx = ctx, ci_expiresAt = now + 300 * 10 ^ 9 \<rparr>"
      unfolding entry_from_def using 2(2) ok by (intro exI[of _ libs] exI[of _ r] exI[of _ now]) (simp add: opaque_ok_def)
    then show ?thesis using old 2(3) Pair by (simp add: opaque_ok_def)
  qed
qed

lemma opaque_ok_swept:
  assumes "opaque_ok evs random url o'"
  shows "opaque_ok (evs @ [Swept now]) random url (sweep_cache now o')"
proof -
  have "or_cache o' k = Some c" if "or_cache (sweep_cache now o') k = Some c" for k c
    using that by (simp add: sweep_cache_def split: option.splits if_splits)
  then show ?thesis using opaque_ok_snoc[OF assms, of "Swept now"] by (simp add: opaque_ok_def sweep_cache_def)
qed

lemma opaque_ok_run:
  assumes "d_IdentityMode cfg = ''opaque''"
  shows "\<exists>o'. fold resolver_step evs (new_resolver random cfg) = Opaque o' \<and> opaque_ok evs random (d_OpaqueURL cfg) o'"
proof (induction evs rule: rev_induct)
  case Nil
  then show ?case using assms by (simp add: new_resolver_def opaque_ok_new)
next
  case (snoc ev evs)
  then obtain o' where "fold resolver_step evs (new_resolver random cfg) = Opaque o'"
    and "opaque_ok evs random (d_OpaqueURL cfg) o'" by blast
  then show ?case
    by (cases ev) (auto simp: Resolve_def case_prod_unfold Let_def opaque_ok_asked opaque_ok_swept)
qed

lemma stateless_run:
  assumes "\<And>o'. res \<noteq> Opaque o'"
  shows "fold resolver_step evs res = res"
proof (induction evs)
  case (Cons ev evs)
  have "resolver_step ev res = res"
    using assms by (cases ev; cases res) (auto simp: Resolve_def case_prod_unfold Let_def)
  then show ?case using Cons by simp
qed simp

text \<open>C14: No request chooses its own identity, whatever the resolver has resolved and cached before.
  With identity headers nobody is recognised. With tokens a user is recognised only if the JWT
  library accepts the token of this very request for that user under the configured secret. With
  opaque tokens a user is recognised only if the configured service answered with that user, for
  this request or for one of the past less than 300 seconds ago, and the authentication code of
  that request's token is the one of this request's token under the key of the resolver.\<close>

theorem identity_is_vouched_for:
  assumes "fst (Resolve libs now (fold resolver_step evs (new_resolver random cfg)) r) = Inr ctx"
    and "i_UserID ctx \<noteq> []"
  shows "d_IdentityMode cfg \<noteq> ''headers'' \<and>
    (if d_IdentityMode cfg = ''opaque''
     then \<exists>libs' r' now'. service_named libs' (d_OpaqueURL cfg) r' (i_UserID ctx) \<and>
            ((libs', r', now') = (libs, r, now) \<or>
             Asked libs' r' now' \<in> set evs \<and> now < now' + 300 * 10 ^ 9 \<and>
             hex_string (hmac_sha256 random (bearer_token r')) = hex_string (hmac_sha256 random (bearer_token r)))
     else jwt_vouches libs (d_JWTSecret cfg) r (i_UserID ctx))"
proof -
  consider (hd) "d_IdentityMode cfg = ''headers''" | (op) "d_IdentityMode cfg = ''opaque''"
    | (jw) "new_resolver random cfg = JWT (NewJWTResolver (d_JWTSecret cfg))" "d_IdentityMode cfg \<noteq> ''headers''"
        "d_IdentityMode cfg \<noteq> ''opaque''"
    by (cases "d_IdentityMode cfg = ''headers'' \<or> d_IdentityMode cfg = ''opaque''") (auto simp: new_resolver_def)
  then show ?thesis
  proof cases
    case hd
    then show ?thesis
      using assms by (auto simp: stateless_run new_resolver_def Resolve_def header_Resolve_def NewHeaderResolver_def Let_def)
  next
    case op
    from opaque_ok_run[OF op, of evs random] obtain o' where
      run: "fold resolver_step evs (new_resolver random cfg) = Opaque o'" and ok: "opaque_ok evs random (d_OpaqueURL cfg) o'"
      by blast
    have src: "or_TokenSource o' = ''header:Authorization''" using ok by (simp add: opaque_ok_def)
    obtain o2 where res: "opaque_Resolve libs now o' r = (Inr ctx, o2)"
      using assms(1) by (cases "opaque_Resolve libs now o' r") (auto simp: run Resolve_def)
    show ?thesis
    proof (cases rule: opaque_Resolve_cases[OF res src])
      case 1
      then obtain c where c: "or_cache o' (hex_string (hmac_sha256 random (bearer_token r))) = Some c"
        "now < ci_expiresAt c" "ctx = ci_ctx c" using ok assms(2) by (auto simp: opaque_ok_def)
      then show ?thesis using ok op by (simp add: opaque_ok_def entry_from_def) metis
    next
      case 2
      then show ?thesis using ok op by (auto simp: opaque_ok_def)
    qed
  next
    case jw
    then have "jwt_Resolve libs (NewJWTResolver (d_JWTSecret cfg)) r = ctx"
      using assms(1) by (simp add: stateless_run Resolve_def)
    then show ?thesis using jwt_identity[of libs "d_JWTSecret cfg" r] assms(2) jw by simp
  qed
qed

definition demo_request :: "http_request" where
  "demo_request = \<lparr> h_Method = ''GET'', h_Path = ''/'', h_RawQuery = [],
     h_Header = [''Authorization'' \<mapsto> [''Bearer t1'']], h_Body = Some [],
     h_RemoteAddr = ''10.0.0.1:5000'', h_Host = [] \<rparr>"

definition demo_libs :: auth_libs where
  "demo_libs = \<lparr> al_jwt = \<lambda>secret token. if secret = ''key'' \<and> token = ''t1'' then Some [''sub'' \<mapsto> RawString ''alice''] else None,
     al_api = \<lambda>_ _. Unreachable, al_parseFloat = \<lambda>_. None \<rparr>"

lemma demo_identity: "i_UserID (jwt_Resolve demo_libs (NewJWTResolver ''key'') demo_request) = ''alice''"
  by code_simp

text \<open>The service knew the token a minute ago and is down now: the answer is the cached one.\<close>

definition demo_service :: auth_libs where
  "demo_service = demo_libs\<lparr>al_api := \<lambda>url token. if token = ''t1'' then Identity ''alice'' True True 0 else Status 401\<rparr>"

lemma demo_bearer: "bearer_token demo_request = ''t1''"
  by code_simp

lemma identity_is_vouched_for_witness:
  "\<exists>libs' r' now'. service_named libs' [] r' ''alice'' \<and>
     ((libs', r', now') = (demo_libs, demo_request, 60 * 10 ^ 9) \<or>
      Asked libs' r' now' \<in> {Asked demo_service demo_request 0} \<and> 60 * 10 ^ 9 < now' + 300 * 10 ^ 9 \<and>
      hex_string (hmac_sha256 ''rnd'' (bearer_token r')) = hex_string (hmac_sha256 ''rnd'' (bearer_token demo_request)))"
proof -
  let ?cfg = "(defaultConfig 1 ''key'' DefaultConfig)\<lparr>d_IdentityMode := ''opaque'', d_OpaqueURL := []\<rparr>"
  let ?alice = "\<lparr> i_UserID = ''alice'', i_AccountCreatedAt = 0, i_EmailVerified = True, i_MFAEnabled = True,
      i_ResolvedBy = ''auth_api'' \<rparr>"
  let ?evs = "[Asked demo_service demo_request 0]"
  have "fst (Resolve demo_libs (60 * 10 ^ 9) (fold resolver_step ?evs (new_resolver ''rnd'' ?cfg)) demo_request) = Inr ?alice"
    by (simp add: new_resolver_def Resolve_def opaque_Resolve_def NewOpaqueResolver_def Let_def
        opaque_token_bearer demo_bearer demo_service_def)
  from identity_is_vouched_for[OF this] show ?thesis by simp
qed

end
