(* ===== verification/Tfidf.thy ===== *)
theory Tfidf
  imports Prelude Float64
begin

text \<open>
  The character n-grams of the classifier (\<open>tier-0/tfidf.go\<close>), with what it uses of UTF-8: the
  code points of a byte string, where a byte that starts no valid encoding counts as U+FFFD.
  The lower case of code points beyond ASCII is an argument, the table of Go's \<open>unicode\<close>. A Go
  map is iterated in no fixed order; here in the order of the n-grams' first occurrence.
\<close>

section \<open>Code points\<close>

definition cont_byte :: "nat \<Rightarrow> bool" where
  "cont_byte b \<longleftrightarrow> 128 \<le> b \<and> b < 192"

text \<open>The code point at the start of a text and the bytes it takes.\<close>

definition decode_rune :: "nat list \<Rightarrow> nat \<times> nat" where
  "decode_rune bs =
     (case bs of
        [] \<Rightarrow> (65533, 0)
      | a # s \<Rightarrow>
          if a < 128 then (a, 1)
          else (case s of
                  [] \<Rightarrow> (65533, 1)
                | b # s' \<Rightarrow>
                    if 194 \<le> a \<and> a < 224 \<and> cont_byte b then ((a - 192) * 64 + (b - 128), 2)
                    else (case s' of
                            [] \<Rightarrow> (65533, 1)
                          | c # s'' \<Rightarrow>
                              if 224 \<le> a \<and> a < 240 \<and> cont_byte b \<and> cont_byte c
                                 \<and> (a = 224 \<longrightarrow> 160 \<le> b) \<and> (a = 237 \<longrightarrow> b < 160)
                              then ((a - 224) * 4096 + (b - 128) * 64 + (c - 128), 3)
                              else (case s'' of
                                      [] \<Rightarrow> (65533, 1)
                                    | d # _ \<Rightarrow>
                                        if 240 \<le> a \<and> a < 245 \<and> cont_byte b \<and> cont_byte c \<and> cont_byte d
                                           \<and> (a = 240 \<longrightarrow> 144 \<le> b) \<and> (a = 244 \<longrightarrow> b < 144)
                                        then ((a - 240) * 262144 + (b - 128) * 4096 + (c - 128) * 64 + (d - 128), 4)
                                        else (65533, 1)))))"

lemma decode_rune_width: "bs \<noteq> [] \<Longrightarrow> 0 < snd (decode_rune bs)"
  by (cases bs) (auto simp: decode_rune_def split: list.splits)

function runes_of :: "nat list \<Rightarrow> nat list" where
  "runes_of bs = (if bs = [] then [] else fst (decode_rune bs) # runes_of (drop (snd (decode_rune bs)) bs))"
  by pat_completeness auto
termination
proof (relation "measure length")
  fix bs :: "nat list"
  assume "bs \<noteq> []"
  with decode_rune_width[OF this] show "(drop (snd (decode_rune bs)) bs, bs) \<in> measure length" by simp
qed simp

declare runes_of.simps [simp del]

text \<open>\<open>[]rune(s)\<close>.\<close>

definition runes :: "string \<Rightarrow> nat list" where
  "runes s = runes_of (map of_char s)"

text \<open>\<open>string(r)\<close> of one code point.\<close>

definition encode_rune :: "nat \<Rightarrow> string" where
  "encode_rune r =
     map char_of
       (if r < 128 then [r]
        else if r < 2048 then [192 + r div 64, 128 + r mod 64]
        else if r < 65536 then [224 + r div 4096, 128 + r div 64 mod 64, 128 + r mod 64]
        else [240 + r div 262144, 128 + r div 4096 mod 64, 128 + r div 64 mod 64, 128 + r mod 64])"

definition lower_rune :: "(nat \<Rightarrow> nat) \<Rightarrow> nat \<Rightarrow> nat" where
  "lower_rune unicode r =
     (if r < 128 then (if 65 \<le> r \<and> r \<le> 90 then r + 32 else r) else unicode r)"

section \<open>The vectorizer\<close>

record vectorizer =
  vz_Vocabulary :: "string \<rightharpoonup> int"
  vz_IDF :: "real list"
  vz_NgramMin :: int
  vz_NgramMax :: int
  vz_NumCols :: nat

text \<open>\<open>LoadTfidf\<close> after the file was read and decoded.\<close>

definition LoadTfidf :: "(string \<rightharpoonup> int) \<Rightarrow> real list \<Rightarrow> int \<Rightarrow> int \<Rightarrow> vectorizer" where
  "LoadTfidf vocabulary idf ngramMin ngramMax = \<lparr> vz_Vocabulary = vocabulary, vz_IDF = idf,
     vz_NgramMin = ngramMin, vz_NgramMax = ngramMax, vz_NumCols = length idf \<rparr>"

text \<open>
  The n-grams of one length. A negative length passes the loop's test and the slice
  \<open>runes[i : i+length]\<close> then panics; that is \<open>None\<close>. The length 0 gives the empty n-gram.
\<close>

definition ngrams_at :: "nat list \<Rightarrow> int \<Rightarrow> string list option" where
  "ngrams_at rs len =
     (if len < 0 then None
      else Some (map (\<lambda>i. concat (map encode_rune (take (nat len) (drop i rs))))
                  [0..<nat (int (length rs) - len + 1)]))"

text \<open>The columns of the n-grams in the vocabulary, in the order of the loops.\<close>

fun hits_from :: "vectorizer \<Rightarrow> nat list \<Rightarrow> int list \<Rightarrow> int list option" where
  "hits_from v rs [] = Some []"
| "hits_from v rs (len # lens) =
     (case ngrams_at rs len of
        None \<Rightarrow> None
      | Some gs \<Rightarrow> map_option ((@) (List.map_filter (vz_Vocabulary v) gs)) (hits_from v rs lens))"

definition count_hits :: "int list \<Rightarrow> int \<Rightarrow> real" where
  "count_hits hits idx = foldl (\<lambda>c h. if h = idx then fadd c 1 else c) 0 hits"

text \<open>An index outside of the table panics.\<close>

definition Transform :: "(nat \<Rightarrow> nat) \<Rightarrow> vectorizer \<Rightarrow> string \<Rightarrow> real list option" where
  "Transform unicode v txt =
     (case hits_from v (map (lower_rune unicode) (runes txt)) [vz_NgramMin v..vz_NgramMax v] of
        None \<Rightarrow> None
      | Some hits \<Rightarrow>
          if \<not> list_all (\<lambda>idx. 0 \<le> idx \<and> idx < int (length (vz_IDF v)) \<and> idx < int (vz_NumCols v)) hits
          then None
          else
            (let cols = rev (remdups (rev hits));
                 val = (\<lambda>idx. fmul (count_hits hits idx) (vz_IDF v ! nat idx));
                 sumSq = foldl (\<lambda>acc idx. fadd acc (fmul (val idx) (val idx))) 0 cols;
                 norm = fsqrt sumSq
             in Some (map (\<lambda>c. if int c \<in> set cols
                               then (if sumSq > 0 then fdiv (val (int c)) norm else val (int c)) else 0)
                       [0..<vz_NumCols v])))"

section \<open>A vocabulary that fits its table\<close>

lemma hits_from_vocabulary:
  assumes "\<forall>len\<in>set lens. 0 \<le> len"
  shows "\<exists>hits. hits_from v rs lens = Some hits \<and> (\<forall>idx\<in>set hits. idx \<in> ran (vz_Vocabulary v))"
  using assms
proof (induction lens)
  case (Cons len lens)
  then obtain hits where h: "hits_from v rs lens = Some hits" "\<forall>idx\<in>set hits. idx \<in> ran (vz_Vocabulary v)"
    by auto
  have "set (List.map_filter f gs) \<subseteq> ran f" for f :: "string \<Rightarrow> int option" and gs
    by (auto simp: List.map_filter_def ran_def)
  with Cons.prems h show ?case by (auto simp: ngrams_at_def)
qed simp

lemma Transform_total:
  assumes "0 \<le> ngramMin" and "\<forall>idx\<in>ran vocabulary. 0 \<le> idx \<and> idx < int (length idf)"
  shows "\<exists>vec. Transform unicode (LoadTfidf vocabulary idf ngramMin ngramMax) txt = Some vec \<and> length vec = length idf"
proof -
  let ?v = "LoadTfidf vocabulary idf ngramMin ngramMax"
  let ?rs = "map (lower_rune unicode) (runes txt)"
  obtain hits where h: "hits_from ?v ?rs [ngramMin..ngramMax] = Some hits" "\<forall>idx\<in>set hits. idx \<in> ran vocabulary"
    using hits_from_vocabulary[of "[ngramMin..ngramMax]" ?v ?rs] assms(1) by (auto simp: LoadTfidf_def)
  then have "list_all (\<lambda>idx. 0 \<le> idx \<and> idx < int (length idf)) hits" using assms(2) by (auto simp: list_all_iff)
  with h(1) show ?thesis by (simp add: Transform_def LoadTfidf_def Let_def)
qed

end
