(* ===== verification/Features.thy ===== *)
theory Features
  imports Go_Http Go_Regexp Tfidf
begin

text \<open>
  The 42 engineered features of a request (\<open>tier-0/features.go\<close>). The libraries it calls are
  arguments: the size of the DEFLATE stream, the JSON decoder, libinjection, and \<open>math.Log2\<close>,
  whose rounding Go does not fix. Go's \<open>(?i)\<close> folds two characters beyond ASCII, U+017F with the
  letter s and U+212A with the letter k, and so does \<open>Fold\<close>. The map of character counts is
  iterated in the order of first occurrence. A division by zero gives NaN or an infinity, which is no
  real number: it is the argument \<open>ml_nan\<close>, of which nothing is assumed.
\<close>

datatype json = JObject "(string \<times> json) list" | JArray "json list" | JScalar

record ml_libs =
  ml_log2 :: "real \<Rightarrow> real"
  ml_deflated :: "string \<Rightarrow> int"
  ml_jsonValid :: "string \<Rightarrow> bool"
  ml_jsonDecode :: "string \<Rightarrow> json option"
  ml_isSQLi :: "string \<Rightarrow> bool"
  ml_isXSS :: "string \<Rightarrow> bool"
  ml_unicodeLower :: "nat \<Rightarrow> nat"
  ml_nan :: real

definition ExpectedEngineeredFeatures :: nat where
  "ExpectedEngineeredFeatures = 42"

section \<open>Patterns\<close>

definition Fold :: "char \<Rightarrow> re" where
  "Fold c =
     (let base = Cls (\<lambda>x. lower_char x = lower_char c)
      in if lower_char c = CHR ''s'' then Alt base (Lit [CHR 0xC5, CHR 0xBF])
         else if lower_char c = CHR ''k'' then Alt base (Lit [CHR 0xE2, CHR 0x84, CHR 0xAA])
         else base)"

primrec LitFold :: "string \<Rightarrow> re" where
  "LitFold [] = Empty"
| "LitFold (c # cs) = Cat (Fold c) (LitFold cs)"

primrec AnyOf :: "re list \<Rightarrow> re" where
  "AnyOf [] = Cls (\<lambda>_. False)"
| "AnyOf (r # rs) = Alt r (AnyOf rs)"

definition Space :: re where
  "Space = Cls (\<lambda>c. c \<in> {CHR 0x09, CHR 0x0A, CHR 0x0C, CHR 0x0D, CHR '' ''})"

definition sqlKeywordsPattern :: re where
  "sqlKeywordsPattern = Cat WordBoundary (Cat (AnyOf (map LitFold
       [''select'', ''union'', ''insert'', ''update'', ''delete'', ''drop'', ''alter'', ''create'',
        ''where'', ''having''] @
       [Cat (LitFold ''order'') (Cat (Plus Space) (LitFold ''by'')),
        Cat (LitFold ''group'') (Cat (Plus Space) (LitFold ''by''))])) WordBoundary)"

definition scriptTagsPattern :: re where
  "scriptTagsPattern = AnyOf (map LitFold
     [''<script'', ''javascript:'', ''onerror='', ''onload='', ''eval('', ''alert('' ])"

definition traversalPattern :: re where
  "traversalPattern = AnyOf (map LitFold
     [''../'', ''..'' @ [CHR 0x5C], ''%2e%2e%2f'', ''%2e%2e/'', ''..%2f''])"

definition ssrfPattern :: re where
  "ssrfPattern = AnyOf (map LitFold
     [''127.0.0.1'', ''localhost'', ''169.254'', ''file://'', ''dict://'', ''gopher://''])"

definition sstiPattern :: re where
  "sstiPattern = AnyOf (map Lit [''{{'', ''${'', ''<%'', ''#{''])"

definition crlfPattern :: re where
  "crlfPattern = AnyOf [Lit [CHR 0x0D, CHR 0x0A], LitFold ''%0d%0a'']"

definition Digit13 :: re where
  "Digit13 = (let d = Cls is_digit in Cat d (Alt (Cat d (Alt d Empty)) Empty))"

definition hostIsIPPattern :: re where
  "hostIsIPPattern =
     (let dot = Lit ''.''
      in Cat BeginText (Cat Digit13 (Cat dot (Cat Digit13 (Cat dot (Cat Digit13 (Cat dot (Cat Digit13
           (Cat (Alt (Cat (Lit '':'') (Plus (Cls is_digit))) Empty) EndText)))))))))"

definition hex_char :: "char \<Rightarrow> bool" where
  "hex_char c \<longleftrightarrow> hex_value c \<noteq> None"

definition unicodeEscapePattern :: re where
  "unicodeEscapePattern =
     (let h = Cls hex_char in Cat (Lit [CHR 0x5C, CHR ''u'']) (Cat h (Cat h (Cat h h))))"

definition csrfPattern :: re where
  "csrfPattern = AnyOf (map LitFold [''csrf'', ''xsrf'', ''token''])"

definition specialChars :: string where
  "specialChars = [CHR 0x27, CHR 0x22] @ '';|%<>()''"

definition bodySpecialChars :: string where
  "bodySpecialChars = [CHR 0x27, CHR 0x22] @ '';|%<>()'' @ [CHR 0x5C] @ ''{}$'' @ [CHR 0x5C, CHR 0x60]"

text \<open>Each of the six ASCII characters, and U+00A0.\<close>

definition whitespaceChars :: "string list" where
  "whitespaceChars = [[CHR '' ''], [CHR 0x09], [CHR 0x0A], [CHR 0x0D], [CHR 0x0B], [CHR 0x0C],
     [CHR 0xC2, CHR 0xA0]]"

definition riskyExts :: "string list" where
  "riskyExts = [''.php'', ''.asp'', ''.jsp'', ''.cgi'', ''.sh'', ''.py'', ''.pl'']"

section \<open>Helpers\<close>

definition ratio :: "ml_libs \<Rightarrow> int \<Rightarrow> int \<Rightarrow> real" where
  "ratio libs a b = (if b = 0 then ml_nan libs else fdiv (fint a) (fint b))"

definition entropy :: "ml_libs \<Rightarrow> string \<Rightarrow> real" where
  "entropy libs s =
     (if s = [] then 0
      else (let rs = runes s
            in foldl (\<lambda>ent r. let p = ratio libs (int (count_list rs r)) (int (length s))
                              in fsub ent (fmul p (ml_log2 libs p))) 0 (rev (remdups (rev rs)))))"

definition countChars :: "string \<Rightarrow> string \<Rightarrow> int" where
  "countChars s chars = int (length (filter (\<lambda>c. c \<in> set chars) s))"

text \<open>\<open>url.QueryUnescape\<close>; a percent sign without two hexadecimal digits is an error.\<close>

fun QueryUnescape :: "string \<Rightarrow> string option" where
  "QueryUnescape [] = Some []"
| "QueryUnescape (c # s) =
     (if c = CHR ''%''
      then (case s of
              a # b # s' \<Rightarrow>
                (case (hex_value a, hex_value b) of
                   (Some x, Some y) \<Rightarrow> map_option ((#) (char_of (16 * x + y))) (QueryUnescape s')
                 | _ \<Rightarrow> None)
            | _ \<Rightarrow> None)
      else map_option ((#) (if c = CHR ''+'' then CHR '' '' else c)) (QueryUnescape s))"

definition tryUnescape :: "string \<Rightarrow> string" where
  "tryUnescape s = (case QueryUnescape s of Some u \<Rightarrow> u | None \<Rightarrow> s)"

definition getDepth :: "string \<Rightarrow> int" where
  "getDepth s = int (count_list s (CHR ''/''))"

text \<open>The loop that counts the layers of encoding, from \<open>layers\<close> layers on.\<close>

function encoding_layers :: "nat \<Rightarrow> string \<Rightarrow> nat" where
  "encoding_layers layers current =
     (let unescaped = tryUnescape current
      in if unescaped = current \<or> layers > 10 then layers
         else encoding_layers (layers + 1) unescaped)"
  by pat_completeness auto
termination by (relation "measure (\<lambda>(layers, current). 11 - layers)") auto

declare encoding_layers.simps [simp del]

text \<open>\<open>strings.Contains\<close>.\<close>

definition contains_str :: "string \<Rightarrow> string \<Rightarrow> bool" where
  "contains_str s w \<longleftrightarrow> sublist w s"

text \<open>\<open>url.ParseQuery\<close>, the pairs in order; a pair that does not decode is skipped.\<close>

definition query_pair :: "string \<Rightarrow> (string \<times> string) option" where
  "query_pair part =
     (if CHR '';'' \<in> set part \<or> part = [] then None
      else let (k, v) = cut_at (CHR ''='') part
           in (case (QueryUnescape k, QueryUnescape v) of (Some k, Some v) \<Rightarrow> Some (k, v) | _ \<Rightarrow> None))"

definition ParseQuery :: "string \<Rightarrow> (string \<times> string) list" where
  "ParseQuery q = List.map_filter query_pair (go_split (CHR ''&'') q)"

fun analyzeJSON :: "json \<Rightarrow> int \<Rightarrow> int \<times> int" where
  "analyzeJSON (JObject kvs) depth =
     (let rs = map (\<lambda>(k, child). analyzeJSON child (depth + 1)) kvs
      in (int (length kvs) + sum_list (map fst rs), foldl max depth (map snd rs)))"
| "analyzeJSON (JArray vs) depth =
     (let rs = map (\<lambda>child. analyzeJSON child (depth + 1)) vs
      in (sum_list (map fst rs), foldl max depth (map snd rs)))"
| "analyzeJSON JScalar depth = (0, depth)"

definition flag :: "bool \<Rightarrow> real" where
  "flag b = (if b then 1 else 0)"

section \<open>The vector\<close>

text \<open>Features 1 to 14, from the body, the cookies and the layers of encoding.\<close>

definition body_features :: "ml_libs \<Rightarrow> http_request \<Rightarrow> string \<Rightarrow> string \<Rightarrow> bool \<Rightarrow> real list" where
  "body_features libs req body fullURL isJSON =
     (let n = int (length body);
          cookieHeader = header_Get (h_Header req) ''Cookie''
      in [if n > 0 then ratio libs (ml_deflated libs body) n else 1,
          entropy libs body,
          flag (MatchString scriptTagsPattern body),
          flag (MatchString sqlKeywordsPattern body),
          flag (MatchString traversalPattern body),
          flag (MatchString unicodeEscapePattern body),
          flag isJSON,
          flag (5 \<le> n \<and> prefix ''<?xml'' (ToLower (take 5 body))),
          fint n,
          if n > 0 then ratio libs (int (count_list body (CHR ''%''))) n else 0,
          if n > 0 then ratio libs (countChars body bodySpecialChars) n else 0,
          flag (isJSON \<and> \<not> contains_str (ToLower (header_Get (h_Header req) ''Content-Type'')) ''application/json''),
          if cookieHeader \<noteq> [] then fint (int (count_list cookieHeader (CHR '';'')) + 1) else 0,
          fint (int (encoding_layers 0 fullURL))])"

text \<open>Features 15 to 28, the patterns of attacks and the shape of a JSON body.\<close>

definition attack_features :: "ml_libs \<Rightarrow> http_request \<Rightarrow> string \<Rightarrow> string \<Rightarrow> bool \<Rightarrow> real list" where
  "attack_features libs req body fullURL isJSON =
     (let query = h_RawQuery req;
          cookieHeader = header_Get (h_Header req) ''Cookie'';
          (keys, depth) = (case (if isJSON then ml_jsonDecode libs body else None) of
                             Some v \<Rightarrow> (let (k, d) = analyzeJSON v 1 in (fint k, fint d))
                           | None \<Rightarrow> (0, 0))
      in [flag (CHR 0x60 \<in> set query),
          flag (MatchString crlfPattern (fullURL @ cookieHeader)),
          flag (MatchString csrfPattern (cookieHeader @ body)),
          flag (contains_str fullURL ''%25''),
          flag (contains_str fullURL ''%00'' \<or> CHR 0x00 \<in> set fullURL),
          flag (CHR ''|'' \<in> set query),
          flag (CHR '';'' \<in> set query),
          flag (MatchString ssrfPattern (fullURL @ body)),
          flag (MatchString sstiPattern (fullURL @ body)),
          flag (MatchString hostIsIPPattern (h_Host req)),
          keys,
          depth,
          flag (ml_isSQLi libs (fullURL @ body)),
          flag (ml_isXSS libs (fullURL @ body))])"

text \<open>Features 29 to 42, the parameters, the path and the URL.\<close>

definition url_features :: "ml_libs \<Rightarrow> http_request \<Rightarrow> string \<Rightarrow> string \<Rightarrow> real list" where
  "url_features libs req body fullURL =
     (let path = h_Path req;
          query = h_RawQuery req;
          urlLen = (if fullURL = [] then 1 else int (length fullURL));
          pairs = ParseQuery query;
          vals = map snd pairs;
          meth = h_Method req
      in [fint (int (length (remdups (map fst pairs)))),
          fint (foldl max 0 (map (\<lambda>v. int (length v)) vals)),
          foldl max 0 (map (entropy libs) vals),
          flag (case split_last (CHR ''.'') path of
                  Some (a, ext) \<Rightarrow> ToLower (CHR ''.'' # ext) \<in> set riskyExts | None \<Rightarrow> False),
          flag (MatchString traversalPattern path),
          ratio libs (int (count_list fullURL (CHR ''%''))) urlLen,
          ratio libs (countChars fullURL specialChars) urlLen,
          entropy libs query,
          flag (MatchString scriptTagsPattern query),
          flag (MatchString sqlKeywordsPattern query),
          flag (meth \<notin> set [''GET'', ''POST'', ''PUT'', ''DELETE'', ''HEAD'', ''OPTIONS'', ''PATCH'', ''TRACE'']
                \<or> contains_str meth ''GET-GET''),
          fint (getDepth path),
          fint urlLen,
          fint (int (length (filter (contains_str (query @ body)) whitespaceChars)))])"

definition ExtractFeatures :: "ml_libs \<Rightarrow> http_request \<Rightarrow> string \<Rightarrow> real list" where
  "ExtractFeatures libs req body =
     (let fullURL = (if h_RawQuery req \<noteq> [] then h_Path req @ ''?'' @ h_RawQuery req else h_Path req);
          isJSON = (body \<noteq> [] \<and> (hd body = CHR ''{'' \<or> hd body = CHR ''['') \<and> ml_jsonValid libs body)
      in body_features libs req body fullURL isJSON @
         attack_features libs req body fullURL isJSON @
         url_features libs req body fullURL)"

section \<open>The loop over the encodings\<close>

text \<open>How often a text was unescaped: \<open>n\<close> times, each time with an effect.\<close>

definition unescapes :: "nat \<Rightarrow> string \<Rightarrow> string" where
  "unescapes n s = (tryUnescape ^^ n) s"

lemma encoding_layers_from:
  assumes "layers \<le> 11"
  shows "layers \<le> encoding_layers layers s \<and> encoding_layers layers s \<le> 11 \<and>
    (\<forall>i < encoding_layers layers s - layers. unescapes (Suc i) s \<noteq> unescapes i s) \<and>
    (encoding_layers layers s < 11 \<longrightarrow>
       tryUnescape (unescapes (encoding_layers layers s - layers) s) = unescapes (encoding_layers layers s - layers) s)"
  using assms
proof (induction layers s rule: encoding_layers.induct)
  case (1 layers s)
  let ?u = "tryUnescape s"
  show ?case
  proof (cases "?u = s \<or> layers > 10")
    case True
    then have "encoding_layers layers s = layers" by (subst encoding_layers.simps) (simp add: Let_def)
    with True "1.prems" show ?thesis by (auto simp: unescapes_def)
  next
    case False
    then have eq: "encoding_layers layers s = encoding_layers (layers + 1) ?u"
      by (subst encoding_layers.simps) (simp add: Let_def)
    let ?k = "encoding_layers (layers + 1) ?u"
    have IH: "layers + 1 \<le> ?k" "?k \<le> 11"
      "\<forall>i < ?k - (layers + 1). unescapes (Suc i) ?u \<noteq> unescapes i ?u"
      "?k < 11 \<longrightarrow> tryUnescape (unescapes (?k - (layers + 1)) ?u) = unescapes (?k - (layers + 1)) ?u"
      using "1.IH"[OF refl False] False by auto
    have shift: "unescapes (Suc i) s = unescapes i ?u" for i by (simp add: unescapes_def funpow_swap1)
    have "\<forall>i < ?k - layers. unescapes (Suc i) s \<noteq> unescapes i s"
    proof (intro allI impI)
      fix i assume "i < ?k - layers"
      then show "unescapes (Suc i) s \<noteq> unescapes i s"
        using False IH(3) shift by (cases i) (auto simp: unescapes_def)
    qed
    moreover have "?k - layers = Suc (?k - (layers + 1))" using IH(1) by simp
    ultimately show ?thesis using IH eq shift by auto
  qed
qed

text \<open>The loop that peels off layers of percent-encoding returns for every URL: it counts the
  rounds that change the text, stops at the first that does not, and gives up after eleven.\<close>

theorem encoding_layers_counts:
  "let n = encoding_layers 0 s
   in n \<le> 11 \<and> (\<forall>i<n. unescapes (Suc i) s \<noteq> unescapes i s) \<and>
      (n < 11 \<longrightarrow> tryUnescape (unescapes n s) = unescapes n s)"
  using encoding_layers_from[of 0 s] by (simp add: Let_def)

lemma encoding_layers_counts_witness:
  "encoding_layers 0 ''/a%252e'' = 2 \<and> tryUnescape (unescapes 2 ''/a%252e'') = unescapes 2 ''/a%252e''"
proof -
  have "tryUnescape ''/a%252e'' = ''/a%2e''" "tryUnescape ''/a%2e'' = ''/a.''" "tryUnescape ''/a.'' = ''/a.''"
    by (simp_all add: tryUnescape_def hex_value_def lower_char_def char_of_def bit_0)
  then have "encoding_layers 0 ''/a%252e'' = 2"
    by (simp add: encoding_layers.simps[of 0] encoding_layers.simps[of "Suc 0"] encoding_layers.simps[of "Suc (Suc 0)"] numeral_2_eq_2)
  then show ?thesis using encoding_layers_counts[of "''/a%252e''"] by (simp add: Let_def)
qed

section \<open>The range of the features\<close>

text \<open>What is relied on of the libraries: a logarithm that is not positive up to 1, sizes.\<close>

definition ml_ok :: "ml_libs \<Rightarrow> bool" where
  "ml_ok libs \<longleftrightarrow> (\<forall>p. 0 \<le> p \<and> p \<le> 1 \<longrightarrow> ml_log2 libs p \<le> 0) \<and> (\<forall>s. 0 \<le> ml_deflated libs s)"

lemma flag_01 [simp]: "flag b \<in> {0, 1}" "0 \<le> flag b" "flag b \<le> 1"
  by (simp_all add: flag_def)

lemma ratio_01: "0 \<le> a \<Longrightarrow> a \<le> b \<Longrightarrow> 0 < b \<Longrightarrow> 0 \<le> ratio libs a b \<and> ratio libs a b \<le> 1"
proof -
  assume ab: "0 \<le> a" "a \<le> b" "0 < b"
  then have "fint a \<le> fint b" "0 \<le> fint a" by (auto intro: fint_mono)
  then have "fint a / fint b \<le> 1" by (simp add: divide_le_eq)
  then show ?thesis using ab \<open>0 \<le> fint a\<close> \<open>fint a \<le> fint b\<close> by (auto simp: ratio_def fdiv_def intro: fl_le)
qed

lemma runes_of_length: "length (runes_of bs) \<le> length bs"
proof (induction bs rule: runes_of.induct)
  case (1 bs)
  show ?case
  proof (cases "bs = []")
    case False
    then have "0 < length bs" by simp
    with 1[OF False] decode_rune_width[OF False] False show ?thesis
      by (subst runes_of.simps) (simp del: length_greater_0_conv)
  qed (simp add: runes_of.simps)
qed

lemma runes_length: "length (runes s) \<le> length s"
  using runes_of_length[of "map of_char s"] by (simp add: runes_def)

lemma entropy_nonneg:
  assumes "\<forall>p. 0 \<le> p \<and> p \<le> 1 \<longrightarrow> ml_log2 libs p \<le> 0"
  shows "0 \<le> entropy libs s"
proof (cases "s = []")
  case False
  have step: "0 \<le> fsub ent (fmul p (ml_log2 libs p))" if "0 \<le> ent" "0 \<le> p" "p \<le> 1" for ent p
  proof -
    have "fmul p (ml_log2 libs p) \<le> 0"
      unfolding fmul_def using assms that by (intro fl_nonpos mult_nonneg_nonpos) auto
    then show ?thesis using that by (simp add: fsub_def)
  qed
  have "0 \<le> foldl (\<lambda>ent r. let p = ratio libs (int (count_list rs r)) (int (length s))
                              in fsub ent (fmul p (ml_log2 libs p))) ent xs" if "0 \<le> ent" "length rs \<le> length s" for ent xs rs
    using that(1)
  proof (induction xs arbitrary: ent)
    case (Cons r xs)
    have "int (count_list rs r) \<le> int (length s)" using count_le_length[of rs r] that(2) by linarith
    with ratio_01[of "int (count_list rs r)" "int (length s)" libs] False
    have "0 \<le> ratio libs (int (count_list rs r)) (int (length s)) \<and> ratio libs (int (count_list rs r)) (int (length s)) \<le> 1"
      by simp
    with step[OF Cons.prems] Cons.IH show ?case by (simp add: Let_def)
  qed simp
  from this[OF order_refl runes_length] show ?thesis by (simp add: entropy_def Let_def)
qed (simp add: entropy_def)

lemma foldl_max_ge: "a \<le> foldl max a xs" for a :: "'a :: linorder"
  by (induction xs arbitrary: a) (simp, metis foldl_Cons max.bounded_iff)

lemma sum_list_fst_nonneg: "(\<And>x. x \<in> set xs \<Longrightarrow> 0 \<le> f x) \<Longrightarrow> 0 \<le> sum_list (map f xs)" for f :: "'a \<Rightarrow> int"
  by (rule sum_list_nonneg) auto

lemma analyzeJSON_nonneg: "0 \<le> fst (analyzeJSON v d)" "d \<le> snd (analyzeJSON v d)"
proof -
  show "0 \<le> fst (analyzeJSON v d)"
    by (induction v d rule: analyzeJSON.induct)
      (auto simp: Let_def comp_def case_prod_unfold intro!: add_nonneg_nonneg sum_list_fst_nonneg)
  show "d \<le> snd (analyzeJSON v d)"
    by (cases "(v, d)" rule: analyzeJSON.cases) (auto simp: Let_def foldl_max_ge)
qed

text \<open>What a division by zero would give does not matter, because none happens.\<close>

abbreviation with_nan :: "real \<Rightarrow> ml_libs \<Rightarrow> ml_libs" where
  "with_nan x libs \<equiv> libs\<lparr>ml_nan := x\<rparr>"

lemma ratio_nan: "b \<noteq> 0 \<Longrightarrow> ratio (with_nan x libs) a b = ratio libs a b"
  by (simp add: ratio_def)

lemma entropy_nan [simp]: "entropy (with_nan x libs) s = entropy libs s"
  by (simp add: entropy_def ratio_nan Let_def)

lemma ExtractFeatures_nan: "ExtractFeatures (with_nan x libs) req body = ExtractFeatures libs req body"
proof -
  have "body_features (with_nan x libs) req body u j = body_features libs req body u j" for u j
    by (simp add: body_features_def ratio_nan Let_def)
  moreover have "attack_features (with_nan x libs) req body u j = attack_features libs req body u j" for u j
    by (simp add: attack_features_def)
  moreover have "url_features (with_nan x libs) req body u = url_features libs req body u" for u
    by (simp add: url_features_def ratio_nan Let_def comp_def)
  ultimately show ?thesis by (simp add: ExtractFeatures_def Let_def)
qed

text \<open>C26: The vector that the classifier gets is well-formed for every request: 42 features, none
  negative, the shares of percent signs and of special characters, in the body and in the URL,
  between 0 and 1, and none of them a division by zero, also for an empty body and an empty URL:
  whatever such a division would give, the vector is the same.\<close>

theorem features_in_range:
  assumes "ml_ok libs"
  shows "length (ExtractFeatures libs req body) = ExpectedEngineeredFeatures \<and>
    (\<forall>x\<in>set (ExtractFeatures libs req body). 0 \<le> x) \<and>
    (\<forall>i\<in>{9, 10, 33, 34}. ExtractFeatures libs req body ! i \<le> 1) \<and>
    (\<forall>x. ExtractFeatures (libs\<lparr>ml_nan := x\<rparr>) req body = ExtractFeatures libs req body)"
proof -
  have ent: "0 \<le> entropy libs s" for s using assms by (intro entropy_nonneg) (simp add: ml_ok_def)
  have r: "0 \<le> ratio libs a b" if "0 \<le> a" "0 < b" for a b using that by (simp add: ratio_def)
  have c: "int (count_list s x) \<le> int (length s)" "countChars s t \<le> int (length s)" "0 \<le> countChars s t"
    for s t :: string and x
    by (simp_all add: countChars_def count_le_length length_filter_le)
  have rb: "ratio libs (int (count_list s x)) (int (length s)) \<le> 1" "ratio libs (countChars s t) (int (length s)) \<le> 1"
    if "s \<noteq> []" for s t :: string and x
    using ratio_01 c that by simp_all
  have ru: "ratio libs (int (count_list s x)) (if s = [] then 1 else int (length s)) \<le> 1"
    "ratio libs (countChars s t) (if s = [] then 1 else int (length s)) \<le> 1" for s t :: string and x
    using rb ratio_01[of 0 1] by (auto simp: countChars_def)
  have body: "length (body_features libs req body u j) = 14"
    "\<forall>x\<in>set (body_features libs req body u j). 0 \<le> x"
    "body_features libs req body u j ! 9 \<le> 1" "body_features libs req body u j ! 10 \<le> 1" for u j
    using assms ent r c rb by (auto simp: body_features_def Let_def ml_ok_def)
  have attack: "length (attack_features libs req body u j) = 14"
    "\<forall>x\<in>set (attack_features libs req body u j). 0 \<le> x" for u j
    using analyzeJSON_nonneg(1)[of _ 1] analyzeJSON_nonneg(2)[of 1]
    by (auto simp: attack_features_def Let_def case_prod_unfold split: option.split)
      (meson order_trans zero_le_one fint_nonneg)+
  have url: "length (url_features libs req body u) = 14"
    "\<forall>x\<in>set (url_features libs req body u). 0 \<le> x"
    "url_features libs req body u ! 5 \<le> 1" "url_features libs req body u ! 6 \<le> 1" for u
    using ent r c ru foldl_max_ge[of "0 :: int"] foldl_max_ge[of "0 :: real"]
    by (auto simp: url_features_def Let_def getDepth_def)
  show ?thesis
    using body attack url ExtractFeatures_nan[of _ libs req body]
    by (auto simp: ExtractFeatures_def Let_def ExpectedEngineeredFeatures_def nth_append)
qed

definition demo_ml :: ml_libs where
  "demo_ml = \<lparr> ml_log2 = log 2, ml_deflated = \<lambda>s. int (length s) + 6, ml_jsonValid = \<lambda>_. False,
     ml_jsonDecode = \<lambda>_. None, ml_isSQLi = \<lambda>_. False, ml_isXSS = \<lambda>_. False, ml_unicodeLower = \<lambda>r. r,
     ml_nan = - 1 \<rparr>"

lemma demo_ml_ok: "ml_ok demo_ml"
proof -
  have "log 2 p \<le> 0" if "0 \<le> p" "p \<le> 1" for p :: real
  proof (cases "p = 0")
    case False
    then show ?thesis using that by (simp add: log_le_zero_cancel_iff)
  qed (simp add: log_def)
  then show ?thesis by (simp add: ml_ok_def demo_ml_def)
qed

lemma features_in_range_witness:
  "length (ExtractFeatures demo_ml \<lparr> h_Method = ''GET'', h_Path = [], h_RawQuery = [], h_Header = Map.empty,
     h_Body = Some [], h_RemoteAddr = [], h_Host = [] \<rparr> []) = 42"
  using features_in_range[OF demo_ml_ok] by (simp add: ExpectedEngineeredFeatures_def)

end
