(* ===== verification/Tier1_Queue.thy ===== *)
theory Tier1_Queue
  imports Waf_Config Tfidf
begin

text \<open>
  The job queue and the audit log of the deep tier (\<open>trustscore/tier1_redis.go\<close>,
  \<open>tier1_audit.go\<close>). Redis and SQLite are outside the program; kept here is what the commands
  and statements of the code make of their contents: two lists, the results with their expiry
  left out, the heartbeats, the counters, and the rows of the audit table. A single command that
  fails changes nothing. The operations that send two commands in a pipeline, which is no
  transaction, may fail with either of them done (\<open>pipe_io\<close>). A job crosses the queue as JSON, which
  replaces every byte that is not valid UTF-8 (\<open>wire_job\<close>).

  The locale \<open>job_queue\<close> is the interface \<open>QueueBackend\<close> as far as producers rely on it, a
  first-in first-out queue; \<open>retry_queue\<close> adds what workers rely on, that a job can be put back.
\<close>

section \<open>Jobs on the wire\<close>

definition wire :: "string \<Rightarrow> string" where
  "wire s = concat (map encode_rune (runes s))"

definition wire_event :: "request_event \<Rightarrow> request_event" where
  "wire_event e = e\<lparr>e_IP := wire (e_IP e), e_SessionID := wire (e_SessionID e), e_Method := wire (e_Method e),
     e_Path := wire (e_Path e), e_QueryString := wire (e_QueryString e),
     e_ContentType := wire (e_ContentType e), e_UserAgent := wire (e_UserAgent e),
     e_Referer := wire (e_Referer e), e_Accept := wire (e_Accept e),
     e_AcceptLanguage := wire (e_AcceptLanguage e), e_JA4Fingerprint := wire (e_JA4Fingerprint e),
     e_ASN := wire (e_ASN e), e_CountryCode := wire (e_CountryCode e)\<rparr>"

definition wire_job :: "tier1_job \<Rightarrow> tier1_job" where
  "wire_job job = job\<lparr>j_ID := wire (j_ID job), j_Event := wire_event (j_Event job),
     j_Tier0Decision := wire (j_Tier0Decision job), j_ClientIP := wire (j_ClientIP job),
     j_UserID := wire (j_UserID job), j_BodySnippet := wire (j_BodySnippet job)\<rparr>"

lemma wire_job_Retries [simp]: "j_Retries (wire_job job) = j_Retries job"
  by (simp add: wire_job_def)

section \<open>The queue in Redis\<close>

record tier1_result =
  tr_Label :: string
  tr_Confidence :: real
  tr_BenignProb :: real
  tr_MaliciousProb :: real
  tr_ProcessedAt :: int
  tr_WorkerID :: string

record redis_queue =
  q_jobs :: "tier1_job list"
  q_failed :: "tier1_job list"
  q_results :: "string \<rightharpoonup> tier1_result option \<times> bool"
  q_processing :: "string \<rightharpoonup> string"
  q_enqueued :: int
  q_requeued :: int
  q_failures :: int
  q_completed :: int

definition NewRedisQueue :: redis_queue where
  "NewRedisQueue = \<lparr> q_jobs = [], q_failed = [], q_results = Map.empty, q_processing = Map.empty,
     q_enqueued = 0, q_requeued = 0, q_failures = 0, q_completed = 0 \<rparr>"

text \<open>
  What becomes of a pipeline of commands: \<open>Exec\<close> succeeds, or it returns an error and says nothing
  about the commands, of which the push (or the \<open>HSET\<close>) and the increment of the counter may each
  have been done. The operations return whether there was no error.
\<close>

datatype pipe_io = Fine | Broken bool bool

fun first_done :: "pipe_io \<Rightarrow> bool" where
  "first_done Fine = True"
| "first_done (Broken a b) = a"

fun counted :: "pipe_io \<Rightarrow> bool" where
  "counted Fine = True"
| "counted (Broken a b) = b"

definition q_Enqueue :: "pipe_io \<Rightarrow> tier1_job \<Rightarrow> redis_queue \<Rightarrow> bool \<times> redis_queue" where
  "q_Enqueue io job q =
     (let q = (if first_done io then q\<lparr>q_jobs := q_jobs q @ [wire_job job]\<rparr> else q);
          q = (if counted io then q\<lparr>q_enqueued := q_enqueued q + 1\<rparr> else q)
      in (io = Fine, q))"

text \<open>\<open>BLPOP\<close> that times out gives no job and no error.\<close>

definition q_Dequeue :: "redis_queue \<Rightarrow> tier1_job option \<times> redis_queue" where
  "q_Dequeue q = (case q_jobs q of [] \<Rightarrow> (None, q) | job # jobs \<Rightarrow> (Some job, q\<lparr>q_jobs := jobs\<rparr>))"

definition q_Requeue :: "pipe_io \<Rightarrow> tier1_job \<Rightarrow> redis_queue \<Rightarrow> bool \<times> redis_queue" where
  "q_Requeue io job q =
     (let q = (if first_done io then q\<lparr>q_jobs := q_jobs q @ [wire_job job]\<rparr> else q);
          q = (if counted io then q\<lparr>q_requeued := q_requeued q + 1\<rparr> else q)
      in (io = Fine, q))"

definition q_MoveToFailed :: "pipe_io \<Rightarrow> tier1_job \<Rightarrow> redis_queue \<Rightarrow> bool \<times> redis_queue" where
  "q_MoveToFailed io job q =
     (let q = (if first_done io then q\<lparr>q_failed := wire_job job # q_failed q\<rparr> else q);
          q = (if counted io then q\<lparr>q_failures := q_failures q + 1\<rparr> else q)
      in (io = Fine, q))"

definition q_StoreResult :: "pipe_io \<Rightarrow> string \<Rightarrow> tier1_result \<Rightarrow> redis_queue \<Rightarrow> bool \<times> redis_queue" where
  "q_StoreResult io jobID result q =
     (let q = (if first_done io then q\<lparr>q_results := (q_results q)(jobID \<mapsto> (Some result, False))\<rparr> else q);
          q = (if counted io then q\<lparr>q_completed := q_completed q + 1\<rparr> else q)
      in (io = Fine, q))"

text \<open>\<open>HSET\<close> of one field; a result that is not there is created with that field alone.\<close>

definition q_MarkFeedbackApplied :: "bool \<Rightarrow> string \<Rightarrow> redis_queue \<Rightarrow> redis_queue" where
  "q_MarkFeedbackApplied up jobID q =
     (if up then q\<lparr>q_results := (q_results q)(jobID \<mapsto>
        (case q_results q jobID of Some (r, b) \<Rightarrow> (r, True) | None \<Rightarrow> (None, True)))\<rparr> else q)"

definition q_SetHeartbeat :: "bool \<Rightarrow> string \<Rightarrow> string \<Rightarrow> redis_queue \<Rightarrow> redis_queue" where
  "q_SetHeartbeat up workerID jobID q =
     (if up then q\<lparr>q_processing := (q_processing q)(workerID \<mapsto> jobID)\<rparr> else q)"

definition q_DeleteHeartbeat :: "bool \<Rightarrow> string \<Rightarrow> redis_queue \<Rightarrow> redis_queue" where
  "q_DeleteHeartbeat up workerID q =
     (if up then q\<lparr>q_processing := (q_processing q)(workerID := None)\<rparr> else q)"

definition q_GetStats :: "redis_queue \<Rightarrow> string \<rightharpoonup> int" where
  "q_GetStats q = [''queue_depth'' \<mapsto> int (length (q_jobs q)), ''failed_depth'' \<mapsto> int (length (q_failed q)),
     ''enqueued'' \<mapsto> q_enqueued q, ''completed'' \<mapsto> q_completed q, ''failed'' \<mapsto> q_failures q,
     ''requeued'' \<mapsto> q_requeued q]"

section \<open>The interface\<close>

locale job_queue =
  fixes enq :: "'j \<Rightarrow> 'q \<Rightarrow> 'q" and deq :: "'q \<Rightarrow> 'j option \<times> 'q" and jobs :: "'q \<Rightarrow> 'j list"
    and wired :: "'j \<Rightarrow> 'j"
  assumes jobs_enq: "jobs (enq j q) = jobs q @ [wired j]"
    and deq_empty: "jobs q = [] \<Longrightarrow> deq q = (None, q)"
    and deq_first: "jobs q = j # js \<Longrightarrow> fst (deq q) = Some j \<and> jobs (snd (deq q)) = js"
begin

text \<open>What was put in comes out, in order, after what was there before.\<close>

fun take_out :: "nat \<Rightarrow> 'q \<Rightarrow> 'j list" where
  "take_out 0 q = []"
| "take_out (Suc n) q = (case deq q of (None, _) \<Rightarrow> [] | (Some j, q') \<Rightarrow> j # take_out n q')"

lemma take_out_jobs: "take_out n q = take n (jobs q)"
proof (induction n arbitrary: q)
  case (Suc n)
  show ?case
  proof (cases "jobs q")
    case Nil
    then show ?thesis by (simp add: deq_empty)
  next
    case (Cons j js)
    with deq_first[OF this] Suc show ?thesis by (cases "deq q") auto
  qed
qed simp

lemma jobs_enqs: "jobs (fold enq xs q) = jobs q @ map wired xs"
  by (induction xs arbitrary: q) (simp_all add: jobs_enq)

lemma fifo: "take_out (length (jobs q) + length xs) (fold enq xs q) = jobs q @ map wired xs"
  by (simp add: take_out_jobs jobs_enqs)

end

text \<open>
  What producers and workers do with a queue, and the abstract queue: a list of jobs. A worker
  that takes from an empty queue gets nothing.
\<close>

datatype 'j queue_op = Push 'j | Retry 'j | Pop

fun play :: "('j \<Rightarrow> 'q \<Rightarrow> 'q) \<Rightarrow> ('j \<Rightarrow> 'q \<Rightarrow> 'q) \<Rightarrow> ('q \<Rightarrow> 'j option \<times> 'q) \<Rightarrow> 'j queue_op list \<Rightarrow> 'q
    \<Rightarrow> 'j option list \<times> 'q" where
  "play push retry pop [] q = ([], q)"
| "play push retry pop (Push j # ops) q = play push retry pop ops (push j q)"
| "play push retry pop (Retry j # ops) q = play push retry pop ops (retry j q)"
| "play push retry pop (Pop # ops) q =
     (let (j, q) = pop q; (js, q) = play push retry pop ops q in (j # js, q))"

fun list_pop :: "'j list \<Rightarrow> 'j option \<times> 'j list" where
  "list_pop [] = (None, [])"
| "list_pop (j # js) = (Some j, js)"

text \<open>A queue that workers can also put a job back into.\<close>

locale retry_queue = job_queue +
  fixes retry :: "'a \<Rightarrow> 'b \<Rightarrow> 'b"
  assumes jobs_retry: "jobs (retry j q) = jobs q @ [wired j]"

sublocale retry_queue \<subseteq> retries: job_queue retry deq jobs wired
  by unfold_locales (simp_all add: jobs_retry deq_empty deq_first)

context retry_queue
begin

lemma deq_list: "fst (deq q) = fst (list_pop (jobs q))" "jobs (snd (deq q)) = snd (list_pop (jobs q))"
  using deq_empty[of q] deq_first[of q] by (cases "jobs q"; simp)+

lemma play_refines:
  "let (js, q') = play enq retry deq ops q;
       (ks, l) = play (\<lambda>j l. l @ [wired j]) (\<lambda>j l. l @ [wired j]) list_pop ops (jobs q)
   in js = ks \<and> jobs q' = l"
proof (induction ops arbitrary: q)
  case (Cons x ops)
  show ?case
  proof (cases x)
    case Pop
    then show ?thesis
      using Cons.IH[of "snd (deq q)"] by (simp add: Let_def case_prod_unfold deq_list)
  qed (use Cons.IH[of "enq _ q"] Cons.IH[of "retry _ q"] in \<open>simp_all add: jobs_enq jobs_retry\<close>)
qed simp

end

interpretation redis: retry_queue "\<lambda>j q. snd (q_Enqueue Fine j q)" q_Dequeue q_jobs wire_job
    "\<lambda>j q. snd (q_Requeue Fine j q)"
  by unfold_locales (auto simp: q_Enqueue_def q_Requeue_def q_Dequeue_def)

text \<open>C13: The queue in Redis implements a list of jobs: whatever producers push, workers put back and
  take, in any order, the workers get the jobs that a first-in first-out list would give them,
  as the encoding of JSON leaves them, and the same jobs are left in the end.\<close>

theorem redis_queue_is_fifo:
  "let (js, q') = play (\<lambda>j q. snd (q_Enqueue Fine j q)) (\<lambda>j q. snd (q_Requeue Fine j q)) q_Dequeue ops q;
       (ks, l) = play (\<lambda>j l. l @ [wire_job j]) (\<lambda>j l. l @ [wire_job j]) list_pop ops (q_jobs q)
   in js = ks \<and> q_jobs q' = l"
  by (rule redis.play_refines)

section \<open>The audit table\<close>

record audit_row =
  au_event :: request_event
  au_lgbmProb :: real
  au_tier0Decision :: string
  au_label :: "string option"
  au_confidence :: "real option"
  au_feedback :: "(real \<times> string) option"
  au_clientIP :: string
  au_userID :: string
  au_enqueuedAt :: int
  au_processed :: "(int \<times> string) option"
  au_status :: string
  au_error :: "string option"

type_synonym audit = "string \<rightharpoonup> audit_row"

text \<open>The column \<open>job_id\<close> is unique: a second insert is an error and changes nothing.\<close>

definition LogEnqueue :: "tier1_job \<Rightarrow> audit \<Rightarrow> audit" where
  "LogEnqueue job a =
     (if a (j_ID job) \<noteq> None then a
      else a(j_ID job \<mapsto> \<lparr> au_event = j_Event job, au_lgbmProb = j_LGBMProb job,
        au_tier0Decision = j_Tier0Decision job, au_label = None, au_confidence = None, au_feedback = None,
        au_clientIP = j_ClientIP job, au_userID = j_UserID job, au_enqueuedAt = go_trunc (j_EnqueuedAt job),
        au_processed = None, au_status = ''pending'', au_error = None \<rparr>))"

text \<open>An update of a row that is not there changes nothing and is no error.\<close>

definition LogResult :: "string \<Rightarrow> string \<Rightarrow> tier1_result \<Rightarrow> string \<Rightarrow> int \<Rightarrow> audit \<Rightarrow> audit" where
  "LogResult jobID workerID result errMsg now a =
     a(jobID := map_option (\<lambda>row. row\<lparr>
        au_label := (if errMsg = [] then Some (tr_Label result) else None),
        au_confidence := (if errMsg = [] then Some (tr_Confidence result) else None),
        au_processed := Some (now, workerID),
        au_status := (if errMsg \<noteq> [] then ''failed'' else ''completed''),
        au_error := Some errMsg\<rparr>) (a jobID))"

definition LogFeedback :: "string \<Rightarrow> real \<Rightarrow> string \<Rightarrow> audit \<Rightarrow> audit" where
  "LogFeedback jobID delta reason a =
     a(jobID := map_option (\<lambda>row. row\<lparr>au_feedback := Some (delta, reason)\<rparr>) (a jobID))"

text \<open>
  The code writes both entries in goroutines. Kept here is the order of the calls; in the other
  order the result is lost and the job stays pending for ever.
\<close>

lemma audit_race_leaves_pending:
  "a (j_ID job) = None \<Longrightarrow>
     map_option au_status (LogEnqueue job (LogResult (j_ID job) workerID result errMsg now a) (j_ID job)) = Some ''pending''"
  by (simp add: LogEnqueue_def LogResult_def)

end
