(* ===== verification/Tier1_Pipeline.thy ===== *)
theory Tier1_Pipeline
  imports Tier1_Queue
begin

text \<open>
  The workers of the deep tier (\<open>trustscore/tier1.go\<close>) and the client of the model
  (\<open>tier1_model.go\<close>). The model service is a function from the request to its reply. What the
  environment decides while a job is processed, the reply, the success of each Redis command
  and of the audit, and the time, is the record \<open>worker_env\<close>. A worker processes a job in one step;
  the audit, which the code writes from a goroutine, is part of that step.
\<close>

section \<open>The client of the model\<close>

record predict_request =
  pq_Method :: string
  pq_URL :: string
  pq_Headers :: "string \<rightharpoonup> string"
  pq_BodySnippet :: string
  pq_Tier0Decision :: string
  pq_LGBMProb :: real

datatype model_reply = NoReply string | HttpStatus int | BadBody string | Answer predict_response

definition put_nonempty :: "string \<Rightarrow> string \<Rightarrow> (string \<rightharpoonup> string) \<Rightarrow> (string \<rightharpoonup> string)" where
  "put_nonempty k v h = (if v \<noteq> [] then h(k \<mapsto> v) else h)"

definition buildHeadersMap :: "request_event \<Rightarrow> string \<rightharpoonup> string" where
  "buildHeadersMap event =
     put_nonempty ''Accept-Language'' (e_AcceptLanguage event)
       (put_nonempty ''Accept'' (e_Accept event)
         (put_nonempty ''Referer'' (e_Referer event)
           (put_nonempty ''User-Agent'' (e_UserAgent event)
             (put_nonempty ''Content-Type'' (e_ContentType event) Map.empty))))"

definition predict_request_of :: "tier1_job \<Rightarrow> predict_request" where
  "predict_request_of job =
     (let event = j_Event job
      in \<lparr> pq_Method = e_Method event,
           pq_URL = (if e_QueryString event \<noteq> [] then e_Path event @ ''?'' @ e_QueryString event else e_Path event),
           pq_Headers = buildHeadersMap event, pq_BodySnippet = j_BodySnippet job,
           pq_Tier0Decision = j_Tier0Decision job, pq_LGBMProb = j_LGBMProb job \<rparr>)"

text \<open>An error message or a reply that was checked.\<close>

definition Predict :: "(predict_request \<Rightarrow> model_reply) \<Rightarrow> tier1_job \<Rightarrow> string + predict_response" where
  "Predict service job =
     (case service (predict_request_of job) of
        NoReply e \<Rightarrow> Inl (''http post: '' @ e)
      | HttpStatus n \<Rightarrow> Inl ''roberta returned''
      | BadBody e \<Rightarrow> Inl (''decode response: '' @ e)
      | Answer result \<Rightarrow>
          if m_Label result \<noteq> ''benign'' \<and> m_Label result \<noteq> ''malicious'' then Inl (''invalid label: '' @ m_Label result)
          else if m_Confidence result < 0 \<or> m_Confidence result > 1 then Inl ''invalid confidence''
          else Inr result)"

section \<open>The pipeline\<close>

record pipeline =
  pl_queue :: redis_queue
  pl_audit :: audit
  pl_engine :: engine

text \<open>The calls that are one command, and those that are a pipeline of commands.\<close>

datatype redis_call = CallBeat | CallMark | CallClear

datatype pipe_call = CallRequeue | CallDead | CallStore

record worker_env =
  we_service :: "predict_request \<Rightarrow> model_reply"
  we_up :: "redis_call \<Rightarrow> bool"
  we_pipe :: "pipe_call \<Rightarrow> pipe_io"
  we_auditError :: "string option"
  we_now :: int
  we_nowFloat :: real

definition pipeline_Enqueue :: "tier1_config \<Rightarrow> pipe_io \<Rightarrow> tier1_job \<Rightarrow> pipeline \<Rightarrow> bool \<times> pipeline" where
  "pipeline_Enqueue cfg io job p =
     (if \<not> tk_Enabled cfg then (True, p)
      else (let (ok, q) = q_Enqueue io job (pl_queue p)
            in if \<not> ok then (False, p\<lparr>pl_queue := q\<rparr>)
               else (True, p\<lparr>pl_queue := q, pl_audit := LogEnqueue job (pl_audit p)\<rparr>)))"

definition clearHeartbeat :: "worker_env \<Rightarrow> string \<Rightarrow> pipeline \<Rightarrow> pipeline" where
  "clearHeartbeat env workerID p = p\<lparr>pl_queue := q_DeleteHeartbeat (we_up env CallClear) workerID (pl_queue p)\<rparr>"

definition result_of :: "worker_env \<Rightarrow> string \<Rightarrow> predict_response \<Rightarrow> tier1_result" where
  "result_of env workerID result = \<lparr> tr_Label = m_Label result, tr_Confidence = m_Confidence result,
     tr_BenignProb = m_BenignProb result, tr_MaliciousProb = m_MaliciousProb result,
     tr_ProcessedAt = we_now env, tr_WorkerID = workerID \<rparr>"

definition no_result :: tier1_result where
  "no_result = \<lparr> tr_Label = [], tr_Confidence = 0, tr_BenignProb = 0, tr_MaliciousProb = 0,
     tr_ProcessedAt = 0, tr_WorkerID = [] \<rparr>"

text \<open>The branch of \<open>process\<close> for a reply of the model: store it, then feed it back.\<close>

definition process_reply ::
    "tier1_config \<Rightarrow> worker_env \<Rightarrow> string \<Rightarrow> tier1_job \<Rightarrow> predict_response \<Rightarrow> pipeline \<Rightarrow> pipeline" where
  "process_reply cfg env workerID job result p =
     (let (stored, q) = q_StoreResult (we_pipe env CallStore) (j_ID job) (result_of env workerID result) (pl_queue p);
          p = p\<lparr>pl_queue := q\<rparr>
      in if m_Confidence result \<ge> tk_ConfidenceThreshold cfg
         then
           (let f = NewFeedbackEngine (tk_CorrectionDelta cfg) (tk_ConfidenceThreshold cfg)
                      (Some (\<lambda>id delta reason. we_auditError env));
                ((applied, delta, reason, err), g) = ApplyFeedback f job result (we_nowFloat env) (pl_engine p);
                p = p\<lparr>pl_engine := g,
                     pl_audit := (if applied \<and> we_auditError env = None
                                  then LogFeedback (j_ID job) delta reason (pl_audit p) else pl_audit p)\<rparr>
            in if err = None \<and> applied
               then p\<lparr>pl_queue := q_MarkFeedbackApplied (we_up env CallMark) (j_ID job) (pl_queue p)\<rparr>
               else p)
         else p)"

definition process :: "tier1_config \<Rightarrow> worker_env \<Rightarrow> string \<Rightarrow> tier1_job \<Rightarrow> pipeline \<Rightarrow> pipeline" where
  "process cfg env workerID job p =
     (let p = p\<lparr>pl_queue := q_SetHeartbeat (we_up env CallBeat) workerID (j_ID job) (pl_queue p)\<rparr>
      in case Predict (we_service env) job of
           Inl errMsg \<Rightarrow>
             (let job = job\<lparr>j_Retries := j_Retries job + 1\<rparr>;
                  (requeued, q) = (if j_Retries job < tk_MaxRetries cfg
                                   then q_Requeue (we_pipe env CallRequeue) job (pl_queue p) else (False, pl_queue p));
                  p = p\<lparr>pl_queue := q\<rparr>
              in if requeued then clearHeartbeat env workerID p
                 else
                   (let (dead, q) = q_MoveToFailed (we_pipe env CallDead) job (pl_queue p);
                        p = p\<lparr>pl_queue := q,
                              pl_audit := LogResult (j_ID job) workerID no_result errMsg (we_now env) (pl_audit p)\<rparr>
                    in clearHeartbeat env workerID p))
         | Inr result \<Rightarrow>
             (let p = process_reply cfg env workerID job result p;
                  p = p\<lparr>pl_audit := LogResult (j_ID job) workerID (result_of env workerID result) [] (we_now env) (pl_audit p)\<rparr>
              in clearHeartbeat env workerID p))"

text \<open>One round of the worker's loop: a job, if there is one, is taken and processed.\<close>

definition worker_round :: "tier1_config \<Rightarrow> worker_env \<Rightarrow> string \<Rightarrow> pipeline \<Rightarrow> pipeline" where
  "worker_round cfg env workerID p =
     (case q_Dequeue (pl_queue p) of
        (None, q) \<Rightarrow> p
      | (Some job, q) \<Rightarrow> process cfg env workerID job (p\<lparr>pl_queue := q\<rparr>))"

section \<open>Where a job goes\<close>

lemma clearHeartbeat_sel [step_simps]:
  "q_jobs (pl_queue (clearHeartbeat env w p)) = q_jobs (pl_queue p)"
  "q_failed (pl_queue (clearHeartbeat env w p)) = q_failed (pl_queue p)"
  "q_completed (pl_queue (clearHeartbeat env w p)) = q_completed (pl_queue p)"
  "q_enqueued (pl_queue (clearHeartbeat env w p)) = q_enqueued (pl_queue p)"
  "q_results (pl_queue (clearHeartbeat env w p)) = q_results (pl_queue p)"
  "pl_audit (clearHeartbeat env w p) = pl_audit p" "pl_engine (clearHeartbeat env w p) = pl_engine p"
  by (simp_all add: clearHeartbeat_def q_DeleteHeartbeat_def)

lemma beat_sel [step_simps]:
  "q_jobs (q_SetHeartbeat up w j q) = q_jobs q" "q_failed (q_SetHeartbeat up w j q) = q_failed q"
  "q_completed (q_SetHeartbeat up w j q) = q_completed q" "q_enqueued (q_SetHeartbeat up w j q) = q_enqueued q"
  "q_results (q_SetHeartbeat up w j q) = q_results q"
  by (simp_all add: q_SetHeartbeat_def)

lemma mark_sel [step_simps]:
  "q_jobs (q_MarkFeedbackApplied up j q) = q_jobs q" "q_failed (q_MarkFeedbackApplied up j q) = q_failed q"
  "q_completed (q_MarkFeedbackApplied up j q) = q_completed q"
  "q_enqueued (q_MarkFeedbackApplied up j q) = q_enqueued q"
  by (simp_all add: q_MarkFeedbackApplied_def)

lemma reply_sel [step_simps]:
  "q_jobs (pl_queue (process_reply cfg env w job result p)) = q_jobs (pl_queue p)"
  "q_failed (pl_queue (process_reply cfg env w job result p)) = q_failed (pl_queue p)"
  "q_enqueued (pl_queue (process_reply cfg env w job result p)) = q_enqueued (pl_queue p)"
  "q_completed (pl_queue (process_reply cfg env w job result p)) =
     q_completed (pl_queue p) + of_bool (counted (we_pipe env CallStore))"
  by (simp_all add: process_reply_def q_StoreResult_def Let_def case_prod_unfold step_simps)

text \<open>The job as it leaves \<open>process\<close> after a failed prediction.\<close>

definition retried :: "tier1_job \<Rightarrow> tier1_job" where
  "retried job = wire_job (job\<lparr>j_Retries := j_Retries job + 1\<rparr>)"

text \<open>Whether a failed job still has attempts left.\<close>

definition may_retry :: "tier1_config \<Rightarrow> tier1_job \<Rightarrow> bool" where
  "may_retry cfg job \<longleftrightarrow> j_Retries job + 1 < tk_MaxRetries cfg"

lemma process_queue:
  "q_jobs (pl_queue (process cfg env w job p)) = q_jobs (pl_queue p) @
     (if isl (Predict (we_service env) job) \<and> may_retry cfg job \<and> first_done (we_pipe env CallRequeue)
      then [retried job] else [])"
  "q_failed (pl_queue (process cfg env w job p)) =
     (if isl (Predict (we_service env) job) \<and> \<not> (may_retry cfg job \<and> we_pipe env CallRequeue = Fine)
         \<and> first_done (we_pipe env CallDead) then [retried job] else []) @ q_failed (pl_queue p)"
  "q_completed (pl_queue (process cfg env w job p)) = q_completed (pl_queue p) +
     of_bool (\<not> isl (Predict (we_service env) job) \<and> counted (we_pipe env CallStore))"
  "q_enqueued (pl_queue (process cfg env w job p)) = q_enqueued (pl_queue p)"
  by (auto simp: process_def Let_def case_prod_unfold step_simps q_Requeue_def q_MoveToFailed_def retried_def
      may_retry_def split: sum.split)

section \<open>Every job is accounted for\<close>

text \<open>
  The faults of a step: a pipeline of commands that returned an error counts as one, and so does
  a job that was taken out of the list and got lost on the way to its worker, because the reply
  to \<open>BLPOP\<close> was lost or did not decode, or the worker died. Commands that are not sent do not
  count: \<open>faults\<close> is the number for one round of a worker.
\<close>

definition fault :: "pipe_io \<Rightarrow> nat" where
  "fault io = of_bool (io \<noteq> Fine)"

definition faults :: "tier1_config \<Rightarrow> worker_env \<Rightarrow> tier1_job \<Rightarrow> nat" where
  "faults cfg env job =
     (if \<not> isl (Predict (we_service env) job) then fault (we_pipe env CallStore)
      else if may_retry cfg job
      then (if we_pipe env CallRequeue = Fine then 0 else 1 + fault (we_pipe env CallDead))
      else fault (we_pipe env CallDead))"

definition round_faults :: "tier1_config \<Rightarrow> worker_env \<Rightarrow> pipeline \<Rightarrow> nat" where
  "round_faults cfg env p = (case q_jobs (pl_queue p) of [] \<Rightarrow> 0 | job # _ \<Rightarrow> faults cfg env job)"

text \<open>The states that the pipeline reaches with a number of faults.\<close>

inductive pipeline_run :: "tier1_config \<Rightarrow> nat \<Rightarrow> pipeline \<Rightarrow> bool" for cfg where
  start: "pipeline_run cfg 0 \<lparr> pl_queue = NewRedisQueue, pl_audit = Map.empty, pl_engine = g \<rparr>"
| enqueue: "pipeline_run cfg n p \<Longrightarrow> j_Retries job = 0 \<Longrightarrow>
    pipeline_run cfg (n + fault io) (snd (pipeline_Enqueue cfg io job p))"
| round: "pipeline_run cfg n p \<Longrightarrow> pipeline_run cfg (n + round_faults cfg env p) (worker_round cfg env w p)"
| lost: "pipeline_run cfg n p \<Longrightarrow> pipeline_run cfg (n + 1) (p\<lparr>pl_queue := snd (q_Dequeue (pl_queue p))\<rparr>)"
| engine: "pipeline_run cfg n p \<Longrightarrow> pipeline_run cfg n (p\<lparr>pl_engine := g\<rparr>)"

definition attempts :: "tier1_config \<Rightarrow> int" where
  "attempts cfg = max 1 (tk_MaxRetries cfg)"

text \<open>The jobs counted as enqueued that are not in one of the three places.\<close>

definition missing :: "redis_queue \<Rightarrow> int" where
  "missing q = q_enqueued q - (int (length (q_jobs q)) + int (length (q_failed q)) + q_completed q)"

definition pipeline_ok :: "tier1_config \<Rightarrow> nat \<Rightarrow> pipeline \<Rightarrow> bool" where
  "pipeline_ok cfg n p \<longleftrightarrow>
     \<bar>missing (pl_queue p)\<bar> \<le> int n \<and>
     (\<forall>job\<in>set (q_jobs (pl_queue p)). 0 \<le> j_Retries job \<and> j_Retries job < attempts cfg) \<and>
     (\<forall>job\<in>set (q_failed (pl_queue p)). 1 \<le> j_Retries job \<and> j_Retries job \<le> attempts cfg)"

lemma retried_Retries [simp]: "j_Retries (retried job) = j_Retries job + 1"
  by (simp add: retried_def)

lemma worker_round_cases:
  obtains "q_jobs (pl_queue p) = []" "worker_round cfg env w p = p"
  | job jobs where "q_jobs (pl_queue p) = job # jobs"
      "worker_round cfg env w p = process cfg env w job (p\<lparr>pl_queue := (pl_queue p)\<lparr>q_jobs := jobs\<rparr>\<rparr>)"
  by (cases "q_jobs (pl_queue p)") (auto simp: worker_round_def q_Dequeue_def)

lemma missing_process:
  "\<bar>missing (pl_queue (process cfg env w job (p\<lparr>pl_queue := q\<lparr>q_jobs := jobs\<rparr>\<rparr>))) -
     missing (q\<lparr>q_jobs := job # jobs\<rparr>)\<bar> \<le> int (faults cfg env job)"
proof -
  have c: "\<not> counted io \<Longrightarrow> io \<noteq> Fine" "\<not> first_done io \<Longrightarrow> io \<noteq> Fine" for io by auto
  show ?thesis
    using c[of "we_pipe env CallStore"] c[of "we_pipe env CallDead"] c[of "we_pipe env CallRequeue"]
    by (auto simp: missing_def process_queue faults_def fault_def of_bool_def)
qed

lemma bounded_add: "\<bar>a\<bar> \<le> int n \<Longrightarrow> \<bar>b - a\<bar> \<le> int m \<Longrightarrow> \<bar>b\<bar> \<le> int (n + m)"
  by simp

lemma pipeline_ok_round:
  assumes "pipeline_ok cfg n p"
  shows "pipeline_ok cfg (n + round_faults cfg env p) (worker_round cfg env w p)"
proof (rule worker_round_cases[of p cfg env w])
  fix job jobs
  assume j: "q_jobs (pl_queue p) = job # jobs"
    and r: "worker_round cfg env w p = process cfg env w job (p\<lparr>pl_queue := (pl_queue p)\<lparr>q_jobs := jobs\<rparr>\<rparr>)"
  have q: "(pl_queue p)\<lparr>q_jobs := job # jobs\<rparr> = pl_queue p" by (simp flip: j)
  have "\<bar>missing (pl_queue (worker_round cfg env w p))\<bar> \<le> int (n + round_faults cfg env p)"
    unfolding r using assms missing_process[of cfg env w job jobs "pl_queue p" p]
    by (intro bounded_add) (simp_all add: pipeline_ok_def q round_faults_def j)
  moreover have "(\<forall>job\<in>set (q_jobs (pl_queue (worker_round cfg env w p))). 0 \<le> j_Retries job \<and> j_Retries job < attempts cfg) \<and>
     (\<forall>job\<in>set (q_failed (pl_queue (worker_round cfg env w p))). 1 \<le> j_Retries job \<and> j_Retries job \<le> attempts cfg)"
    unfolding r using assms j by (auto simp: pipeline_ok_def process_queue attempts_def may_retry_def)
  ultimately show ?thesis by (simp add: pipeline_ok_def)
qed (use assms in \<open>simp add: pipeline_ok_def\<close>)

lemma missing_Enqueue: "\<bar>missing (snd (q_Enqueue io job q)) - missing q\<bar> \<le> int (fault io)"
  by (cases io) (auto simp: missing_def q_Enqueue_def fault_def Let_def)

lemma pipeline_ok_enqueue:
  assumes "pipeline_ok cfg n p" and "j_Retries job = 0"
  shows "pipeline_ok cfg (n + fault io) (snd (pipeline_Enqueue cfg io job p))"
proof (cases "tk_Enabled cfg")
  case True
  then have q: "pl_queue (snd (pipeline_Enqueue cfg io job p)) = snd (q_Enqueue io job (pl_queue p))"
    by (simp add: pipeline_Enqueue_def case_prod_unfold Let_def)
  have "\<bar>missing (snd (q_Enqueue io job (pl_queue p)))\<bar> \<le> int (n + fault io)"
    using assms(1) missing_Enqueue by (intro bounded_add) (auto simp: pipeline_ok_def)
  with assms q show ?thesis by (auto simp: pipeline_ok_def q_Enqueue_def attempts_def Let_def)
qed (use assms in \<open>simp add: pipeline_ok_def pipeline_Enqueue_def\<close>)

lemma pipeline_ok_lost:
  assumes "pipeline_ok cfg n p"
  shows "pipeline_ok cfg (n + 1) (p\<lparr>pl_queue := snd (q_Dequeue (pl_queue p))\<rparr>)"
proof (cases "q_jobs (pl_queue p)")
  case (Cons job jobs)
  have "\<bar>missing ((pl_queue p)\<lparr>q_jobs := jobs\<rparr>)\<bar> \<le> int (n + 1)"
    using assms Cons by (intro bounded_add[of "missing (pl_queue p)"]) (auto simp: pipeline_ok_def missing_def)
  with assms Cons show ?thesis by (simp add: pipeline_ok_def q_Dequeue_def)
qed (use assms in \<open>simp add: pipeline_ok_def q_Dequeue_def\<close>)

text \<open>C5: No job disappears without a fault: in every state of the pipeline, however the model answers
  and however often it is unreachable, the number of jobs ever enqueued differs from the number
  of jobs waiting, jobs given up and results stored by at most the number of faults so far, so
  it is exactly that number as long as no pipeline of Redis commands returned an error and no
  job was lost on its way to a worker. Whatever failed, a waiting job was tried less often than
  the configuration allows, and a job that was given up at most that often.\<close>

theorem every_job_is_accounted_for:
  assumes "pipeline_run cfg n p"
  shows "\<bar>q_enqueued (pl_queue p) -
      (int (length (q_jobs (pl_queue p))) + int (length (q_failed (pl_queue p))) + q_completed (pl_queue p))\<bar> \<le> int n \<and>
    (\<forall>job\<in>set (q_jobs (pl_queue p)). 0 \<le> j_Retries job \<and> j_Retries job < max 1 (tk_MaxRetries cfg)) \<and>
    (\<forall>job\<in>set (q_failed (pl_queue p)). 1 \<le> j_Retries job \<and> j_Retries job \<le> max 1 (tk_MaxRetries cfg))"
proof -
  have "pipeline_ok cfg n p"
    using assms
  proof (induction rule: pipeline_run.induct)
    case (start g)
    then show ?case by (simp add: pipeline_ok_def missing_def NewRedisQueue_def)
  next
    case (engine n p g)
    then show ?case by (simp add: pipeline_ok_def)
  qed (simp_all only: pipeline_ok_enqueue pipeline_ok_round pipeline_ok_lost)
  then show ?thesis by (simp add: pipeline_ok_def missing_def attempts_def)
qed

section \<open>The queue drains\<close>

definition remaining :: "tier1_config \<Rightarrow> tier1_job \<Rightarrow> nat" where
  "remaining cfg job = nat (max 1 (tk_MaxRetries cfg - j_Retries job))"

definition work_left :: "tier1_config \<Rightarrow> pipeline \<Rightarrow> nat" where
  "work_left cfg p = sum_list (map (remaining cfg) (q_jobs (pl_queue p)))"

definition rounds :: "tier1_config \<Rightarrow> (worker_env \<times> string) list \<Rightarrow> pipeline \<Rightarrow> pipeline" where
  "rounds cfg envs p = fold (\<lambda>(env, w) p. worker_round cfg env w p) envs p"

lemma work_left_zero: "work_left cfg p = 0 \<longleftrightarrow> q_jobs (pl_queue p) = []"
  by (cases "q_jobs (pl_queue p)") (auto simp: work_left_def remaining_def)

lemma work_left_round: "work_left cfg (worker_round cfg env w p) \<le> work_left cfg p - 1"
proof (rule worker_round_cases[of p cfg env w])
  fix job jobs
  assume j: "q_jobs (pl_queue p) = job # jobs"
    and r: "worker_round cfg env w p = process cfg env w job (p\<lparr>pl_queue := (pl_queue p)\<lparr>q_jobs := jobs\<rparr>\<rparr>)"
  show ?thesis
    unfolding r using j by (auto simp: work_left_def process_queue remaining_def may_retry_def)
qed (simp add: work_left_def)

text \<open>C20: The workers always get to the end of the queue: with nothing new, after as many rounds as
  the waiting jobs have attempts left it is empty, even when the model never answers and
  whichever of the later commands to Redis fail.\<close>

theorem queue_drains:
  assumes "work_left cfg p \<le> length envs"
  shows "q_jobs (pl_queue (rounds cfg envs p)) = []"
  using assms
proof (induction envs arbitrary: p)
  case Nil
  then show ?case by (simp add: rounds_def work_left_zero)
next
  case (Cons ew envs)
  obtain env w where ew: "ew = (env, w)" by fastforce
  have "work_left cfg (worker_round cfg env w p) \<le> length envs"
    using work_left_round[of cfg env w p] Cons.prems by simp
  from Cons.IH[OF this] show ?case by (simp add: rounds_def ew)
qed

section \<open>What moves a score\<close>

lemma Predict_valid:
  "Predict service job = Inr result \<Longrightarrow>
     service (predict_request_of job) = Answer result \<and> m_Label result \<in> {''benign'', ''malicious''} \<and>
     0 \<le> m_Confidence result \<and> m_Confidence result \<le> 1"
  by (auto simp: Predict_def split: model_reply.splits if_splits)

text \<open>C19: Nothing but a checked answer moves a trust score: when processing a job changes the engine,
  the model has answered with a known label that contradicts the first tier's decision, and
  with a confidence between the threshold and 1.\<close>

theorem only_checked_answers_move_scores:
  assumes "pl_engine (process cfg env w job p) \<noteq> pl_engine p"
  shows "\<exists>result. we_service env (predict_request_of job) = Answer result \<and>
    tk_ConfidenceThreshold cfg \<le> m_Confidence result \<and> m_Confidence result \<le> 1 \<and>
    (m_Label result = ''benign'' \<and> j_Tier0Decision job \<in> {''challenge'', ''block'', ''ban''} \<or>
     m_Label result = ''malicious'' \<and> j_Tier0Decision job \<in> {''allow'', ''allow+stricter''})"
proof (cases "Predict (we_service env) job")
  case (Inl e)
  with assms show ?thesis by (simp add: process_def Let_def case_prod_unfold step_simps)
next
  case (Inr result)
  let ?f = "NewFeedbackEngine (tk_CorrectionDelta cfg) (tk_ConfidenceThreshold cfg)
              (Some (\<lambda>id delta reason. we_auditError env))"
  have ne: "pl_engine (process_reply cfg env w job result
      (p\<lparr>pl_queue := q_SetHeartbeat (we_up env CallBeat) w (j_ID job) (pl_queue p)\<rparr>)) \<noteq> pl_engine p"
    using assms Inr by (simp add: process_def Let_def step_simps)
  then have conf: "tk_ConfidenceThreshold cfg \<le> m_Confidence result"
    by (auto simp: process_reply_def Let_def case_prod_unfold split: if_splits)
  have "snd (ApplyFeedback ?f job result (we_nowFloat env) (pl_engine p)) \<noteq> pl_engine p"
    using ne conf by (auto simp: process_reply_def Let_def case_prod_unfold split: if_splits)
  then have "correction ?f job result \<noteq> None" using ApplyFeedback_none by metis
  then show ?thesis
    using Predict_valid[OF Inr] conf
    by (intro exI[of _ result]) (auto simp: correction_def Let_def split: if_splits)
qed

section \<open>A pipeline with one job\<close>

definition demo_event :: request_event where
  "demo_event = \<lparr> e_IP = ''10.0.0.1'', e_SessionID = ''s'', e_Timestamp = 100, e_Method = ''GET'',
     e_Path = ''/login'', e_QueryString = [], e_StatusCode = 200, e_ResponseSize = 10, e_RequestSize = 10,
     e_ContentType = [], e_UserAgent = ''ua'', e_Referer = [], e_Accept = [], e_AcceptLanguage = [],
     e_JA4Fingerprint = [], e_ASN = [], e_ChallengePassed = False, e_CountryCode = [], e_IsTor = False,
     e_IsVPN = False, e_IsDatacenter = False, e_IsAssetRequest = False \<rparr>"

definition demo_job :: tier1_job where
  "demo_job = \<lparr> j_ID = ''job-1'', j_Event = demo_event, j_LGBMProb = 1 / 2, j_Tier0Decision = ''allow'',
     j_ClientIP = ''10.0.0.1'', j_UserID = [], j_BodySnippet = [],
     j_GreyZone = \<lparr> z_Center = 1 / 2, z_Width = 1 / 4 \<rparr>, j_EnqueuedAt = 100, j_Retries = 0 \<rparr>"

definition demo_pipeline :: pipeline where
  "demo_pipeline = snd (pipeline_Enqueue default_tier1 Fine demo_job
     \<lparr> pl_queue = NewRedisQueue, pl_audit = Map.empty, pl_engine = init_engine \<rparr>)"

definition silent_env :: worker_env where
  "silent_env = \<lparr> we_service = \<lambda>_. NoReply ''timeout'', we_up = \<lambda>_. True, we_pipe = \<lambda>_. Fine, we_auditError = None,
     we_now = 100, we_nowFloat = 100 \<rparr>"

definition malicious_env :: worker_env where
  "malicious_env = silent_env\<lparr>we_service := \<lambda>_. Answer \<lparr> m_Label = ''malicious'', m_Confidence = 1,
     m_BenignProb = 0, m_MaliciousProb = 1 \<rparr>\<rparr>"

lemma demo_pipeline_jobs: "q_jobs (pl_queue demo_pipeline) = [wire_job demo_job]"
  by (simp add: demo_pipeline_def pipeline_Enqueue_def q_Enqueue_def NewRedisQueue_def default_tier1_def)

text \<open>A fault: the job is put back, but the counter fails, and so the job is also given up.\<close>

definition broken_env :: worker_env where
  "broken_env = silent_env\<lparr>we_pipe := \<lambda>c. if c = CallRequeue then Broken True False else Fine\<rparr>"

lemma demo_pipeline_run: "pipeline_run default_tier1 0 demo_pipeline"
  using pipeline_run.enqueue[OF pipeline_run.start, of demo_job default_tier1 Fine init_engine]
  by (simp add: demo_pipeline_def demo_job_def fault_def)

lemma every_job_is_accounted_for_witness:
  "let p = worker_round default_tier1 broken_env ''w'' demo_pipeline; q = pl_queue p
   in q_enqueued q = 1 \<and> length (q_jobs q) = 1 \<and> length (q_failed q) = 1 \<and>
      \<bar>q_enqueued q - (int (length (q_jobs q)) + int (length (q_failed q)) + q_completed q)\<bar> \<le> 1"
proof -
  let ?p = "worker_round default_tier1 broken_env ''w'' demo_pipeline"
  let ?job = "wire_job demo_job"
  have w: "Predict (we_service broken_env) ?job = Inl ''http post: timeout''"
    by (simp add: Predict_def broken_env_def silent_env_def)
  have r: "may_retry default_tier1 ?job" by (simp add: may_retry_def demo_job_def default_tier1_def)
  have f: "round_faults default_tier1 broken_env demo_pipeline = 1"
    using w r by (simp add: round_faults_def demo_pipeline_jobs faults_def broken_env_def fault_def)
  have d: "q_failed (pl_queue demo_pipeline) = []" "q_enqueued (pl_queue demo_pipeline) = 1"
    by (simp_all add: demo_pipeline_def pipeline_Enqueue_def q_Enqueue_def NewRedisQueue_def default_tier1_def)
  have "pipeline_run default_tier1 1 ?p"
    using pipeline_run.round[OF demo_pipeline_run, of broken_env "''w''"] f by simp
  from every_job_is_accounted_for[OF this] show ?thesis
    using w r d by (simp add: Let_def worker_round_def q_Dequeue_def demo_pipeline_jobs process_queue broken_env_def)
qed

lemma queue_drains_witness:
  "q_jobs (pl_queue (rounds default_tier1 (replicate 3 (silent_env, ''w'')) demo_pipeline)) = []"
proof (rule queue_drains)
  have "j_Retries demo_job = 0" "tk_MaxRetries default_tier1 = 3"
    by (simp_all add: demo_job_def default_tier1_def)
  then show "work_left default_tier1 demo_pipeline \<le> length (replicate 3 (silent_env, ''w''))"
    by (simp add: work_left_def demo_pipeline_jobs remaining_def)
qed

lemma only_checked_answers_move_scores_witness:
  "tk_ConfidenceThreshold default_tier1 \<le> 1 \<and>
   pl_engine (process default_tier1 malicious_env ''w'' demo_job demo_pipeline) \<noteq> pl_engine demo_pipeline"
proof -
  have thr: "tk_ConfidenceThreshold default_tier1 \<le> 1"
    unfolding default_tier1_def by (simp add: fl_le)
  let ?r = "\<lparr> m_Label = ''malicious'', m_Confidence = 1, m_BenignProb = 0, m_MaliciousProb = 1 \<rparr>"
  let ?f = "NewFeedbackEngine (tk_CorrectionDelta default_tier1) (tk_ConfidenceThreshold default_tier1)
              (Some (\<lambda>id delta reason. we_auditError malicious_env))"
  have c: "correction ?f demo_job ?r = Some (- tk_CorrectionDelta default_tier1, ''tier1_false_negative'')"
    using thr by (simp add: correction_def NewFeedbackEngine_def demo_job_def)
  have e: "pl_engine (process default_tier1 malicious_env ''w'' demo_job demo_pipeline) =
      snd (ApplyFeedback ?f demo_job ?r (we_nowFloat malicious_env) init_engine)"
    using thr
    by (simp add: process_def Predict_def malicious_env_def Let_def step_simps process_reply_def case_prod_unfold
        demo_pipeline_def pipeline_Enqueue_def q_Enqueue_def default_tier1_def)
  have "g_IPs (snd (ApplyFeedback ?f demo_job ?r (we_nowFloat malicious_env) init_engine)) ''10.0.0.1'' \<noteq> None"
    by (subst ApplyFeedback_stores(1)[OF c]) (simp add: PutIP_def demo_job_def)
  moreover have "g_IPs (pl_engine demo_pipeline) ''10.0.0.1'' = None"
    by (simp add: demo_pipeline_def pipeline_Enqueue_def q_Enqueue_def default_tier1_def init_engine_def)
  ultimately have ne: "pl_engine (process default_tier1 malicious_env ''w'' demo_job demo_pipeline) \<noteq> pl_engine demo_pipeline"
    unfolding e by metis
  from only_checked_answers_move_scores[OF ne] have "tk_ConfidenceThreshold default_tier1 \<le> 1"
    by (elim exE conjE) (rule order_trans)
  with ne show ?thesis by blast
qed

end
