(* ===== verification/Proxy.thy ===== *)
theory Proxy
  imports Clearance Rate_Limiter Resolver Features Tier1_Pipeline
begin

text \<open>
  The reverse proxy (\<open>tier-0/proxy.go\<close>) and the rule engine's transaction (\<open>coraza.go\<close>): what
  happens to one request, from the resolver to the backend. The state has the live
  configuration, the limiters, the pipeline of the deep tier with the trust engine, and the
  events that the asynchronous learner has not processed yet, a list of tasks of which any may
  run next. A request is handled at one instant.

  Outside the program, and arguments of the functions: the rule engine, the model's trees, the
  backend, the libraries of the resolver and the features, the random identifiers, and whether
  a call to Redis succeeds.
\<close>

section \<open>The rule engine\<close>

record interruption =
  it_Action :: string
  it_Status :: int

text \<open>What one transaction of the engine says about a request, phase by phase.\<close>

record coraza_tx =
  tx_headers :: "interruption option"
  tx_bodyAccessible :: bool
  tx_readBody :: "string + interruption option"
  tx_bodyReader :: "string option"
  tx_processBody :: "interruption option \<times> string option"

type_synonym coraza = "http_request \<Rightarrow> coraza_tx"

definition statusCodeFromInterruption :: "interruption \<Rightarrow> int" where
  "statusCodeFromInterruption it = (if it_Action it = ''deny'' \<and> it_Status it \<noteq> 0 then it_Status it else 403)"

definition coraza_body :: "coraza_tx \<Rightarrow> bool \<times> int \<times> string option" where
  "coraza_body tx =
     (case tx_processBody tx of
        (Some it, _) \<Rightarrow> (False, statusCodeFromInterruption it, None)
      | (None, err) \<Rightarrow> (True, 200, err))"

definition ProcessRequest :: "coraza \<Rightarrow> http_request \<Rightarrow> bool \<times> int \<times> string option" where
  "ProcessRequest waf r =
     (let tx = waf r
      in case tx_headers tx of
           Some it \<Rightarrow> (False, statusCodeFromInterruption it, None)
         | None \<Rightarrow>
             if tx_bodyAccessible tx \<and> h_Body r \<noteq> None
             then (case tx_readBody tx of
                     Inl err \<Rightarrow> (False, 400, Some err)
                   | Inr (Some it) \<Rightarrow> (False, statusCodeFromInterruption it, None)
                   | Inr None \<Rightarrow>
                       (case tx_bodyReader tx of
                          Some err \<Rightarrow> (False, 500, Some err)
                        | None \<Rightarrow> coraza_body tx))
             else coraza_body tx)"

section \<open>State and responses\<close>

record task =
  lt_identity :: identity_context
  lt_event :: raw_event

record access_log =
  ac_Method :: string
  ac_Path :: string
  ac_Query :: string
  ac_Body :: string
  ac_IP :: string
  ac_UserID :: string
  ac_TrustScore :: real
  ac_Prob :: real
  ac_Status :: int
  ac_Decision :: string
  ac_RequestID :: "string option"

datatype active_limiter = ActiveMemory | ActiveRedis redis_limiter

record proxy =
  y_Config :: waf_config
  y_Threshold :: real
  y_Resolver :: resolver
  y_Coraza :: "coraza option"
  y_RateLimiter :: rate_limiter
  y_ChallengeLimiter :: rate_limiter
  y_ActiveLimiter :: active_limiter
  y_Tier1 :: "tier1_config option"
  y_Pipeline :: pipeline
  y_Pending :: "task list"
  y_Feed :: "access_log list option"

text \<open>
  What the copy of the backend's response to the client comes to: its status and size, or the
  status of a response that was cut off because one of the two went away.
\<close>

datatype backend_reply = Copied int int | CutOff int

text \<open>The fixed surroundings, and what they decide for one request.\<close>

record surroundings =
  sv_db :: lookups
  sv_auth :: auth_libs
  sv_ml :: ml_libs
  sv_vectorizer :: vectorizer
  sv_margin :: "real list \<Rightarrow> real"
  sv_exp :: "real \<Rightarrow> real"
  sv_backend :: "http_request \<Rightarrow> backend_reply"
  sv_decodeNonce :: "string \<Rightarrow> string option"

record call =
  ca_now :: moment
  ca_jobID :: string
  ca_requestID :: string
  ca_limiterUp :: bool
  ca_queueIO :: pipe_io

datatype reply_body = NoBody | Plain string | Json "(string \<times> raw_value) list" | Page string | FromBackend | Aborted
  | Encoded waf_config

text \<open>
  A response whose status was never written is sent with 200 by \<open>net/http\<close>. The body \<open>Aborted\<close>
  is a part of the backend's body, after which the connection is closed. The cookie is the text
  of the value in \<open>Set-Cookie\<close>.
\<close>

record response =
  rs_Status :: "int option"
  rs_Header :: "string \<rightharpoonup> string"
  rs_Cookie :: "string option"
  rs_Body :: reply_body

definition unwritten :: response where
  "unwritten = \<lparr> rs_Status = None, rs_Header = Map.empty, rs_Cookie = None, rs_Body = NoBody \<rparr>"

definition sent_status :: "response \<Rightarrow> int" where
  "sent_status w = (case rs_Status w of Some s \<Rightarrow> s | None \<Rightarrow> 200)"

definition http_Error :: "string \<Rightarrow> int \<Rightarrow> response \<Rightarrow> response" where
  "http_Error msg status w = w\<lparr>rs_Status := Some status, rs_Body := Plain (msg @ [CHR 0x0A]),
     rs_Header := (rs_Header w)(''Content-Type'' \<mapsto> ''text/plain; charset=utf-8'',
       ''X-Content-Type-Options'' \<mapsto> ''nosniff'')\<rparr>"

definition y_Engine :: "proxy \<Rightarrow> engine" where
  "y_Engine st = pl_engine (y_Pipeline st)"

definition set_engine :: "engine \<Rightarrow> proxy \<Rightarrow> proxy" where
  "set_engine g st = st\<lparr>y_Pipeline := (y_Pipeline st)\<lparr>pl_engine := g\<rparr>\<rparr>"

definition truncate_str :: "string \<Rightarrow> nat \<Rightarrow> string" where
  "truncate_str s limit = (if limit < length s then take limit s else s)"

section \<open>Events for the learner\<close>

definition buildRawEvent ::
    "http_request \<Rightarrow> string \<Rightarrow> moment \<Rightarrow> int \<Rightarrow> string \<Rightarrow> bool \<Rightarrow> string \<Rightarrow> raw_event" where
  "buildRawEvent r ip start statusCode body challengePassed sessionID =
     [''ip'' \<mapsto> RawString ip, ''session_id'' \<mapsto> RawString sessionID,
      ''timestamp'' \<mapsto> RawFloat (time_float start), ''method'' \<mapsto> RawString (h_Method r),
      ''path'' \<mapsto> RawString (h_Path r), ''query_string'' \<mapsto> RawString (h_RawQuery r),
      ''status_code'' \<mapsto> RawFloat (fint statusCode),
      ''response_size'' \<mapsto> RawFloat (fint (int (length body))),
      ''request_size'' \<mapsto> RawFloat (fint (int (length body))),
      ''content_type'' \<mapsto> RawString (header_Get (h_Header r) ''Content-Type''),
      ''user_agent'' \<mapsto> RawString (UserAgent r), ''referer'' \<mapsto> RawString (Referer r),
      ''accept'' \<mapsto> RawString (header_Get (h_Header r) ''Accept''),
      ''accept_language'' \<mapsto> RawString (header_Get (h_Header r) ''Accept-Language''),
      ''ja4_fingerprint'' \<mapsto> RawString (header_Get (h_Header r) ''JA4''),
      ''challenge_passed'' \<mapsto> RawBool challengePassed]"

text \<open>The body of both goroutines: score the event for the user or for the address.\<close>

definition learn :: "lookups \<Rightarrow> task \<Rightarrow> engine \<Rightarrow> engine" where
  "learn db t g =
     (if i_UserID (lt_identity t) \<noteq> [] then snd (ProcessEventForUser db g (lt_identity t) (lt_event t))
      else snd (ProcessEvent db g (lt_event t)))"

definition spawn :: "identity_context \<Rightarrow> raw_event \<Rightarrow> proxy \<Rightarrow> proxy" where
  "spawn identity rawEvent st =
     st\<lparr>y_Pending := y_Pending st @ [\<lparr> lt_identity = identity, lt_event = rawEvent \<rparr>]\<rparr>"

text \<open>What is fixed once the body was read: the request, who sent it, and the cookie's verdict.\<close>

record req_context =
  cx_r :: http_request
  cx_ip :: string
  cx_identity :: identity_context
  cx_session :: string
  cx_start :: moment
  cx_body :: string
  cx_bypassed :: bool

definition fireTelemetry :: "req_context \<Rightarrow> string \<Rightarrow> string \<Rightarrow> proxy \<Rightarrow> proxy" where
  "fireTelemetry cx tier limitType st =
     spawn (cx_identity cx)
       ((buildRawEvent (cx_r cx) (cx_ip cx) (cx_start cx) 429 [] (cx_bypassed cx) (cx_session cx))
         (''rate_limit_hit'' \<mapsto> RawBool True, ''rate_limit_tier'' \<mapsto> RawString tier,
          ''rate_limit_type'' \<mapsto> RawString limitType)) st"

definition fireAsyncLearner :: "req_context \<Rightarrow> int \<Rightarrow> int \<Rightarrow> bool \<Rightarrow> proxy \<Rightarrow> proxy" where
  "fireAsyncLearner cx statusCode responseSize chPassed st =
     spawn (cx_identity cx)
       ((buildRawEvent (cx_r cx) (cx_ip cx) (cx_start cx) statusCode (cx_body cx) chPassed (cx_session cx))
         (''response_size'' \<mapsto> RawFloat (fint responseSize))) st"

section \<open>Rate limits\<close>

text \<open>
  \<open>int(math.Ceil(1.0 / rate))\<close>; on amd64 the conversion of an infinity, or of a number out of
  range, gives the least integer. The duration to the reset wraps.
\<close>

definition retry_after :: "real \<Rightarrow> int" where
  "retry_after rate =
     (if rate = 0 \<or> \<not> in_int64 \<lceil>fdiv 1 rate\<rceil> then - (2 ^ 63) else \<lceil>fdiv 1 rate\<rceil>)"

definition reset_at :: "moment \<Rightarrow> int \<Rightarrow> int" where
  "reset_at now seconds = (tm_Nanos now + wrap64 (seconds * 10 ^ 9)) div 10 ^ 9"

text \<open>\<open>strconv.FormatFloat(burst, 'f', 0, 64)\<close>, which keeps the sign of a small negative number.\<close>

definition format_float :: "real \<Rightarrow> string" where
  "format_float x = (if x < 0 \<and> round_even x = 0 then ''-0'' else int_digits (round_even x))"

text \<open>A call of the active limiter, with the fallback to the one in memory.\<close>

definition allow_client :: "call \<Rightarrow> client \<Rightarrow> real \<Rightarrow> real \<Rightarrow> proxy \<Rightarrow> bool \<times> proxy" where
  "allow_client ca k rate burst st =
     (let memory = (\<lambda>st. let ((ok, _), rl) = memory_allow (tm_Nanos (ca_now ca)) k rate burst (y_RateLimiter st)
                         in (ok, st\<lparr>y_RateLimiter := rl\<rparr>))
      in case y_ActiveLimiter st of
           ActiveMemory \<Rightarrow> memory st
         | ActiveRedis rl \<Rightarrow>
             (let ((ok, backendOK), rl) = redis_allow (ca_limiterUp ca) (tm_Nanos (ca_now ca)) k rate burst rl;
                  st = st\<lparr>y_ActiveLimiter := ActiveRedis rl\<rparr>
              in if backendOK then (ok, st) else memory st))"

definition limit_exceeded :: "call \<Rightarrow> real \<Rightarrow> real \<Rightarrow> response \<Rightarrow> response" where
  "limit_exceeded ca rate burst w =
     http_Error ''Rate Limit Exceeded'' 429
       (w\<lparr>rs_Header := (rs_Header w)(
          ''Retry-After'' \<mapsto> int_digits (retry_after rate),
          ''X-RateLimit-Limit'' \<mapsto> format_float burst,
          ''X-RateLimit-Reset'' \<mapsto> int_digits (reset_at (ca_now ca) (retry_after rate)))\<rparr>)"

definition tier_limits :: "waf_config \<Rightarrow> string \<Rightarrow> (real \<times> real) option" where
  "tier_limits cfg tier =
     (if tier = ''allow'' then Some (d_TierAllowRate cfg, d_TierAllowBurst cfg)
      else if tier = ''allow+stricter'' then Some (d_TierStricterRate cfg, d_TierStricterBurst cfg)
      else if tier = ''challenge'' then Some (d_TierChallengeRate cfg, d_TierChallengeBurst cfg)
      else None)"

text \<open>\<open>None\<close> when the request may go on; otherwise the response and the reason.\<close>

definition checkRateLimits :: "call \<Rightarrow> req_context \<Rightarrow> string \<Rightarrow> proxy \<Rightarrow> (response \<times> string) option \<times> proxy" where
  "checkRateLimits ca cx tier st =
     (case tier_limits (y_Config st) tier of
        None \<Rightarrow> (Some (http_Error ''Forbidden'' 403 unwritten, ''unknown_tier''), st)
      | Some (rate, burst) \<Rightarrow>
          (let (allowed, st) = allow_client ca (AtIP (cx_ip cx)) rate burst st
           in if \<not> allowed
              then (Some (limit_exceeded ca rate burst unwritten, ''rate_limit_ip''), fireTelemetry cx tier ''ip'' st)
              else if i_UserID (cx_identity cx) \<noteq> []
              then (let (allowed, st) = allow_client ca (AtUser (i_UserID (cx_identity cx))) rate burst st
                    in if \<not> allowed
                       then (Some (limit_exceeded ca rate burst unwritten, ''rate_limit_user''), fireTelemetry cx tier ''user'' st)
                       else (None, st))
              else (None, st)))"

section \<open>The challenge\<close>

definition unlines :: "string list \<Rightarrow> string" where
  "unlines ls = concat (map (\<lambda>l. l @ [CHR 0x0A]) ls)"

definition page_head :: string where
  "page_head = unlines
     [''<!DOCTYPE html>'',
      ''<html>'',
      ''<head>'',
      ''<title>Security Check</title>'',
      ''<style>'',
      ''  body { font-family: sans-serif; text-align: center; padding: 50px; background: #f9f9f9; }'',
      ''  .loader { border: 4px solid #f3f3f3; border-top: 4px solid #3498db; border-radius: 50%; width: 40px; height: 40px; animation: spin 1s linear infinite; margin: 20px auto; }'',
      ''  @keyframes spin { 0% { transform: rotate(0deg); } 100% { transform: rotate(360deg); } }'',
      ''</style>'',
      ''</head>'',
      ''<body>'',
      ''  <h2>Checking your browser before accessing the site...</h2>'',
      ''  <div class=\"loader\"></div>'',
      ''  <p>Please allow up to 5 seconds.</p>'',
      ''  <script>'',
      ''    async function solve() {''] @ ''      const salt = \"''"

definition page_tail :: string where
  "page_tail = ''\";'' @ [CHR 0x0A] @ unlines
     [''      const target = \"00000\";'',
      ''      const encoder = new TextEncoder();'',
      ''      let nonce = 0;'',
      ''      while (true) {'',
      ''        const data = encoder.encode(salt + nonce);'',
      ''        const hashBuffer = await crypto.subtle.digest('SHA-256', data);'',
      ''        const hashArray = Array.from(new Uint8Array(hashBuffer));'',
      ''        const hashHex = hashArray.map(b => b.toString(16).padStart(2, '0')).join('' @ [CHR 0x27, CHR 0x27] @ '');'',
      ''        if (hashHex.startsWith(target)) {'',
      ''          const resp = await fetch('/challenge-solve', {'',
      ''            method: 'POST','',
      ''            headers: {'Content-Type': 'application/json'},'',
      ''            body: JSON.stringify({nonce: nonce.toString()})'',
      ''          });'',
      ''          if (resp.ok) {'',
      ''            window.location.reload();'',
      ''          }'',
      ''          return;'',
      ''        }'',
      ''        nonce++;'',
      ''        if (nonce % 500 === 0) {'',
      ''           await new Promise(r => setTimeout(r, 0));'',
      ''        }'',
      ''      }'',
      ''    }'',
      ''    solve();'',
      ''  </script>'',
      ''</body>''] @ ''</html>''"

definition challenge_page :: "string \<Rightarrow> string" where
  "challenge_page expectedSalt = page_head @ expectedSalt @ page_tail"

definition resolve_identity :: "surroundings \<Rightarrow> call \<Rightarrow> http_request \<Rightarrow> proxy \<Rightarrow> identity_context \<times> http_request \<times> proxy" where
  "resolve_identity sv ca r st =
     (let (result, r, res) = Resolve (sv_auth sv) (tm_Nanos (ca_now ca)) (y_Resolver st) r
      in (case result of Inr ctx \<Rightarrow> ctx | Inl err \<Rightarrow> anonymous, r, st\<lparr>y_Resolver := res\<rparr>))"

text \<open>
  The solver's endpoint. The JSON decoder gives the nonce of the body, or nothing for a body
  that does not decode. The constant rate is ten attempts in sixty seconds.
\<close>

definition challengeRate :: real where
  "challengeRate = fl (10 / 60)"

definition handleChallengeSolve :: "surroundings \<Rightarrow> call \<Rightarrow> http_request \<Rightarrow> proxy \<Rightarrow> response \<times> proxy" where
  "handleChallengeSolve sv ca r st =
     (if h_Method r \<noteq> ''POST'' then (http_Error ''Method Not Allowed'' 405 unwritten, st)
      else
        (let clientIP = getClientIP (y_Config st) r;
             (identity, r, st) = resolve_identity sv ca r st;
             ((ok, _), rl) = AllowIP (tm_Nanos (ca_now ca)) clientIP challengeRate 10 (y_ChallengeLimiter st);
             st = st\<lparr>y_ChallengeLimiter := rl\<rparr>
         in if \<not> ok
            then (http_Error ''Too Many Challenge Attempts'' 429
                    (unwritten\<lparr>rs_Header := [''Retry-After'' \<mapsto> int_digits (retry_after challengeRate)]\<rparr>), st)
            else
              (let salt = challenge_salt clientIP (ca_now ca)
               in case Option.bind (h_Body r) (sv_decodeNonce sv) of
                    None \<Rightarrow> (http_Error ''Bad Request'' 400 unwritten, st)
                  | Some nonce \<Rightarrow>
                      if \<not> verifyNonce nonce salt then (http_Error ''Invalid nonce'' 401 unwritten, st)
                      else
                        (unwritten\<lparr>rs_Status := Some 200, rs_Body := Json [(''success'', RawBool True)],
                           rs_Cookie := Some (cookie_text (generateClearanceToken salt nonce (d_JWTSecret (y_Config st))))\<rparr>,
                         set_engine (RecordChallengeSolved clientIP (i_UserID identity) (time_float (ca_now ca))
                                       (y_Engine st)) st))))"

section \<open>The tiers\<close>

definition forbidden :: "decision \<Rightarrow> response" where
  "forbidden recommended = unwritten\<lparr>rs_Status := Some 403, rs_Header := [''Content-Type'' \<mapsto> ''application/json''],
     rs_Body := Json [(''error'', RawString ''Forbidden by UEBA Gatekeeper''),
                      (''decision'', RawString (decision_str recommended))]\<rparr>"

definition coraza_blocks :: "proxy \<Rightarrow> req_context \<Rightarrow> bool" where
  "coraza_blocks st cx =
     (case y_Coraza st of
        None \<Rightarrow> False
      | Some waf \<Rightarrow> d_EnableCoraza (y_Config st) \<and>
          (let (allowed, _, err) = ProcessRequest waf (cx_r cx) in err \<noteq> None \<or> \<not> allowed))"

text \<open>A stage answers the request, with the status and decision of the log, or lets it pass.\<close>

type_synonym stage = "(response \<times> int \<times> string) option \<times> proxy"

definition limit_stage :: "call \<Rightarrow> req_context \<Rightarrow> string \<Rightarrow> proxy \<Rightarrow> stage" where
  "limit_stage ca cx tier st =
     (case checkRateLimits ca cx tier st of
        (Some (w, reason), st) \<Rightarrow> (Some (w, 429, reason), st)
      | (None, st) \<Rightarrow> (None, st))"

definition coraza_stage :: "req_context \<Rightarrow> proxy \<Rightarrow> stage" where
  "coraza_stage cx st =
     (if coraza_blocks st cx
      then (Some (unwritten, 403, ''block_coraza''), fireAsyncLearner cx 403 0 (cx_bypassed cx) st)
      else (None, st))"

definition stricter_stage :: "call \<Rightarrow> req_context \<Rightarrow> proxy \<Rightarrow> stage" where
  "stricter_stage ca cx st =
     (case limit_stage ca cx ''allow+stricter'' st of
        (Some stop, st) \<Rightarrow> (Some stop, st)
      | (None, st) \<Rightarrow> coraza_stage cx st)"

definition gate_stage :: "call \<Rightarrow> req_context \<Rightarrow> decision \<Rightarrow> proxy \<Rightarrow> stage" where
  "gate_stage ca cx recommended st =
     (case recommended of
        Ban \<Rightarrow> (Some (forbidden recommended, 403, decision_str recommended), fireAsyncLearner cx 403 0 False st)
      | Block \<Rightarrow> (Some (forbidden recommended, 403, decision_str recommended), fireAsyncLearner cx 403 0 False st)
      | Challenge \<Rightarrow>
          if \<not> cx_bypassed cx
          then (let html = challenge_page (challenge_salt (cx_ip cx) (ca_now ca))
                in (Some (unwritten\<lparr>rs_Status := Some 401, rs_Body := Page html,
                            rs_Header := [''Content-Type'' \<mapsto> ''text/html; charset=utf-8'']\<rparr>, 401, ''challenge''),
                    fireAsyncLearner cx 401 (int (length html)) False st))
          else stricter_stage ca cx st
      | AllowStricter \<Rightarrow> stricter_stage ca cx st
      | Allow \<Rightarrow> limit_stage ca cx ''allow'' st)"

section \<open>The classifier\<close>

definition PredictSingle :: "surroundings \<Rightarrow> real list \<Rightarrow> real" where
  "PredictSingle sv features = fdiv 1 (fadd 1 (sv_exp sv (- sv_margin sv features)))"

text \<open>The probability, or nothing when the vectorizer panics.\<close>

definition classify :: "surroundings \<Rightarrow> req_context \<Rightarrow> real option" where
  "classify sv cx =
     (let r = cx_r cx;
          payloadText = truncate_str (h_Path r) 1024 @ '' '' @ truncate_str (h_RawQuery r) 1024 @ '' '' @
                        truncate_str (cx_body cx) 1024
      in map_option (\<lambda>tfidfFeatures. PredictSingle sv (ExtractFeatures (sv_ml sv) r (cx_body cx) @ tfidfFeatures))
           (Transform (ml_unicodeLower (sv_ml sv)) (sv_vectorizer sv) payloadText))"

definition tier1_event :: "req_context \<Rightarrow> request_event" where
  "tier1_event cx =
     (let r = cx_r cx
      in \<lparr> e_IP = cx_ip cx, e_SessionID = cx_session cx, e_Timestamp = time_float (cx_start cx),
           e_Method = h_Method r, e_Path = h_Path r, e_QueryString = h_RawQuery r, e_StatusCode = 0,
           e_ResponseSize = 0, e_RequestSize = 0, e_ContentType = header_Get (h_Header r) ''Content-Type'',
           e_UserAgent = UserAgent r, e_Referer = Referer r, e_Accept = header_Get (h_Header r) ''Accept'',
           e_AcceptLanguage = header_Get (h_Header r) ''Accept-Language'',
           e_JA4Fingerprint = header_Get (h_Header r) ''JA4'', e_ASN = [], e_ChallengePassed = cx_bypassed cx,
           e_CountryCode = [], e_IsTor = False, e_IsVPN = False, e_IsDatacenter = False,
           e_IsAssetRequest = False \<rparr>)"

definition enqueue_stage :: "call \<Rightarrow> req_context \<Rightarrow> decision \<Rightarrow> real \<Rightarrow> proxy \<Rightarrow> proxy" where
  "enqueue_stage ca cx recommended prob st =
     (case y_Tier1 st of
        None \<Rightarrow> st
      | Some cfg \<Rightarrow>
          (case tk_GreyZones (d_Tier1Config (y_Config st)) (decision_str recommended) of
             None \<Rightarrow> st
           | Some greyZone \<Rightarrow>
               if tk_Enabled cfg \<and> zone_Contains greyZone prob
               then (let job = \<lparr> j_ID = ca_jobID ca, j_Event = tier1_event cx, j_LGBMProb = prob,
                                 j_Tier0Decision = decision_str recommended, j_ClientIP = cx_ip cx,
                                 j_UserID = i_UserID (cx_identity cx), j_BodySnippet = take 1024 (cx_body cx),
                                 j_GreyZone = greyZone, j_EnqueuedAt = time_float (ca_now ca), j_Retries = 0 \<rparr>
                     in st\<lparr>y_Pipeline := snd (pipeline_Enqueue cfg (ca_queueIO ca) job (y_Pipeline st))\<rparr>)
               else st))"

definition threshold_stage :: "req_context \<Rightarrow> real \<Rightarrow> proxy \<Rightarrow> stage" where
  "threshold_stage cx prob st =
     (if prob \<ge> y_Threshold st
      then (Some (unwritten\<lparr>rs_Status := Some 403, rs_Header := [''Content-Type'' \<mapsto> ''application/json''],
                    rs_Body := Json [(''error'', RawString ''Forbidden by AI WAF''), (''score'', RawFloat prob)]\<rparr>,
                  403, ''block_lgbm''),
            fireAsyncLearner cx 403 0 (cx_bypassed cx) st)
      else if prob \<ge> fmul (y_Threshold st) (fsub 1 (d_StricterMargin (y_Config st)))
      then coraza_stage cx st
      else (None, st))"

section \<open>Forwarding\<close>

text \<open>The request as the handler leaves it: the body put back, the headers of the front replaced.\<close>

definition outgoing :: "call \<Rightarrow> req_context \<Rightarrow> http_request" where
  "outgoing ca cx =
     (let r = cx_r cx;
          h = header_Del ''X-WAF-User'' (header_Del ''X-WAF-IP'' (header_Del ''X-WAF-Request-ID''
                (header_Del ''X-WAF-Score'' (h_Header r))));
          h = header_Set ''X-WAF-IP'' (cx_ip cx) (header_Set ''X-WAF-Request-ID'' (ca_requestID ca) h);
          h = (if i_UserID (cx_identity cx) \<noteq> [] then header_Set ''X-WAF-User'' (i_UserID (cx_identity cx)) h else h)
      in r\<lparr>h_Header := h, h_Body := Some (cx_body cx)\<rparr>)"

text \<open>
  What \<open>httputil.ReverseProxy\<close> does to the headers: it drops every header that the field
  \<open>Connection\<close> names, then the hop-by-hop fields, and appends the peer to \<open>X-Forwarded-For\<close>.
  That it puts \<open>Te: trailers\<close> and the fields of a protocol upgrade back is left out.
\<close>

definition connection_names :: "header \<Rightarrow> string list" where
  "connection_names h =
     (case h ''Connection'' of
        None \<Rightarrow> []
      | Some vs \<Rightarrow> filter (\<lambda>n. n \<noteq> []) (map TrimString (concat (map (go_split (CHR '','')) vs))))"

definition hopHeaders :: "string list" where
  "hopHeaders = [''Connection'', ''Proxy-Connection'', ''Keep-Alive'', ''Proxy-Authenticate'',
     ''Proxy-Authorization'', ''Te'', ''Trailer'', ''Transfer-Encoding'', ''Upgrade'']"

definition removeHopByHop :: "header \<Rightarrow> header" where
  "removeHopByHop h = fold header_Del (connection_names h @ hopHeaders) h"

definition peer_host :: "string \<Rightarrow> string option" where
  "peer_host addr = map_option fst (split_last (CHR '':'') addr)"

definition ReverseProxy :: "http_request \<Rightarrow> http_request" where
  "ReverseProxy r =
     (let h = removeHopByHop (h_Header r);
          h = (case peer_host (h_RemoteAddr r) of
                 None \<Rightarrow> h
               | Some ip \<Rightarrow>
                   (case h ''X-Forwarded-For'' of
                      None \<Rightarrow> h(''X-Forwarded-For'' \<mapsto> [ip])
                    | Some vs \<Rightarrow> h(''X-Forwarded-For'' \<mapsto> [join_with '', '' (vs @ [ip])])));
          h = (if h ''User-Agent'' = None then h(''User-Agent'' \<mapsto> [[]]) else h)
      in r\<lparr>h_Header := h\<rparr>)"

section \<open>ServeHTTP\<close>

record outcome =
  oc_response :: response
  oc_forwarded :: "http_request option"

definition log_entry ::
    "req_context \<Rightarrow> gatekeeper_verdict \<Rightarrow> real \<Rightarrow> string option \<Rightarrow> int \<Rightarrow> string \<Rightarrow> access_log" where
  "log_entry cx verdict prob requestID status decision = \<lparr>
     ac_Method = h_Method (cx_r cx), ac_Path = h_Path (cx_r cx), ac_Query = h_RawQuery (cx_r cx),
     ac_Body = truncate_str (cx_body cx) 300, ac_IP = cx_ip cx, ac_UserID = i_UserID (cx_identity cx),
     ac_TrustScore = (if v_UserScore verdict \<ge> 0 then v_UserScore verdict else v_IPScore verdict),
     ac_Prob = prob, ac_Status = status, ac_Decision = decision, ac_RequestID = requestID \<rparr>"

definition writeLog :: "access_log \<Rightarrow> proxy \<Rightarrow> proxy" where
  "writeLog entry st = st\<lparr>y_Feed := map_option (\<lambda>feed. take 200 (entry # feed)) (y_Feed st)\<rparr>"

text \<open>
  The handler after the gatekeeper has spoken. A panic of the classifier drops the connection
  (\<open>None\<close>). When copying the response fails, \<open>httputil.ReverseProxy\<close> panics with
  \<open>http.ErrAbortHandler\<close>: the connection is closed, and what comes after the call is not done.
\<close>

definition serve_checked ::
    "surroundings \<Rightarrow> call \<Rightarrow> req_context \<Rightarrow> gatekeeper_verdict \<Rightarrow> proxy \<Rightarrow> outcome option \<times> proxy" where
  "serve_checked sv ca cx verdict st =
     (let stop = (\<lambda>prob (w, status, decision) st.
                    (Some \<lparr> oc_response = w, oc_forwarded = None \<rparr>,
                     writeLog (log_entry cx verdict prob None status decision) st))
      in case gate_stage ca cx (v_Recommended verdict) st of
           (Some answer, st) \<Rightarrow> stop 0 answer st
         | (None, st) \<Rightarrow>
             (case classify sv cx of
                None \<Rightarrow> (None, st)
              | Some prob \<Rightarrow>
                  (let st = enqueue_stage ca cx (v_Recommended verdict) prob st
                   in case threshold_stage cx prob st of
                        (Some answer, st) \<Rightarrow> stop prob answer st
                      | (None, st) \<Rightarrow>
                          (let out = ReverseProxy (outgoing ca cx)
                           in case sv_backend sv out of
                                CutOff status \<Rightarrow>
                                  (Some \<lparr> oc_response = unwritten\<lparr>rs_Status := Some status, rs_Body := Aborted\<rparr>,
                                     oc_forwarded = Some out \<rparr>, st)
                              | Copied status len \<Rightarrow>
                                  (let st = fireAsyncLearner cx status len (cx_bypassed cx) st
                                   in (Some \<lparr> oc_response = unwritten\<lparr>rs_Status := Some status, rs_Body := FromBackend\<rparr>,
                                              oc_forwarded = Some out \<rparr>,
                                       writeLog (log_entry cx verdict prob (Some (ca_requestID ca)) status ''allow'') st))))))"

text \<open>The limit of the body: a mebibyte, \<open>1024*1024\<close> bytes.\<close>

definition bodyLimit :: nat where
  "bodyLimit = 1048576"

text \<open>The first steps of the handler: who sends the request, and its body, if it can be read.\<close>

definition read_context :: "surroundings \<Rightarrow> call \<Rightarrow> http_request \<Rightarrow> proxy \<Rightarrow> req_context option \<times> proxy" where
  "read_context sv ca r st =
     (let (identity, r, st) = resolve_identity sv ca r st;
          clientIP = getClientIP (y_Config st) r;
          sessionID = extractSessionID r clientIP
      in case h_Body r of
           None \<Rightarrow> (None, st)
         | Some full \<Rightarrow>
             (let body = take bodyLimit full;
                  r = r\<lparr>h_Body := Some body\<rparr>
              in (Some \<lparr> cx_r = r, cx_ip = clientIP, cx_identity = identity, cx_session = sessionID,
                         cx_start = ca_now ca, cx_body = body,
                         cx_bypassed = verifyChallengeCookie (y_Config st) r clientIP (ca_now ca) \<rparr>, st)))"

definition ask_gatekeeper :: "req_context \<Rightarrow> proxy \<Rightarrow> gatekeeper_verdict \<times> proxy" where
  "ask_gatekeeper cx st =
     (let (verdict, g) = Gatekeeper (y_Engine st) (cx_ip cx) (i_UserID (cx_identity cx)) (time_float (cx_start cx))
      in (verdict, set_engine g st))"

definition ServeHTTP :: "surroundings \<Rightarrow> call \<Rightarrow> http_request \<Rightarrow> proxy \<Rightarrow> outcome option \<times> proxy" where
  "ServeHTTP sv ca r st =
     (if h_Path r = ''/challenge-solve''
      then (let (w, st) = handleChallengeSolve sv ca r st
            in (Some \<lparr> oc_response = w, oc_forwarded = None \<rparr>, st))
      else (case read_context sv ca r st of
              (None, st) \<Rightarrow> (Some \<lparr> oc_response = http_Error ''Bad Request'' 400 unwritten, oc_forwarded = None \<rparr>, st)
            | (Some cx, st) \<Rightarrow>
                (let (verdict, st) = ask_gatekeeper cx st in serve_checked sv ca cx verdict st)))"

text \<open>One of the pending goroutines runs.\<close>

definition run_task :: "lookups \<Rightarrow> nat \<Rightarrow> proxy \<Rightarrow> proxy" where
  "run_task db i st =
     (if i < length (y_Pending st)
      then set_engine (learn db (y_Pending st ! i) (y_Engine st))
             (st\<lparr>y_Pending := take i (y_Pending st) @ drop (Suc i) (y_Pending st)\<rparr>)
      else st)"

end
