(* ===== verification/Admin.thy ===== *)
theory Admin
  imports Proxy
begin

text \<open>
  The administration of the front: the live configuration (\<open>tier-0/config_manager.go\<close>), the
  start-up of the deployment (\<open>main.go\<close>), and the administration server (\<open>admin.go\<close>) with its
  accounts, its sessions and its handlers.

  Outside the program, and arguments: the file system (what a file decodes to, whether a write
  succeeds), the environment, random bytes, bcrypt, the JSON decoder and the compilation of the
  rules of the rule engine. The flags, the loading of the model and the listeners of \<open>main.go\<close>
  are left out.
\<close>

section \<open>The secret\<close>

definition generateJWTSecret :: "string \<Rightarrow> string" where
  "generateJWTSecret random = hex_string random"

text \<open>The secret and what is written to its file; a failing write ends the program (\<open>None\<close>).\<close>

definition loadOrGenerateJWTSecret ::
    "string option \<Rightarrow> string \<Rightarrow> bool \<Rightarrow> (string \<times> string option) option" where
  "loadOrGenerateJWTSecret file random writable =
     (case file of
        Some data \<Rightarrow>
          if data \<noteq> [] then Some (data, None)
          else if writable then Some (generateJWTSecret random, Some (generateJWTSecret random)) else None
      | None \<Rightarrow> if writable then Some (generateJWTSecret random, Some (generateJWTSecret random)) else None)"

section \<open>The live configuration\<close>

text \<open>
  The rule engine's library: the names in its embedded directory of rules, if it can be read, and
  what it builds from directives and from a file.
\<close>

record coraza_libs =
  cl_crs :: "string list option"
  cl_directives :: "string \<Rightarrow> coraza option"
  cl_file :: "string \<Rightarrow> coraza option"

definition crsDirectives :: "coraza_libs \<Rightarrow> string list" where
  "crsDirectives cl =
     [''Include @coraza.conf-recommended'', ''SecRuleEngine On''] @
     (case cl_crs cl of
        None \<Rightarrow> []
      | Some entries \<Rightarrow> map (\<lambda>e. ''Include @owasp_crs/'' @ e) (filter (suffix ''.conf'') entries))"

definition NewCorazaWAF :: "coraza_libs \<Rightarrow> string \<Rightarrow> coraza option" where
  "NewCorazaWAF cl rulesPath =
     (if rulesPath = ''crs'' then cl_directives cl (join_with [CHR 0x0A] (crsDirectives cl))
      else cl_file cl rulesPath)"

text \<open>An engine that cannot be built is no engine; \<open>build\<close> is \<open>NewCorazaWAF\<close> of the library.\<close>

definition initCorazaWAF :: "(string \<Rightarrow> coraza option) \<Rightarrow> proxy \<Rightarrow> proxy" where
  "initCorazaWAF build st =
     (if \<not> d_EnableCoraza (y_Config st) then st\<lparr>y_Coraza := None\<rparr>
      else st\<lparr>y_Coraza := build (d_CorazaRulesPath (y_Config st))\<rparr>)"

definition apply_trustscore :: "waf_config \<Rightarrow> engine \<Rightarrow> engine" where
  "apply_trustscore cfg g =
     SetConfig (d_Trustscore cfg) (SetUserWeights (d_WeightIP cfg) (d_WeightUser cfg) (d_WeightBoost cfg) g)"

text \<open>
  What the file of the configuration gives: nothing, text that does not decode, or the
  configuration that decoding it over the zero value leaves.
\<close>

datatype config_file = Unreadable | Garbage | Decoded waf_config

definition LoadWafConfig :: "config_file \<Rightarrow> real \<Rightarrow> string \<Rightarrow> engine \<Rightarrow> waf_config \<times> engine" where
  "LoadWafConfig file defaultThreshold secret g =
     (let cfg = (case file of Decoded cfg \<Rightarrow> cfg | _ \<Rightarrow> defaultConfig defaultThreshold secret (g_Config g))
      in (cfg, apply_trustscore cfg g))"

datatype save_io = MarshalError | WriteError | RenameError | Saved

text \<open>The error, if any, and the proxy; \<open>random\<close> is the cache key of a new resolver.\<close>

definition SaveWafConfig ::
    "save_io \<Rightarrow> (string \<Rightarrow> coraza option) \<Rightarrow> string \<Rightarrow> waf_config \<Rightarrow> proxy \<Rightarrow> save_io option \<times> proxy" where
  "SaveWafConfig io build random newConfig st =
     (let st = st\<lparr>y_Config := newConfig\<rparr>
      in if io \<noteq> Saved then (Some io, st)
         else
           (let st = set_engine (apply_trustscore newConfig (y_Engine st)) st;
                st = st\<lparr>y_Threshold := d_Threshold newConfig\<rparr>;
                st = st\<lparr>y_Resolver := new_resolver random newConfig\<rparr>
            in (None, initCorazaWAF build st)))"

section \<open>Start-up\<close>

record deploy_env =
  en_ENABLE_RASP :: string
  en_RASP_SOCKET_PATH :: string
  en_TRUST_XFORWARDED :: string
  en_ENABLE_CORAZA :: string

definition env_overrides :: "deploy_env \<Rightarrow> waf_config \<Rightarrow> waf_config" where
  "env_overrides env cfg =
     (let cfg = (if en_ENABLE_RASP env = ''true'' then cfg\<lparr>d_EnableRASP := True\<rparr> else cfg);
          cfg = (if en_RASP_SOCKET_PATH env \<noteq> [] then cfg\<lparr>d_RASPSocketPath := en_RASP_SOCKET_PATH env\<rparr> else cfg);
          cfg = (if en_TRUST_XFORWARDED env = ''true'' then cfg\<lparr>d_TrustXForwardedFor := True\<rparr> else cfg)
      in if en_ENABLE_CORAZA env = ''false'' then cfg\<lparr>d_EnableCoraza := False\<rparr> else cfg)"

text \<open>
  The proxy that \<open>main\<close> serves with. The limiter in Redis is never made the active one. The
  client of Redis always exists, and the deep tier runs if it is enabled and its database opens.
\<close>

definition start_proxy ::
    "config_file \<Rightarrow> real \<Rightarrow> string \<Rightarrow> string \<Rightarrow> deploy_env \<Rightarrow> (string \<Rightarrow> coraza option) \<Rightarrow> bool \<Rightarrow> proxy" where
  "start_proxy file threshold secret random env build auditOpens =
     (let (cfg, g) = LoadWafConfig file threshold secret init_engine;
          cfg = env_overrides env cfg;
          g = g\<lparr>g_Redis := Some \<lparr> k_Scores = Map.empty, k_Feed = [] \<rparr>\<rparr>
      in initCorazaWAF build
           \<lparr> y_Config = cfg, y_Threshold = d_Threshold cfg, y_Resolver = new_resolver random cfg,
             y_Coraza = None, y_RateLimiter = NewRateLimiter, y_ChallengeLimiter = NewRateLimiter,
             y_ActiveLimiter = ActiveMemory,
             y_Tier1 = (if tk_Enabled (d_Tier1Config cfg) \<and> auditOpens then Some (d_Tier1Config cfg) else None),
             y_Pipeline = \<lparr> pl_queue = NewRedisQueue, pl_audit = Map.empty, pl_engine = g \<rparr>,
             y_Pending = [], y_Feed = Some [] \<rparr>)"

section \<open>Accounts\<close>

record admin_store =
  am_SessionSecret :: string
  am_Admins :: "string \<rightharpoonup> string"

record bcrypt =
  bc_Generate :: "string \<Rightarrow> string option"
  bc_Compare :: "string \<Rightarrow> string \<Rightarrow> bool"

text \<open>The store after start-up, from the contents of its file, 32 random bytes and whether a write succeeds.\<close>

definition loadAdminStore :: "admin_store option \<Rightarrow> string \<Rightarrow> bool \<Rightarrow> admin_store option" where
  "loadAdminStore file random writable =
     (let store = (case file of Some s \<Rightarrow> s | None \<Rightarrow> \<lparr> am_SessionSecret = [], am_Admins = Map.empty \<rparr>)
      in if am_SessionSecret store = []
         then (if writable then Some (store\<lparr>am_SessionSecret := hex_string random\<rparr>) else None)
         else Some store)"

definition createAdmin ::
    "bcrypt \<Rightarrow> bool \<Rightarrow> string \<Rightarrow> string \<Rightarrow> admin_store \<Rightarrow> string option \<times> admin_store" where
  "createAdmin bc writable username password store =
     (if am_Admins store username \<noteq> None then (Some ''user exists'', store)
      else (case bc_Generate bc password of
              None \<Rightarrow> (Some ''bcrypt'', store)
            | Some hash \<Rightarrow>
                (let store = store\<lparr>am_Admins := (am_Admins store)(username \<mapsto> hash)\<rparr>
                 in if writable then (None, store) else (Some ''failed to persist admin store'', store))))"

definition verifyAdmin :: "bcrypt \<Rightarrow> string \<Rightarrow> string \<Rightarrow> admin_store \<Rightarrow> bool" where
  "verifyAdmin bc username password store =
     (case am_Admins store username of None \<Rightarrow> False | Some hash \<Rightarrow> bc_Compare bc hash password)"

section \<open>Sessions\<close>

definition session_message :: "string \<Rightarrow> string \<Rightarrow> string" where
  "session_message username expiry = username @ '':'' @ expiry"

definition generateSessionCookie :: "string \<Rightarrow> moment \<Rightarrow> admin_store \<Rightarrow> string" where
  "generateSessionCookie username now store =
     (let msg = session_message username (int_digits (time_Unix now + 86400))
      in msg @ '':'' @ hex_string (hmac_sha256 (am_SessionSecret store) msg))"

text \<open>\<open>fmt.Sscanf(s, "%d", &exp)\<close> into a variable that is zero.\<close>

definition scan_int :: "string \<Rightarrow> int" where
  "scan_int s =
     (let s = dropWhile (\<lambda>c. c = CHR '' '') s;
          (sign, rest) = (case s of c # cs \<Rightarrow> if c = CHR ''+'' \<or> c = CHR ''-'' then ([c], cs) else ([], s) | [] \<Rightarrow> ([], s))
      in case atoi (sign @ takeWhile is_digit rest) of Some n \<Rightarrow> n | None \<Rightarrow> 0)"

definition validateSession :: "http_request \<Rightarrow> moment \<Rightarrow> admin_store \<Rightarrow> bool" where
  "validateSession r now store =
     (case request_Cookie r ''admin_session'' of
        None \<Rightarrow> False
      | Some cookie \<Rightarrow>
          (case go_split (CHR '':'') cookie of
             [username, expiry, sig] \<Rightarrow>
               sig = hex_string (hmac_sha256 (am_SessionSecret store) (session_message username expiry)) \<and>
               time_Unix now < scan_int expiry
           | _ \<Rightarrow> False))"

section \<open>The handlers\<close>

text \<open>The surroundings of the server, what they decide for one request, and its state.\<close>

record admin_libs =
  lb_bcrypt :: bcrypt
  lb_creds :: "string \<Rightarrow> (string \<times> string) option"
  lb_config :: "string \<Rightarrow> waf_config option"
  lb_rules :: coraza_libs
  lb_secret :: string

definition lb_build :: "admin_libs \<Rightarrow> string \<Rightarrow> coraza option" where
  "lb_build lb = NewCorazaWAF (lb_rules lb)"

record admin_call =
  aq_now :: moment
  aq_writable :: bool
  aq_save :: save_io
  aq_random :: string

record admin_server =
  ad_Store :: admin_store
  ad_Proxy :: proxy

definition json_reply :: "(string \<times> raw_value) list \<Rightarrow> response" where
  "json_reply body = unwritten\<lparr>rs_Header := [''Content-Type'' \<mapsto> ''application/json''], rs_Body := Json body\<rparr>"

definition success :: response where
  "success = unwritten\<lparr>rs_Body := Json [(''status'', RawString ''success'')]\<rparr>"

definition not_allowed :: response where
  "not_allowed = http_Error ''Method not allowed'' 405 unwritten"

definition setup_required :: "admin_server \<Rightarrow> bool" where
  "setup_required ad \<longleftrightarrow> am_Admins (ad_Store ad) = Map.empty"

definition admin_status :: "admin_server \<Rightarrow> response" where
  "admin_status ad = json_reply [(''setup_required'', RawBool (setup_required ad))]"

definition read_creds :: "admin_libs \<Rightarrow> http_request \<Rightarrow> (string \<times> string) option" where
  "read_creds lb r = Option.bind (h_Body r) (lb_creds lb)"

text \<open>
  The handler of \<open>/api/admin/setup\<close> looks whether an account exists, and creates one, under two
  separate locks; what it does after the look is \<open>setup_create\<close>.
\<close>

definition setup_create :: "admin_libs \<Rightarrow> admin_call \<Rightarrow> http_request \<Rightarrow> admin_server \<Rightarrow> response \<times> admin_server" where
  "setup_create lb aq r ad =
     (case read_creds lb r of
        None \<Rightarrow> (http_Error ''Invalid payload'' 400 unwritten, ad)
      | Some (username, password) \<Rightarrow>
          (let (err, store) = createAdmin (lb_bcrypt lb) (aq_writable aq) username password (ad_Store ad);
               ad = ad\<lparr>ad_Store := store\<rparr>
           in case err of
                Some e \<Rightarrow> (http_Error e 400 unwritten, ad)
              | None \<Rightarrow> (success\<lparr>rs_Cookie := Some (cookie_text (generateSessionCookie username (aq_now aq) store))\<rparr>, ad)))"

definition admin_setup :: "admin_libs \<Rightarrow> admin_call \<Rightarrow> http_request \<Rightarrow> admin_server \<Rightarrow> response \<times> admin_server" where
  "admin_setup lb aq r ad =
     (if h_Method r \<noteq> ''POST'' then (not_allowed, ad)
      else if \<not> setup_required ad then (http_Error ''Setup already complete'' 403 unwritten, ad)
      else setup_create lb aq r ad)"

definition admin_login :: "admin_libs \<Rightarrow> admin_call \<Rightarrow> http_request \<Rightarrow> admin_server \<Rightarrow> response \<times> admin_server" where
  "admin_login lb aq r ad =
     (if h_Method r \<noteq> ''POST'' then (not_allowed, ad)
      else (case read_creds lb r of
              None \<Rightarrow> (http_Error ''Invalid payload'' 400 unwritten, ad)
            | Some (username, password) \<Rightarrow>
                if verifyAdmin (lb_bcrypt lb) username password (ad_Store ad)
                then (success\<lparr>rs_Cookie := Some (cookie_text (generateSessionCookie username (aq_now aq) (ad_Store ad)))\<rparr>, ad)
                else (http_Error ''Invalid credentials'' 401 unwritten, ad)))"

definition save_config ::
    "admin_libs \<Rightarrow> admin_call \<Rightarrow> waf_config \<Rightarrow> string \<Rightarrow> response \<Rightarrow> admin_server \<Rightarrow> response \<times> admin_server" where
  "save_config lb aq cfg failed ok ad =
     (let (err, st) = SaveWafConfig (aq_save aq) (lb_build lb) (aq_random aq) cfg (ad_Proxy ad);
          ad = ad\<lparr>ad_Proxy := st\<rparr>
      in if err \<noteq> None then (http_Error failed 500 unwritten, ad) else (ok, ad))"

definition admin_config :: "admin_libs \<Rightarrow> admin_call \<Rightarrow> http_request \<Rightarrow> admin_server \<Rightarrow> response \<times> admin_server" where
  "admin_config lb aq r ad =
     (if h_Method r = ''GET''
      then (unwritten\<lparr>rs_Header := [''Content-Type'' \<mapsto> ''application/json''],
              rs_Body := Encoded (y_Config (ad_Proxy ad))\<rparr>, ad)
      else if h_Method r = ''POST''
      then (case Option.bind (h_Body r) (lb_config lb) of
              None \<Rightarrow> (http_Error ''Invalid JSON payload'' 400 unwritten, ad)
            | Some newConfig \<Rightarrow>
                save_config lb aq newConfig ''Failed to save configuration''
                  (json_reply [(''status'', RawString ''success'')]) ad)
      else (not_allowed, ad))"

definition admin_create :: "admin_libs \<Rightarrow> admin_call \<Rightarrow> http_request \<Rightarrow> admin_server \<Rightarrow> response \<times> admin_server" where
  "admin_create lb aq r ad =
     (if h_Method r \<noteq> ''POST'' then (not_allowed, ad)
      else (case read_creds lb r of
              None \<Rightarrow> (http_Error ''Invalid payload'' 400 unwritten, ad)
            | Some (username, password) \<Rightarrow>
                (let (err, store) = createAdmin (lb_bcrypt lb) (aq_writable aq) username password (ad_Store ad);
                     ad = ad\<lparr>ad_Store := store\<rparr>
                 in case err of Some e \<Rightarrow> (http_Error e 400 unwritten, ad) | None \<Rightarrow> (success, ad))))"

text \<open>The defaults take the engine's part from \<open>GetConfig\<close>, which is the live one.\<close>

definition admin_reset :: "admin_libs \<Rightarrow> admin_call \<Rightarrow> http_request \<Rightarrow> admin_server \<Rightarrow> response \<times> admin_server" where
  "admin_reset lb aq r ad =
     (if h_Method r \<noteq> ''POST'' then (not_allowed, ad)
      else save_config lb aq
             (defaultConfig (fl 0.90) (lb_secret lb) (g_Config (y_Engine (ad_Proxy ad))))
             ''Failed to reset configuration'' (json_reply [(''status'', RawString ''reset'')]) ad)"

text \<open>The engine, the feed of the dashboard and the queue share one database, which is emptied.\<close>

definition flush :: "proxy \<Rightarrow> proxy" where
  "flush st =
     (let st = set_engine (ResetAllData (y_Engine st)) st
      in if g_Redis (y_Engine st) = None then st
         else st\<lparr>y_Feed := map_option (\<lambda>_. []) (y_Feed st),
                y_Pipeline := (y_Pipeline st)\<lparr>pl_queue := NewRedisQueue\<rparr>\<rparr>)"

definition admin_reset_data :: "http_request \<Rightarrow> admin_server \<Rightarrow> response \<times> admin_server" where
  "admin_reset_data r ad =
     (if h_Method r \<noteq> ''POST'' then (not_allowed, ad)
      else (json_reply [(''status'', RawString ''cleared'')], ad\<lparr>ad_Proxy := flush (ad_Proxy ad)\<rparr>))"

definition not_found :: response where
  "not_found = http_Error ''404 page not found'' 404 unwritten"

definition protected_paths :: "string list" where
  "protected_paths = [''/api/admin/config'', ''/api/admin/config/reset'', ''/api/admin/reset-data'', ''/api/admin/create'']"

definition protectedMux :: "admin_libs \<Rightarrow> admin_call \<Rightarrow> http_request \<Rightarrow> admin_server \<Rightarrow> response \<times> admin_server" where
  "protectedMux lb aq r ad =
     (if h_Path r = ''/api/admin/config'' then admin_config lb aq r ad
      else if h_Path r = ''/api/admin/config/reset'' then admin_reset lb aq r ad
      else if h_Path r = ''/api/admin/reset-data'' then admin_reset_data r ad
      else if h_Path r = ''/api/admin/create'' then admin_create lb aq r ad
      else (not_found, ad))"

definition unauthorized :: response where
  "unauthorized = unwritten\<lparr>rs_Status := Some 401, rs_Body := Json [(''error'', RawString ''Unauthorized'')]\<rparr>"

definition secureApiMiddleware ::
    "(http_request \<Rightarrow> admin_server \<Rightarrow> response \<times> admin_server) \<Rightarrow> admin_call \<Rightarrow> http_request \<Rightarrow> admin_server
       \<Rightarrow> response \<times> admin_server" where
  "secureApiMiddleware handler aq r ad =
     (if h_Method r = ''OPTIONS'' then handler r ad
      else if \<not> validateSession r (aq_now aq) (ad_Store ad) then (unauthorized, ad)
      else handler r ad)"

text \<open>The server, for paths that the multiplexer does not first redirect to their clean form.\<close>

definition admin_ServeHTTP :: "admin_libs \<Rightarrow> admin_call \<Rightarrow> http_request \<Rightarrow> admin_server \<Rightarrow> response \<times> admin_server" where
  "admin_ServeHTTP lb aq r ad =
     (if h_Path r = ''/api/admin/status'' then (admin_status ad, ad)
      else if h_Path r = ''/api/admin/setup'' then admin_setup lb aq r ad
      else if h_Path r = ''/api/admin/login'' then admin_login lb aq r ad
      else if h_Path r \<in> set protected_paths then secureApiMiddleware (protectedMux lb aq) aq r ad
      else if h_Path r = ''/'' then (json_reply [(''service'', RawString ''ai-waf admin api''), (''status'', RawString ''ok'')], ad)
      else (not_found, ad))"

end
