(* ===== verification/Proxy_Safety.thy ===== *)
theory Proxy_Safety
  imports Proxy
begin

text \<open>
  What one request can do (\<open>tier-0/proxy.go\<close>): which requests reach the backend and with which
  headers and body, which requests are logged and reported to the learner, each of them once, and
  where what the client gets differs from the log.
\<close>

section \<open>Stages\<close>

text \<open>
  A stage keeps the configuration and the engine. When it answers, it has started exactly one
  task for the learner, about this client and with the status of the log, which is the status
  that the client sees unless the rule engine blocked the request.
\<close>

definition reported :: "req_context \<Rightarrow> int \<Rightarrow> proxy \<Rightarrow> proxy \<Rightarrow> bool" where
  "reported cx status st st' \<longleftrightarrow>
     (\<exists>ev. y_Pending st' = y_Pending st @ [\<lparr> lt_identity = cx_identity cx, lt_event = ev \<rparr>] \<and>
           ev ''ip'' = Some (RawString (cx_ip cx)) \<and> ev ''status_code'' = Some (RawFloat (fint status)))"

definition truthful :: "response \<Rightarrow> int \<Rightarrow> string \<Rightarrow> bool" where
  "truthful w status decision \<longleftrightarrow> rs_Body w \<noteq> Aborted \<and>
     (if decision = ''block_coraza'' then status = 403 \<and> w = unwritten else sent_status w = status)"

definition same_front :: "proxy \<Rightarrow> proxy \<Rightarrow> bool" where
  "same_front st st' \<longleftrightarrow> y_Config st' = y_Config st \<and> y_Threshold st' = y_Threshold st \<and>
     y_Coraza st' = y_Coraza st \<and> y_Tier1 st' = y_Tier1 st \<and> y_Engine st' = y_Engine st \<and>
     y_Feed st' = y_Feed st"

definition stage_ok :: "req_context \<Rightarrow> proxy \<Rightarrow> stage \<Rightarrow> bool" where
  "stage_ok cx st res \<longleftrightarrow> same_front st (snd res) \<and>
     (case fst res of
        None \<Rightarrow> y_Pending (snd res) = y_Pending st
      | Some (w, status, decision) \<Rightarrow> reported cx status st (snd res) \<and> truthful w status decision)"

lemma same_front_refl [simp]: "same_front st st"
  by (simp add: same_front_def)

lemma same_front_trans: "same_front st st' \<Longrightarrow> same_front st' st'' \<Longrightarrow> same_front st st''"
  by (simp add: same_front_def)

lemma stage_ok_pass [simp]: "stage_ok cx st (None, st)"
  by (simp add: stage_ok_def)

lemma stage_ok_learner:
  "truthful w status decision \<Longrightarrow> stage_ok cx st (Some (w, status, decision), fireAsyncLearner cx status n passed st)"
  by (auto simp: stage_ok_def fireAsyncLearner_def spawn_def reported_def same_front_def y_Engine_def buildRawEvent_def)

lemma allow_client_keeps:
  "same_front st (snd (allow_client ca k rate burst st))"
  "y_Pending (snd (allow_client ca k rate burst st)) = y_Pending st"
  by (auto simp: allow_client_def same_front_def y_Engine_def Let_def case_prod_unfold split: active_limiter.split)

lemma sent_status_Error [simp]:
  "sent_status (http_Error msg status w) = status" "rs_Body (http_Error msg status w) \<noteq> Aborted"
  by (simp_all add: sent_status_def http_Error_def)

lemma unwritten_body [simp]: "rs_Body unwritten = NoBody"
  by (simp add: unwritten_def)

lemma fireTelemetry_ok:
  "reported cx 429 st (fireTelemetry cx tier limitType st)" "same_front st (fireTelemetry cx tier limitType st)"
  by (auto simp: fireTelemetry_def spawn_def reported_def same_front_def y_Engine_def buildRawEvent_def)

lemma reported_cong: "y_Pending st1 = y_Pending st \<Longrightarrow> reported cx n st1 st' \<Longrightarrow> reported cx n st st'"
  by (simp add: reported_def)

lemma limit_stage_ok:
  assumes "tier_limits (y_Config st) tier = Some (rate, burst)"
  shows "stage_ok cx st (limit_stage ca cx tier st)"
proof -
  let ?one = "allow_client ca (AtIP (cx_ip cx)) rate burst st"
  let ?two = "allow_client ca (AtUser (i_UserID (cx_identity cx))) rate burst (snd ?one)"
  have k: "same_front st (snd ?one)" "same_front st (snd ?two)"
    "y_Pending (snd ?one) = y_Pending st" "y_Pending (snd ?two) = y_Pending st"
    using same_front_trans[OF allow_client_keeps(1) allow_client_keeps(1)] by (simp_all add: allow_client_keeps)
  have t: "truthful (limit_exceeded ca rate burst unwritten) 429 ''rate_limit_ip''"
    "truthful (limit_exceeded ca rate burst unwritten) 429 ''rate_limit_user''"
    by (simp_all add: truthful_def limit_exceeded_def)
  show ?thesis
    using k t fireTelemetry_ok same_front_trans[OF k(1) fireTelemetry_ok(2)] same_front_trans[OF k(2) fireTelemetry_ok(2)]
      reported_cong[OF k(3) fireTelemetry_ok(1)] reported_cong[OF k(4) fireTelemetry_ok(1)]
    by (simp add: limit_stage_def checkRateLimits_def assms stage_ok_def case_prod_unfold Let_def)
qed

lemma coraza_stage_ok: "stage_ok cx st (coraza_stage cx st)"
  by (simp add: coraza_stage_def stage_ok_learner truthful_def)

lemma stage_ok_seq:
  assumes "stage_ok cx st (None, st1)" and "stage_ok cx st1 res"
  shows "stage_ok cx st res"
  using assms same_front_trans[of st st1 "snd res"]
  by (auto simp: stage_ok_def reported_def split: option.splits prod.splits)

lemma stricter_stage_ok: "stage_ok cx st (stricter_stage ca cx st)"
proof -
  have l: "stage_ok cx st (limit_stage ca cx ''allow+stricter'' st)"
    by (rule limit_stage_ok) (simp add: tier_limits_def)
  show ?thesis
  proof (cases "limit_stage ca cx ''allow+stricter'' st")
    case (Pair a st1)
    with l stage_ok_seq[OF _ coraza_stage_ok, of cx st st1] show ?thesis
      by (cases a) (simp_all add: stricter_stage_def)
  qed
qed

lemma gate_stage_ok: "stage_ok cx st (gate_stage ca cx recommended st)"
proof -
  have "stage_ok cx st (limit_stage ca cx ''allow'' st)"
    by (rule limit_stage_ok) (simp add: tier_limits_def)
  then show ?thesis
    by (auto simp: gate_stage_def stricter_stage_ok stage_ok_learner truthful_def sent_status_def forbidden_def Let_def
        split: decision.split)
qed

lemma threshold_stage_ok: "stage_ok cx st (threshold_stage cx prob st)"
  by (simp add: threshold_stage_def coraza_stage_ok stage_ok_learner truthful_def sent_status_def)

lemma enqueue_stage_keeps:
  "same_front st (enqueue_stage ca cx recommended prob st)"
  "y_Pending (enqueue_stage ca cx recommended prob st) = y_Pending st"
  by (auto simp: enqueue_stage_def same_front_def y_Engine_def pipeline_Enqueue_def Let_def case_prod_unfold
      split: option.split)

lemma coraza_blocks_cong: "same_front st st' \<Longrightarrow> coraza_blocks st' cx = coraza_blocks st cx"
  by (cases "y_Coraza st") (simp_all add: coraza_blocks_def same_front_def)

lemma resolve_identity_keeps:
  assumes "resolve_identity sv ca r st = (identity, r', st')"
  shows "same_front st st'" "y_Pending st' = y_Pending st" "h_Body r' = h_Body r"
  using assms
  by (auto simp: resolve_identity_def same_front_def y_Engine_def Resolve_def header_Resolve_def Let_def
      case_prod_unfold split: resolver.splits)

lemma resolve_identity_line:
  assumes "resolve_identity sv ca r st = (identity, r', st')"
  shows "h_Method r' = h_Method r \<and> h_Path r' = h_Path r \<and> h_RawQuery r' = h_RawQuery r"
  using assms
  by (auto simp: resolve_identity_def Resolve_def header_Resolve_def Let_def case_prod_unfold split: resolver.splits)

lemma read_context_keeps:
  "read_context sv ca r st = (c, st1) \<Longrightarrow> same_front st st1 \<and> y_Pending st1 = y_Pending st"
  using resolve_identity_keeps
  by (auto simp: read_context_def Let_def split: option.splits prod.splits)

lemma read_context_body:
  "fst (read_context sv ca r st) = Some cx \<Longrightarrow>
     \<exists>full. h_Body r = Some full \<and> cx_body cx = take bodyLimit full \<and> cx_start cx = ca_now ca"
  using resolve_identity_keeps(3)
  by (fastforce simp: read_context_def Let_def split: option.splits prod.splits)

lemma read_context_None: "fst (read_context sv ca r st) = None \<longleftrightarrow> h_Body r = None"
  using resolve_identity_keeps(3)
  by (fastforce simp: read_context_def Let_def split: option.splits prod.splits)

lemma ask_gatekeeper_keeps:
  "ask_gatekeeper cx st = (verdict, st1) \<Longrightarrow>
     verdict = fst (Gatekeeper (y_Engine st) (cx_ip cx) (i_UserID (cx_identity cx)) (time_float (cx_start cx))) \<and>
     y_Config st1 = y_Config st \<and> y_Threshold st1 = y_Threshold st \<and> y_Coraza st1 = y_Coraza st \<and>
     y_Feed st1 = y_Feed st \<and> y_Pending st1 = y_Pending st \<and> y_Tier1 st1 = y_Tier1 st"
  by (auto simp: ask_gatekeeper_def set_engine_def Let_def case_prod_unfold)

section \<open>The handler\<close>

lemma gate_stage_pass:
  assumes "gate_stage ca cx recommended st = (None, st1)"
  shows "recommended \<noteq> Ban" "recommended \<noteq> Block" "recommended = Challenge \<Longrightarrow> cx_bypassed cx"
    "recommended = Challenge \<or> recommended = AllowStricter \<Longrightarrow> \<not> coraza_blocks st cx"
proof -
  show "recommended \<noteq> Ban" "recommended \<noteq> Block" "recommended = Challenge \<Longrightarrow> cx_bypassed cx"
    using assms by (auto simp: gate_stage_def Let_def split: if_splits)
  assume "recommended = Challenge \<or> recommended = AllowStricter"
  then have s: "stricter_stage ca cx st = (None, st1)"
    using assms by (auto simp: gate_stage_def Let_def split: if_splits)
  then obtain st2 where l: "limit_stage ca cx ''allow+stricter'' st = (None, st2)" "coraza_stage cx st2 = (None, st1)"
    by (auto simp: stricter_stage_def split: prod.splits option.splits)
  have "stage_ok cx st (limit_stage ca cx ''allow+stricter'' st)"
    by (rule limit_stage_ok) (simp add: tier_limits_def)
  with l have "same_front st st2" by (simp add: stage_ok_def)
  with l(2) show "\<not> coraza_blocks st cx" by (auto simp: coraza_stage_def coraza_blocks_cong split: if_splits)
qed

lemma threshold_stage_pass:
  assumes "threshold_stage cx prob st = (None, st1)"
  shows "prob < y_Threshold st"
    "fmul (y_Threshold st) (fsub 1 (d_StricterMargin (y_Config st))) \<le> prob \<Longrightarrow> \<not> coraza_blocks st cx"
  using assms by (auto simp: threshold_stage_def coraza_stage_def split: if_splits)

text \<open>What lets a request through to the backend.\<close>

definition let_through :: "surroundings \<Rightarrow> req_context \<Rightarrow> decision \<Rightarrow> real \<Rightarrow> proxy \<Rightarrow> bool" where
  "let_through sv cx recommended prob st \<longleftrightarrow>
     recommended \<notin> {Ban, Block} \<and> (recommended = Challenge \<longrightarrow> cx_bypassed cx) \<and>
     classify sv cx = Some prob \<and> prob < y_Threshold st \<and>
     (recommended \<in> {Challenge, AllowStricter} \<or>
      fmul (y_Threshold st) (fsub 1 (d_StricterMargin (y_Config st))) \<le> prob \<longrightarrow> \<not> coraza_blocks st cx)"

lemma serve_checked_cases:
  assumes "serve_checked sv ca cx verdict st = (Some oc, st')"
  obtains (stopped) w status decision prob st2
    where "oc = \<lparr> oc_response = w, oc_forwarded = None \<rparr>" "reported cx status st st2" "same_front st st2"
      "truthful w status decision" "st' = writeLog (log_entry cx verdict prob None status decision) st2"
  | (aborted) prob st2 status
    where "let_through sv cx (v_Recommended verdict) prob st" "same_front st st2" "y_Pending st2 = y_Pending st"
      "sv_backend sv (ReverseProxy (outgoing ca cx)) = CutOff status"
      "oc = \<lparr> oc_response = unwritten\<lparr>rs_Status := Some status, rs_Body := Aborted\<rparr>,
              oc_forwarded = Some (ReverseProxy (outgoing ca cx)) \<rparr>" "st' = st2"
  | (through) prob st2 status len
    where "let_through sv cx (v_Recommended verdict) prob st" "same_front st st2" "reported cx status st st2"
      "sv_backend sv (ReverseProxy (outgoing ca cx)) = Copied status len"
      "oc = \<lparr> oc_response = unwritten\<lparr>rs_Status := Some status, rs_Body := FromBackend\<rparr>,
              oc_forwarded = Some (ReverseProxy (outgoing ca cx)) \<rparr>"
      "st' = writeLog (log_entry cx verdict prob (Some (ca_requestID ca)) status ''allow'') st2"
proof -
  obtain a st1 where g: "gate_stage ca cx (v_Recommended verdict) st = (a, st1)" by fastforce
  note gok = gate_stage_ok[of cx st ca "v_Recommended verdict", unfolded g stage_ok_def, simplified]
  show thesis
  proof (cases a)
    case (Some x)
    obtain w status decision where "x = (w, status, decision)" by (cases x) auto
    with Some g gok assms show thesis by (intro stopped) (auto simp: serve_checked_def Let_def)
  next
    case None
    with g assms obtain prob where p: "classify sv cx = Some prob"
      by (auto simp: serve_checked_def Let_def split: option.splits)
    let ?st2 = "enqueue_stage ca cx (v_Recommended verdict) prob st1"
    have k: "same_front st ?st2" "y_Pending ?st2 = y_Pending st"
      using None gok same_front_trans enqueue_stage_keeps by auto
    obtain b st3 where t: "threshold_stage cx prob ?st2 = (b, st3)" by fastforce
    note tok = threshold_stage_ok[of cx ?st2 prob, unfolded t stage_ok_def, simplified]
    have f: "same_front st st3" using tok k(1) same_front_trans by blast
    show thesis
    proof (cases b)
      case (Some x)
      obtain w status decision where x: "x = (w, status, decision)" by (cases x) auto
      show thesis
        by (rule stopped[of w status st3 decision prob])
          (use Some x None g p t assms tok f reported_cong[OF k(2)] in \<open>auto simp: serve_checked_def Let_def\<close>)
    next
      case n: None
      have l: "let_through sv cx (v_Recommended verdict) prob st"
        using gate_stage_pass[OF g[unfolded None]] threshold_stage_pass[OF t[unfolded n]] p k(1) coraza_blocks_cong[OF k(1)]
        by (auto simp: let_through_def same_front_def)
      show thesis
      proof (cases "sv_backend sv (ReverseProxy (outgoing ca cx))")
        case b: (CutOff status)
        have "y_Pending st3 = y_Pending st" using n tok k by simp
        from aborted[OF l f this b] show thesis
          using None n g p t b assms by (auto simp: serve_checked_def Let_def)
      next
        case b: (Copied status len)
        let ?st4 = "fireAsyncLearner cx status len (cx_bypassed cx) st3"
        have r: "reported cx status st ?st4" "same_front st ?st4"
          using n tok k f
          by (auto simp: fireAsyncLearner_def spawn_def reported_def same_front_def y_Engine_def buildRawEvent_def)
        from through[OF l r(2,1) b] show thesis
          using None n g p t b assms by (auto simp: serve_checked_def Let_def)
      qed
    qed
  qed
qed

lemma ServeHTTP_cases:
  assumes "ServeHTTP sv ca r st = (Some oc, st')" and "h_Path r \<noteq> ''/challenge-solve''" and "h_Body r \<noteq> None"
  obtains cx st1 verdict
    where "fst (read_context sv ca r st) = Some cx" "serve_checked sv ca cx verdict st1 = (Some oc, st')"
      "verdict = fst (Gatekeeper (y_Engine st) (cx_ip cx) (i_UserID (cx_identity cx)) (time_float (ca_now ca)))"
      "y_Config st1 = y_Config st" "y_Threshold st1 = y_Threshold st" "y_Coraza st1 = y_Coraza st"
      "y_Feed st1 = y_Feed st" "y_Pending st1 = y_Pending st"
proof -
  from assms(3) obtain cx st0 where c: "read_context sv ca r st = (Some cx, st0)"
    using read_context_None[of sv ca r st] by (cases "read_context sv ca r st") auto
  then have t: "cx_start cx = ca_now ca" using read_context_body[of sv ca r st cx] by auto
  obtain verdict st1 where a: "ask_gatekeeper cx st0 = (verdict, st1)" by fastforce
  show thesis
    using that[of cx verdict st1] assms(1,2) c a t read_context_keeps[OF c] ask_gatekeeper_keeps[OF a]
    by (simp add: ServeHTTP_def same_front_def)
qed

lemma let_through_cong:
  assumes "y_Config st1 = y_Config st" "y_Threshold st1 = y_Threshold st" "y_Coraza st1 = y_Coraza st"
  shows "let_through sv cx d prob st1 = let_through sv cx d prob st"
proof -
  have "coraza_blocks st1 cx = coraza_blocks st cx"
    using assms by (cases "y_Coraza st") (simp_all add: coraza_blocks_def)
  with assms show ?thesis by (simp add: let_through_def)
qed

lemma forwarded_reads:
  assumes "ServeHTTP sv ca r st = (Some oc, st')" and "oc_forwarded oc \<noteq> None"
  shows "h_Path r \<noteq> ''/challenge-solve''" "h_Body r \<noteq> None"
proof -
  show p: "h_Path r \<noteq> ''/challenge-solve''"
    using assms by (auto simp: ServeHTTP_def Let_def case_prod_unfold)
  have "read_context sv ca r st \<noteq> (None, st1)" for st1
    using assms p by (auto simp: ServeHTTP_def)
  then show "h_Body r \<noteq> None"
    using read_context_None[of sv ca r st] by (metis prod.collapse)
qed

lemma forwarded_let_through:
  assumes "ServeHTTP sv ca r st = (Some oc, st')" and "oc_forwarded oc = Some out"
  shows "\<exists>cx prob. fst (read_context sv ca r st) = Some cx \<and> out = ReverseProxy (outgoing ca cx) \<and>
    let_through sv cx (v_Recommended (fst (Gatekeeper (y_Engine st) (cx_ip cx) (i_UserID (cx_identity cx))
      (time_float (ca_now ca))))) prob st"
proof -
  have "oc_forwarded oc \<noteq> None" using assms(2) by simp
  from ServeHTTP_cases[OF assms(1) forwarded_reads[OF assms(1) this]] obtain cx st1 verdict where
    c: "fst (read_context sv ca r st) = Some cx" "serve_checked sv ca cx verdict st1 = (Some oc, st')"
      "verdict = fst (Gatekeeper (y_Engine st) (cx_ip cx) (i_UserID (cx_identity cx)) (time_float (ca_now ca)))"
      "y_Config st1 = y_Config st" "y_Threshold st1 = y_Threshold st" "y_Coraza st1 = y_Coraza st"
    by blast
  from c(2) show ?thesis
  proof (cases rule: serve_checked_cases)
    case stopped
    then show ?thesis using assms(2) by simp
  next
    case (aborted prob st2 status)
    then show ?thesis using assms(2) c let_through_cong[OF c(4-6)] by auto
  next
    case (through prob st2 status len)
    then show ?thesis using assms(2) c let_through_cong[OF c(4-6)] by auto
  qed
qed

text \<open>C2: Nothing reaches the backend unless every stage let it through: a forwarded request was not
  recommended for a ban or a block, had a valid clearance cookie if a challenge was recommended,
  got a probability below the threshold from the classifier, and was not rejected by the rule
  engine if a challenge or the stricter tier was recommended or the probability was close to the
  threshold.\<close>

theorem forwarded_only_if_let_through:
  assumes "ServeHTTP sv ca r st = (Some oc, st')" and "oc_forwarded oc = Some out"
  shows "\<exists>cx prob. fst (read_context sv ca r st) = Some cx \<and> out = ReverseProxy (outgoing ca cx) \<and>
    let_through sv cx (v_Recommended (fst (Gatekeeper (y_Engine st) (cx_ip cx) (i_UserID (cx_identity cx))
      (time_float (ca_now ca))))) prob st"
  by (rule forwarded_let_through[OF assms])

section \<open>A small deployment\<close>

definition demo_surroundings :: surroundings where
  "demo_surroundings = \<lparr> sv_db = \<lparr> n_Proxy = None, n_Geo = None, n_Asn = None \<rparr>, sv_auth = demo_libs,
     sv_ml = demo_ml, sv_vectorizer = LoadTfidf Map.empty [] 1 0, sv_margin = \<lambda>_. 0, sv_exp = \<lambda>_. 1,
     sv_backend = \<lambda>_. Copied 200 5, sv_decodeNonce = Some \<rparr>"

definition demo_call :: call where
  "demo_call = \<lparr> ca_now = noon 20000, ca_jobID = ''job'', ca_requestID = ''req'', ca_limiterUp = True,
     ca_queueIO = Fine \<rparr>"

definition demo_config :: waf_config where
  "demo_config = defaultConfig (fl 0.9) ''key'' DefaultConfig"

definition demo_proxy :: "engine \<Rightarrow> coraza option \<Rightarrow> proxy" where
  "demo_proxy g waf = \<lparr> y_Config = demo_config, y_Threshold = fl 0.9,
     y_Resolver = JWT (NewJWTResolver ''key''), y_Coraza = waf, y_RateLimiter = NewRateLimiter,
     y_ChallengeLimiter = NewRateLimiter, y_ActiveLimiter = ActiveMemory, y_Tier1 = None,
     y_Pipeline = \<lparr> pl_queue = NewRedisQueue, pl_audit = Map.empty, pl_engine = g \<rparr>, y_Pending = [],
     y_Feed = Some [] \<rparr>"

definition plain_request :: http_request where
  "plain_request = \<lparr> h_Method = ''GET'', h_Path = ''/'', h_RawQuery = [], h_Header = Map.empty,
     h_Body = Some [], h_RemoteAddr = ''10.0.0.1:5000'', h_Host = ''example.org'' \<rparr>"

definition plain_context :: req_context where
  "plain_context = \<lparr> cx_r = plain_request, cx_ip = ''10.0.0.1'', cx_identity = anonymous,
     cx_session = extractSessionID plain_request ''10.0.0.1'', cx_start = noon 20000, cx_body = [],
     cx_bypassed = False \<rparr>"

lemma plain_read: "read_context demo_surroundings demo_call plain_request (demo_proxy g waf) =
    (Some plain_context, demo_proxy g waf)"
proof -
  have ip: "getClientIP demo_config plain_request = ''10.0.0.1''"
    by (simp add: getClientIP_def demo_config_def defaultConfig_def plain_request_def split_last_def)
  have ck: "\<not> verifyChallengeCookie demo_config plain_request ''10.0.0.1'' (noon 20000)"
    by (simp add: verifyChallengeCookie_def request_Cookie_def cookies_def plain_request_def List.map_filter_def)
  have "Resolve demo_libs now (JWT (NewJWTResolver ''key'')) plain_request =
      (Inr anonymous, plain_request, JWT (NewJWTResolver ''key''))" for now
    by (simp add: Resolve_def jwt_Resolve_def NewJWTResolver_def plain_request_def header_Get_def)
  moreover have b: "plain_request\<lparr>h_Body := Some []\<rparr> = plain_request" "h_Body plain_request = Some []"
    by (simp_all add: plain_request_def)
  ultimately show ?thesis
    using ip ck b(2)
    by (simp add: b(1) read_context_def resolve_identity_def demo_surroundings_def demo_call_def demo_proxy_def
        plain_context_def Let_def)
qed

lemma plain_classified: "classify demo_surroundings plain_context = Some (1 / 2)"
proof -
  have "fadd 1 1 = 2" by (simp add: fadd_def)
  moreover have "fdiv 1 2 = 1 / 2" unfolding fdiv_def by (rule fl_repr) (simp add: repr_half)
  ultimately show ?thesis
    by (simp add: classify_def demo_surroundings_def Transform_def LoadTfidf_def PredictSingle_def Let_def)
qed

lemma new_gatekeeper:
  "fst (Gatekeeper init_engine ip [] now) =
     \<lparr> v_IPScore = 15 / 2, v_UserScore = - 1, v_EverBlocked = False, v_Recommended = AllowStricter \<rparr>"
  by (simp add: Gatekeeper_verdict verdict_of_def ip_view_def LoadIP_def init_engine_def NewIPProfile_def
      makeDecision_def Let_def)

lemma fresh_limiter_allows:
  assumes "y_ActiveLimiter st = ActiveMemory" "y_RateLimiter st = NewRateLimiter" "1 \<le> burst" "repr burst"
  shows "fst (allow_client ca (AtIP ip) rate burst st)"
  using assms
  by (simp add: allow_client_def memory_allow_def Let_def case_prod_unfold AllowIP_def bucket_of_def NewRateLimiter_def
      NewTokenBucket_def bucket_Allow_def)

definition new_verdict :: gatekeeper_verdict where
  "new_verdict = \<lparr> v_IPScore = 15 / 2, v_UserScore = - 1, v_EverBlocked = False, v_Recommended = AllowStricter \<rparr>"

text \<open>A first request passes the gatekeeper and the limits of the stricter tier.\<close>

lemma plain_served:
  obtains st1 st2 where
    "ServeHTTP demo_surroundings demo_call plain_request (demo_proxy init_engine waf) =
       serve_checked demo_surroundings demo_call plain_context new_verdict st1"
    "limit_stage demo_call plain_context ''allow+stricter'' st1 = (None, st2)"
    "y_Coraza st2 = waf" "y_Config st2 = demo_config" "y_Tier1 st2 = None" "y_Threshold st2 = fl 0.9"
    "y_Feed st2 = Some []"
proof -
  let ?st = "demo_proxy init_engine waf"
  obtain g where g: "ask_gatekeeper plain_context ?st = (new_verdict, set_engine g ?st)"
    using new_gatekeeper
    by (auto simp: ask_gatekeeper_def Let_def case_prod_unfold plain_context_def demo_proxy_def y_Engine_def new_verdict_def)
  have "fst (allow_client demo_call (AtIP (cx_ip plain_context)) 30 50 (set_engine g ?st))"
    by (rule fresh_limiter_allows) (simp_all add: set_engine_def demo_proxy_def repr_numeral)
  then obtain st2 where a: "allow_client demo_call (AtIP (cx_ip plain_context)) 30 50 (set_engine g ?st) = (True, st2)"
    by (cases "allow_client demo_call (AtIP (cx_ip plain_context)) 30 50 (set_engine g ?st)") auto
  have "same_front (set_engine g ?st) st2"
    using allow_client_keeps(1)[of "set_engine g ?st" demo_call "AtIP (cx_ip plain_context)" 30 50]
    by (simp only: a snd_conv)
  moreover have "i_UserID (cx_identity plain_context) = []" by (simp add: plain_context_def)
  then have "limit_stage demo_call plain_context ''allow+stricter'' (set_engine g ?st) = (None, st2)"
    using a
    by (simp add: limit_stage_def checkRateLimits_def tier_limits_def set_engine_def demo_proxy_def
        demo_config_def defaultConfig_def)
  moreover have "h_Path plain_request \<noteq> ''/challenge-solve''" by (simp add: plain_request_def)
  then have "ServeHTTP demo_surroundings demo_call plain_request ?st =
      serve_checked demo_surroundings demo_call plain_context new_verdict (set_engine g ?st)"
    by (simp add: ServeHTTP_def plain_read g)
  ultimately show thesis
    by (intro that[of "set_engine g ?st" st2]) (simp_all add: same_front_def set_engine_def demo_proxy_def)
qed

lemma plain_forwarded:
  obtains oc st' where "ServeHTTP demo_surroundings demo_call plain_request (demo_proxy init_engine None) = (Some oc, st')"
    "oc_forwarded oc = Some (ReverseProxy (outgoing demo_call plain_context))" "rs_Body (oc_response oc) = FromBackend"
proof -
  obtain st1 st2 where s: "ServeHTTP demo_surroundings demo_call plain_request (demo_proxy init_engine None) =
       serve_checked demo_surroundings demo_call plain_context new_verdict st1"
    "limit_stage demo_call plain_context ''allow+stricter'' st1 = (None, st2)"
    "y_Coraza st2 = None" "y_Tier1 st2 = None" "y_Threshold st2 = fl 0.9"
    by (rule plain_served)
  have "(3 / 4 :: real) \<le> fl 0.9" by (rule fl_ge) (auto intro: repr_dyadic[of 3 2, simplified])
  then have thr: "(1 / 2 :: real) < fl 0.9" by simp
  have c: "coraza_stage plain_context st2 = (None, st2)" using s(3) by (simp add: coraza_stage_def coraza_blocks_def)
  have "gate_stage demo_call plain_context AllowStricter st1 = (None, st2)"
    using s(2) c by (simp add: gate_stage_def stricter_stage_def)
  moreover have "threshold_stage plain_context (1 / 2) st2 = (None, st2)"
    using thr s(5) c by (simp add: threshold_stage_def)
  moreover have "enqueue_stage demo_call plain_context AllowStricter (1 / 2) st2 = st2"
    using s(4) by (simp add: enqueue_stage_def)
  moreover have "sv_backend demo_surroundings r = Copied 200 5" for r by (simp add: demo_surroundings_def)
  ultimately obtain oc st' where "serve_checked demo_surroundings demo_call plain_context new_verdict st1 = (Some oc, st')"
    "oc_forwarded oc = Some (ReverseProxy (outgoing demo_call plain_context))" "rs_Body (oc_response oc) = FromBackend"
    using plain_classified by (simp add: serve_checked_def Let_def new_verdict_def)
  with s(1) show thesis by (intro that) simp_all
qed

lemma forwarded_only_if_let_through_witness:
  "\<exists>cx prob. fst (read_context demo_surroundings demo_call plain_request (demo_proxy init_engine None)) = Some cx \<and>
    ReverseProxy (outgoing demo_call plain_context) = ReverseProxy (outgoing demo_call cx) \<and>
    let_through demo_surroundings cx (v_Recommended (fst (Gatekeeper init_engine (cx_ip cx)
      (i_UserID (cx_identity cx)) (time_float (ca_now demo_call))))) prob (demo_proxy init_engine None)"
proof -
  obtain oc st' where "ServeHTTP demo_surroundings demo_call plain_request (demo_proxy init_engine None) = (Some oc, st')"
    "oc_forwarded oc = Some (ReverseProxy (outgoing demo_call plain_context))"
    using plain_forwarded by metis
  from forwarded_only_if_let_through[OF this] show ?thesis
    by (simp add: y_Engine_def demo_proxy_def)
qed

section \<open>What the backend sees\<close>

lemma fold_Del: "fold header_Del ns h k = (if \<exists>n\<in>set ns. CanonicalHeaderKey n = k then None else h k)"
  by (induction ns arbitrary: h) (auto simp: header_Del_def)

lemma token_chars [simplified]: "list_all is_token_char ''ABCDEFGHIJKLMNOPQRSTUVWXYZabcdefghijklmnopqrstuvwxyz-''"
  by (simp add: is_token_char_def is_letter_def upper_char_def is_digit_def)

lemmas canonical_eval = CanonicalHeaderKey_def token_chars upper_char_def lower_char_def is_digit_def char_of_def bit_0

lemma canonical_names [simp]:
  "CanonicalHeaderKey ''X-WAF-IP'' = ''X-Waf-Ip''" "CanonicalHeaderKey ''X-WAF-User'' = ''X-Waf-User''"
  "CanonicalHeaderKey ''X-WAF-Request-ID'' = ''X-Waf-Request-Id''"
  "CanonicalHeaderKey ''X-WAF-Score'' = ''X-Waf-Score''"
  by (simp_all add: canonical_eval)

lemma hop_canonical: "map CanonicalHeaderKey hopHeaders = hopHeaders"
  by (simp add: hopHeaders_def canonical_eval)

lemma outgoing_header:
  "h_Header (outgoing ca cx) =
     (let h = (h_Header (cx_r cx))(''X-Waf-Score'' := None, ''X-Waf-Request-Id'' \<mapsto> [ca_requestID ca],
                ''X-Waf-Ip'' \<mapsto> [cx_ip cx], ''X-Waf-User'' := None)
      in if i_UserID (cx_identity cx) = [] then h else h(''X-Waf-User'' \<mapsto> [i_UserID (cx_identity cx)]))"
  by (auto simp: outgoing_def Let_def header_Set_def header_Del_def)

text \<open>Is a field named by the field \<open>Connection\<close> of the request?\<close>

definition hidden_by :: "http_request \<Rightarrow> string \<Rightarrow> bool" where
  "hidden_by r k \<longleftrightarrow> k \<in> CanonicalHeaderKey ` set (connection_names (h_Header r))"

lemma ReverseProxy_header:
  assumes "k \<notin> set hopHeaders" and "k \<noteq> ''X-Forwarded-For''" and "k \<noteq> ''User-Agent''"
  shows "h_Header (ReverseProxy r) k = (if hidden_by r k then None else h_Header r k)"
proof -
  have "h_Header (ReverseProxy r) k = removeHopByHop (h_Header r) k"
    using assms by (auto simp: ReverseProxy_def Let_def split: option.split)
  moreover have "(\<exists>n\<in>set hopHeaders. CanonicalHeaderKey n = k) \<longleftrightarrow> k \<in> set hopHeaders"
    by (metis hop_canonical image_iff list.set_map)
  ultimately show ?thesis
    using assms(1) by (auto simp: removeHopByHop_def fold_Del hidden_by_def)
qed

lemma connection_outgoing: "hidden_by (outgoing ca cx) k = hidden_by (cx_r cx) k"
  by (simp add: hidden_by_def connection_names_def outgoing_header Let_def)

text \<open>C21: A client cannot forge who it is to the backend, but it can hide it: of the four fields that
  attribute a request, the backend gets the proxy's own values, never the client's, and never a
  score; yet each of them is dropped on the way when the client names it in its field Connection,
  so the runtime agent then attributes what the request does to nobody.\<close>

theorem attribution_is_hidden_not_forged:
  "let h = h_Header (ReverseProxy (outgoing ca cx)); hidden = hidden_by (cx_r cx)
   in h ''X-Waf-Ip'' = (if hidden ''X-Waf-Ip'' then None else Some [cx_ip cx]) \<and>
      h ''X-Waf-Request-Id'' = (if hidden ''X-Waf-Request-Id'' then None else Some [ca_requestID ca]) \<and>
      h ''X-Waf-User'' = (if hidden ''X-Waf-User'' \<or> i_UserID (cx_identity cx) = [] then None
                          else Some [i_UserID (cx_identity cx)]) \<and>
      h ''X-Waf-Score'' = None"
proof -
  have "''X-Waf-Ip'' \<notin> set hopHeaders" "''X-Waf-Request-Id'' \<notin> set hopHeaders"
    "''X-Waf-User'' \<notin> set hopHeaders" "''X-Waf-Score'' \<notin> set hopHeaders"
    by (simp_all add: hopHeaders_def)
  then show ?thesis
    by (simp add: ReverseProxy_header connection_outgoing outgoing_header Let_def)
qed

lemma ReverseProxy_body: "h_Body (ReverseProxy r) = h_Body r"
  by (simp add: ReverseProxy_def Let_def)

text \<open>The proxy cuts what it forwards: the backend gets the first mebibyte of the body, without
  any sign that the rest is missing, and every other field of the request line as it was.\<close>

theorem forwarded_body_is_cut:
  assumes "ServeHTTP sv ca r st = (Some oc, st')" and "oc_forwarded oc = Some out"
  shows "\<exists>full. h_Body r = Some full \<and> h_Body out = Some (take bodyLimit full) \<and>
    h_Method out = h_Method r \<and> h_Path out = h_Path r \<and> h_RawQuery out = h_RawQuery r"
proof -
  obtain cx prob where c: "fst (read_context sv ca r st) = Some cx" "out = ReverseProxy (outgoing ca cx)"
    using forwarded_let_through[OF assms] by blast
  have "h_Method (cx_r cx) = h_Method r \<and> h_Path (cx_r cx) = h_Path r \<and> h_RawQuery (cx_r cx) = h_RawQuery r"
    using c(1) resolve_identity_line
    by (fastforce simp: read_context_def Let_def split: option.splits prod.splits)
  then show ?thesis
    using c read_context_body[OF c(1)] by (auto simp: ReverseProxy_def outgoing_def Let_def)
qed

lemma forwarded_body_is_cut_witness:
  "\<exists>full. h_Body plain_request = Some full \<and>
     h_Body (ReverseProxy (outgoing demo_call plain_context)) = Some (take bodyLimit full)"
proof -
  obtain oc st' where "ServeHTTP demo_surroundings demo_call plain_request (demo_proxy init_engine None) = (Some oc, st')"
    "oc_forwarded oc = Some (ReverseProxy (outgoing demo_call plain_context))"
    using plain_forwarded by metis
  from forwarded_body_is_cut[OF this] show ?thesis by blast
qed

section \<open>What is logged and learned\<close>

lemma served_log:
  assumes "ServeHTTP sv ca r st = (Some oc, st')" and "h_Path r \<noteq> ''/challenge-solve''" and "h_Body r \<noteq> None"
  obtains (logged) cx entry where "fst (read_context sv ca r st) = Some cx"
    "reported cx (ac_Status entry) st st'" "truthful (oc_response oc) (ac_Status entry) (ac_Decision entry)"
    "y_Feed st' = map_option (\<lambda>feed. take 200 (entry # feed)) (y_Feed st)" "ac_IP entry = cx_ip cx"
    "ac_Decision entry = ''block_coraza'' \<longrightarrow> oc_forwarded oc = None"
  | (silent) "rs_Body (oc_response oc) = Aborted" "y_Pending st' = y_Pending st" "y_Feed st' = y_Feed st"
proof -
  obtain cx st1 verdict where c: "fst (read_context sv ca r st) = Some cx"
      "serve_checked sv ca cx verdict st1 = (Some oc, st')" "y_Feed st1 = y_Feed st" "y_Pending st1 = y_Pending st"
    using ServeHTTP_cases[OF assms] by metis
  from c(2) show thesis
  proof (cases rule: serve_checked_cases)
    case (stopped w status decision prob st2)
    then show thesis
      using c by (intro logged[of cx "log_entry cx verdict prob None status decision"])
        (auto simp: writeLog_def reported_def same_front_def log_entry_def)
  next
    case (aborted prob st2 status)
    then show thesis using c by (intro silent) (auto simp: same_front_def)
  next
    case (through prob st2 status len)
    then show thesis
      using c by (intro logged[of cx "log_entry cx verdict prob (Some (ca_requestID ca)) status ''allow''"])
        (auto simp: writeLog_def reported_def same_front_def log_entry_def truthful_def sent_status_def)
  qed
qed

text \<open>What the solver's endpoint and an unreadable body leave alone.\<close>

lemma unlogged:
  assumes "ServeHTTP sv ca r st = (Some oc, st')" and "h_Path r = ''/challenge-solve'' \<or> h_Body r = None"
  shows "y_Pending st' = y_Pending st \<and> y_Feed st' = y_Feed st"
proof (cases "h_Path r = ''/challenge-solve''")
  case True
  have "y_Pending (snd (handleChallengeSolve sv ca r st)) = y_Pending st \<and>
      y_Feed (snd (handleChallengeSolve sv ca r st)) = y_Feed st"
  proof -
    obtain identity r' st1 where res: "resolve_identity sv ca r st = (identity, r', st1)" by (rule prod_cases3)
    have k: "y_Pending st1 = y_Pending st" "y_Feed st1 = y_Feed st"
      using resolve_identity_keeps[OF res] by (simp_all add: same_front_def)
    show ?thesis
      by (simp add: handleChallengeSolve_def res k set_engine_def Let_def case_prod_unfold split: option.split)
  qed
  then show ?thesis using True assms(1) by (simp add: ServeHTTP_def case_prod_unfold Let_def)
next
  case False
  then obtain st1 where c: "read_context sv ca r st = (None, st1)"
    using assms(2) read_context_None[of sv ca r st] by (cases "read_context sv ca r st") auto
  then show ?thesis using False assms(1) read_context_keeps[OF c] by (simp add: ServeHTTP_def same_front_def)
qed

text \<open>C15: What is logged and what is learned: an attempt at /challenge-solve, a request whose body
  cannot be read and a request whose response from the backend is cut off leave no trace in the
  feed and start no task for the learner. Every other answered request is logged once and learned
  from once: exactly one task is started for the learner and one entry put in front of the feed,
  about the same client and with the same status, and unless the entry names the rule engine that
  is the status that the client got.\<close>

theorem logged_and_learned_once:
  assumes "ServeHTTP sv ca r st = (Some oc, st')"
  shows "if h_Path r = ''/challenge-solve'' \<or> h_Body r = None \<or> rs_Body (oc_response oc) = Aborted
    then y_Pending st' = y_Pending st \<and> y_Feed st' = y_Feed st
    else \<exists>cx entry. fst (read_context sv ca r st) = Some cx \<and> reported cx (ac_Status entry) st st' \<and>
      y_Feed st' = map_option (\<lambda>feed. take 200 (entry # feed)) (y_Feed st) \<and> ac_IP entry = cx_ip cx \<and>
      (ac_Decision entry \<noteq> ''block_coraza'' \<longrightarrow> sent_status (oc_response oc) = ac_Status entry)"
proof (cases "h_Path r = ''/challenge-solve'' \<or> h_Body r = None")
  case True
  then show ?thesis using unlogged[OF assms] by auto
next
  case False
  then have r: "h_Path r \<noteq> ''/challenge-solve''" "h_Body r \<noteq> None" by simp_all
  from assms r show ?thesis
  proof (cases rule: served_log)
    case (logged cx entry)
    then have "rs_Body (oc_response oc) \<noteq> Aborted" by (simp add: truthful_def)
    moreover have "\<exists>cx entry. fst (read_context sv ca r st) = Some cx \<and> reported cx (ac_Status entry) st st' \<and>
        y_Feed st' = map_option (\<lambda>feed. take 200 (entry # feed)) (y_Feed st) \<and> ac_IP entry = cx_ip cx \<and>
        (ac_Decision entry \<noteq> ''block_coraza'' \<longrightarrow> sent_status (oc_response oc) = ac_Status entry)"
      using logged by (intro exI[of _ cx] exI[of _ entry]) (simp add: truthful_def)
    ultimately show ?thesis using r by auto
  qed (use r in simp)
qed

lemma logged_and_learned_once_witness:
  "\<exists>st'. length (y_Pending st') = 1 \<and>
     (\<exists>oc. ServeHTTP demo_surroundings demo_call plain_request (demo_proxy init_engine None) = (Some oc, st'))"
proof -
  obtain oc st' where s: "ServeHTTP demo_surroundings demo_call plain_request (demo_proxy init_engine None) = (Some oc, st')"
    "oc_forwarded oc = Some (ReverseProxy (outgoing demo_call plain_context))" "rs_Body (oc_response oc) = FromBackend"
    using plain_forwarded .
  have "h_Path plain_request \<noteq> ''/challenge-solve''" "h_Body plain_request \<noteq> None" by (simp_all add: plain_request_def)
  then have "length (y_Pending st') = 1"
    using logged_and_learned_once[OF s(1)] s(3) by (auto simp: reported_def demo_proxy_def)
  with s show ?thesis by blast
qed

text \<open>C40: A request that the rule engine blocks is answered as a success: the log is told 403, and so
  is the learner in the one task that is started, but nothing was written to the client, which
  gets the status 200 with no body. (A response that was cut off is not logged, so the newest
  entry of the feed is then an older one.)\<close>

theorem rule_engine_block_is_sent_as_200:
  assumes "ServeHTTP sv ca r st = (Some oc, st')" and "h_Path r \<noteq> ''/challenge-solve''" and "h_Body r \<noteq> None"
    and "rs_Body (oc_response oc) \<noteq> Aborted"
    and "y_Feed st' = Some (entry # feed)" and "ac_Decision entry = ''block_coraza''"
  shows "ac_Status entry = 403 \<and> (\<exists>cx. fst (read_context sv ca r st) = Some cx \<and> reported cx 403 st st') \<and>
    sent_status (oc_response oc) = 200 \<and> rs_Body (oc_response oc) = NoBody \<and> oc_forwarded oc = None"
  using assms(1-3)
proof (cases rule: served_log)
  case (logged cx entry')
  from logged(4) assms(5) have e: "entry' = entry" by (cases "y_Feed st") auto
  have "ac_Status entry = 403" "oc_response oc = unwritten" using logged(3) assms(6) by (simp_all add: e truthful_def)
  with logged(1,2,6) assms(6) show ?thesis by (auto simp: e sent_status_def unwritten_def)
qed (use assms(4) in simp)

definition deny_all :: coraza where
  "deny_all = (\<lambda>_. \<lparr> tx_headers = Some \<lparr> it_Action = ''deny'', it_Status = 403 \<rparr>, tx_bodyAccessible = True,
     tx_readBody = Inr None, tx_bodyReader = None, tx_processBody = (None, None) \<rparr>)"

lemma rule_engine_block_is_sent_as_200_witness:
  "\<exists>oc st' entry feed. ServeHTTP demo_surroundings demo_call plain_request (demo_proxy init_engine (Some deny_all)) =
       (Some oc, st') \<and> y_Feed st' = Some (entry # feed) \<and> ac_Status entry = 403 \<and> sent_status (oc_response oc) = 200"
proof -
  obtain st1 st2 where s: "ServeHTTP demo_surroundings demo_call plain_request (demo_proxy init_engine (Some deny_all)) =
       serve_checked demo_surroundings demo_call plain_context new_verdict st1"
    "limit_stage demo_call plain_context ''allow+stricter'' st1 = (None, st2)"
    "y_Coraza st2 = Some deny_all" "y_Config st2 = demo_config" "y_Feed st2 = Some []"
    by (rule plain_served)
  have "coraza_blocks st2 plain_context"
    using s(3,4) by (simp add: coraza_blocks_def demo_config_def defaultConfig_def ProcessRequest_def deny_all_def
        statusCodeFromInterruption_def Let_def)
  then obtain oc st' entry where w: "serve_checked demo_surroundings demo_call plain_context new_verdict st1 = (Some oc, st')"
      "y_Feed st' = Some [entry]" "ac_Decision entry = ''block_coraza''" "rs_Body (oc_response oc) \<noteq> Aborted"
    using s(2,5)
    by (simp add: serve_checked_def Let_def new_verdict_def gate_stage_def stricter_stage_def coraza_stage_def
        writeLog_def log_entry_def fireAsyncLearner_def spawn_def)
  have "h_Path plain_request \<noteq> ''/challenge-solve''" "h_Body plain_request \<noteq> None" by (simp_all add: plain_request_def)
  from rule_engine_block_is_sent_as_200[OF _ this w(4,2,3)] w s(1) show ?thesis by simp
qed

end
