(* ===== verification/Proxy_Edges.thy ===== *)
theory Proxy_Edges
  imports Proxy_Safety
begin

text \<open>
  The edges of the proxy (\<open>tier-0/proxy.go\<close>): what a clearance costs, what the setting for a
  failing authentication service changes, what \<open>Retry-After\<close> promises, and when an answer is cut off.
\<close>

section \<open>The resolver and the rest of the handler\<close>

text \<open>Nothing after the resolver depends on it.\<close>

abbreviation with_resolver :: "resolver \<Rightarrow> proxy \<Rightarrow> proxy" where
  "with_resolver x st \<equiv> st\<lparr>y_Resolver := x\<rparr>"

lemma allow_client_res [simp]:
  "allow_client ca k rate burst (with_resolver x st) = apsnd (with_resolver x) (allow_client ca k rate burst st)"
  by (auto simp: allow_client_def Let_def case_prod_unfold split: active_limiter.split)

lemma spawned_res [simp]:
  "fireTelemetry cx tier limitType (with_resolver x st) = with_resolver x (fireTelemetry cx tier limitType st)"
  "fireAsyncLearner cx status n passed (with_resolver x st) = with_resolver x (fireAsyncLearner cx status n passed st)"
  "writeLog entry (with_resolver x st) = with_resolver x (writeLog entry st)"
  "set_engine g (with_resolver x st) = with_resolver x (set_engine g st)"
  "enqueue_stage ca cx recommended prob (with_resolver x st) = with_resolver x (enqueue_stage ca cx recommended prob st)"
  by (simp_all add: fireTelemetry_def fireAsyncLearner_def spawn_def writeLog_def set_engine_def enqueue_stage_def Let_def
      split: option.split)

lemma limit_stage_res [simp]:
  "limit_stage ca cx tier (with_resolver x st) = apsnd (with_resolver x) (limit_stage ca cx tier st)"
proof (cases "tier_limits (y_Config st) tier")
  case (Some l)
  then show ?thesis by (cases l) (simp add: limit_stage_def checkRateLimits_def Let_def case_prod_unfold)
qed (simp add: limit_stage_def checkRateLimits_def)

lemma coraza_stage_res [simp]:
  "coraza_stage cx (with_resolver x st) = apsnd (with_resolver x) (coraza_stage cx st)"
  by (cases "y_Coraza st") (simp_all add: coraza_stage_def coraza_blocks_def)

lemma gate_stage_res [simp]:
  "gate_stage ca cx recommended (with_resolver x st) = apsnd (with_resolver x) (gate_stage ca cx recommended st)"
  by (auto simp: gate_stage_def stricter_stage_def Let_def case_prod_unfold split: decision.split option.split)

lemma threshold_stage_res [simp]:
  "threshold_stage cx prob (with_resolver x st) = apsnd (with_resolver x) (threshold_stage cx prob st)"
  by (simp add: threshold_stage_def)

lemma ask_gatekeeper_res [simp]:
  "ask_gatekeeper cx (with_resolver x st) = apsnd (with_resolver x) (ask_gatekeeper cx st)"
  by (simp add: ask_gatekeeper_def y_Engine_def set_engine_def Let_def case_prod_unfold)

lemma serve_checked_res [simp]:
  "serve_checked sv ca cx verdict (with_resolver x st) = apsnd (with_resolver x) (serve_checked sv ca cx verdict st)"
  by (auto simp: serve_checked_def Let_def case_prod_unfold split: option.split backend_reply.split)

lemma keeps_resolver:
  assumes "\<And>x. f (with_resolver x st) = apsnd (with_resolver x) (f st)"
  shows "y_Resolver (snd (f st)) = y_Resolver st"
proof -
  have "f st = apsnd (with_resolver (y_Resolver st)) (f st)"
    using assms[of "y_Resolver st"] by simp
  then have "snd (f st) = with_resolver (y_Resolver st) (snd (f st))"
    by (metis snd_apsnd)
  then show ?thesis by (metis proxy.select_convs(3) proxy.surjective proxy.update_convs(3))
qed

section \<open>The setting for a failing service\<close>

definition fail_open_as :: "bool \<Rightarrow> resolver \<Rightarrow> resolver" where
  "fail_open_as b res = (case res of Opaque o' \<Rightarrow> Opaque (o'\<lparr>or_failOpen := b\<rparr>) | _ \<Rightarrow> res)"

definition set_fail_open :: "bool \<Rightarrow> proxy \<Rightarrow> proxy" where
  "set_fail_open b st = with_resolver (fail_open_as b (y_Resolver st)) st"

text \<open>The call of the service, on its own.\<close>

definition ask_service ::
    "auth_libs \<Rightarrow> int \<Rightarrow> opaque_resolver \<Rightarrow> string \<Rightarrow> string \<Rightarrow> (string + identity_context) \<times> opaque_resolver" where
  "ask_service libs now o' token cacheKey =
     (let fail = (\<lambda>err. if or_failOpen o' then Inr anonymous else Inl err)
      in (case al_api libs (or_URL o') token of
            BadURL \<Rightarrow> (Inl ''create auth request'', o')
          | Unreachable \<Rightarrow> (fail ''auth API request failed'', o')
          | Status n \<Rightarrow> (fail ''auth API returned'', o')
          | Undecodable \<Rightarrow> (fail ''decode auth response'', o')
          | Identity uid email mfa created \<Rightarrow>
              (let ctx = \<lparr> i_UserID = uid, i_AccountCreatedAt = created, i_EmailVerified = email,
                           i_MFAEnabled = mfa, i_ResolvedBy = ''auth_api'' \<rparr>
               in (Inr ctx, o'\<lparr>or_cache := (or_cache o')(cacheKey \<mapsto>
                     \<lparr> ci_ctx = ctx, ci_expiresAt = now + or_CacheTTL o' \<rparr>)\<rparr>))))"

lemma opaque_Resolve_ask:
  "opaque_Resolve libs now o' r =
     (let token = opaque_token o' r; key = hex_string (hmac_sha256 (or_cacheKey o') token)
      in if token = [] then (Inr anonymous, o')
         else case or_cache o' key of
                Some cached \<Rightarrow> if now < ci_expiresAt cached then (Inr (ci_ctx cached), o') else ask_service libs now o' token key
              | None \<Rightarrow> ask_service libs now o' token key)"
  unfolding opaque_Resolve_def ask_service_def Let_def by (rule refl)

definition identity_of :: "string + identity_context \<Rightarrow> identity_context" where
  "identity_of result = (case result of Inr ctx \<Rightarrow> ctx | Inl err \<Rightarrow> anonymous)"

lemma ask_service_fail_open:
  assumes "ask_service libs now (o'\<lparr>or_failOpen := b\<rparr>) token key = (result', o3)"
    and "ask_service libs now o' token key = (result, o2)"
  shows "o3 = o2\<lparr>or_failOpen := b\<rparr> \<and> identity_of result' = identity_of result"
  using assms by (cases "al_api libs (or_URL o') token") (auto simp: ask_service_def identity_of_def Let_def)

lemma opaque_fail_open:
  assumes "opaque_Resolve libs now (o'\<lparr>or_failOpen := b\<rparr>) r = (result', o3)"
    and "opaque_Resolve libs now o' r = (result, o2)"
  shows "o3 = o2\<lparr>or_failOpen := b\<rparr> \<and> identity_of result' = identity_of result"
proof -
  have t: "opaque_token (o'\<lparr>or_failOpen := b\<rparr>) r = opaque_token o' r" by (simp add: opaque_token_def)
  note ask = ask_service_fail_open
  show ?thesis
    using assms ask unfolding opaque_Resolve_ask t Let_def
    by (auto split: if_splits option.splits)
qed

lemma resolve_identity_fail_open:
  "resolve_identity sv ca r (set_fail_open b st) =
     (let (identity, r', st') = resolve_identity sv ca r st in (identity, r', set_fail_open b st'))"
proof (cases "y_Resolver st")
  case (Opaque o')
  let ?now = "tm_Nanos (ca_now ca)"
  obtain result o2 where q: "opaque_Resolve (sv_auth sv) ?now o' r = (result, o2)" by fastforce
  obtain result' o3 where q': "opaque_Resolve (sv_auth sv) ?now (o'\<lparr>or_failOpen := b\<rparr>) r = (result', o3)" by fastforce
  have "o3 = o2\<lparr>or_failOpen := b\<rparr>" "identity_of result' = identity_of result"
    using opaque_fail_open[OF q' q] by simp_all
  then show ?thesis
    using Opaque
    by (simp add: resolve_identity_def set_fail_open_def fail_open_as_def Resolve_def q q' identity_of_def)
qed (simp_all add: resolve_identity_def set_fail_open_def fail_open_as_def Resolve_def Let_def case_prod_unfold)

lemma read_context_fail_open:
  "read_context sv ca r (set_fail_open b st) = apsnd (set_fail_open b) (read_context sv ca r st)"
proof -
  have "y_Config (set_fail_open b st) = y_Config st" for st by (simp add: set_fail_open_def)
  then show ?thesis
    by (auto simp: read_context_def resolve_identity_fail_open Let_def case_prod_unfold split: option.split)
qed

lemma ask_gatekeeper_fail_open:
  "ask_gatekeeper cx (set_fail_open b st) = apsnd (set_fail_open b) (ask_gatekeeper cx st)"
  using keeps_resolver[of "ask_gatekeeper cx" st] by (simp add: set_fail_open_def prod_eq_iff)

lemma serve_checked_fail_open:
  "serve_checked sv ca cx verdict (set_fail_open b st) = apsnd (set_fail_open b) (serve_checked sv ca cx verdict st)"
  using keeps_resolver[of "serve_checked sv ca cx verdict" st] by (simp add: set_fail_open_def prod_eq_iff)

lemma handleChallengeSolve_fail_open:
  "handleChallengeSolve sv ca r (set_fail_open b st) = apsnd (set_fail_open b) (handleChallengeSolve sv ca r st)"
proof -
  have "y_Config (set_fail_open b st) = y_Config st" "y_ChallengeLimiter (set_fail_open b st) = y_ChallengeLimiter st"
    "y_Engine (set_fail_open b st) = y_Engine st" "set_engine g (set_fail_open b st) = set_fail_open b (set_engine g st)"
    "(set_fail_open b st)\<lparr>y_ChallengeLimiter := rl\<rparr> = set_fail_open b (st\<lparr>y_ChallengeLimiter := rl\<rparr>)" for st g rl
    by (simp_all add: set_fail_open_def y_Engine_def set_engine_def)
  then show ?thesis
    by (auto simp: handleChallengeSolve_def resolve_identity_fail_open Let_def case_prod_unfold split: option.split)
qed

text \<open>C25: The setting that should refuse requests while the authentication service fails has no effect:
  whether it is open or closed, every request gets the same answer and leaves the same state,
  because the proxy turns the resolver's error into an anonymous visitor.\<close>

theorem fail_closed_changes_nothing:
  "ServeHTTP sv ca r (set_fail_open b st) = apsnd (set_fail_open b) (ServeHTTP sv ca r st)"
  by (auto simp: ServeHTTP_def handleChallengeSolve_fail_open read_context_fail_open ask_gatekeeper_fail_open
      serve_checked_fail_open Let_def case_prod_unfold split: option.split)

section \<open>What a clearance costs\<close>

lemma solved_challenge:
  "let (w, st') = handleChallengeSolve sv ca r st; ip = getClientIP (y_Config st) r;
       salt = challenge_salt ip (ca_now ca);
       allowed = fst (fst (AllowIP (tm_Nanos (ca_now ca)) ip challengeRate 10 (y_ChallengeLimiter st)))
   in (rs_Cookie w = Some token \<longleftrightarrow>
         h_Method r = ''POST'' \<and> allowed \<and>
         (\<exists>nonce. Option.bind (h_Body r) (sv_decodeNonce sv) = Some nonce \<and> verifyNonce nonce salt \<and>
                  token = cookie_text (generateClearanceToken salt nonce (d_JWTSecret (y_Config st))))) \<and>
      y_Engine st' = (if rs_Cookie w = None then y_Engine st
                      else RecordChallengeSolved ip (i_UserID (fst (resolve_identity sv ca r st)))
                             (time_float (ca_now ca)) (y_Engine st))"
proof -
  obtain identity r' st1 where res: "resolve_identity sv ca r st = (identity, r', st1)" by (rule prod_cases3)
  have k: "y_Config st1 = y_Config st" "y_Engine st1 = y_Engine st" "h_Body r' = h_Body r"
    "y_ChallengeLimiter st1 = y_ChallengeLimiter st"
    using resolve_identity_keeps[OF res] res
    by (auto simp: same_front_def resolve_identity_def Let_def case_prod_unfold)
  have n: "rs_Cookie (http_Error msg n w) = rs_Cookie w" "rs_Cookie unwritten = None" for msg n w
    by (simp_all add: http_Error_def unwritten_def)
  have e: "y_Engine (st1\<lparr>y_ChallengeLimiter := rl\<rparr>) = y_Engine st" "y_Engine (set_engine g st') = g" for rl g st'
    using k(2) by (simp_all add: y_Engine_def set_engine_def)
  let ?ip = "getClientIP (y_Config st) r"
  obtain ok up rl where a: "AllowIP (tm_Nanos (ca_now ca)) ?ip challengeRate 10 (y_ChallengeLimiter st) = ((ok, up), rl)"
    by (metis prod.collapse)
  let ?salt = "challenge_salt ?ip (ca_now ca)"
  note simps = handleChallengeSolve_def res k a n e
  show ?thesis
  proof (cases "h_Method r = ''POST'' \<and> ok")
    case True
    then show ?thesis
      by (cases "Option.bind (h_Body r) (sv_decodeNonce sv)") (auto simp: simps Let_def)
  qed (auto simp: simps Let_def)
qed

lemma solve_engine:
  "\<exists>ip uid now. y_Engine (snd (handleChallengeSolve sv ca r st)) \<in> {y_Engine st, RecordChallengeSolved ip uid now (y_Engine st)}"
  using solved_challenge[of sv ca r st] by (auto simp: Let_def case_prod_unfold split: if_splits)

lemma verifyNonce_take: "verifyNonce nonce salt \<longleftrightarrow> take 5 (hex_string (sha256 (salt @ nonce))) = ''00000''"
proof -
  have "prefix p t \<longleftrightarrow> take (length p) t = p" for p t :: string
    using take_is_prefix[of "length p" t] by (auto simp: prefix_def)
  from this[of "''00000''"] show ?thesis by (simp add: verifyNonce_def eval_nat_numeral)
qed

text \<open>C23: A clearance is given for work only: the endpoint sets the cookie exactly when the request is a
  POST, its address has an attempt left of the ten that refill at ten a minute, and the nonce
  that it posts, put behind its address and today's date, hashes to text that begins with five
  zeros. The cookie is the address, the date and the nonce with their signature under the
  configured secret, and only with it does the engine record a solved challenge.\<close>

theorem clearance_costs_work:
  "let (w, st') = handleChallengeSolve sv ca r st; ip = getClientIP (y_Config st) r;
       salt = ip @ '':'' @ date_today (ca_now ca);
       allowed = fst (fst (AllowIP (tm_Nanos (ca_now ca)) ip (fl (10 / 60)) 10 (y_ChallengeLimiter st)));
       sign = (\<lambda>text. text @ '':'' @ hex_string (hmac_sha256 (d_JWTSecret (y_Config st)) text))
   in (rs_Cookie w = Some cookie \<longleftrightarrow>
         h_Method r = ''POST'' \<and> allowed \<and>
         (\<exists>nonce. Option.bind (h_Body r) (sv_decodeNonce sv) = Some nonce \<and>
                  take 5 (hex_string (sha256 (salt @ nonce))) = ''00000'' \<and>
                  cookie = cookie_text (sign (salt @ '':'' @ nonce)))) \<and>
      y_Engine st' = (if rs_Cookie w = None then y_Engine st
                      else RecordChallengeSolved ip (i_UserID (fst (resolve_identity sv ca r st)))
                             (time_float (ca_now ca)) (y_Engine st))"
  using solved_challenge[where sv = sv and ca = ca and r = r and st = st and token = cookie]
  by (simp only: verifyNonce_take challenge_salt_def challengeRate_def generateClearanceToken_def Let_def)

text \<open>The way back: a client whose address and nonce are made of bytes that a cookie may have gets a
  cookie that the proxy accepts from it for the rest of the day.\<close>

theorem clearance_comes_back:
  assumes "rs_Cookie (fst (handleChallengeSolve sv ca r st)) = Some cookie"
    and "Option.bind (h_Body r) (sv_decodeNonce sv) = Some nonce" and "d_JWTSecret (y_Config st) \<noteq> []"
    and "CHR '':'' \<notin> set nonce" and "list_all valid_cookie_byte (getClientIP (y_Config st) r @ nonce)"
    and "h_Header r2 ''Cookie'' = Some [''waf_clearance='' @ cookie]" and "local_day now = local_day (ca_now ca)"
  shows "verifyChallengeCookie (y_Config st) r2 (getClientIP (y_Config st) r) now"
proof -
  let ?ip = "getClientIP (y_Config st) r" and ?secret = "d_JWTSecret (y_Config st)"
  let ?salt = "challenge_salt ?ip (ca_now ca)"
  let ?token = "generateClearanceToken ?salt nonce ?secret"
  have c: "cookie = cookie_text ?token"
    using solved_challenge[of sv ca r st cookie] assms(1,2) by (simp add: Let_def case_prod_unfold)
  have colon: "valid_cookie_byte (CHR '':'')" by code_simp
  have "filter valid_cookie_byte ?token = ?token"
    using assms(5) colon filter_plain[OF plain_chars(1)] filter_plain[OF plain_chars(3)]
    by (simp add: generateClearanceToken_def Let_def challenge_salt_def date_today_def cookie_text_bytes)
  moreover have "request_Cookie r2 ''waf_clearance'' = Some (filter valid_cookie_byte ?token)"
  proof (rule single_cookie)
    show "is_token ''waf_clearance''" "list_all plain_char ''waf_clearance''" by code_simp+
  qed (use assms(6) c in simp_all)
  ultimately have "request_Cookie r2 ''waf_clearance'' = Some ?token" by simp
  moreover have "verifyClearanceToken ?token ?secret now = (?salt, nonce, True)"
    using assms(7) by (simp add: verify_generated[OF assms(4)] challenge_salt_def date_today_def)
  moreover have "split_last (CHR '':'') ?salt = Some (?ip, date_today (ca_now ca))"
    by (simp add: challenge_salt_def date_today_def)
  ultimately show ?thesis using assms(3) by (simp add: verifyChallengeCookie_def)
qed

section \<open>What Retry-After promises\<close>

lemma retry_after_ceiling:
  assumes "1 / 2 ^ 19 \<le> rate" and "rate \<le> 2 ^ 20"
  shows "retry_after rate = \<lceil>fdiv 1 rate\<rceil>" and "1 \<le> retry_after rate" and "retry_after rate \<le> 2 ^ 19"
    and "1 / rate \<le> fdiv 1 rate + 1 / 2 ^ 34"
proof -
  have pos: "0 < rate" using assms(1) by (rule less_le_trans[rotated]) simp
  have hi: "1 / rate \<le> 2 ^ 19" using frac_le[of 1 1 "1 / 2 ^ 19" rate] assms(1) by simp
  have lo: "1 / 2 ^ 20 \<le> 1 / rate" using assms pos by (simp add: frac_le)
  have q: "fdiv 1 rate \<le> 2 ^ 19"
    unfolding fdiv_def by (rule fl_le[OF hi]) (use repr_of_int[of "2 ^ 19"] in simp)
  have p: "(1 / 2 ^ 20 :: real) \<le> fdiv 1 rate"
    unfolding fdiv_def by (rule fl_ge[OF lo]) (use repr_dyadic[of 1 20] in simp)
  have "0 < (1 / 2 ^ 20 :: real)" by simp
  then have c: "1 \<le> \<lceil>fdiv 1 rate\<rceil>" using p by linarith
  have d: "\<lceil>fdiv 1 rate\<rceil> \<le> 2 ^ 19" using q by (simp add: ceiling_le_iff)
  show r: "retry_after rate = \<lceil>fdiv 1 rate\<rceil>" using pos c d by (simp add: retry_after_def in_int64_def)
  show "1 \<le> retry_after rate" "retry_after rate \<le> 2 ^ 19" using r c d by simp_all
  have "\<bar>fdiv 1 rate - 1 / rate\<bar> \<le> 2 ^ 20 / 2 ^ 54"
    unfolding fdiv_def by (rule fl_error) (use hi pos in auto)
  from abs_le_D2[OF this] show "1 / rate \<le> fdiv 1 rate + 1 / 2 ^ 34" by simp
qed

lemma memory_allow_client:
  assumes "y_ActiveLimiter st = ActiveMemory"
  shows "allow_client ca k rate burst st =
    (fst (fst (memory_allow (tm_Nanos (ca_now ca)) k rate burst (y_RateLimiter st))),
     st\<lparr>y_RateLimiter := snd (memory_allow (tm_Nanos (ca_now ca)) k rate burst (y_RateLimiter st))\<rparr>)"
  using assms by (simp add: allow_client_def Let_def case_prod_unfold)

lemma bucket_Allow_refused:
  assumes "bucket_Allow rate burst now tb = (False, tb')" and "0 \<le> burst" "0 \<le> rate" "0 \<le> tb_tokens tb" "tb_lastFill tb \<le> now"
  shows "0 \<le> tb_tokens tb' \<and> tb_lastFill tb' = now"
proof -
  have "0 \<le> dur_Seconds (now - tb_lastFill tb)" using dur_Seconds_ge[of 0] assms(5) by simp
  then show ?thesis
    using assms by (auto simp: bucket_Allow_def Let_def fadd_def fmul_def split: if_splits)
qed

text \<open>The wait, with a millisecond for the rounding of the quotient and of the seconds.\<close>

lemma waited_product:
  assumes "1 / 2 ^ 19 \<le> rate" and "rate \<le> 2 ^ 20" and "retry_after rate * 10 ^ 9 + 10 ^ 6 \<le> d"
  shows "1 \<le> dur_Seconds d * rate"
proof -
  note n = retry_after_ceiling[OF assms(1,2)]
  have pos: "0 < rate" using assms(1) by (rule less_le_trans[rotated]) simp
  have "1 / rate \<le> dur_Seconds d"
  proof (cases "d < 2 ^ 20 * 10 ^ 9")
    case True
    have d0: "0 \<le> d" using assms(3) n(2) by simp
    have "real_of_int (retry_after rate * 10 ^ 9 + 10 ^ 6) \<le> of_int d" using assms(3) by (simp only: of_int_le_iff)
    then have "of_int (retry_after rate) + 1 / 1000 \<le> (of_int d / 10 ^ 9 :: real)" by (simp add: field_simps)
    moreover have "fdiv 1 rate \<le> of_int (retry_after rate)" using n(1) by simp
    moreover have "of_int d / 10 ^ 9 - 1 / 2 ^ 33 \<le> dur_Seconds d"
      using abs_le_D2[OF dur_Seconds_error(3)[OF d0 True]] by linarith
    ultimately show ?thesis using n(4) by simp
  next
    case False
    have "of_int (2 ^ 20) \<le> dur_Seconds d" by (rule dur_Seconds_ge) (use False in simp_all)
    moreover have "1 / rate \<le> 2 ^ 19" using frac_le[of 1 1 "1 / 2 ^ 19" rate] assms(1) by simp
    ultimately show ?thesis by simp
  qed
  then show ?thesis using pos by (simp add: divide_le_eq)
qed

lemma bucket_Allow_waited:
  assumes "0 \<le> tb_tokens tb" and "1 / 2 ^ 19 \<le> rate" "rate \<le> 2 ^ 20" "1 \<le> burst"
    and "retry_after rate * 10 ^ 9 + 10 ^ 6 \<le> now - tb_lastFill tb"
  shows "fst (bucket_Allow rate burst now tb)"
proof -
  have "1 \<le> fmul (dur_Seconds (now - tb_lastFill tb)) rate"
    unfolding fmul_def by (rule fl_ge[OF waited_product[OF assms(2,3,5)]]) simp
  then have "1 \<le> fadd (tb_tokens tb) (fmul (dur_Seconds (now - tb_lastFill tb)) rate)"
    unfolding fadd_def using assms(1) by (intro fl_ge) simp_all
  then show ?thesis using assms(4) by (auto simp: bucket_Allow_def Let_def)
qed

lemma bucket_Allow_new:
  assumes "1 \<le> burst"
  shows "fst (bucket_Allow rate burst now (NewTokenBucket rate burst now))"
proof -
  have "1 \<le> fadd burst (fmul 0 rate)" unfolding fadd_def fmul_def using assms by (intro fl_ge) simp_all
  then show ?thesis using assms by (auto simp: bucket_Allow_def NewTokenBucket_def Let_def)
qed

text \<open>The limits of an anonymous client are those of its address.\<close>

lemma checkRateLimits_anonymous:
  assumes "i_UserID (cx_identity cx) = []" "tier_limits (y_Config st) tier = Some (rate, burst)"
    and "y_ActiveLimiter st = ActiveMemory"
  shows "checkRateLimits ca cx tier st =
    (let now = tm_Nanos (ca_now ca);
         (ok, tb) = bucket_Allow rate burst now (bucket_of (rl_ipBuckets (y_RateLimiter st)) (cx_ip cx) rate burst now);
         st = st\<lparr>y_RateLimiter := (y_RateLimiter st)\<lparr>rl_ipBuckets := (rl_ipBuckets (y_RateLimiter st))(cx_ip cx \<mapsto> tb)\<rparr>\<rparr>
     in if ok then (None, st)
        else (Some (limit_exceeded ca rate burst unwritten, ''rate_limit_ip''), fireTelemetry cx tier ''ip'' st))"
  using assms
  by (simp add: checkRateLimits_def memory_allow_client memory_allow_def AllowIP_def Let_def case_prod_unfold)

text \<open>C24: The answer 429 does not lie about when to come back: for the limiter in memory, a rate between
  one request in six days and 2^20 a second and a burst of at least one, an anonymous client that
  is refused is told a number of seconds, the float quotient 1 / rate rounded up and no more, and
  if its next request under the same limits comes that long and a millisecond later, or after
  that, it is let through. In between no other request may have used the bucket of its address,
  which signed-in users and other clients at the address share, and which the sweep may drop;
  other addresses may send what they like. The millisecond covers the rounding of the floats.\<close>

theorem waiting_as_told_is_enough:
  assumes "checkRateLimits ca cx tier st = (Some (w, reason), st1)" and "i_UserID (cx_identity cx) = []"
    and "tier_limits (y_Config st) tier = Some (rate, burst)" and "y_ActiveLimiter st = ActiveMemory"
    and "1 / 2 ^ 19 \<le> rate" and "rate \<le> 2 ^ 20" and "1 \<le> burst"
    and "\<forall>tb. rl_ipBuckets (y_RateLimiter st) (cx_ip cx) = Some tb \<longrightarrow>
           0 \<le> tb_tokens tb \<and> tb_lastFill tb \<le> tm_Nanos (ca_now ca)"
  shows "\<exists>n. sent_status w = 429 \<and> rs_Header w ''Retry-After'' = Some (int_digits n) \<and>
    fdiv 1 rate \<le> of_int n \<and> of_int n < fdiv 1 rate + 1 \<and>
    (\<forall>ca2 cx2 st2. i_UserID (cx_identity cx2) = [] \<and> cx_ip cx2 = cx_ip cx \<and>
        tier_limits (y_Config st2) tier = Some (rate, burst) \<and> y_ActiveLimiter st2 = ActiveMemory \<and>
        rl_ipBuckets (y_RateLimiter st2) (cx_ip cx) \<in> {rl_ipBuckets (y_RateLimiter st1) (cx_ip cx), None} \<and>
        tm_Nanos (ca_now ca) + n * 10 ^ 9 + 10 ^ 6 \<le> tm_Nanos (ca_now ca2) \<longrightarrow>
        fst (checkRateLimits ca2 cx2 tier st2) = None)"
proof -
  let ?now = "tm_Nanos (ca_now ca)" and ?n = "retry_after rate"
  let ?tb = "bucket_of (rl_ipBuckets (y_RateLimiter st)) (cx_ip cx) rate burst ?now"
  obtain ok tb' where b: "bucket_Allow rate burst ?now ?tb = (ok, tb')" by fastforce
  note check = assms(1)[unfolded checkRateLimits_anonymous[OF assms(2,3,4)] Let_def b prod.case]
  have refused: "\<not> ok" "w = limit_exceeded ca rate burst unwritten"
    and st1: "rl_ipBuckets (y_RateLimiter st1) (cx_ip cx) = Some tb'"
    using check by (auto simp: fireTelemetry_def spawn_def split: if_splits)
  have "0 \<le> tb_tokens ?tb \<and> tb_lastFill ?tb \<le> ?now"
    using assms(7,8) by (auto simp: bucket_of_def NewTokenBucket_def split: option.split)
  moreover have "0 \<le> rate" using assms(5) by (rule order_trans[rotated]) simp
  ultimately have tb': "0 \<le> tb_tokens tb'" "tb_lastFill tb' = ?now"
    using bucket_Allow_refused[of rate burst ?now ?tb tb'] b refused(1) assms(7) by simp_all
  have ceil: "fdiv 1 rate \<le> of_int ?n" "of_int ?n < fdiv 1 rate + 1"
    unfolding retry_after_ceiling(1)[OF assms(5,6)] by linarith+
  have w: "sent_status w = 429" "rs_Header w ''Retry-After'' = Some (int_digits ?n)"
    by (simp_all add: refused(2) limit_exceeded_def) (simp add: http_Error_def)
  have "fst (checkRateLimits ca2 cx2 tier st2) = None"
    if h: "i_UserID (cx_identity cx2) = []" "cx_ip cx2 = cx_ip cx" "tier_limits (y_Config st2) tier = Some (rate, burst)"
      "y_ActiveLimiter st2 = ActiveMemory"
      "rl_ipBuckets (y_RateLimiter st2) (cx_ip cx) \<in> {rl_ipBuckets (y_RateLimiter st1) (cx_ip cx), None}"
      "?now + ?n * 10 ^ 9 + 10 ^ 6 \<le> tm_Nanos (ca_now ca2)" for ca2 cx2 st2
  proof -
    let ?now2 = "tm_Nanos (ca_now ca2)"
    let ?tb2 = "bucket_of (rl_ipBuckets (y_RateLimiter st2)) (cx_ip cx) rate burst ?now2"
    consider "?tb2 = tb'" | "?tb2 = NewTokenBucket rate burst ?now2"
      using h(5) st1 by (auto simp: bucket_of_def)
    then have "fst (bucket_Allow rate burst ?now2 ?tb2)"
      by cases (use tb' h(6) bucket_Allow_waited[OF _ assms(5,6,7), of tb' ?now2] bucket_Allow_new[OF assms(7)] in simp_all)
    then show ?thesis
      by (simp add: checkRateLimits_anonymous[OF h(1,3,4)] h(2) Let_def case_prod_unfold)
  qed
  with w ceil show ?thesis by (intro exI[of _ ?n] conjI allI impI) (assumption | blast)+
qed

definition exhausted :: proxy where
  "exhausted = (demo_proxy init_engine None)\<lparr>
     y_Config := demo_config\<lparr>d_TierAllowRate := 1 / 4, d_TierAllowBurst := 4\<rparr>,
     y_RateLimiter := NewRateLimiter\<lparr>rl_ipBuckets :=
       [''10.0.0.1'' \<mapsto> \<lparr> tb_tokens = 0, tb_lastFill = tm_Nanos (noon 20000), tb_rate = 1 / 4, tb_burst = 4 \<rparr>]\<rparr>\<rparr>"

text \<open>At one request in four seconds the client is told four seconds.\<close>

lemma waiting_as_told_is_enough_witness:
  "\<exists>w st1 n. checkRateLimits demo_call plain_context ''allow'' exhausted = (Some (w, ''rate_limit_ip''), st1) \<and>
     rs_Header w ''Retry-After'' = Some (int_digits n) \<and> n = 4 \<and>
     fst (checkRateLimits (demo_call\<lparr>ca_now := noon 20001\<rparr>) plain_context ''allow'' st1) = None"
proof -
  have cx: "i_UserID (cx_identity plain_context) = []" "cx_ip plain_context = ''10.0.0.1''"
    by (simp_all add: plain_context_def)
  have lim: "tier_limits (y_Config exhausted) ''allow'' = Some (1 / 4, 4)" "y_ActiveLimiter exhausted = ActiveMemory"
    "rl_ipBuckets (y_RateLimiter exhausted) ''10.0.0.1'' =
       Some \<lparr> tb_tokens = 0, tb_lastFill = tm_Nanos (noon 20000), tb_rate = 1 / 4, tb_burst = 4 \<rparr>"
    by (simp_all add: exhausted_def tier_limits_def demo_proxy_def)
  have now: "ca_now demo_call = noon 20000" by (simp add: demo_call_def)
  obtain w st1 where a: "checkRateLimits demo_call plain_context ''allow'' exhausted = (Some (w, ''rate_limit_ip''), st1)"
    "y_Config st1 = y_Config exhausted" "y_ActiveLimiter st1 = ActiveMemory"
    by (simp add: checkRateLimits_anonymous[OF cx(1) lim(1,2)] cx(2) lim(2,3) bucket_of_def bucket_Allow_def now
        fireTelemetry_def spawn_def Let_def)
  have q: "fdiv 1 (1 / 4) = 4" by (simp add: fdiv_def repr_numeral)
  from waiting_as_told_is_enough[OF a(1) cx(1) lim(1,2)] obtain n where
    n: "rs_Header w ''Retry-After'' = Some (int_digits n)" "4 \<le> real_of_int n" "of_int n < (5 :: real)"
      "\<And>ca2. tm_Nanos (noon 20000) + n * 10 ^ 9 + 10 ^ 6 \<le> tm_Nanos (ca_now ca2) \<Longrightarrow>
         fst (checkRateLimits ca2 plain_context ''allow'' st1) = None"
    using cx lim a(2,3) by (auto simp: q now)
  then have "n = 4" by linarith
  with a(1) n(1) n(4)[of "demo_call\<lparr>ca_now := noon 20001\<rparr>"] show ?thesis by (simp add: noon_def)
qed

section \<open>Panics\<close>

text \<open>A request is always answered by a deployment whose classifier never panics, and completely
  unless the response of the backend cannot be copied.\<close>

lemma serve_checked_complete:
  "fst (serve_checked sv ca cx verdict st) = Some oc \<Longrightarrow> rs_Body (oc_response oc) = Aborted \<Longrightarrow>
     \<exists>out status. oc_forwarded oc = Some out \<and> sv_backend sv out = CutOff status"
proof -
  assume s: "fst (serve_checked sv ca cx verdict st) = Some oc" "rs_Body (oc_response oc) = Aborted"
  then have "serve_checked sv ca cx verdict st = (Some oc, snd (serve_checked sv ca cx verdict st))"
    by (metis prod.collapse)
  then show ?thesis by (cases rule: serve_checked_cases) (use s(2) in \<open>auto simp: truthful_def\<close>)
qed

lemma solve_complete: "rs_Body (fst (handleChallengeSolve sv ca r st)) \<noteq> Aborted"
  by (simp add: handleChallengeSolve_def Let_def case_prod_unfold split: option.split)

lemma ServeHTTP_answers:
  assumes "\<And>cx. classify sv cx \<noteq> None"
  shows "\<exists>oc st'. ServeHTTP sv ca r st = (Some oc, st') \<and>
    (rs_Body (oc_response oc) = Aborted \<longrightarrow> (\<exists>out status. oc_forwarded oc = Some out \<and> sv_backend sv out = CutOff status))"
proof -
  have "fst (serve_checked sv ca cx verdict st1) \<noteq> None" for cx verdict st1
    using assms[of cx] by (auto simp: serve_checked_def Let_def case_prod_unfold split: option.splits backend_reply.splits)
  then have "fst (ServeHTTP sv ca r st) \<noteq> None"
    by (auto simp: ServeHTTP_def Let_def case_prod_unfold split: option.splits)
  then obtain oc st' where o: "ServeHTTP sv ca r st = (Some oc, st')" by (cases "ServeHTTP sv ca r st") auto
  have "\<exists>out status. oc_forwarded oc = Some out \<and> sv_backend sv out = CutOff status"
    if ab: "rs_Body (oc_response oc) = Aborted"
  proof -
    have p: "h_Path r \<noteq> ''/challenge-solve''"
      using o ab solve_complete[of sv ca r st] by (auto simp: ServeHTTP_def Let_def case_prod_unfold)
    obtain c st1 where c: "read_context sv ca r st = (c, st1)" by fastforce
    obtain cx where cx: "c = Some cx" using o ab p c by (cases c) (auto simp: ServeHTTP_def)
    obtain verdict st2 where a: "ask_gatekeeper cx st1 = (verdict, st2)" by fastforce
    have "fst (serve_checked sv ca cx verdict st2) = Some oc" using o p c cx a by (simp add: ServeHTTP_def)
    from serve_checked_complete[OF this ab] show ?thesis .
  qed
  with o show ?thesis by blast
qed

text \<open>C27: The handler's own code never panics on a request, whatever the client sends, when the files of
  the model fit together: if every column of the vocabulary has a weight and the least length of
  n-grams is not negative, every text is turned into a vector with one entry for each weight, and
  every request is answered. The answer is complete unless the request was forwarded and the copy
  of the backend's response failed, where httputil.ReverseProxy aborts the connection.\<close>

theorem fitting_model_never_panics:
  assumes "sv_vectorizer sv = LoadTfidf vocabulary idf ngramMin ngramMax" and "0 \<le> ngramMin"
    and "\<forall>idx\<in>ran vocabulary. 0 \<le> idx \<and> idx < int (length idf)"
  shows "(\<exists>oc st'. ServeHTTP sv ca r st = (Some oc, st') \<and>
      (rs_Body (oc_response oc) = Aborted \<longrightarrow>
         (\<exists>out status. oc_forwarded oc = Some out \<and> sv_backend sv out = CutOff status))) \<and>
    (\<exists>vec. Transform (ml_unicodeLower (sv_ml sv)) (sv_vectorizer sv) txt = Some vec \<and> length vec = length idf)"
proof -
  note total = Transform_total[OF assms(2,3), where ngramMax = ngramMax, folded assms(1)]
  have "classify sv cx \<noteq> None" for cx
    using total unfolding classify_def Let_def by fastforce
  then show ?thesis using ServeHTTP_answers total by blast
qed

lemma fitting_model_never_panics_witness:
  "let sv = demo_surroundings\<lparr>sv_vectorizer := LoadTfidf [''sel'' \<mapsto> 0, ''or '' \<mapsto> 1] [2, 3] 3 3\<rparr>
   in \<exists>oc st'. ServeHTTP sv demo_call plain_request (demo_proxy init_engine None) = (Some oc, st') \<and>
        rs_Body (oc_response oc) \<noteq> Aborted"
proof -
  let ?voc = "[''sel'' \<mapsto> 0, ''or '' \<mapsto> 1] :: string \<rightharpoonup> int"
  have "\<forall>idx\<in>ran ?voc. 0 \<le> idx \<and> idx < int (length [2, 3 :: real])" by (auto simp: ran_def split: if_splits)
  from fitting_model_never_panics[OF _ _ this, of "demo_surroundings\<lparr>sv_vectorizer := LoadTfidf ?voc [2, 3] 3 3\<rparr>" 3 3
      demo_call plain_request "demo_proxy init_engine None"]
  show ?thesis by (auto simp: Let_def demo_surroundings_def)
qed

end
