(* ===== verification/Admin_Safety.thy ===== *)
theory Admin_Safety
  imports Admin Proxy_Edges
begin

text \<open>
  What the administration server guarantees (\<open>tier-0/admin.go\<close>): how long and for whom a session
  holds, what a stranger can do, and what the set-up of the first account does when it is
  requested twice; and what a reset of the configuration leaves.
\<close>

section \<open>Sessions\<close>

lemma go_split_append: "c \<notin> set a \<Longrightarrow> go_split c (a @ c # b) = a # go_split c b"
  by (induction a) auto

lemma length_go_split: "length (go_split c s) = count_list s c + 1"
  by (induction s) (auto split: list.split)

lemma scan_int_digits:
  assumes "0 \<le> n" and "n < 2 ^ 63"
  shows "scan_int (int_digits n) = n"
proof -
  let ?d = "nat_digits (nat n)"
  have d: "list_all is_digit ?d" "digits_val ?d = n" using nat_digits_val[of "nat n"] assms(1) by simp_all
  have ne: "?d \<noteq> []" by (subst nat_digits.simps) simp
  then obtain c cs where c: "?d = c # cs" by (cases ?d) auto
  have dc: "is_digit c" using d(1) c by simp
  then have "c \<noteq> CHR '' ''" "c \<noteq> CHR ''+''" "c \<noteq> CHR ''-''" by (auto simp: is_digit_def)
  moreover have "takeWhile is_digit ?d = ?d" using d(1) by (simp add: takeWhile_eq_all_conv list_all_iff)
  moreover have "atoi ?d = Some n" using atoi_digits[OF ne d(1)] assms(2) d(2) by simp
  ultimately show ?thesis using assms(1) c by (simp add: scan_int_def int_digits_def)
qed

lemma plain_digits: "list_all plain_char (int_digits n)"
proof -
  have "list_all plain_char ''0123456789''" by code_simp
  then have d: "plain_char (''0123456789'' ! k)" if "k < 10" for k using that unfolding list_all_length by simp
  have "list_all plain_char (nat_digits k)" for k
  proof (induction k rule: nat_digits.induct)
    case (1 k)
    then show ?case using d[of k] d[of "k mod 10"] by (cases "k < 10") (simp_all add: nat_digits.simps[of k])
  qed
  moreover have "plain_char (CHR ''-'')" by code_simp
  ultimately show ?thesis by (simp add: int_digits_def)
qed

lemma colon_byte: "valid_cookie_byte (CHR '':'')"
  by code_simp

lemma digits_kept: "filter valid_cookie_byte (int_digits n) = int_digits n"
  by (rule filter_plain) (rule plain_digits)

lemma session_kept:
  "filter valid_cookie_byte (generateSessionCookie username now store) =
     (let e = int_digits (time_Unix now + 86400)
      in filter valid_cookie_byte username @ CHR '':'' # e @ CHR '':'' #
           hex_string (hmac_sha256 (am_SessionSecret store) (session_message username e)))"
  by (simp add: generateSessionCookie_def session_message_def Let_def digits_kept filter_plain colon_byte)

text \<open>What the check makes of a name and a signature that came back in a cookie.\<close>

lemma validate_parts:
  assumes "request_Cookie r ''admin_session'' = Some (name @ CHR '':'' # int_digits e @ CHR '':'' # hex_string sig)"
    and "0 \<le> e" "e < 2 ^ 63"
  shows "validateSession r now store \<longleftrightarrow> CHR '':'' \<notin> set name \<and> time_Unix now < e \<and>
    hex_string sig = hex_string (hmac_sha256 (am_SessionSecret store) (session_message name (int_digits e)))"
proof (cases "CHR '':'' \<in> set name")
  case False
  have e: "CHR '':'' \<notin> set (int_digits e)" by (rule int_digits_no_colon)
  have "go_split (CHR '':'') (hex_string sig) = [hex_string sig]" by (rule go_split_single) simp
  then have "go_split (CHR '':'') (name @ CHR '':'' # int_digits e @ CHR '':'' # hex_string sig) =
      [name, int_digits e, hex_string sig]"
    by (simp only: go_split_append[OF False] go_split_append[OF e])
  then show ?thesis
    using False assms scan_int_digits[OF assms(2,3)] by (auto simp: validateSession_def)
next
  case True
  have "count_list name (CHR '':'') \<noteq> 0" using True by (simp add: count_list_0_iff)
  then have "length (go_split (CHR '':'') (name @ CHR '':'' # int_digits e @ CHR '':'' # hex_string sig)) > 3"
    by (simp add: length_go_split)
  then show ?thesis using True assms(1) unfolding validateSession_def by (auto split: list.splits)
qed

lemma no_cookie [simp]:
  "rs_Cookie (http_Error msg n w) = rs_Cookie w" "rs_Cookie unwritten = None" "rs_Cookie (json_reply body) = None"
  "rs_Cookie success = None" "rs_Cookie not_allowed = None" "rs_Cookie not_found = None" "rs_Cookie unauthorized = None"
  by (simp_all add: http_Error_def unwritten_def json_reply_def success_def not_allowed_def not_found_def unauthorized_def)

lemma login_cookie:
  assumes "rs_Cookie (fst (admin_login lb aq r ad)) = Some cookie"
  shows "\<exists>username password. read_creds lb r = Some (username, password) \<and>
     verifyAdmin (lb_bcrypt lb) username password (ad_Store ad) \<and>
     cookie = cookie_text (generateSessionCookie username (aq_now aq) (ad_Store ad))"
  using assms by (auto simp: admin_login_def split: option.splits if_splits)

text \<open>C17: A session holds for a day, but not for every account. A browser that logs in and sends the
  cookie back as it was set is accepted for the next 86400 seconds and never afterwards, provided
  that the name of the account has no colon, because the check splits the cookie at every colon,
  and that the signature of the name still fits after http.SetCookie has dropped every byte that
  a cookie may not have, quotes, semicolons, backslashes and everything outside ASCII. An account
  whose name has a colon can never use the server, and one whose name has such bytes only if two
  different messages have the same signature.\<close>

theorem session_life_and_reach:
  assumes "read_creds lb r0 = Some (username, password)"
    and "rs_Cookie (fst (admin_login lb aq r0 ad)) = Some cookie"
    and "h_Header r ''Cookie'' = Some [''admin_session='' @ cookie]"
    and "0 \<le> time_Unix (aq_now aq)" and "time_Unix (aq_now aq) + 86400 < 2 ^ 63"
  shows "validateSession r now (ad_Store ad) \<longleftrightarrow>
    CHR '':'' \<notin> set username \<and> time_Unix now < time_Unix (aq_now aq) + 86400 \<and>
    (let sign = (\<lambda>name. hex_string (hmac_sha256 (am_SessionSecret (ad_Store ad))
                   (name @ '':'' @ int_digits (time_Unix (aq_now aq) + 86400))))
     in sign username = sign (filter valid_cookie_byte username))"
proof -
  let ?store = "ad_Store ad" and ?e = "time_Unix (aq_now aq) + 86400"
  have cookie: "cookie = cookie_text (generateSessionCookie username (aq_now aq) ?store)"
    using login_cookie[OF assms(2)] assms(1) by auto
  have "request_Cookie r ''admin_session'' = Some (filter valid_cookie_byte (generateSessionCookie username (aq_now aq) ?store))"
  proof (rule single_cookie)
    show "is_token ''admin_session''" "list_all plain_char ''admin_session''" by code_simp+
  qed (use assms(3) cookie in simp_all)
  from validate_parts[OF this[unfolded session_kept Let_def], of now ?store] show ?thesis
    using assms(4,5) by (simp add: colon_byte session_message_def Let_def)
qed

definition session_request :: "string \<Rightarrow> http_request" where
  "session_request cookie = \<lparr> h_Method = ''GET'', h_Path = ''/api/admin/config'', h_RawQuery = [],
     h_Header = [''Cookie'' \<mapsto> [''admin_session='' @ cookie]], h_Body = Some [],
     h_RemoteAddr = ''10.0.0.9:4000'', h_Host = ''localhost:8081'' \<rparr>"

definition demo_store :: admin_store where
  "demo_store = \<lparr> am_SessionSecret = ''0123'', am_Admins = [''root'' \<mapsto> ''hash''] \<rparr>"

section \<open>Strangers\<close>

lemma protectedMux_options: "h_Method r = ''OPTIONS'' \<Longrightarrow> snd (protectedMux lb aq r ad) = ad"
proof -
  assume m: "h_Method r = ''OPTIONS''"
  have h: "admin_config lb aq r ad = (not_allowed, ad)" "admin_reset lb aq r ad = (not_allowed, ad)"
    "admin_reset_data r ad = (not_allowed, ad)" "admin_create lb aq r ad = (not_allowed, ad)"
    unfolding admin_config_def admin_reset_def admin_reset_data_def admin_create_def m by simp_all
  show ?thesis by (simp only: protectedMux_def h if_distrib[of snd] snd_conv if_cancel)
qed

lemma protected_cookie: "rs_Cookie (fst (protectedMux lb aq r ad)) = None"
proof -
  have "rs_Cookie (fst (save_config lb aq cfg failed ok ad)) = None" if "rs_Cookie ok = None" for cfg failed ok
    using that by (simp add: save_config_def Let_def case_prod_unfold)
  moreover have "rs_Cookie (fst (admin_create lb aq r ad)) = None"
    by (simp add: admin_create_def Let_def case_prod_unfold split: option.split)
  ultimately show ?thesis
    by (simp add: protectedMux_def admin_config_def admin_reset_def admin_reset_data_def split: option.split)
qed

lemma setup_stranger:
  "ad_Proxy (snd (admin_setup lb aq r ad)) = ad_Proxy ad \<and>
   (snd (admin_setup lb aq r ad) \<noteq> ad \<longrightarrow> setup_required ad \<and> h_Method r = ''POST'' \<and>
      (\<exists>username password hash. read_creds lb r = Some (username, password) \<and>
         bc_Generate (lb_bcrypt lb) password = Some hash \<and>
         ad_Store (snd (admin_setup lb aq r ad)) = (ad_Store ad)\<lparr>am_Admins := [username \<mapsto> hash]\<rparr>)) \<and>
   (\<forall>cookie. rs_Cookie (fst (admin_setup lb aq r ad)) = Some cookie \<longrightarrow> setup_required ad \<and>
      (\<exists>username password. read_creds lb r = Some (username, password) \<and>
         am_Admins (ad_Store (snd (admin_setup lb aq r ad))) username \<noteq> None \<and>
         cookie = cookie_text (generateSessionCookie username (aq_now aq) (ad_Store (snd (admin_setup lb aq r ad))))))"
proof (cases "h_Method r = ''POST'' \<and> setup_required ad")
  case True
  then have e: "am_Admins (ad_Store ad) = Map.empty" by (simp add: setup_required_def)
  show ?thesis
    using True e
    by (auto simp: admin_setup_def setup_create_def createAdmin_def Let_def split: option.split)
qed (auto simp: admin_setup_def)

text \<open>C18: A stranger changes nothing, except that the first one to come may make the first account: a
  request without a valid session leaves the configuration and all the data of the proxy as they
  are, with any method and on any path. It leaves the accounts as they are too, unless there is
  none yet and the request posts credentials to /api/admin/setup, which then name the only
  account. It is given a session only for the password of an account, or in that set-up.\<close>

theorem strangers_change_nothing:
  assumes "\<not> validateSession r (aq_now aq) (ad_Store ad)"
  shows "let (w, ad') = admin_ServeHTTP lb aq r ad
   in ad_Proxy ad' = ad_Proxy ad \<and>
      (ad' \<noteq> ad \<longrightarrow> setup_required ad \<and> h_Path r = ''/api/admin/setup'' \<and> h_Method r = ''POST'' \<and>
         (\<exists>username password hash. read_creds lb r = Some (username, password) \<and>
            bc_Generate (lb_bcrypt lb) password = Some hash \<and>
            ad_Store ad' = (ad_Store ad)\<lparr>am_Admins := [username \<mapsto> hash]\<rparr>)) \<and>
      (\<forall>cookie. rs_Cookie w = Some cookie \<longrightarrow>
         (\<exists>username password. read_creds lb r = Some (username, password) \<and>
            (if h_Path r = ''/api/admin/setup'' then setup_required ad \<and> am_Admins (ad_Store ad') username \<noteq> None
             else verifyAdmin (lb_bcrypt lb) username password (ad_Store ad)) \<and>
            cookie = cookie_text (generateSessionCookie username (aq_now aq) (ad_Store ad'))))"
proof -
  have p: "snd (secureApiMiddleware (protectedMux lb aq) aq r ad) = ad"
    "rs_Cookie (fst (secureApiMiddleware (protectedMux lb aq) aq r ad)) = None"
    using assms protectedMux_options[of r lb aq ad] protected_cookie[of lb aq r ad]
    by (simp_all add: secureApiMiddleware_def)
  have l: "snd (admin_login lb aq r ad) = ad"
    by (auto simp: admin_login_def split: option.splits if_splits)
  consider (making) "h_Path r = ''/api/admin/setup''" | (login) "h_Path r = ''/api/admin/login''"
    | (other) "h_Path r \<notin> {''/api/admin/setup'', ''/api/admin/login''}" by blast
  then show ?thesis
  proof cases
    case making
    then have "admin_ServeHTTP lb aq r ad = admin_setup lb aq r ad" by (simp add: admin_ServeHTTP_def)
    then show ?thesis using setup_stranger[of lb aq r ad] making by (simp add: case_prod_unfold Let_def)
  next
    case login
    then have "admin_ServeHTTP lb aq r ad = admin_login lb aq r ad" by (simp add: admin_ServeHTTP_def)
    then show ?thesis using login_cookie[of lb aq r ad] l login by (auto simp: case_prod_unfold Let_def)
  next
    case other
    then have "snd (admin_ServeHTTP lb aq r ad) = ad \<and> rs_Cookie (fst (admin_ServeHTTP lb aq r ad)) = None"
      using p by (simp add: admin_ServeHTTP_def admin_status_def)
    then show ?thesis by (simp add: case_prod_unfold Let_def)
  qed
qed

definition demo_bcrypt :: bcrypt where
  "demo_bcrypt = \<lparr> bc_Generate = \<lambda>p. if length p \<le> 72 then Some (''$'' @ p) else None,
     bc_Compare = \<lambda>h p. h = ''$'' @ p \<rparr>"

text \<open>Credentials are here a name and a password with a blank between.\<close>

definition demo_admin_libs :: admin_libs where
  "demo_admin_libs = \<lparr> lb_bcrypt = demo_bcrypt, lb_creds = \<lambda>b. Some (cut_at (CHR '' '') b), lb_config = \<lambda>_. None,
     lb_rules = \<lparr> cl_crs = Some [''rules.conf''], cl_directives = \<lambda>_. None, cl_file = \<lambda>_. None \<rparr>, lb_secret = ''key'' \<rparr>"

definition demo_admin_call :: admin_call where
  "demo_admin_call = \<lparr> aq_now = noon 20000, aq_writable = True, aq_save = Saved, aq_random = [] \<rparr>"

definition post :: "string \<Rightarrow> string \<Rightarrow> http_request" where
  "post path body = \<lparr> h_Method = ''POST'', h_Path = path, h_RawQuery = [], h_Header = Map.empty,
     h_Body = Some body, h_RemoteAddr = ''10.0.0.9:4000'', h_Host = ''localhost:8081'' \<rparr>"

definition demo_server :: "admin_store \<Rightarrow> admin_server" where
  "demo_server store = \<lparr> ad_Store = store, ad_Proxy = demo_proxy init_engine None \<rparr>"

lemma post_no_session: "\<not> validateSession (post path body) now store"
  by (simp add: validateSession_def request_Cookie_def cookies_def post_def List.map_filter_def)

lemma strangers_change_nothing_witness:
  "snd (admin_ServeHTTP demo_admin_libs demo_admin_call (post ''/api/admin/reset-data'' []) (demo_server demo_store))
     = demo_server demo_store \<and>
   ad_Proxy (snd (admin_ServeHTTP demo_admin_libs demo_admin_call (post ''/api/admin/setup'' ''ann a'')
     (demo_server \<lparr> am_SessionSecret = ''s'', am_Admins = Map.empty \<rparr>))) = demo_proxy init_engine None"
proof -
  have "\<not> setup_required (demo_server demo_store)"
    by (simp add: setup_required_def demo_server_def demo_store_def)
  then show ?thesis
    using strangers_change_nothing[where aq = demo_admin_call and lb = demo_admin_libs, OF post_no_session]
    by (fastforce simp: case_prod_unfold Let_def demo_server_def)
qed

section \<open>A day of an account\<close>

definition login_as :: "string \<Rightarrow> admin_server" where
  "login_as name = demo_server (demo_store\<lparr>am_Admins := [name \<mapsto> ''$pw'']\<rparr>)"

lemma login_as_cookie:
  assumes "CHR '' '' \<notin> set name"
  shows "read_creds demo_admin_libs (post p (name @ '' pw'')) = Some (name, ''pw'')"
    and "rs_Cookie (fst (admin_login demo_admin_libs demo_admin_call (post p (name @ '' pw'')) (login_as name))) =
      Some (cookie_text (generateSessionCookie name (noon 20000) (ad_Store (login_as name))))"
proof -
  show "read_creds demo_admin_libs (post p (name @ '' pw'')) = Some (name, ''pw'')"
    using cut_at_append[OF assms, of "''pw''"] by (simp add: read_creds_def demo_admin_libs_def post_def)
  then show "rs_Cookie (fst (admin_login demo_admin_libs demo_admin_call (post p (name @ '' pw'')) (login_as name))) =
      Some (cookie_text (generateSessionCookie name (noon 20000) (ad_Store (login_as name))))"
    by (simp add: admin_login_def verifyAdmin_def login_as_def demo_server_def)
      (simp add: demo_admin_libs_def demo_bcrypt_def demo_admin_call_def post_def)
qed

lemma session_life_and_reach_witness:
  "let cookie = (\<lambda>name. cookie_text (generateSessionCookie name (noon 20000) (ad_Store (login_as name))));
       valid = (\<lambda>name d. validateSession (session_request (cookie name)) (noon d) (ad_Store (login_as name)))
   in valid ''root'' 20000 \<and> \<not> valid ''root'' 20001 \<and> \<not> valid ''ro:ot'' 20000"
proof -
  have t: "time_Unix (noon d) = d * 86400 + 43200" for d by (simp add: time_Unix_def noon_def)
  have b: "0 \<le> time_Unix (aq_now demo_admin_call)" "time_Unix (aq_now demo_admin_call) + 86400 < 2 ^ 63"
    "aq_now demo_admin_call = noon 20000"
    by (simp_all add: t demo_admin_call_def)
  have "list_all plain_char ''root''" by code_simp
  then have k: "filter valid_cookie_byte ''root'' = ''root''" by (rule filter_plain)
  have h: "h_Header (session_request cookie) ''Cookie'' = Some [''admin_session='' @ cookie]" for cookie
    by (simp add: session_request_def)
  have blank: "CHR '' '' \<notin> set ''root''" "CHR '' '' \<notin> set ''ro:ot''" by simp_all
  note life1 = session_life_and_reach[OF login_as_cookie[OF blank(1)] h b(1,2)]
  note life2 = session_life_and_reach[OF login_as_cookie[OF blank(2)] h b(1,2)]
  show ?thesis
    unfolding Let_def life1 life2 b(3) t k by simp
qed

section \<open>The first account\<close>

lemma createAdmin_new:
  assumes "am_Admins store username = None" and "bc_Generate bc password = Some hash"
  shows "createAdmin bc True username password store = (None, store\<lparr>am_Admins := (am_Admins store)(username \<mapsto> hash)\<rparr>)"
  using assms by (simp add: createAdmin_def)

text \<open>The set-up is not atomic: of two requests for it one after the other, the second is refused,
  but when both look for an account before either creates one, both succeed; two strangers then
  have an account and a session.\<close>

theorem two_setups_can_succeed:
  assumes "setup_required ad" and "h_Method r1 = ''POST''" "h_Method r2 = ''POST''"
    and "read_creds lb r1 = Some (u1, p1)" "read_creds lb r2 = Some (u2, p2)" "u1 \<noteq> u2"
    and "bc_Generate (lb_bcrypt lb) p1 = Some h1" "bc_Generate (lb_bcrypt lb) p2 = Some h2"
    and "aq_writable aq1" "aq_writable aq2"
  shows "let (w1, ad1) = setup_create lb aq1 r1 ad; (w2, ad2) = setup_create lb aq2 r2 ad1;
             (v1, bd1) = admin_setup lb aq1 r1 ad; (v2, bd2) = admin_setup lb aq2 r2 bd1
         in am_Admins (ad_Store ad2) = [u1 \<mapsto> h1, u2 \<mapsto> h2] \<and> rs_Cookie w1 \<noteq> None \<and> rs_Cookie w2 \<noteq> None \<and>
            am_Admins (ad_Store bd2) = [u1 \<mapsto> h1] \<and> rs_Cookie v1 \<noteq> None \<and> sent_status v2 = 403"
proof -
  have e: "am_Admins (ad_Store ad) = Map.empty" using assms(1) by (simp add: setup_required_def)
  obtain w1 ad1 where s1: "setup_create lb aq1 r1 ad = (w1, ad1)" by fastforce
  have 1: "am_Admins (ad_Store ad1) = [u1 \<mapsto> h1]" "rs_Cookie w1 \<noteq> None"
    using s1 assms(4,7,9) e by (auto simp: setup_create_def createAdmin_new)
  obtain w2 ad2 where s2: "setup_create lb aq2 r2 ad1 = (w2, ad2)" by fastforce
  have 2: "am_Admins (ad_Store ad2) = [u1 \<mapsto> h1, u2 \<mapsto> h2]" "rs_Cookie w2 \<noteq> None"
    using s2 assms(5,6,8,10) 1(1) by (auto simp: setup_create_def createAdmin_new)
  have "admin_setup lb aq1 r1 ad = (w1, ad1)" using assms(1,2) s1 by (simp add: admin_setup_def)
  moreover have "\<not> setup_required ad1" using 1(1) by (auto simp: setup_required_def)
  then have "admin_setup lb aq2 r2 ad1 = (http_Error ''Setup already complete'' 403 unwritten, ad1)"
    using assms(3) by (simp add: admin_setup_def)
  ultimately show ?thesis using s1 s2 1 2 by simp
qed

lemma two_setups_can_succeed_witness:
  "let (w1, ad1) = setup_create demo_admin_libs demo_admin_call (post ''/api/admin/setup'' ''ann a'')
         (demo_server \<lparr> am_SessionSecret = ''s'', am_Admins = Map.empty \<rparr>);
       (w2, ad2) = setup_create demo_admin_libs demo_admin_call (post ''/api/admin/setup'' ''bob b'') ad1
   in am_Admins (ad_Store ad2) = [''ann'' \<mapsto> ''$a'', ''bob'' \<mapsto> ''$b'']"
proof -
  have c: "read_creds demo_admin_libs (post p ''ann a'') = Some (''ann'', ''a'')"
    "read_creds demo_admin_libs (post p ''bob b'') = Some (''bob'', ''b'')" for p
    by (simp_all add: read_creds_def demo_admin_libs_def post_def cut_at_def)
  have "setup_required (demo_server \<lparr> am_SessionSecret = ''s'', am_Admins = Map.empty \<rparr>)"
    by (simp add: setup_required_def demo_server_def)
  from two_setups_can_succeed[OF this _ _ c(1)[of "''/api/admin/setup''"] c(2)[of "''/api/admin/setup''"],
      of "''$a''" "''$b''" demo_admin_call demo_admin_call]
  show ?thesis by (simp add: post_def demo_admin_libs_def demo_bcrypt_def demo_admin_call_def case_prod_unfold Let_def)
qed

section \<open>The reset of the configuration\<close>

text \<open>The reset of the configuration does not reset the trust engine: the thresholds of the
  detectors stay at what an administrator last set them to, while everything that the front
  itself reads, its threshold, its limits, its resolver and the weights of the layers, is the
  built-in default again.\<close>

theorem reset_keeps_the_engine_config:
  assumes "h_Method r = ''POST''" and "aq_save aq = Saved"
  shows "let def = defaultConfig (fl 0.90) (lb_secret lb) (g_Config (y_Engine (ad_Proxy ad)));
             st = ad_Proxy (snd (admin_reset lb aq r ad))
         in g_Config (y_Engine st) = g_Config (y_Engine (ad_Proxy ad)) \<and> y_Config st = def \<and>
            y_Threshold st = fl 0.90 \<and> y_Resolver st = JWT (NewJWTResolver (lb_secret lb)) \<and>
            g_UserWeights (y_Engine st) = UserWeights"
proof -
  have i: "y_Config (initCorazaWAF b st) = y_Config st" "y_Engine (initCorazaWAF b st) = y_Engine st"
    "y_Threshold (initCorazaWAF b st) = y_Threshold st" "y_Resolver (initCorazaWAF b st) = y_Resolver st" for b st
    by (simp_all add: initCorazaWAF_def y_Engine_def)
  have g: "y_Engine (set_engine g st) = g" "y_Engine (st\<lparr>y_Config := c\<rparr>) = y_Engine st"
    "y_Engine (st\<lparr>y_Threshold := t\<rparr>) = y_Engine st" "y_Engine (st\<lparr>y_Resolver := x\<rparr>) = y_Engine st"
    "y_Config (set_engine g st) = y_Config st" for g st c t x
    by (simp_all add: y_Engine_def set_engine_def)
  show ?thesis
    using assms
    by (simp add: admin_reset_def save_config_def SaveWafConfig_def Let_def i g apply_trustscore_def SetConfig_def
        SetUserWeights_def UserWeights_def defaultConfig_def new_resolver_def)
qed

lemma reset_keeps_the_engine_config_witness:
  "let tuned = SetConfig (DefaultConfig\<lparr>c_MethodProbeMin := 9\<rparr>) init_engine;
       ad = \<lparr> ad_Store = demo_store, ad_Proxy = demo_proxy tuned None \<rparr>;
       st = ad_Proxy (snd (admin_reset demo_admin_libs demo_admin_call (post ''/api/admin/config/reset'' []) ad))
   in g_Config (y_Engine st) = DefaultConfig\<lparr>c_MethodProbeMin := 9\<rparr>"
  using reset_keeps_the_engine_config[of "post ''/api/admin/config/reset'' []" demo_admin_call]
  by (simp add: Let_def post_def demo_admin_call_def demo_proxy_def y_Engine_def SetConfig_def)

end
