(* ===== verification/Fusion_Safety.thy ===== *)
theory Fusion_Safety
  imports Fusion
begin

text \<open>
  The properties of \<open>ComputeTrustScore\<close>: ranges, monotonicity in the evidence, what each kind
  of evidence decides on its own, what a request leaves in the profile, and what the first
  request of an unknown address can meet at worst.
\<close>

section \<open>Update as a whole\<close>

lemma Update_sel [step_simps]:
  "p_PreviousScores (Update p ev sg oc) = append_trim 10 (p_PreviousScores p) (o_FinalScore oc)"
  "p_WasBlocked (Update p ev sg oc) = (p_WasBlocked p \<or> o_WasBlocked oc)"
  "p_WasChallenged (Update p ev sg oc) = (p_WasChallenged p \<or> o_WasChallenged oc)"
  "p_RASPHits (Update p ev sg oc) = p_RASPHits p"
  "p_ConfirmedExploit (Update p ev sg oc) = p_ConfirmedExploit p"
  "p_EWMAScore (Update p ev sg oc) = p_EWMAScore p"
  "p_Tier1Corrections (Update p ev sg oc) = p_Tier1Corrections p"
  "p_TotalRequests (Update p ev sg oc) = p_TotalRequests p + 1"
  "p_LastSeen (Update p ev sg oc) = e_Timestamp ev"
  "p_SensitivePathHits (Update p ev sg oc) =
     p_SensitivePathHits p @ (if s_SensitivePathHit (s_Recon sg) then [s_SensitiveHit (s_Recon sg)] else [])"
  "p_BurstTimestamps (Update p ev sg oc) =
     trimTimestamps (p_BurstTimestamps p @ [e_Timestamp ev]) (e_Timestamp ev) 1"
  "p_RecentTimestamps (Update p ev sg oc) =
     trimTimestamps (p_RecentTimestamps p @ [e_Timestamp ev]) (e_Timestamp ev) 60"
  by (simp_all add: Update_def step_simps)

text \<open>Serving a sequence of requests of one address, with the decisions taken.\<close>

fun trust_run ::
    "config \<Rightarrow> module_weights \<Rightarrow> ip_profile \<Rightarrow> request_event list \<Rightarrow> decision list \<times> ip_profile" where
  "trust_run cfg w p [] = ([], p)"
| "trust_run cfg w p (ev # evs) =
     (let (r, p') = ComputeTrustScore cfg w p ev; (ds, p'') = trust_run cfg w p' evs
      in (r_Decision r # ds, p''))"

lemma trust_run_Cons:
  "trust_run cfg w p (ev # evs) =
     (r_Decision (fst (ComputeTrustScore cfg w p ev)) #
        fst (trust_run cfg w (snd (ComputeTrustScore cfg w p ev)) evs),
      snd (trust_run cfg w (snd (ComputeTrustScore cfg w p ev)) evs))"
  by (simp add: Let_def split: prod.split)

text \<open>An invariant of the profile that every request keeps holds after any number of them.\<close>

lemma trust_run_invariant:
  assumes "\<And>p ev. I p \<Longrightarrow> I (snd (ComputeTrustScore cfg w p ev)) \<and> P (r_Decision (fst (ComputeTrustScore cfg w p ev)))"
    and "I p"
  shows "list_all P (fst (trust_run cfg w p evs)) \<and> I (snd (trust_run cfg w p evs))"
  using assms(2)
proof (induction evs arbitrary: p)
  case (Cons ev evs)
  then show ?case using assms(1)[of p ev] by (simp del: trust_run.simps add: trust_run_Cons)
qed simp

section \<open>Ranges\<close>

text \<open>C9: A score is always between 0 and 10, every sub-score that is shown is between 0 and 1,
  and the decision is never softer than the band the score falls into.\<close>

theorem trust_score_range:
  "0 \<le> r_Score (fst (ComputeTrustScore cfg w p event)) \<and>
   r_Score (fst (ComputeTrustScore cfg w p event)) \<le> 10 \<and>
   list_all (\<lambda>f. 0 \<le> f (r_SubScores (fst (ComputeTrustScore cfg w p event))) \<and>
                 f (r_SubScores (fst (ComputeTrustScore cfg w p event))) \<le> 1)
     [ss_recon, ss_bruteforce, ss_ddos, ss_session, ss_scraping, ss_evasion, ss_vuln_probe,
      ss_account_abuse] \<and>
   makeDecision (r_Score (fst (ComputeTrustScore cfg w p event)))
     \<le> r_Decision (fst (ComputeTrustScore cfg w p event))"
proof -
  have shown: "r_SubScores (fst (ComputeTrustScore cfg w p event)) =
      round_sub_scores (a_SubScores (fst (assess p event cfg)))"
    by (simp add: ComputeTrustScore_def Let_def split: prod.split)
  have "list_all (\<lambda>v. 0 \<le> round_to 1000 v \<and> round_to 1000 v \<le> 1)
      (sub_score_values (a_SubScores (fst (assess p event cfg))))"
    using assess_range[of p event cfg] round_to_ge[of 0 _ 1000] round_to_le[of _ 1 1000]
    by (simp add: list_all_iff)
  then show ?thesis
    by (simp add: shown round_sub_scores_def sub_score_values_def ComputeTrustScore_range
        ComputeTrustScore_no_softer)
qed

section \<open>Monotone in the evidence\<close>

lemma tier1_delta_mono: "adj \<le> adj' \<Longrightarrow> 0 \<le> gain \<Longrightarrow> tier1_delta gain adj \<le> tier1_delta gain adj'"
  unfolding tier1_delta_def fmul_def
  by (intro fl_mono mult_right_mono fsub_mono) auto

lemma clamp10_id: "0 \<le> s \<Longrightarrow> s \<le> 10 \<Longrightarrow> clamp10 s = s"
  by (simp add: clamp10_def)

lemma tier1_nudge_mono_delta:
  assumes "d \<le> d'" and "0 \<le> s" and "s \<le> 10" and "repr s"
  shows "tier1_nudge ov d s \<le> tier1_nudge ov d' s"
proof -
  have mono: "clamp10 (fadd s a) \<le> clamp10 (fadd s b)" if "a \<le> b" for a b
    using that by (intro clamp10_mono fadd_mono) auto
  have zero: "clamp10 (fl s) = s" using assms by (simp add: clamp10_id)
  have "0 < fl (0.01 :: real)"
    using fl_ge[of "1 / 2 ^ 10" "0.01"] repr_dyadic[of 1 10] by simp
  then show ?thesis
    using mono[OF assms(1)] mono[of d 0] mono[of 0 d'] assms(1)
    by (auto simp: tier1_nudge_def tier1_applies_def zero)
qed

lemma repr_clamp10: "repr x \<Longrightarrow> repr (clamp10 x)"
  by (auto simp: clamp10_def max_def min_def)

lemma repr_challenge_boost: "repr x \<Longrightarrow> repr (challenge_boost b x)"
  by (auto simp: challenge_boost_def min_def)

text \<open>The hard overrides look at the sub-scores in one rule only, the one for Tor.\<close>

definition tor_evidence :: "score_map \<Rightarrow> bool" where
  "tor_evidence ss \<longleftrightarrow> list_ex (\<lambda>v. v > 1 / 2) (sub_score_values ss)"

lemma checkHardOverrides_cong:
  assumes "p_IsTor p \<Longrightarrow> tor_evidence ss \<longleftrightarrow> tor_evidence ss'"
  shows "checkHardOverrides p ss' = checkHardOverrides p ss"
proof -
  have "p_IsTor p \<and> tor_evidence ss \<longleftrightarrow> p_IsTor p \<and> tor_evidence ss'" using assms by blast
  then show ?thesis unfolding checkHardOverrides_def tor_evidence_def[symmetric] by (simp only:)
qed

lemma tor_evidence_mono:
  assumes "no_worse ss ss'" and "tor_evidence ss"
  shows "tor_evidence ss'"
  using assms by (auto simp: tor_evidence_def no_worse_def sub_score_values_def)

lemma policy_mono:
  assumes "d \<le> d'" and "no_worse ss ss'"
  shows "applyPolicyOverrides p ss s d \<le> applyPolicyOverrides p ss' s' d'"
proof -
  have "ss_recon ss \<le> ss_recon ss'" using assms(2) by (simp add: no_worse_def sub_score_values_def)
  with assms(1) show ?thesis
    by (cases d; cases d') (auto simp: applyPolicyOverrides_def decision_order)
qed

text \<open>C8: The fusion is monotone: for one profile, with nonnegative weights, no worse evidence in
  every detector, no smaller boost and no lower correction by the deep tier, a request gets no
  lower score and no harsher decision, hard overrides and policy included. The one condition
  concerns addresses marked as Tor: the worse evidence must not be what switches their override
  on, a sub-score above one half, because that override hides the harsher ones behind it.\<close>

theorem fused_score_monotone:
  assumes "weights_ok w" and "no_worse ss ss'"
    and "list_all (\<lambda>v. 0 \<le> v) (sub_score_values ss)"
    and "boost' \<le> boost" and "0 \<le> boost"
    and "adj' \<le> adj" and "0 \<le> gain"
    and "p_IsTor p \<longrightarrow> list_ex (\<lambda>v. v > 1 / 2) (sub_score_values ss')
           \<longrightarrow> list_ex (\<lambda>v. v > 1 / 2) (sub_score_values ss)"
  shows "let ov = checkHardOverrides p ss; ov' = checkHardOverrides p ss';
             score = final_score ov (base_score ov w ss boost) solved (tier1_delta gain adj);
             score' = final_score ov' (base_score ov' w ss' boost') solved (tier1_delta gain adj')
         in score' \<le> score \<and>
            applyPolicyOverrides p ss score (makeDecision score)
              \<le> applyPolicyOverrides p ss' score' (makeDecision score')"
proof -
  have ov: "checkHardOverrides p ss' = checkHardOverrides p ss"
    using assms(8) tor_evidence_mono[OF assms(2)] unfolding tor_evidence_def[symmetric]
    by (intro checkHardOverrides_cong) blast
  define o' where "o' = checkHardOverrides p ss"
  let ?score = "final_score o' (base_score o' w ss boost) solved (tier1_delta gain adj)"
  let ?score' = "final_score o' (base_score o' w ss' boost') solved (tier1_delta gain adj')"
  have le: "?score' \<le> ?score"
  proof (cases o')
    case None
    let ?b = "base_score None w ss boost" and ?b' = "base_score None w ss' boost'"
    let ?s = "challenge_boost solved (clamp10 ?b')"
    have "repr ?b'" by (simp add: base_score_def Let_def)
    then have r: "repr ?s" by (intro repr_challenge_boost repr_clamp10)
    have "final_score None ?b' solved (tier1_delta gain adj') \<le> final_score None ?b' solved (tier1_delta gain adj)"
      unfolding final_score_def using challenge_boost_range[of "clamp10 ?b'" solved] r
      by (intro round_to_mono tier1_nudge_mono_delta tier1_delta_mono assms) auto
    also have "\<dots> \<le> final_score None ?b solved (tier1_delta gain adj)"
      by (intro final_score_mono_base base_score_antimono assms)
    finally show ?thesis by (simp add: None)
  next
    case (Some v)
    then show ?thesis by (simp add: base_score_def final_score_def tier1_nudge_def tier1_applies_def)
  qed
  from policy_mono[OF makeDecision_antimono[OF le] assms(2)] le show ?thesis
    by (simp add: Let_def ov flip: o'_def)
qed

definition quiet_scores :: score_map where
  "quiet_scores = \<lparr> ss_recon = 0, ss_bruteforce = 0, ss_ddos = 0, ss_session = 0, ss_scraping = 0,
     ss_evasion = 0, ss_vuln_probe = 0, ss_account_abuse = 0, ss_rasp = 0 \<rparr>"

lemma fresh_no_override: "checkHardOverrides (NewIPProfile ip) ss = None"
  by (simp add: checkHardOverrides_def NewIPProfile_def raspMaxSeverity_def fcard_fempty)

lemma fused_score_monotone_witness:
  "final_score None (base_score None liveWeights (quiet_scores\<lparr>ss_recon := 1 / 2, ss_rasp := 1\<rparr>) 0) False
     (tier1_delta 3 0)
   \<le> final_score None (base_score None liveWeights quiet_scores 1) False (tier1_delta 3 (1 / 2))"
  using fused_score_monotone[of liveWeights quiet_scores "quiet_scores\<lparr>ss_recon := 1 / 2, ss_rasp := 1\<rparr>"
      0 1 0 "1 / 2" 3 "NewIPProfile []" False]
  by (simp add: liveWeights_ok no_worse_def sub_score_values_def quiet_scores_def fresh_no_override Let_def)
    (simp add: NewIPProfile_def)

section \<open>What one kind of evidence decides\<close>

lemma override_of_exploit: "p_ConfirmedExploit p \<Longrightarrow> override_of cfg p event = Some 0"
  by (simp add: override_of_def checkHardOverrides_def step_simps)

lemma override_decision_simps [simp]:
  "override_decision 0 = Ban" "override_decision 2 = Block" "override_decision 4 = Challenge"
  by (simp_all add: override_decision_def)

text \<open>Where the fusion is not monotone: an address marked as Tor with forty logins is banned while no
  sub-score is above one half, and as soon as one is, it is only challenged.\<close>

theorem tor_evidence_softens:
  assumes "p_IsTor p" and "40 \<le> p_LoginAttempts p" and "\<not> p_ConfirmedExploit p" "raspMaxSeverity p \<noteq> SevHigh"
    and "\<not> tor_evidence ss" "tor_evidence ss'"
  shows "let ov = checkHardOverrides p ss; ov' = checkHardOverrides p ss'
    in makeDecision (final_score ov (base_score ov w ss b) solved d) = Ban \<and>
       makeDecision (final_score ov' (base_score ov' w ss' b) solved d) = Challenge"
proof -
  have "checkHardOverrides p ss = Some 0" "checkHardOverrides p ss' = Some 4"
    unfolding checkHardOverrides_def tor_evidence_def[symmetric] using assms by simp_all
  then show ?thesis using override_band[of 0] override_band[of 4] by (simp add: base_score_def)
qed

lemma tor_evidence_softens_witness:
  "let p = (NewIPProfile [])\<lparr>p_IsTor := True, p_LoginAttempts := 40\<rparr>; ov = checkHardOverrides p (quiet_scores\<lparr>ss_recon := 1\<rparr>)
   in makeDecision (final_score ov (base_score ov liveWeights (quiet_scores\<lparr>ss_recon := 1\<rparr>) 0) False 0) = Challenge"
  using tor_evidence_softens[of "(NewIPProfile [])\<lparr>p_IsTor := True, p_LoginAttempts := 40\<rparr>" quiet_scores
      "quiet_scores\<lparr>ss_recon := 1\<rparr>" liveWeights 0 False 0]
  by (simp add: Let_def tor_evidence_def sub_score_values_def quiet_scores_def NewIPProfile_def raspMaxSeverity_def)

text \<open>A critical runtime effect on record bans every later request scored with the profile.\<close>

theorem critical_effect_bans_profile:
  assumes "rh_Severity hit = SevCritical"
  shows "list_all (\<lambda>d. d = Ban) (fst (trust_run cfg w (AddRASPHit p hit) evs)) \<and>
         p_ConfirmedExploit (snd (trust_run cfg w (AddRASPHit p hit) evs))"
proof (rule trust_run_invariant)
  show "p_ConfirmedExploit (AddRASPHit p hit)" using assms by (simp add: step_simps)
next
  fix p :: ip_profile and ev
  assume "p_ConfirmedExploit p"
  then show "p_ConfirmedExploit (snd (ComputeTrustScore cfg w p ev)) \<and>
      r_Decision (fst (ComputeTrustScore cfg w p ev)) = Ban"
    by (simp add: ComputeTrustScore_profile step_simps
        ComputeTrustScore_override[OF override_of_exploit])
qed

definition critical_hit :: rasp_hit where
  "critical_hit = \<lparr> rh_Category = ''rce'', rh_Severity = SevCritical, rh_Evidence = ''/bin/sh'', rh_Timestamp = 7 \<rparr>"

definition plain_event :: request_event where
  "plain_event = \<lparr> e_IP = ''10.0.0.1'', e_SessionID = ''s'', e_Timestamp = 100, e_Method = ''GET'',
     e_Path = ''/products'', e_QueryString = [], e_StatusCode = 200, e_ResponseSize = 10,
     e_RequestSize = 10, e_ContentType = [], e_UserAgent = ''ua'', e_Referer = [], e_Accept = [],
     e_AcceptLanguage = [], e_JA4Fingerprint = ''j'', e_ASN = [], e_ChallengePassed = False,
     e_CountryCode = ''FR'', e_IsTor = False, e_IsVPN = False, e_IsDatacenter = False,
     e_IsAssetRequest = False \<rparr>"

lemma critical_effect_bans_profile_witness:
  "list_all (\<lambda>d. d = Ban)
     (fst (trust_run DefaultConfig liveWeights (AddRASPHit (NewIPProfile ''10.0.0.1'') critical_hit)
        [plain_event, plain_event\<lparr>e_Timestamp := 100000\<rparr>]))"
  using critical_effect_bans_profile[of critical_hit DefaultConfig liveWeights "NewIPProfile ''10.0.0.1''"]
  by (simp add: critical_hit_def del: trust_run.simps)

text \<open>A high runtime effect on record, with none more severe and no confirmed exploit, blocks
  every later request of the address, however its counters and scores stand.\<close>

theorem high_effect_blocks_forever:
  assumes "raspMaxSeverity p = SevHigh" and "\<not> p_ConfirmedExploit p"
  shows "list_all (\<lambda>d. d = Block) (fst (trust_run cfg w p evs))"
proof -
  let ?I = "\<lambda>p. raspMaxSeverity p = SevHigh \<and> \<not> p_ConfirmedExploit p"
  have "?I (snd (ComputeTrustScore cfg w p ev)) \<and> r_Decision (fst (ComputeTrustScore cfg w p ev)) = Block"
    if "?I p" for p :: ip_profile and ev
  proof -
    have "override_of cfg p ev = Some 2"
      using that by (simp add: override_of_def checkHardOverrides_def step_simps)
    moreover have "raspMaxSeverity (snd (ComputeTrustScore cfg w p ev)) = raspMaxSeverity p"
      by (simp add: ComputeTrustScore_profile raspMaxSeverity_def step_simps)
    ultimately show ?thesis
      using that by (simp add: ComputeTrustScore_override) (simp add: ComputeTrustScore_profile step_simps)
  qed
  then show ?thesis using trust_run_invariant[of ?I cfg w "\<lambda>d. d = Block" p evs] assms by simp
qed

lemma high_effect_blocks_forever_witness:
  "list_all (\<lambda>d. d = Block) (fst (trust_run DefaultConfig liveWeights
     (AddRASPHit (NewIPProfile ''10.0.0.1'') (critical_hit\<lparr>rh_Severity := SevHigh\<rparr>)) [plain_event]))"
  by (rule high_effect_blocks_forever)
    (simp_all add: raspMaxSeverity_def step_simps trim_append_def critical_hit_def NewIPProfile_def
      maxRASPHits_def severity_order)

text \<open>Past probes of sensitive paths are graded: for an address without runtime effects, login
  attempts or Tor, one or two on record mean a challenge, three to seven a block, eight or more
  a ban, whatever the request is and however clean every detector finds it.\<close>

theorem sensitive_hits_graded:
  assumes "\<not> p_ConfirmedExploit p" and "raspMaxSeverity p \<noteq> SevHigh" and "\<not> p_IsTor p"
    and "p_LoginAttempts p < 7" and "p_SensitivePathHits p \<noteq> []"
  shows "r_Decision (fst (ComputeTrustScore cfg w p event)) =
     (if 8 \<le> length (p_SensitivePathHits p) then Ban
      else if 3 \<le> length (p_SensitivePathHits p) then Block else Challenge)"
proof -
  have "p_LoginAttempts (snd (assess p event cfg)) < 8"
    using assms(4) assess_sel(21)[of p event cfg] by linarith
  moreover have "1 \<le> length (p_SensitivePathHits p)"
    using assms(5) by (cases "p_SensitivePathHits p") auto
  ultimately have "override_of cfg p event =
      Some (if 8 \<le> length (p_SensitivePathHits p) then 0
            else if 3 \<le> length (p_SensitivePathHits p) then 2 else 4)"
    using assms by (simp add: override_of_def checkHardOverrides_def step_simps)
  from ComputeTrustScore_override[OF this] show ?thesis by simp
qed

lemma sensitive_hits_graded_witness:
  "r_Decision (fst (ComputeTrustScore DefaultConfig liveWeights
     ((NewIPProfile ''10.0.0.1'')\<lparr>p_SensitivePathHits :=
        replicate 3 \<lparr>sh_Path = ''/.env'', sh_Timestamp = 1\<rparr>\<rparr>) plain_event)) = Block"
  by (subst sensitive_hits_graded)
    (simp_all add: NewIPProfile_def raspMaxSeverity_def)

section \<open>The policy layer\<close>

lemma hits_challenge:
  assumes "p_SensitivePathHits p \<noteq> []"
  shows "Challenge \<le> makeDecision (r_Score (fst (ComputeTrustScore cfg w p event)))"
proof -
  have "1 \<le> length (p_SensitivePathHits p)" using assms by (cases "p_SensitivePathHits p") auto
  then have "override_of cfg p event \<noteq> None"
    by (simp add: override_of_def checkHardOverrides_def step_simps del: not_None_eq)
  then obtain v where v: "override_of cfg p event = Some v" by blast
  then have "v \<in> {0, 2, 4}" using checkHardOverrides_values unfolding override_of_def by blast
  then show ?thesis
    using override_band[of v] by (simp add: ComputeTrustScore_score Let_def v base_score_def)
      (auto simp: override_decision_def decision_order)
qed

lemma decision_shape:
  "r_Decision (fst (ComputeTrustScore cfg w p event)) =
     (let band = makeDecision (r_Score (fst (ComputeTrustScore cfg w p event)))
      in if p_IsTor p \<and> 0 < fst (ScoreRecon p (e_Path event) (e_Timestamp event) cfg) \<and> band < Challenge
         then Challenge else band)"
proof -
  let ?b = "makeDecision (r_Score (fst (ComputeTrustScore cfg w p event)))"
  have lt: "d < Challenge \<longleftrightarrow> d = Allow \<or> d = AllowStricter" for d
    by (cases d) (auto simp: decision_order)
  have dead: "p_SensitivePathHits p = [] \<or> ?b \<noteq> Allow"
    using hits_challenge[of p cfg w event] by (auto simp: decision_order)
  show ?thesis
    unfolding Let_def lt ComputeTrustScore_decision[of cfg w p event] applyPolicyOverrides_def
    using dead by (auto simp: step_simps assess_sub_scores)
qed
text \<open>C37: The rule of the policy layer for VPN and datacenter addresses never changes a decision:
  an address with a sensitive path on record is challenged by the override before the rule is
  asked, and the current request's probe is recorded only afterwards. The decision is the band
  of the score, raised to a challenge for Tor with reconnaissance, and nothing else.\<close>

theorem vpn_rule_is_dead:
  "r_Decision (fst (ComputeTrustScore cfg w p event)) =
     (let band = makeDecision (r_Score (fst (ComputeTrustScore cfg w p event)))
      in if p_IsTor p \<and> 0 < fst (ScoreRecon p (e_Path event) (e_Timestamp event) cfg) \<and> band < Challenge
         then Challenge else band)"
  by (rule decision_shape)

section \<open>What a request leaves in the profile\<close>

text \<open>C30: A request leaves in the profile what was decided: its score is the newest of the recent
  scores, which stay at most ten; a block or ban and a challenge set their sticky flags and
  nothing clears them; the request is counted; the burst and minute windows hold only times at
  most one and sixty seconds old; and scoring never touches runtime effects or corrections.\<close>

theorem request_is_recorded:
  assumes "length (p_PreviousScores p) \<le> 10"
  shows "let (r, p') = ComputeTrustScore cfg w p event in
     p_PreviousScores p' \<noteq> [] \<and> last (p_PreviousScores p') = r_Score r
     \<and> length (p_PreviousScores p') \<le> 10
     \<and> p_WasBlocked p' = (p_WasBlocked p \<or> r_Decision r = Block \<or> r_Decision r = Ban)
     \<and> p_WasChallenged p' = (p_WasChallenged p \<or> r_Decision r = Challenge)
     \<and> p_TotalRequests p' = p_TotalRequests p + 1 \<and> p_LastSeen p' = e_Timestamp event
     \<and> list_all (\<lambda>t. fsub (e_Timestamp event) t \<le> 1) (p_BurstTimestamps p')
     \<and> list_all (\<lambda>t. fsub (e_Timestamp event) t \<le> 60) (p_RecentTimestamps p')
     \<and> p_RASPHits p' = p_RASPHits p \<and> p_Tier1Corrections p' = p_Tier1Corrections p
     \<and> p_EWMAScore p' = p_EWMAScore p"
proof -
  have out: "o_FinalScore (make_outcome s d) = s" "o_WasBlocked (make_outcome s d) = (d = Block \<or> d = Ban)"
    "o_WasChallenged (make_outcome s d) = (d = Challenge)" for s d
    by (simp_all add: make_outcome_def)
  have "length (append_trim 10 (p_PreviousScores p) s) \<le> 10" for s
    using assms by (rule recent_scores.push_bound)
  then show ?thesis
    by (simp add: case_prod_unfold ComputeTrustScore_profile step_simps out trimTimestamps_def
        list_all_iff)
qed

lemma request_is_recorded_witness:
  "let (r, p') = ComputeTrustScore DefaultConfig liveWeights (NewIPProfile ''10.0.0.1'') plain_event in
     p_PreviousScores p' \<noteq> [] \<and> last (p_PreviousScores p') = r_Score r \<and> length (p_PreviousScores p') \<le> 10"
proof -
  have "length (p_PreviousScores (NewIPProfile ''10.0.0.1'')) \<le> 10" by (simp add: NewIPProfile_def)
  from request_is_recorded[OF this, of DefaultConfig liveWeights plain_event]
  show ?thesis by (simp add: Let_def case_prod_unfold)
qed

section \<open>The deep tier's correction\<close>

lemma tier1_keeps_seven:
  assumes "10 \<le> base" and "0 \<le> adj"
  shows "7 \<le> final_score None base solved (tier1_delta 3 adj)"
proof -
  have "- (3 :: real) = tier1_delta 3 0"
    using fl_repr[of "- (1 / 2)"] fl_repr[of "- 1"] fl_repr[of "- 3"]
    by (simp add: tier1_delta_def fsub_def fmul_def repr_minus)
  also have "\<dots> \<le> tier1_delta 3 adj" using assms(2) by (intro tier1_delta_mono) auto
  finally have d: "- 3 \<le> tier1_delta 3 adj" .
  have "clamp10 base = 10" using assms(1) by (simp add: clamp10_def)
  moreover have "challenge_boost solved 10 = 10"
    unfolding challenge_boost_def fadd_def using fl_ge[of 10 "10 + fl 0.15"] fl_015(1) by simp
  moreover have "7 \<le> tier1_nudge None (tier1_delta 3 adj) 10"
    using tier1_nudge_mono_delta[OF d, of 10 None] fl_repr[of 7] fl_le[of "0.01" 3]
    by (simp add: tier1_nudge_def tier1_applies_def clamp10_def fadd_def split: if_splits)
  moreover have "round_to 100 7 = 7" using round_to_int[of 7 100] by simp
  ultimately show ?thesis
    unfolding final_score_def by (intro round_to_ge) auto
qed
text \<open>The deep tier alone cannot condemn clean traffic: with the default gain and a correction
  score between 0 and 1 an address whose behaviour scores 10 keeps at least 7, so it is never
  challenged; and under a hard override the correction changes nothing at all.\<close>

theorem tier1_correction_bounded:
  assumes "10 \<le> base" and "0 \<le> adj"
  shows "7 \<le> final_score None base solved (tier1_delta (c_Tier1ScoreGain DefaultConfig) adj) \<and>
         makeDecision (final_score None base solved (tier1_delta (c_Tier1ScoreGain DefaultConfig) adj))
           \<le> AllowStricter \<and>
         final_score (Some v) base' solved delta = final_score (Some v) base' solved 0"
proof -
  have gain: "c_Tier1ScoreGain DefaultConfig = 3" by (simp add: DefaultConfig_def)
  have s: "7 \<le> final_score None base solved (tier1_delta 3 adj)" by (rule tier1_keeps_seven[OF assms])
  have "makeDecision (final_score None base solved (tier1_delta 3 adj)) \<le> AllowStricter"
    using s by (auto simp: makeDecision_def decision_order)
  then show ?thesis unfolding gain
    using s by (simp add: final_score_def tier1_nudge_def tier1_applies_def)
qed

lemma tier1_correction_bounded_witness:
  "7 \<le> final_score None 10 False (tier1_delta (c_Tier1ScoreGain DefaultConfig) 0) \<and>
   final_score (Some 4) 4 True 3 = final_score (Some 4) 4 True 0"
  using tier1_correction_bounded[of 10 0 False 4 4 3] tier1_correction_bounded[of 10 0 True 4 4 3] by simp

section \<open>Bursts\<close>

text \<open>A burst on record decides on its own: more than 50 times in the burst window ban and more
  than 15 challenge, whatever the time of the request is. The window is only trimmed when a
  request is recorded, so the first request after a pause, however long, is judged by it.\<close>

theorem burst_ignores_elapsed_time:
  assumes "\<not> p_ConfirmedExploit p" and "raspMaxSeverity p \<noteq> SevHigh" and "\<not> p_IsTor p"
    and "p_LoginAttempts p < 7" and "p_SensitivePathHits p = []" and "fcard (p_SeenCountryCodes p) \<le> 2"
    and "15 < length (p_BurstTimestamps p)"
  shows "r_Decision (fst (ComputeTrustScore cfg w p (event\<lparr>e_Timestamp := t\<rparr>))) =
     (if 50 < length (p_BurstTimestamps p) then Ban else Challenge)"
proof -
  let ?ev = "event\<lparr>e_Timestamp := t\<rparr>"
  have "p_LoginAttempts (snd (assess p ?ev cfg)) < 8"
    using assms(4) assess_sel(21)[of p ?ev cfg] by linarith
  then have "override_of cfg p ?ev = Some (if 50 < length (p_BurstTimestamps p) then 0 else 4)"
    using assms by (simp add: override_of_def checkHardOverrides_def step_simps Let_def)
  from ComputeTrustScore_override[OF this] show ?thesis by simp
qed

lemma burst_ignores_elapsed_time_witness:
  "r_Decision (fst (ComputeTrustScore DefaultConfig liveWeights
     ((NewIPProfile ''10.0.0.1'')\<lparr>p_BurstTimestamps := replicate 51 100\<rparr>)
     (plain_event\<lparr>e_Timestamp := 100 + 86400\<rparr>))) = Ban"
  by (subst burst_ignores_elapsed_time)
    (simp_all add: NewIPProfile_def raspMaxSeverity_def fcard_fempty)

section \<open>The first request of an address\<close>

lemma ffilter_none: "ffilter P {||} = {||}"
  by auto

lemma fresh_scores:
  fixes event :: request_event and ip :: string
  defines "ss \<equiv> a_SubScores (fst (assess (NewIPProfile ip) event DefaultConfig))"
  shows "ss_bruteforce ss = 0" "ss_scraping ss = 0" "ss_evasion ss = 0" "ss_vuln_probe ss = 0"
    "ss_account_abuse ss = 0" "ss_rasp ss = 0"
proof -
  obtain l r g where p: "snd (assess (NewIPProfile ip) event DefaultConfig) =
      (NewIPProfile ip)\<lparr>p_LoginAttempts := p_LoginAttempts (NewIPProfile ip) + l,
        p_PasswordResetAttempts := r, p_RegistrationAttempts := g\<rparr>"
    by (rule ScoreBruteForce_profile[of "NewIPProfile ip" event DefaultConfig]) (simp add: assess_profile)
  show "ss_rasp ss = 0"
    unfolding ss_def assess_sub_scores by (simp add: ScoreRASP_penalty step_simps raspMaxSeverity_def NewIPProfile_def)
  show "ss_evasion ss = 0"
    unfolding ss_def assess_sub_scores p by (simp add: ScoreEvasion_def Let_def NewIPProfile_def DefaultConfig_def fcard_fempty)
  show "ss_scraping ss = 0"
    unfolding ss_def assess_sub_scores p
    by (simp add: ScoreScraping_def scraping_pagination_def Let_def NewIPProfile_def DefaultConfig_def
        split: prod.split option.split)
  show "ss_vuln_probe ss = 0"
    unfolding ss_def assess_sub_scores p
    by (simp add: ScoreVulnProbe_def vuln_fuzzing_def options_count_def ffilter_none fcard_fempty isIncrementalSequence_def
        Let_def NewIPProfile_def DefaultConfig_def)
  show "ss_bruteforce ss = 0"
    unfolding ss_def assess_sub_scores
    by (simp add: ScoreBruteForce_def brute_switch_def Let_def NewIPProfile_def DefaultConfig_def
        slidingWindowCount_filter split: option.split)
  have "p_LoginAttempts q + p_RegistrationAttempts q + p_PasswordResetAttempts q \<le> 1"
    if "q = snd (assess (NewIPProfile ip) event DefaultConfig)" for q
    unfolding that assess_profile
    by (simp add: ScoreBruteForce_def brute_switch_def Let_def NewIPProfile_def split: option.split)
  then show "ss_account_abuse ss = 0"
    unfolding ss_def assess_sub_scores p
    by (simp add: ScoreAccountAbuse_def slidingWindowCount_filter Let_def NewIPProfile_def DefaultConfig_def p)
qed

lemma fresh_override: "override_of DefaultConfig (NewIPProfile ip) event = None"
proof -
  have "p_LoginAttempts (snd (assess (NewIPProfile ip) event DefaultConfig)) < 8"
    using assess_sel(21)[of "NewIPProfile ip" event DefaultConfig] by (simp add: NewIPProfile_def)
  then show ?thesis
    by (simp add: override_of_def checkHardOverrides_def step_simps Let_def)
      (simp add: NewIPProfile_def raspMaxSeverity_def fcard_fempty)
qed

lemma fresh_risk:
  fixes event :: request_event and ip :: string
  defines "ss \<equiv> a_SubScores (fst (assess (NewIPProfile ip) event DefaultConfig))"
  shows "weighted_risk liveWeights ss \<le> 1 / 2"
proof -
  have r: "repr (13 / 64)" "repr (5 / 32)" "repr (1 / 8)" "repr (23 / 64)" "repr (31 / 64)"
    using repr_dyadic[of 13 6] repr_dyadic[of 5 5] repr_dyadic[of 1 3] repr_dyadic[of 23 6]
      repr_dyadic[of 31 6] by simp_all
  have all: "list_all (\<lambda>v. 0 \<le> v \<and> v \<le> 1) (sub_score_values ss)"
    unfolding ss_def by (rule assess_range)
  have mul: "fmul (fl w) v \<le> b" if "0 \<le> w" "w \<le> b" "repr b" "0 \<le> v" "v \<le> 1" for w v b
  proof -
    have "fl w \<le> b" using that by (intro fl_le)
    moreover have "0 \<le> fl w" using that by simp
    ultimately have "fl w * v \<le> b" using that mult_mono[of "fl w" b v 1] by simp
    then show ?thesis unfolding fmul_def using that by (intro fl_le)
  qed
  have add: "fadd x y \<le> b" if "x + y \<le> b" "repr b" for x y b
    unfolding fadd_def using that by (rule fl_le)
  have a: "fmul (w_Recon liveWeights) (ss_recon ss) \<le> 13 / 64"
    unfolding liveWeights_def module_weights.simps
    using all by (intro mul) (simp_all add: sub_score_values_def r)
  have b: "fmul (w_Ddos liveWeights) (ss_ddos ss) \<le> 5 / 32"
    unfolding liveWeights_def module_weights.simps
    using all by (intro mul) (simp_all add: sub_score_values_def r)
  have c: "fmul (w_Session liveWeights) (ss_session ss) \<le> 1 / 8"
    unfolding liveWeights_def module_weights.simps
    using all by (intro mul) (simp_all add: sub_score_values_def r)
  have "fadd (fmul (w_Recon liveWeights) (ss_recon ss)) (fmul (w_Ddos liveWeights) (ss_ddos ss)) \<le> 23 / 64"
    using a b by (intro add r) simp
  then have "fadd (fadd (fmul (w_Recon liveWeights) (ss_recon ss)) (fmul (w_Ddos liveWeights) (ss_ddos ss)))
      (fmul (w_Session liveWeights) (ss_session ss)) \<le> 31 / 64"
    using c by (intro add r) simp
  then show ?thesis
    using fresh_scores[of ip event] unfolding ss_def[symmetric] weighted_risk_def Let_def by simp
qed

text \<open>C33: Under the built-in configuration of the detectors and the built-in weights, the first request
  of an address the engine has never seen scores at least 5 and is never challenged, blocked or
  banned, whatever it is: a probe of a sensitive path through Tor, a VPN or a datacenter
  included, because the origin flags and the probe are recorded only after the decision.\<close>

theorem first_request_is_let_through:
  "5 \<le> r_Score (fst (ComputeTrustScore DefaultConfig liveWeights (NewIPProfile ip) event)) \<and>
   r_Decision (fst (ComputeTrustScore DefaultConfig liveWeights (NewIPProfile ip) event)) \<le> AllowStricter"
proof -
  let ?r = "fst (ComputeTrustScore DefaultConfig liveWeights (NewIPProfile ip) event)"
  let ?a = "fst (assess (NewIPProfile ip) event DefaultConfig)"
  let ?risk = "max 0 (fsub (weighted_risk liveWeights (a_SubScores ?a)) (fmul (a_Boost ?a) (fl 0.3)))"
  have boost: "0 \<le> fmul (a_Boost ?a) (fl 0.3)"
    by (simp add: assess_sub_scores ComputeTrustBoost_nonneg)
  have "fsub (weighted_risk liveWeights (a_SubScores ?a)) (fmul (a_Boost ?a) (fl 0.3)) \<le> 1 / 2"
    unfolding fsub_def using fresh_risk[of ip event] boost by (intro fl_le) auto
  then have "1 / 2 \<le> fsub 1 ?risk" unfolding fsub_def by (intro fl_ge) auto
  then have base: "5 \<le> base_score None liveWeights (a_SubScores ?a) (a_Boost ?a)"
    unfolding base_score_def Let_def fmul_def by (simp, intro fl_ge) auto
  have delta: "tier1_delta (c_Tier1ScoreGain DefaultConfig) (p_EWMAScore (NewIPProfile ip)) = 0"
    by (simp add: tier1_delta_def NewIPProfile_def)
  have "0 < fl (0.01 :: real)"
    using fl_ge[of "1 / 2 ^ 10" "0.01"] repr_dyadic[of 1 10] by simp
  then have "r_Score ?r = round_to 100 (clamp10 (base_score None liveWeights (a_SubScores ?a) (a_Boost ?a)))"
    unfolding ComputeTrustScore_score fresh_override delta Let_def final_score_def
    by (simp add: tier1_nudge_def tier1_applies_def challenge_boost_def NewIPProfile_def)
  then have five: "5 \<le> r_Score ?r" using base by (simp add: clamp10_def) (rule round_to_ge; simp)
  have "r_Decision ?r = makeDecision (r_Score ?r)"
    by (subst decision_shape) (simp add: NewIPProfile_def Let_def)
  with five show ?thesis by (auto simp: makeDecision_def decision_order)
qed

section \<open>Logins\<close>

lemma login_counted:
  assumes "BruteForceEndpoints (e_Path event) = Some ''login''" and "e_Method event = ''POST''"
  shows "p_LoginAttempts (snd (assess p event cfg)) = p_LoginAttempts p + 1"
  using assms by (simp add: assess_profile ScoreBruteForce_def brute_switch_def Let_def
      del: add_first.simps)

text \<open>Every login counts, the successful ones too: an address with at least seven and at most
  thirty-eight logins on record is blocked at its next login, whatever the response was, and from
  the fortieth on it is banned.\<close>

theorem successful_logins_block:
  assumes "BruteForceEndpoints (e_Path event) = Some ''login''" and "e_Method event = ''POST''"
    and "\<not> p_ConfirmedExploit p" and "raspMaxSeverity p \<noteq> SevHigh" and "\<not> p_IsTor p"
    and "7 \<le> p_LoginAttempts p"
  shows "r_Decision (fst (ComputeTrustScore cfg w p (event\<lparr>e_StatusCode := status\<rparr>))) =
     (if 39 \<le> p_LoginAttempts p then Ban else Block)"
proof -
  have "override_of cfg p (event\<lparr>e_StatusCode := status\<rparr>) = Some (if 39 \<le> p_LoginAttempts p then 0 else 2)"
    using assms by (simp add: override_of_def checkHardOverrides_def login_counted assess_max)
      (simp add: step_simps)
  from ComputeTrustScore_override[OF this] show ?thesis by simp
qed

lemma successful_logins_block_witness:
  "r_Decision (fst (ComputeTrustScore DefaultConfig liveWeights
     ((NewIPProfile ''10.0.0.1'')\<lparr>p_LoginAttempts := 7\<rparr>)
     ((plain_event\<lparr>e_Path := ''/login'', e_Method := ''POST''\<rparr>)\<lparr>e_StatusCode := 200\<rparr>))) = Block"
  by (subst successful_logins_block)
    (simp_all add: NewIPProfile_def raspMaxSeverity_def BruteForceEndpoints_def)

section \<open>A passed challenge\<close>

lemma live_risk_bound:
  assumes "list_all (\<lambda>v. 0 \<le> v \<and> v \<le> 1) (sub_score_values ss)"
  shows "weighted_risk liveWeights ss \<le> 23 / 16"
proof -
  have r: "repr (of_int k / 128)" if "\<bar>k\<bar> \<le> 2 ^ 53" for k
    using repr_dyadic[OF that, of 7] by simp
  have mul: "fmul (fl w) v \<le> b" if "0 \<le> w" "w \<le> b" "repr b" "0 \<le> v" "v \<le> 1" for w v b
  proof -
    have "fl w \<le> b" using that by (intro fl_le)
    moreover have "0 \<le> fl w" using that by simp
    ultimately have "fl w * v \<le> b" using that mult_mono[of "fl w" b v 1] by simp
    then show ?thesis unfolding fmul_def using that by (intro fl_le)
  qed
  have add: "fadd x (fmul w v) \<le> of_int (c + d) / 128"
    if "x \<le> of_int c / 128" "fmul w v \<le> of_int d / 128" "\<bar>c + d\<bar> \<le> 2 ^ 53" for x w v c d
    unfolding fadd_def using that by (intro fl_le r) (auto simp: add_divide_distrib)
  note v = assms[unfolded sub_score_values_def]
  have m0: "fmul (w_Recon liveWeights) (ss_recon ss) \<le> of_int 26 / 128"
    unfolding liveWeights_def module_weights.simps using v by (intro mul r) simp_all
  have m1: "fmul (w_Bruteforce liveWeights) (ss_bruteforce ss) \<le> of_int 24 / 128"
    unfolding liveWeights_def module_weights.simps using v by (intro mul r) simp_all
  have m2: "fmul (w_Ddos liveWeights) (ss_ddos ss) \<le> of_int 20 / 128"
    unfolding liveWeights_def module_weights.simps using v by (intro mul r) simp_all
  have m3: "fmul (w_Session liveWeights) (ss_session ss) \<le> of_int 16 / 128"
    unfolding liveWeights_def module_weights.simps using v by (intro mul r) simp_all
  have m4: "fmul (w_Scraping liveWeights) (ss_scraping ss) \<le> of_int 13 / 128"
    unfolding liveWeights_def module_weights.simps using v by (intro mul r) simp_all
  have m5: "fmul (w_Evasion liveWeights) (ss_evasion ss) \<le> of_int 13 / 128"
    unfolding liveWeights_def module_weights.simps using v by (intro mul r) simp_all
  have m6: "fmul (w_VulnProbe liveWeights) (ss_vuln_probe ss) \<le> of_int 13 / 128"
    unfolding liveWeights_def module_weights.simps using v by (intro mul r) simp_all
  have m7: "fmul (w_AccountAbuse liveWeights) (ss_account_abuse ss) \<le> of_int 7 / 128"
    unfolding liveWeights_def module_weights.simps using v by (intro mul r) simp_all
  have m8: "fmul (w_Rasp liveWeights) (ss_rasp ss) \<le> of_int 52 / 128"
    unfolding liveWeights_def module_weights.simps using v by (intro mul r) simp_all
  have "weighted_risk liveWeights ss \<le>
      of_int (0 + 26 + 24 + 20 + 16 + 13 + 13 + 13 + 7 + 52) / 128"
    unfolding weighted_risk_def Let_def by (intro add m0 m1 m2 m3 m4 m5 m6 m7 m8) simp_all
  then show ?thesis by simp
qed

text \<open>A passed challenge outweighs all behavioural evidence: with the shipped weights, a request
  that carries a passed challenge and meets no hard override scores the full 10 before the deep
  tier's correction, however bad every detector finds it, and with the default configuration it
  ends with at least 7.\<close>

theorem passed_challenge_outweighs_risk:
  assumes "e_ChallengePassed event" and "override_of DefaultConfig p event = None" and "0 \<le> p_EWMAScore p"
  shows "7 \<le> r_Score (fst (ComputeTrustScore DefaultConfig liveWeights p event)) \<and>
         (p_EWMAScore p = 1 / 2 \<longrightarrow> r_Score (fst (ComputeTrustScore DefaultConfig liveWeights p event)) = 10)"
proof -
  let ?a = "fst (assess p event DefaultConfig)"
  let ?base = "base_score None liveWeights (a_SubScores ?a) (a_Boost ?a)"
  have "5 \<le> a_Boost ?a"
    using boost_blocks_nonneg[of "snd (assess p event DefaultConfig)" event DefaultConfig] assms(1)
    by (simp add: assess_sub_scores ComputeTrustBoost_def Let_def fadd_def) (rule fl_ge; simp)
  moreover have "19 / 64 \<le> fl (0.3 :: real)" using repr_dyadic[of 19 6] by (intro fl_ge) simp_all
  ultimately have "95 / 64 \<le> a_Boost ?a * fl 0.3" using mult_mono[of 5 "a_Boost ?a" "19 / 64" "fl 0.3"] by simp
  then have "95 / 64 \<le> fmul (a_Boost ?a) (fl 0.3)"
    unfolding fmul_def using repr_dyadic[of 95 6] by (intro fl_ge) simp_all
  then have "fsub (weighted_risk liveWeights (a_SubScores ?a)) (fmul (a_Boost ?a) (fl 0.3)) \<le> 0"
    unfolding fsub_def using live_risk_bound[OF assess_range, of p event DefaultConfig] by (intro fl_le) simp_all
  then have "max 0 (fsub (weighted_risk liveWeights (a_SubScores ?a)) (fmul (a_Boost ?a) (fl 0.3))) = 0" by simp
  then have base: "?base = 10" unfolding base_score_def Let_def by (simp add: fsub_def fmul_def)
  have gain: "c_Tier1ScoreGain DefaultConfig = 3" by (simp add: DefaultConfig_def)
  have score: "r_Score (fst (ComputeTrustScore DefaultConfig liveWeights p event)) =
      final_score None 10 (p_ChallengeSolvedRecently p) (tier1_delta 3 (p_EWMAScore p))"
    by (simp add: ComputeTrustScore_score Let_def assms(2) base gain)
  have "0 < fl (0.01 :: real)"
    using fl_ge[of "1 / 2 ^ 10" "0.01"] repr_dyadic[of 1 10] by simp
  moreover have "challenge_boost b 10 = 10" for b
    unfolding challenge_boost_def fadd_def using fl_ge[of 10 "10 + fl 0.15"] fl_015(1) by simp
  moreover have "tier1_delta 3 (1 / 2) = 0" by (simp add: tier1_delta_def)
  ultimately have ten: "final_score None 10 (p_ChallengeSolvedRecently p) (tier1_delta 3 (1 / 2)) = 10"
    by (simp add: final_score_def tier1_nudge_def tier1_applies_def clamp10_def)
  show ?thesis
  proof (intro conjI impI)
    show "7 \<le> r_Score (fst (ComputeTrustScore DefaultConfig liveWeights p event))"
      unfolding score using assms(3) by (intro tier1_keeps_seven) simp_all
    show "r_Score (fst (ComputeTrustScore DefaultConfig liveWeights p event)) = 10" if "p_EWMAScore p = 1 / 2"
      unfolding score that by (rule ten)
  qed
qed

lemma passed_challenge_outweighs_risk_witness:
  "r_Score (fst (ComputeTrustScore DefaultConfig liveWeights (NewIPProfile ''10.0.0.1'')
     (plain_event\<lparr>e_ChallengePassed := True, e_Path := ''/.env''\<rparr>))) = 10"
  using passed_challenge_outweighs_risk[OF _ fresh_override,
      of "plain_event\<lparr>e_ChallengePassed := True, e_Path := ''/.env''\<rparr>" "''10.0.0.1''"]
  by (simp add: NewIPProfile_def)

end
