(* ===== verification/User_Safety.thy ===== *)
theory User_Safety
  imports User_Fusion Fusion_Safety
begin

text \<open>
  The properties of the user layer: the well-formedness of a user's profile, what a single event
  can do to the long-term score, which evidence is final, and how the two layers' decisions
  combine.
\<close>

section \<open>The profile that the overrides see\<close>

definition counted :: "identity_context \<Rightarrow> request_event \<Rightarrow> user_profile \<Rightarrow> user_profile" where
  "counted ctx event u = expire_challenge (count_request (refresh_identity ctx u) event) event"

definition signals_of ::
    "identity_context \<Rightarrow> request_event \<Rightarrow> trust_result \<Rightarrow> real \<Rightarrow> user_profile \<Rightarrow> user_signals" where
  "signals_of ctx event ip start u =
     buildUserBehaviorSignals (refresh_identity ctx u) event (Some ip) start"

definition user_override ::
    "identity_context \<Rightarrow> request_event \<Rightarrow> trust_result \<Rightarrow> real \<Rightarrow> user_profile \<Rightarrow> real option" where
  "user_override ctx event ip start u =
     checkUserHardOverrides (counted ctx event u) (signals_of ctx event ip start u) ip"

lemma refresh_identity_sel [step_simps]:
  "u_ConfirmedExploit (refresh_identity ctx u) = u_ConfirmedExploit u"
  "u_EverBlocked (refresh_identity ctx u) = u_EverBlocked u"
  "u_TotalFailedLogins (refresh_identity ctx u) = u_TotalFailedLogins u"
  "u_Score (refresh_identity ctx u) = u_Score u"
  "u_Alpha (refresh_identity ctx u) = u_Alpha u"
  "u_ScoreHistory (refresh_identity ctx u) = u_ScoreHistory u"
  "u_EWMAScore (refresh_identity ctx u) = u_EWMAScore u"
  "u_KnownCountries (refresh_identity ctx u) = u_KnownCountries u"
  "u_KnownIPs (refresh_identity ctx u) = u_KnownIPs u"
  "u_KnownJA4s (refresh_identity ctx u) = u_KnownJA4s u"
  "u_RASPHits (refresh_identity ctx u) = u_RASPHits u"
  by (simp_all add: refresh_identity_def Let_def)

lemma login_identities_sel [step_simps]:
  "u_ConfirmedExploit (login_identities u ev) = u_ConfirmedExploit u"
  "u_EverBlocked (login_identities u ev) = u_EverBlocked u"
  "u_TotalFailedLogins (login_identities u ev) = u_TotalFailedLogins u"
  "u_TotalSuccessLogins (login_identities u ev) = u_TotalSuccessLogins u"
  "u_TotalRequests (login_identities u ev) = u_TotalRequests u"
  "u_Score (login_identities u ev) = u_Score u"
  "u_Alpha (login_identities u ev) = u_Alpha u"
  "u_ScoreHistory (login_identities u ev) = u_ScoreHistory u"
  "u_EWMAScore (login_identities u ev) = u_EWMAScore u"
  "u_RASPHits (login_identities u ev) = u_RASPHits u"
  "u_KnownCountries u \<noteq> [] \<Longrightarrow> u_KnownCountries (login_identities u ev) \<noteq> []"
  by (simp_all add: login_identities_def Let_def)

lemma count_request_sel [step_simps]:
  "u_ConfirmedExploit (count_request u ev) = u_ConfirmedExploit u"
  "u_EverBlocked (count_request u ev) = u_EverBlocked u"
  "u_Score (count_request u ev) = u_Score u"
  "u_Alpha (count_request u ev) = u_Alpha u"
  "u_ScoreHistory (count_request u ev) = u_ScoreHistory u"
  "u_EWMAScore (count_request u ev) = u_EWMAScore u"
  "u_RASPHits (count_request u ev) = u_RASPHits u"
  "u_TotalFailedLogins (count_request u ev) =
     u_TotalFailedLogins u + (if is_login_event ev \<and> e_StatusCode ev \<noteq> 200 then 1 else 0)"
  "u_KnownCountries u \<noteq> [] \<Longrightarrow> u_KnownCountries (count_request u ev) \<noteq> []"
  by (simp_all add: count_request_def RecordLogin_def Let_def step_simps)

lemma expire_challenge_sel [step_simps]:
  "u_ConfirmedExploit (expire_challenge u ev) = u_ConfirmedExploit u"
  "u_EverBlocked (expire_challenge u ev) = u_EverBlocked u"
  "u_TotalFailedLogins (expire_challenge u ev) = u_TotalFailedLogins u"
  "u_Score (expire_challenge u ev) = u_Score u"
  "u_Alpha (expire_challenge u ev) = u_Alpha u"
  "u_ScoreHistory (expire_challenge u ev) = u_ScoreHistory u"
  "u_EWMAScore (expire_challenge u ev) = u_EWMAScore u"
  "u_RASPHits (expire_challenge u ev) = u_RASPHits u"
  "u_KnownCountries (expire_challenge u ev) = u_KnownCountries u"
  by (simp_all add: expire_challenge_def)

lemma counted_sel [step_simps]:
  "u_ConfirmedExploit (counted ctx ev u) = u_ConfirmedExploit u"
  "u_EverBlocked (counted ctx ev u) = u_EverBlocked u"
  "u_TotalFailedLogins (counted ctx ev u) =
     u_TotalFailedLogins u + (if is_login_event ev \<and> e_StatusCode ev \<noteq> 200 then 1 else 0)"
  "u_Score (counted ctx ev u) = u_Score u"
  "u_Alpha (counted ctx ev u) = u_Alpha u"
  "u_ScoreHistory (counted ctx ev u) = u_ScoreHistory u"
  "u_EWMAScore (counted ctx ev u) = u_EWMAScore u"
  "u_RASPHits (counted ctx ev u) = u_RASPHits u"
  "u_KnownCountries u \<noteq> [] \<Longrightarrow> u_KnownCountries (counted ctx ev u) \<noteq> []"
  by (simp_all add: counted_def step_simps)

lemma write_flags_sel [step_simps]:
  "u_ConfirmedExploit (write_flags d sg ip pen u) = u_ConfirmedExploit u"
  "u_EverBlocked (write_flags d sg ip pen u) = (u_EverBlocked u \<or> d = Block \<or> d = Ban)"
  "u_TotalFailedLogins (write_flags d sg ip pen u) = u_TotalFailedLogins u"
  "u_Score (write_flags d sg ip pen u) = u_Score u"
  "u_Alpha (write_flags d sg ip pen u) = u_Alpha u"
  "u_ScoreHistory (write_flags d sg ip pen u) = u_ScoreHistory u"
  "u_EWMAScore (write_flags d sg ip pen u) = u_EWMAScore u"
  "u_RASPHits (write_flags d sg ip pen u) = u_RASPHits u"
  by (simp_all add: write_flags_def Let_def)

lemma store_score_sel [step_simps]:
  "u_ConfirmedExploit (store_score ov raw u) = u_ConfirmedExploit u"
  "u_EverBlocked (store_score ov raw u) = u_EverBlocked u"
  "u_TotalFailedLogins (store_score ov raw u) = u_TotalFailedLogins u"
  "u_Alpha (store_score ov raw u) = u_Alpha u"
  "u_EWMAScore (store_score ov raw u) = u_EWMAScore u"
  "u_RASPHits (store_score ov raw u) = u_RASPHits u"
  "u_KnownCountries (store_score ov raw u) = u_KnownCountries u"
  by (simp_all add: store_score_def UpdateEWMA_def Let_def split: option.split)

lemma store_score_history:
  "u_ScoreHistory (store_score ov raw u) = append_trim 30 (u_ScoreHistory u) (u_Score (store_score ov raw u))"
  by (simp add: store_score_def UpdateEWMA_def Let_def split: option.split)

lemma history_ok_store_score: "history_ok u \<Longrightarrow> history_ok (store_score ov raw u)"
proof (cases ov)
  case (Some v)
  assume "history_ok u"
  then show ?thesis
    using history_ok_push[of u "round_to 100 (max 0 (min 10 v))"]
    by (simp add: store_score_def Let_def Some clamped_score_range)
qed (simp add: store_score_def history_ok_UpdateEWMA)

section \<open>The result of the scoring in terms of its parts\<close>

text \<open>The raw score of an event, before an override.\<close>

definition raw_of ::
    "config \<Rightarrow> user_weights \<Rightarrow> identity_context \<Rightarrow> request_event \<Rightarrow> trust_result \<Rightarrow> bool \<Rightarrow> real
       \<Rightarrow> user_profile \<Rightarrow> real" where
  "raw_of cfg uw ctx event ip solved start u =
     (let sg = signals_of ctx event ip start u;
          b = ScoreUserBehavior (count_request (refresh_identity ctx u) event) event sg
      in user_tier1 (tier1_delta (c_Tier1ScoreGain cfg) (u_EWMAScore u))
           (challenge_boost (solved \<or> u_ChallengeSolvedRecently (counted ctx event u))
             (raw_event_score uw (r_Score ip) (fst b) (fst (snd b)))))"

lemma score_user_score:
  "ur_Score (fst (score_user cfg uw ctx event ip solved start u)) =
     u_Score (store_score (user_override ctx event ip start u)
                (case user_override ctx event ip start u of
                   Some v \<Rightarrow> v | None \<Rightarrow> raw_of cfg uw ctx event ip solved start u)
                (counted ctx event u))"
  by (cases "ScoreUserBehavior (count_request (refresh_identity ctx u) event) event
              (signals_of ctx event ip start u)")
    (simp add: score_user_def Let_def user_override_def raw_of_def counted_def signals_of_def
      step_simps split: option.split)

lemma user_policy_store_score:
  "applyUserPolicyOverrides (store_score ov raw u) sg ip d = applyUserPolicyOverrides u sg ip d"
  by (simp only: applyUserPolicyOverrides_def store_score_sel)

lemma score_user_decision:
  "ur_Decision (fst (score_user cfg uw ctx event ip solved start u)) =
     applyUserPolicyOverrides (counted ctx event u) (signals_of ctx event ip start u) ip
       (makeDecision (ur_Score (fst (score_user cfg uw ctx event ip solved start u))))"
  by (cases "ScoreUserBehavior (count_request (refresh_identity ctx u) event) event
              (signals_of ctx event ip start u)")
    (simp add: score_user_def Let_def user_policy_store_score counted_def signals_of_def)

lemma score_user_profile:
  obtains pen where
    "snd (score_user cfg uw ctx event ip solved start u) =
       write_flags (ur_Decision (fst (score_user cfg uw ctx event ip solved start u)))
         (signals_of ctx event ip start u) ip pen
         (store_score (user_override ctx event ip start u)
            (case user_override ctx event ip start u of
               Some v \<Rightarrow> v | None \<Rightarrow> raw_of cfg uw ctx event ip solved start u)
            (counted ctx event u))"
  by (rule that[of "fst (ScoreUserBehavior (count_request (refresh_identity ctx u) event) event
              (signals_of ctx event ip start u))"])
    (cases "ScoreUserBehavior (count_request (refresh_identity ctx u) event) event
              (signals_of ctx event ip start u)",
      simp add: score_user_def Let_def user_override_def raw_of_def counted_def signals_of_def
      step_simps split: option.split)

lemma score_user_sel [step_simps]:
  "u_ConfirmedExploit (snd (score_user cfg uw ctx event ip solved start u)) = u_ConfirmedExploit u"
  "u_Score (snd (score_user cfg uw ctx event ip solved start u)) =
     ur_Score (fst (score_user cfg uw ctx event ip solved start u))"
  "u_TotalFailedLogins (snd (score_user cfg uw ctx event ip solved start u)) =
     u_TotalFailedLogins u + (if is_login_event event \<and> e_StatusCode event \<noteq> 200 then 1 else 0)"
  "u_EverBlocked (snd (score_user cfg uw ctx event ip solved start u)) =
     (u_EverBlocked u \<or> ur_Decision (fst (score_user cfg uw ctx event ip solved start u)) \<in> {Block, Ban})"
  "u_ScoreHistory (snd (score_user cfg uw ctx event ip solved start u)) =
     append_trim 30 (u_ScoreHistory u) (ur_Score (fst (score_user cfg uw ctx event ip solved start u)))"
  "u_EWMAScore (snd (score_user cfg uw ctx event ip solved start u)) = u_EWMAScore u"
  by (rule score_user_profile[of cfg uw ctx event ip solved start u];
      simp add: step_simps score_user_score store_score_history)+

section \<open>Well-formed profiles\<close>

lemma history_ok_counted: "history_ok (counted ctx event u) \<longleftrightarrow> history_ok u"
  by (simp add: history_ok_def step_simps)

lemma history_ok_score_user:
  assumes "history_ok u"
  shows "history_ok (snd (score_user cfg uw ctx event ip solved start u))"
proof -
  have "history_ok (store_score (user_override ctx event ip start u)
      (case user_override ctx event ip start u of
         Some v \<Rightarrow> v | None \<Rightarrow> raw_of cfg uw ctx event ip solved start u) (counted ctx event u))"
    using assms by (intro history_ok_store_score) (simp add: history_ok_counted)
  moreover obtain pen where
    "snd (score_user cfg uw ctx event ip solved start u) =
       write_flags (ur_Decision (fst (score_user cfg uw ctx event ip solved start u)))
         (signals_of ctx event ip start u) ip pen
         (store_score (user_override ctx event ip start u)
            (case user_override ctx event ip start u of
               Some v \<Rightarrow> v | None \<Rightarrow> raw_of cfg uw ctx event ip solved start u)
            (counted ctx event u))"
    by (rule score_user_profile)
  ultimately show ?thesis by (simp only: history_ok_def write_flags_sel)
qed

definition users_ok :: "engine \<Rightarrow> bool" where
  "users_ok g \<longleftrightarrow> (\<forall>uid u. g_Users g uid = Some u \<longrightarrow> history_ok u)"

text \<open>The user's profile a request starts from, and the call of \<open>score_user\<close> it leads to.\<close>

definition user_view :: "engine \<Rightarrow> real \<Rightarrow> string \<Rightarrow> user_profile" where
  "user_view g now uid = fst (LoadUser now (g_Users g) uid)"

lemma ComputeUserTrustScore_user:
  obtains ip solved start where
    "fst (ComputeUserTrustScore g ctx event) =
       fst (score_user (g_Config g) (g_UserWeights g) ctx event ip solved start
              (user_view g (e_Timestamp event) (i_UserID ctx)))"
    "g_Users (snd (ComputeUserTrustScore g ctx event)) =
       (g_Users g)(i_UserID ctx \<mapsto>
          snd (score_user (g_Config g) (g_UserWeights g) ctx event ip solved start
                 (user_view g (e_Timestamp event) (i_UserID ctx))))"
    "ip = fst (ComputeTrustScore (g_Config g) (g_Weights g) (fst (LoadIP (g_IPs g) (e_IP event))) event)"
proof -
  let ?c = "ComputeTrustScore (g_Config g) (g_Weights g) (fst (LoadIP (g_IPs g) (e_IP event))) event"
  let ?st = "fst (session_start (g_Sessions g) event)"
  let ?u = "user_view g (e_Timestamp event) (i_UserID ctx)"
  have users: "(snd (LoadUser now us uid))(uid \<mapsto> u) = us(uid \<mapsto> u)" for now us uid u
    by (simp add: LoadUser_def Let_def split: option.split)
  let ?r = "score_user (g_Config g) (g_UserWeights g) ctx event (fst ?c)
              (p_ChallengeSolvedRecently (snd ?c)) ?st ?u"
  show thesis
  proof (rule that[where ip = "fst ?c" and solved = "p_ChallengeSolvedRecently (snd ?c)" and start = ?st])
    show "fst (ComputeUserTrustScore g ctx event) = fst ?r"
      by (simp add: ComputeUserTrustScore_def Let_def user_view_def case_prod_unfold)
    show "g_Users (snd (ComputeUserTrustScore g ctx event)) = (g_Users g)(i_UserID ctx \<mapsto> snd ?r)"
      by (simp add: ComputeUserTrustScore_def Let_def user_view_def case_prod_unfold PutUser_def users)
  qed simp
qed

lemma user_view_ok: "users_ok g \<Longrightarrow> history_ok (user_view g now uid)"
  by (auto simp: users_ok_def user_view_def LoadUser_def Let_def history_ok_new split: option.split)

lemma users_ok_init: "users_ok init_engine"
  by (simp add: users_ok_def init_engine_def)

lemma users_ok_step:
  assumes "users_ok g"
  shows "users_ok (snd (ComputeUserTrustScore g ctx event))"
proof (rule ComputeUserTrustScore_user[of g ctx event])
  fix ip solved start
  let ?u = "snd (score_user (g_Config g) (g_UserWeights g) ctx event ip solved start
              (user_view g (e_Timestamp event) (i_UserID ctx)))"
  assume "g_Users (snd (ComputeUserTrustScore g ctx event)) = (g_Users g)(i_UserID ctx \<mapsto> ?u)"
  moreover have "history_ok ?u" using assms by (intro history_ok_score_user user_view_ok)
  ultimately show ?thesis using assms by (simp add: users_ok_def)
qed

text \<open>Serving requests of any users in any order, with the decision each user got.\<close>

fun user_run ::
    "engine \<Rightarrow> (identity_context \<times> request_event) list \<Rightarrow> (string \<times> decision) list \<times> engine" where
  "user_run g [] = ([], g)"
| "user_run g ((ctx, event) # reqs) =
     (let (r, g') = ComputeUserTrustScore g ctx event; (ds, g'') = user_run g' reqs
      in ((i_UserID ctx, ur_Decision r) # ds, g''))"

lemma user_run_invariant:
  assumes "\<And>g ctx ev. I g \<Longrightarrow> I (snd (ComputeUserTrustScore g ctx ev)) \<and>
      P (i_UserID ctx, ur_Decision (fst (ComputeUserTrustScore g ctx ev)))"
    and "I g"
  shows "list_all P (fst (user_run g reqs)) \<and> I (snd (user_run g reqs))"
  using assms(2)
proof (induction reqs arbitrary: g)
  case (Cons r reqs)
  obtain ctx ev where r: "r = (ctx, ev)" by (cases r)
  show ?case using Cons.IH[of "snd (ComputeUserTrustScore g ctx ev)"] assms(1)[OF Cons.prems, of ctx ev]
    by (simp add: r Let_def split: prod.split) (metis fst_conv snd_conv)
qed simp

text \<open>C31: Whatever sequence of requests of whatever users is served from a fresh start, every
  stored user profile has its score and every entry of its history between 0 and 10, at most 30
  entries, and the latest request of a user left the score it was given as the newest entry.\<close>

theorem user_profiles_well_formed:
  "users_ok (snd (user_run init_engine reqs)) \<and>
   (let g = snd (user_run init_engine reqs);
        g' = snd (ComputeUserTrustScore g ctx event);
        r = fst (ComputeUserTrustScore g ctx event);
        u = user_view g' (e_Timestamp event) (i_UserID ctx)
    in 0 \<le> ur_Score r \<and> ur_Score r \<le> 10 \<and> u_Score u = ur_Score r
       \<and> u_ScoreHistory u \<noteq> [] \<and> last (u_ScoreHistory u) = ur_Score r)"
proof -
  let ?g = "snd (user_run init_engine reqs)"
  have ok: "users_ok ?g"
    using user_run_invariant[of users_ok "\<lambda>_. True"] users_ok_init users_ok_step by blast
  obtain ip solved start where
    r: "fst (ComputeUserTrustScore ?g ctx event) =
       fst (score_user (g_Config ?g) (g_UserWeights ?g) ctx event ip solved start
              (user_view ?g (e_Timestamp event) (i_UserID ctx)))"
    and u: "g_Users (snd (ComputeUserTrustScore ?g ctx event)) =
       (g_Users ?g)(i_UserID ctx \<mapsto>
          snd (score_user (g_Config ?g) (g_UserWeights ?g) ctx event ip solved start
                 (user_view ?g (e_Timestamp event) (i_UserID ctx))))"
    by (rule ComputeUserTrustScore_user)
  let ?u = "snd (score_user (g_Config ?g) (g_UserWeights ?g) ctx event ip solved start
                 (user_view ?g (e_Timestamp event) (i_UserID ctx)))"
  have v: "user_view (snd (ComputeUserTrustScore ?g ctx event)) (e_Timestamp event) (i_UserID ctx) = ?u"
    by (simp add: user_view_def u LoadUser_def)
  have "history_ok ?u" using history_ok_score_user user_view_ok[OF ok] by blast
  then show ?thesis using ok by (simp add: Let_def v r step_simps history_ok_def)
qed

section \<open>Evidence that is final\<close>

lemma round_to_half [simp]: "round_to 100 (1 / 2) = 1 / 2"
proof -
  have "repr 50" using repr_of_int[of 50] by simp
  moreover have "go_round 50 = 50" using go_round_of_int[of 50] by simp
  ultimately show ?thesis by (simp add: round_to_def fmul_def fdiv_def)
qed

lemma user_override_values: "user_override ctx ev ip st u = Some v \<Longrightarrow> v \<in> {0, 1 / 2}"
  by (auto simp: user_override_def checkUserHardOverrides_def split: if_splits)

lemma user_policy_ge: "decision \<le> applyUserPolicyOverrides u sg ip decision"
  by (cases decision) (auto simp: applyUserPolicyOverrides_def decision_order)

lemma Ban_greatest [simp]: "Ban \<le> d \<longleftrightarrow> d = Ban"
  by (cases d) (auto simp: decision_order)

lemma score_user_override:
  assumes "user_override ctx event ip start u = Some v"
  shows "ur_Score (fst (score_user cfg uw ctx event ip solved start u)) = v"
    and "ur_Decision (fst (score_user cfg uw ctx event ip solved start u)) = Ban"
proof -
  have v: "v \<in> {0, 1 / 2}" using user_override_values[OF assms] .
  show s: "ur_Score (fst (score_user cfg uw ctx event ip solved start u)) = v"
  proof -
    from v consider "v = 0" | "v = 1 / 2" by blast
    then have "round_to 100 (max 0 (min 10 v)) = v"
    proof cases
      case 2
      have "max 0 (min 10 (1 / 2)) = (1 / 2 :: real)" by simp
      then show ?thesis unfolding 2 by (simp only: round_to_half)
    qed simp
    then show ?thesis by (simp add: score_user_score assms store_score_def Let_def)
  qed
  have "makeDecision v = Ban" using v by (auto simp: makeDecision_def)
  then show "ur_Decision (fst (score_user cfg uw ctx event ip solved start u)) = Ban"
    using user_policy_ge[of Ban] by (simp add: score_user_decision s)
qed

definition locked_out :: "user_profile \<Rightarrow> bool" where
  "locked_out u \<longleftrightarrow> u_ConfirmedExploit u \<or> 20 \<le> u_TotalFailedLogins u"

lemma locked_out_override: "locked_out u \<Longrightarrow> user_override ctx ev ip st u \<noteq> None"
  by (simp add: locked_out_def user_override_def checkUserHardOverrides_def step_simps del: not_None_eq)
    auto

lemma locked_out_step: "locked_out u \<Longrightarrow> locked_out (snd (score_user cfg uw ctx ev ip solved st u))"
  by (auto simp: locked_out_def step_simps)

text \<open>C10: A user with a confirmed exploit, or with 20 failed logins over the account's lifetime,
  is banned on every later request, however long ago that was, whatever the other users and the
  address do in between, and a successful login does not lift it.\<close>

theorem user_lockout_is_permanent:
  assumes "g_Users g uid = Some u" and "locked_out u"
  shows "list_all (\<lambda>(user, d). user = uid \<longrightarrow> d = Ban) (fst (user_run g reqs))"
proof -
  let ?I = "\<lambda>g. \<exists>u. g_Users g uid = Some u \<and> locked_out u"
  have "?I (snd (ComputeUserTrustScore g ctx ev)) \<and>
      (i_UserID ctx = uid \<longrightarrow> ur_Decision (fst (ComputeUserTrustScore g ctx ev)) = Ban)"
    if I: "?I g" for g ctx ev
  proof (rule ComputeUserTrustScore_user[of g ctx ev])
    fix ip solved start
    let ?s = "score_user (g_Config g) (g_UserWeights g) ctx ev ip solved start
                (user_view g (e_Timestamp ev) (i_UserID ctx))"
    assume r: "fst (ComputeUserTrustScore g ctx ev) = fst ?s"
      and g': "g_Users (snd (ComputeUserTrustScore g ctx ev)) = (g_Users g)(i_UserID ctx \<mapsto> snd ?s)"
    obtain u where u: "g_Users g uid = Some u" "locked_out u" using I by blast
    show ?thesis
    proof (cases "i_UserID ctx = uid")
      case True
      then have "user_view g (e_Timestamp ev) (i_UserID ctx) = u" by (simp add: user_view_def LoadUser_def u)
      with u(2) True show ?thesis
        using locked_out_override[OF u(2), of ctx ev ip start]
        by (auto simp: g' r locked_out_step intro: score_user_override(2))
    qed (simp add: g' u)
  qed
  then show ?thesis
    using user_run_invariant[of ?I "\<lambda>(user, d). user = uid \<longrightarrow> d = Ban" g reqs] assms by auto
qed

definition anna :: identity_context where
  "anna = \<lparr> i_UserID = ''anna'', i_AccountCreatedAt = 1, i_EmailVerified = True, i_MFAEnabled = True,
            i_ResolvedBy = ''jwt'' \<rparr>"

lemma user_lockout_is_permanent_witness:
  "list_all (\<lambda>(user, d). user = ''anna'' \<longrightarrow> d = Ban)
     (fst (user_run (init_engine\<lparr>g_Users := [''anna'' \<mapsto> (NewUserProfile ''anna'' 1)\<lparr>u_TotalFailedLogins := 20\<rparr>]\<rparr>)
        [(anna, plain_event), (anna, plain_event\<lparr>e_Path := ''/login'', e_Method := ''POST''\<rparr>)]))"
  by (rule user_lockout_is_permanent[where u = "(NewUserProfile ''anna'' 1)\<lparr>u_TotalFailedLogins := 20\<rparr>"])
    (simp_all add: locked_out_def)

section \<open>How the layers combine\<close>

lemma signals_of_sel:
  "b_IsLoginEvent (signals_of ctx ev ip st u) = is_login_event ev"
  "b_IsNewCountry (signals_of ctx ev ip st u) = (\<not> IsKnownCountry u (e_CountryCode ev))"
  "b_IsNewJA4 (signals_of ctx ev ip st u) = (\<not> IsKnownJA4 u (e_JA4Fingerprint ev))"
  by (simp_all add: signals_of_def buildUserBehaviorSignals_def Let_def IsKnownCountry_def IsKnownJA4_def
      step_simps)

text \<open>A login from a country the user is not known to have logged in from.\<close>

definition new_country_login :: "user_profile \<Rightarrow> request_event \<Rightarrow> bool" where
  "new_country_login u event \<longleftrightarrow>
     is_login_event event \<and> \<not> IsKnownCountry u (e_CountryCode event)"

text \<open>C29: When the layer of the address decides to block or ban, the user layer challenges at
  least, however good the user's reputation is, unless the event is a login from a new country.\<close>

theorem blocked_address_is_challenged:
  assumes "r_Decision ip = Block \<or> r_Decision ip = Ban" and "\<not> new_country_login u event"
  shows "Challenge \<le> ur_Decision (fst (score_user cfg uw ctx event ip solved start u))"
proof -
  have "Challenge \<le> applyUserPolicyOverrides v (signals_of ctx event ip start u) ip d" for v d
    using assms by (cases d)
      (auto simp: applyUserPolicyOverrides_def new_country_login_def signals_of_sel decision_order)
  then show ?thesis by (simp add: score_user_decision)
qed

definition blocked_result :: trust_result where
  "blocked_result = \<lparr> r_IP = ''10.0.0.1'', r_Score = 2, r_Decision = Block,
     r_SubScores = \<lparr> ss_recon = 0, ss_bruteforce = 0, ss_ddos = 0, ss_session = 0, ss_scraping = 0,
       ss_evasion = 0, ss_vuln_probe = 0, ss_account_abuse = 0 \<rparr>,
     r_Boost = 0, r_Reasons = [], r_BoostReasons = [], r_ProfileAgeSec = 0, r_Timestamp = 100 \<rparr>"

lemma blocked_address_is_challenged_witness:
  "Challenge \<le> ur_Decision (fst (score_user DefaultConfig UserWeights anna plain_event blocked_result
      False 100 (NewUserProfile ''anna'' 1)))"
  by (rule blocked_address_is_challenged)
    (simp_all add: blocked_result_def new_country_login_def is_login_event_def plain_event_def
      BruteForceEndpoints_def)

text \<open>A user whose score is perfect: one event cannot bring it below the first band.\<close>

lemma fl_alpha: "0 \<le> fl (0.15 :: real)" "fl (0.15 :: real) \<le> 3 / 16"
  using fl_le[of "0.15" "3 / 16"] repr_dyadic[of 3 4] by simp_all

lemma ewma_from_ten:
  assumes "0 \<le> x"
  shows "8 \<le> ewma (fl 0.15) x 10"
proof -
  have r: "repr (13 / 16)" "repr (65 / 8)" using repr_dyadic[of 13 4] repr_dyadic[of 65 3] by simp_all
  have "13 / 16 \<le> fsub 1 (fl 0.15)" unfolding fsub_def using fl_alpha by (intro fl_ge r) simp
  then have "65 / 8 \<le> fmul (fsub 1 (fl 0.15)) 10" unfolding fmul_def by (intro fl_ge r) simp
  moreover have "0 \<le> fmul (fl 0.15) x" using assms by simp
  ultimately have "65 / 8 \<le> ewma (fl 0.15) x 10" unfolding ewma_def fadd_def by (intro fl_ge r) simp
  then show ?thesis by simp
qed

lemma UpdateEWMA_from_ten:
  assumes "u_Score u = 10" and "u_Alpha u = fl 0.15" and "0 \<le> x"
  shows "8 \<le> u_Score (UpdateEWMA u x)"
proof -
  have "8 \<le> max 0 (min 10 (ewma (fl 0.15) x 10))" using ewma_from_ten[OF assms(3)] by simp
  then show ?thesis unfolding UpdateEWMA_def Let_def using assms
    by (simp del: min_def max_def) (rule round_to_ge; simp)
qed

lemma raw_of_nonneg: "0 \<le> raw_of cfg uw ctx event ip solved start u"
  by (simp add: raw_of_def Let_def user_tier1_def challenge_boost_def raw_event_score_def)

text \<open>The exception is real: a failed login from a new country through an address that the
  first layer blocks is let through with stricter rules, when the user's score is perfect and the
  account has no flag against it. The early return for new countries skips the rule for blocked
  addresses.\<close>

theorem new_country_login_escapes_block:
  assumes "r_Decision ip = Block" and "new_country_login u event"
    and "u_Score u = 10" and "u_Alpha u = fl 0.15" and "u_KnownCountries u \<noteq> []"
    and "\<not> u_ConfirmedExploit u" and "\<not> u_EverBlocked u" and "u_TotalFailedLogins u < 19"
  shows "ur_Decision (fst (score_user cfg uw ctx event ip solved start u)) = AllowStricter"
proof -
  have none: "user_override ctx event ip start u = None"
    using assms by (simp add: user_override_def checkUserHardOverrides_def step_simps)
  have "8 \<le> ur_Score (fst (score_user cfg uw ctx event ip solved start u))"
    using assms(3,4) by (simp add: score_user_score none store_score_def)
      (rule UpdateEWMA_from_ten; simp add: step_simps raw_of_nonneg)
  then have "makeDecision (ur_Score (fst (score_user cfg uw ctx event ip solved start u))) = Allow"
    by (simp add: makeDecision_ge_iff)
  then show ?thesis
    using assms(2,5) by (simp add: score_user_decision applyUserPolicyOverrides_def
        new_country_login_def signals_of_sel step_simps)
qed

lemma new_country_login_escapes_block_witness:
  "ur_Decision (fst (score_user DefaultConfig UserWeights anna
     (plain_event\<lparr>e_Path := ''/login'', e_Method := ''POST'', e_StatusCode := 401, e_CountryCode := ''RU''\<rparr>)
     blocked_result False 100
     ((NewUserProfile ''anna'' 1)\<lparr>u_Score := 10, u_KnownCountries := [''TN'']\<rparr>))) = AllowStricter"
  by (rule new_country_login_escapes_block)
    (simp_all add: blocked_result_def new_country_login_def is_login_event_def plain_event_def
      BruteForceEndpoints_def NewUserProfile_def IsKnownCountry_def)

section \<open>What one event can do to the score\<close>

lemma score_user_raw:
  assumes "user_override ctx event ip start u = None"
  shows "ur_RawEventScore (fst (score_user cfg uw ctx event ip solved start u)) =
     round_to 100 (raw_of cfg uw ctx event ip solved start u)"
  using assms
  by (cases "ScoreUserBehavior (count_request (refresh_identity ctx u) event) event
              (signals_of ctx event ip start u)")
    (simp add: score_user_def Let_def user_override_def raw_of_def counted_def signals_of_def step_simps)

text \<open>C32: An event without an override moves the long-term score towards the score of the event
  and not past it: the new score is the convex combination of the two with the profile's weight,
  up to the rounding to hundredths.\<close>

theorem one_event_moves_score_convexly:
  assumes "history_ok u" and "0 \<le> u_Alpha u" and "u_Alpha u \<le> 1"
    and "user_override ctx event ip start u = None"
  shows "let r = fst (score_user cfg uw ctx event ip solved start u)
         in 0 \<le> ur_RawEventScore r \<and> ur_RawEventScore r \<le> 10 \<and>
            \<bar>ur_Score r - (u_Alpha u * ur_RawEventScore r + (1 - u_Alpha u) * u_Score u)\<bar> \<le> 3 / 100"
proof -
  let ?r = "fst (score_user cfg uw ctx event ip solved start u)"
  let ?x = "raw_of cfg uw ctx event ip solved start u"
  let ?e = "ewma (u_Alpha u) ?x (u_Score u)" and ?c = "u_Alpha u * ?x + (1 - u_Alpha u) * u_Score u"
  have x: "0 \<le> ?x" by (rule raw_of_nonneg)
  have x10: "?x \<le> 10"
    by (simp add: raw_of_def Let_def user_tier1_def challenge_boost_def raw_event_score_def)
  have s: "0 \<le> u_Score u" "u_Score u \<le> 10" using assms(1) by (simp_all add: history_ok_def)
  have "\<bar>?e - ?c\<bar> \<le> 1 / 2 ^ 46" by (rule ewma_error[OF assms(2,3) x x10 s])
  also have "(1 :: real) / 2 ^ 46 \<le> 1 / 100" by simp
  finally have e: "\<bar>?e - ?c\<bar> \<le> 1 / 100" .
  have "0 \<le> ?c" using x s assms(2,3) by simp
  moreover have "?c \<le> 10" using convex_bound_le[of ?x 10 "u_Score u" "u_Alpha u" "1 - u_Alpha u"] x10 s assms(2,3) by simp
  ultimately have "\<bar>max 0 (min 10 ?e) - ?c\<bar> \<le> 1 / 100" using e by (auto simp: max_def min_def)
  moreover have "\<bar>round_to 100 (max 0 (min 10 ?e)) - max 0 (min 10 ?e)\<bar> \<le> 1 / 100"
    by (rule round_to_100_error) auto
  moreover have "ur_Score (fst (score_user cfg uw ctx event ip solved start u))
      = round_to 100 (max 0 (min 10 ?e))"
    by (simp add: score_user_score assms(4) store_score_def UpdateEWMA_def Let_def step_simps)
  ultimately have new: "\<bar>ur_Score ?r - ?c\<bar> \<le> 1 / 50" by linarith
  have raw: "ur_RawEventScore ?r = round_to 100 ?x" by (rule score_user_raw[OF assms(4)])
  have "\<bar>round_to 100 ?x - ?x\<bar> \<le> 1 / 100" by (rule round_to_100_error[OF x x10])
  then have "u_Alpha u * \<bar>round_to 100 ?x - ?x\<bar> \<le> 1 * (1 / 100)"
    using assms(2,3) by (intro mult_mono) auto
  then have "\<bar>u_Alpha u * round_to 100 ?x - u_Alpha u * ?x\<bar> \<le> 1 / 100"
    using assms(2) by (simp add: abs_mult flip: right_diff_distrib)
  with new have "\<bar>ur_Score ?r - (u_Alpha u * ur_RawEventScore ?r + (1 - u_Alpha u) * u_Score u)\<bar> \<le> 3 / 100"
    unfolding raw by linarith
  moreover have "0 \<le> ur_RawEventScore ?r" "ur_RawEventScore ?r \<le> 10"
    unfolding raw using x x10 by (auto intro: round_to_ge round_to_le)
  ultimately show ?thesis by (simp add: Let_def)
qed

lemma one_event_moves_score_convexly_witness:
  "let r = fst (score_user DefaultConfig UserWeights anna plain_event blocked_result False 100
        ((NewUserProfile ''anna'' 1)\<lparr>u_Score := 10\<rparr>))
   in 0 \<le> ur_RawEventScore r \<and> ur_RawEventScore r \<le> 10 \<and>
      \<bar>ur_Score r - (fl 0.15 * ur_RawEventScore r + (1 - fl 0.15) * 10)\<bar> \<le> 3 / 100"
  using one_event_moves_score_convexly[of "(NewUserProfile ''anna'' 1)\<lparr>u_Score := 10\<rparr>" anna plain_event
      blocked_result 100 DefaultConfig UserWeights False] fl_alpha
  by (simp add: NewUserProfile_def history_ok_def user_override_def checkUserHardOverrides_def
      counted_sel blocked_result_def plain_event_def signals_of_sel is_login_event_def)

end
