(* ===== verification/Engine_Steps.thy ===== *)
theory Engine_Steps
  imports Tier1_Feedback User_Safety
begin

text \<open>
  The engine as a state machine: every entry point, background sweep and setter is a step, in
  any order. The invariants hold in every reachable state and carry the properties that span
  components: what the gatekeeper says about a confirmed exploit, that histories and correction
  scores stay bounded, that addresses do not affect each other.
\<close>

section \<open>Steps\<close>

inductive engine_step :: "lookups \<Rightarrow> engine \<Rightarrow> engine \<Rightarrow> bool" for db where
  event: "engine_step db g (snd (ProcessEvent db g raw))"
| user_event: "engine_step db g (snd (ProcessEventForUser db g ctx raw))"
| gatekeeper: "engine_step db g (snd (Gatekeeper g ip uid now))"
| solved: "engine_step db g (RecordChallengeSolved ip uid now g)"
| rasp: "engine_step db g (ProcessRASPEvent ev g)"
| feedback: "engine_step db g (snd (ApplyFeedback f job result now g))"
| evict: "engine_step db g (evict_profiles now g)"
| sessions: "engine_step db g (cleanup_sessions now g)"
| reset: "engine_step db g (ResetAllData g)"
| config: "engine_step db g (SetConfig cfg g)"
| weights: "engine_step db g (SetModuleWeights w g)"
| user_weights: "engine_step db g (SetUserWeights a b c g)"
| redis: "engine_step db g (g\<lparr>g_Redis := Some k\<rparr>)"

inductive_cases engine_stepE: "engine_step db g g'"

inductive reachable :: "lookups \<Rightarrow> engine \<Rightarrow> bool" for db where
  start: "reachable db init_engine"
| step: "reachable db g \<Longrightarrow> engine_step db g g' \<Longrightarrow> reachable db g'"

section \<open>The invariant of a profile\<close>

definition ip_ok :: "ip_profile \<Rightarrow> bool" where
  "ip_ok p \<longleftrightarrow> 0 \<le> p_EWMAScore p \<and> p_EWMAScore p \<le> 1
     \<and> length (p_Tier1Corrections p) \<le> maxCorrections \<and> length (p_RASPHits p) \<le> maxRASPHits
     \<and> list_all (\<lambda>s. 0 \<le> s \<and> s \<le> 10) (p_PreviousScores p)
     \<and> (p_ConfirmedExploit p \<longrightarrow> p_WasBlocked p \<and> p_PreviousScores p \<noteq> [] \<and> last (p_PreviousScores p) < 1)
     \<and> ((\<exists>hit\<in>set (p_RASPHits p). rh_Severity hit = SevCritical) \<longrightarrow> p_ConfirmedExploit p)"

definition user_ok :: "user_profile \<Rightarrow> bool" where
  "user_ok u \<longleftrightarrow> history_ok u \<and> 0 \<le> u_EWMAScore u \<and> u_EWMAScore u \<le> 1
     \<and> length (u_RASPHits u) \<le> maxRASPHits
     \<and> (u_ConfirmedExploit u \<longrightarrow> u_EverBlocked u \<and> u_Score u = 0)"

definition engine_ok :: "engine \<Rightarrow> bool" where
  "engine_ok g \<longleftrightarrow> (\<forall>ip p. g_IPs g ip = Some p \<longrightarrow> ip_ok p) \<and> (\<forall>uid u. g_Users g uid = Some u \<longrightarrow> user_ok u)"

lemma ip_ok_new: "ip_ok (NewIPProfile ip)"
  by (simp add: ip_ok_def NewIPProfile_def)

lemma user_ok_new: "user_ok (NewUserProfile uid now)"
  using history_ok_new[of uid now] by (simp add: user_ok_def NewUserProfile_def)

lemma ip_ok_AddRASPHit:
  assumes "ip_ok p"
  shows "ip_ok (AddRASPHit p hit)"
proof -
  have "length (trim_append maxRASPHits (p_RASPHits p) hit) \<le> maxRASPHits"
    using assms by (intro rasp_hits.push_bound) (simp add: ip_ok_def)
  moreover have "set (trim_append maxRASPHits (p_RASPHits p) hit) \<subseteq> insert hit (set (p_RASPHits p))"
    using assms by (intro rasp_hits.push_set) (simp add: ip_ok_def)
  ultimately show ?thesis using assms by (auto simp: ip_ok_def step_simps)
qed

lemma ip_ok_correct:
  assumes "ip_ok p"
  shows "ip_ok (correct_ip d r now p)"
proof -
  have "length (trim_append maxCorrections (p_Tier1Corrections p) c) \<le> maxCorrections" for c
    using assms by (intro corrections.push_bound) (simp add: ip_ok_def)
  then show ?thesis using assms by (simp add: ip_ok_def step_simps)
qed

lemma exploit_score:
  assumes "p_ConfirmedExploit p"
  shows "r_Score (fst (ComputeTrustScore cfg w p event)) < 1"
    and "r_Decision (fst (ComputeTrustScore cfg w p event)) = Ban"
proof -
  note ov = override_of_exploit[OF assms, of cfg event]
  show "r_Decision (fst (ComputeTrustScore cfg w p event)) = Ban"
    using ComputeTrustScore_override[OF ov] by simp
  have "makeDecision (r_Score (fst (ComputeTrustScore cfg w p event))) = Ban"
    using override_band[of 0] by (simp add: ComputeTrustScore_score Let_def ov base_score_def)
  then show "r_Score (fst (ComputeTrustScore cfg w p event)) < 1"
    by (simp add: makeDecision_ge_iff)
qed

lemma ip_ok_ComputeTrustScore:
  assumes "ip_ok p"
  shows "ip_ok (snd (ComputeTrustScore cfg w p event))"
proof -
  have "list_all (\<lambda>s. 0 \<le> s \<and> s \<le> 10)
      (append_trim 10 (p_PreviousScores p) (r_Score (fst (ComputeTrustScore cfg w p event))))"
    using assms ComputeTrustScore_range by (intro append_trim_all) (auto simp: ip_ok_def)
  then show ?thesis
    using assms exploit_score
    by (auto simp: ip_ok_def ComputeTrustScore_profile step_simps make_outcome_def)
qed

lemma user_ok_AddUserRASPHit:
  assumes "user_ok u"
  shows "user_ok (AddUserRASPHit u hit)"
proof -
  have "length (trim_append maxRASPHits (u_RASPHits u) hit) \<le> maxRASPHits"
    using assms by (intro rasp_hits.push_bound) (simp add: user_ok_def)
  then show ?thesis
    using assms history_ok_AddUserRASPHit[of u hit] by (auto simp: user_ok_def AddUserRASPHit_def Let_def)
qed

lemma score_user_rasp: "u_RASPHits (snd (score_user cfg uw ctx event ip solved start u)) = u_RASPHits u"
  by (rule score_user_profile[of cfg uw ctx event ip solved start u]) (simp add: step_simps)

lemma user_ok_score_user:
  assumes "user_ok u"
  shows "user_ok (snd (score_user cfg uw ctx event ip solved start u))"
proof -
  have "user_override ctx event ip start u = Some 0" if "u_ConfirmedExploit u"
    using that by (simp add: user_override_def checkUserHardOverrides_def step_simps)
  then show ?thesis
    using assms history_ok_score_user[of u cfg uw ctx event ip solved start]
      score_user_override(1)[of ctx event ip start u 0 cfg uw solved]
    by (auto simp: user_ok_def step_simps score_user_rasp)
qed

section \<open>The invariant of the engine\<close>

lemma ip_ok_view: "engine_ok g \<Longrightarrow> ip_ok (ip_view g ip)"
  by (auto simp: engine_ok_def ip_view_def LoadIP_def Let_def ip_ok_new split: option.split)

lemma user_ok_view: "engine_ok g \<Longrightarrow> user_ok (account_view g now uid)"
  by (auto simp: engine_ok_def account_view_def LoadUser_def Let_def user_ok_new split: option.split)

lemma ips_ok_put:
  "engine_ok g \<Longrightarrow> ip_ok p \<Longrightarrow> \<forall>ip' p'. PutIP (g_IPs g) ip p ip' = Some p' \<longrightarrow> ip_ok p'"
  by (auto simp: engine_ok_def PutIP_def)

lemma users_ok_put:
  "engine_ok g \<Longrightarrow> user_ok u \<Longrightarrow> \<forall>uid' u'. PutUser (g_Users g) uid u uid' = Some u' \<longrightarrow> user_ok u'"
  by (auto simp: engine_ok_def PutUser_def)

lemma engine_okI:
  assumes "\<forall>ip p. g_IPs g ip = Some p \<longrightarrow> ip_ok p" and "\<forall>uid u. g_Users g uid = Some u \<longrightarrow> user_ok u"
  shows "engine_ok g"
  using assms by (simp add: engine_ok_def)

lemma ProcessEvent_stores:
  "g_IPs (snd (ProcessEvent db g raw)) =
     PutIP (g_IPs g) (e_IP (ParseRawEvent db raw))
       (snd (ComputeTrustScore (g_Config g) (g_Weights g) (ip_view g (e_IP (ParseRawEvent db raw)))
               (ParseRawEvent db raw)))"
  "g_Users (snd (ProcessEvent db g raw)) = g_Users g"
  by (simp_all add: ProcessEvent_def Let_def case_prod_unfold step_simps ip_view_def PutIP_load)

lemma ComputeUserTrustScore_ips:
  "g_IPs (snd (ComputeUserTrustScore g ctx event)) =
     PutIP (g_IPs g) (e_IP event)
       (snd (ComputeTrustScore (g_Config g) (g_Weights g) (ip_view g (e_IP event)) event))"
  by (simp add: ComputeUserTrustScore_def Let_def case_prod_unfold ip_view_def PutIP_load)

lemma ComputeUserTrustScore_users:
  obtains ip solved start where
    "fst (ComputeUserTrustScore g ctx event) =
       fst (score_user (g_Config g) (g_UserWeights g) ctx event ip solved start
              (account_view g (e_Timestamp event) (i_UserID ctx)))"
    "g_Users (snd (ComputeUserTrustScore g ctx event)) =
       PutUser (g_Users g) (i_UserID ctx)
         (snd (score_user (g_Config g) (g_UserWeights g) ctx event ip solved start
                 (account_view g (e_Timestamp event) (i_UserID ctx))))"
    "ip = fst (ComputeTrustScore (g_Config g) (g_Weights g) (ip_view g (e_IP event)) event)"
  by (rule ComputeUserTrustScore_user[of g ctx event])
    (auto simp: user_view_def account_view_def PutUser_def ip_view_def)

lemma ProcessEventForUser_stores:
  "g_IPs (snd (ProcessEventForUser db g ctx raw)) =
     g_IPs (snd (ComputeUserTrustScore g ctx (ParseRawEvent db raw)))"
  "g_Users (snd (ProcessEventForUser db g ctx raw)) =
     g_Users (snd (ComputeUserTrustScore g ctx (ParseRawEvent db raw)))"
  by (simp_all add: ProcessEventForUser_def Let_def case_prod_unfold step_simps)

lemma engine_ok_user:
  assumes "engine_ok g"
  shows "engine_ok (snd (ComputeUserTrustScore g ctx event))"
proof (rule engine_okI)
  show "\<forall>ip p. g_IPs (snd (ComputeUserTrustScore g ctx event)) ip = Some p \<longrightarrow> ip_ok p"
    unfolding ComputeUserTrustScore_ips
    by (intro ips_ok_put assms ip_ok_ComputeTrustScore ip_ok_view)
  show "\<forall>uid u. g_Users (snd (ComputeUserTrustScore g ctx event)) uid = Some u \<longrightarrow> user_ok u"
  proof (rule ComputeUserTrustScore_users[of g ctx event])
    fix ip solved start
    let ?u = "snd (score_user (g_Config g) (g_UserWeights g) ctx event ip solved start
                 (account_view g (e_Timestamp event) (i_UserID ctx)))"
    assume eq: "g_Users (snd (ComputeUserTrustScore g ctx event)) = PutUser (g_Users g) (i_UserID ctx) ?u"
    show ?thesis unfolding eq by (intro users_ok_put assms user_ok_score_user user_ok_view)
  qed
qed

lemma engine_ok_rasp:
  assumes "engine_ok g"
  shows "engine_ok (ProcessRASPEvent ev g)"
proof (cases "parseSeverity (x_Severity ev) = SevNone \<or> x_IP ev = []")
  case True
  then show ?thesis using assms by (auto simp: ProcessRASPEvent_def Let_def)
next
  case False
  then have n: "parseSeverity (x_Severity ev) \<noteq> SevNone" "x_IP ev \<noteq> []" by auto
  show ?thesis
    using ips_ok_put[OF assms ip_ok_AddRASPHit[OF ip_ok_view[OF assms]]]
      users_ok_put[OF assms user_ok_AddUserRASPHit[OF user_ok_view[OF assms]]] assms
    by (intro engine_okI) (auto simp: ProcessRASPEvent_stores[OF n] engine_ok_def)
qed

lemma engine_ok_feedback:
  assumes "engine_ok g"
  shows "engine_ok (snd (ApplyFeedback f job result now g))"
proof (cases "correction f job result")
  case None
  then show ?thesis using assms by (simp add: ApplyFeedback_none)
next
  case (Some c)
  obtain delta reason where c: "correction f job result = Some (delta, reason)" using Some by (cases c) auto
  let ?u = "correct_user delta (account_view g now (j_UserID job))"
  have "user_ok ?u"
    using user_ok_view[OF assms, of now "j_UserID job"]
    by (simp add: user_ok_def correct_user_def history_ok_def)
  from users_ok_put[OF assms this] show ?thesis
    using ips_ok_put[OF assms ip_ok_correct[OF ip_ok_view[OF assms]]] assms
    by (intro engine_okI) (auto simp: ApplyFeedback_stores[OF c] engine_ok_def)
qed

lemma engine_ok_solved:
  assumes "engine_ok g"
  shows "engine_ok (RecordChallengeSolved ip uid now g)"
proof -
  let ?p = "(ip_view g ip)\<lparr>p_ChallengeSolvedRecently := True, p_ChallengeSolvedAt := now\<rparr>"
  let ?u = "(account_view g now uid)\<lparr>u_ChallengeSolvedRecently := True, u_ChallengeSolvedAt := now\<rparr>"
  have "ip_ok ?p" using ip_ok_view[OF assms, of ip] by (simp add: ip_ok_def)
  moreover have "user_ok ?u" using user_ok_view[OF assms, of now uid] by (simp add: user_ok_def history_ok_def)
  moreover have "g_IPs (RecordChallengeSolved ip uid now g) = PutIP (g_IPs g) ip ?p"
    "g_Users (RecordChallengeSolved ip uid now g) = (if uid = [] then g_Users g else PutUser (g_Users g) uid ?u)"
    by (simp_all add: RecordChallengeSolved_def Let_def case_prod_unfold ip_view_def account_view_def
        PutIP_load PutUser_load)
  ultimately show ?thesis
    using ips_ok_put[OF assms, of ?p ip] users_ok_put[OF assms, of ?u uid] assms
    by (intro engine_okI) (auto simp: engine_ok_def)
qed

lemma engine_ok_gatekeeper:
  assumes "engine_ok g"
  shows "engine_ok (snd (Gatekeeper g ip uid now))"
proof -
  have "g_IPs (snd (Gatekeeper g ip uid now)) = snd (LoadIP (g_IPs g) ip)"
    "g_Users (snd (Gatekeeper g ip uid now)) =
       (if uid = [] then g_Users g else snd (LoadUser now (g_Users g) uid))"
    by (simp_all add: Gatekeeper_def GetGatekeeperProfiles_def Let_def case_prod_unfold)
  then show ?thesis
    using assms ip_ok_new user_ok_new
    by (auto simp: engine_ok_def LoadIP_def LoadUser_def Let_def split: option.splits if_splits)
qed

lemma engine_ok_sweeps:
  assumes "engine_ok g"
  shows "engine_ok (evict_profiles now g)" "engine_ok (cleanup_sessions now g)"
    "engine_ok (ResetAllData g)" "engine_ok (SetConfig cfg g)" "engine_ok (SetModuleWeights w g)"
    "engine_ok (SetUserWeights a b c g)" "engine_ok (g\<lparr>g_Redis := k\<rparr>)"
  using assms
  by (auto simp: engine_ok_def evict_profiles_def evict_def cleanup_sessions_def ResetAllData_def
      SetConfig_def SetModuleWeights_def SetUserWeights_def split: option.splits if_splits)

lemma engine_ok_step: "engine_step db g g' \<Longrightarrow> engine_ok g \<Longrightarrow> engine_ok g'"
proof (induction rule: engine_step.induct)
  case (event g raw)
  then show ?case
    using ips_ok_put[OF event ip_ok_ComputeTrustScore[OF ip_ok_view[OF event]]]
    by (intro engine_okI) (auto simp: ProcessEvent_stores engine_ok_def)
next
  case (user_event g ctx raw)
  then show ?case using engine_ok_user[OF user_event] by (simp add: engine_ok_def ProcessEventForUser_stores)
qed (simp_all add: engine_ok_gatekeeper engine_ok_solved engine_ok_rasp engine_ok_feedback
    engine_ok_sweeps)

lemma reachable_ok: "reachable db g \<Longrightarrow> engine_ok g"
proof (induction rule: reachable.induct)
  case start
  then show ?case by (simp add: engine_ok_def init_engine_def)
qed (rule engine_ok_step)

end
