(* ===== verification/Engine_Safety.thy ===== *)
theory Engine_Safety
  imports Engine_Steps
begin

text \<open>
  Properties that span the components: what every reachable state guarantees, what the
  gatekeeper answers after a runtime effect, what it does not see, what the eviction forgets,
  and that addresses do not affect each other.
\<close>

section \<open>Every reachable state\<close>

text \<open>C3: In every state the engine can reach, whatever the order of requests, runtime effects,
  feedback, sweeps and changes of the configuration, every stored profile is well-formed:
  correction scores between 0 and 1, at most a hundred corrections and runtime effects, scores
  between 0 and 10, a critical effect on record means a confirmed exploit, and a confirmed
  exploit means a latest score in the ban band.\<close>

theorem reachable_profiles_ok:
  assumes "reachable db g"
  shows "(\<forall>ip. ip_ok (ip_view g ip)) \<and> (\<forall>now uid. user_ok (account_view g now uid))"
  using reachable_ok[OF assms] ip_ok_view user_ok_view by blast

definition exploit_report :: rasp_event where
  "exploit_report = \<lparr> x_RequestID = ''r1'', x_IP = ''10.0.0.1'', x_UserID = ''anna'', x_Timestamp = 7,
     x_Category = ''rce'', x_Severity = ''critical'', x_Action = ''blocked'', x_Evidence = ''/bin/sh'' \<rparr>"

lemma reachable_profiles_ok_witness:
  "ip_ok (ip_view (ProcessRASPEvent exploit_report init_engine) ''10.0.0.1'')"
  using reachable_profiles_ok[OF reachable.step[OF reachable.start engine_step.rasp[of _ _ exploit_report]]]
  by blast

section \<open>The gatekeeper\<close>

text \<open>In every reachable state the gatekeeper bans an anonymous request from an address with a
  confirmed exploit, and every request of a user with one, from whatever address.\<close>

theorem gatekeeper_bans_exploit:
  assumes "reachable db g"
  shows "(p_ConfirmedExploit (ip_view g ip) \<longrightarrow> v_Recommended (fst (Gatekeeper g ip [] now)) = Ban) \<and>
         (uid \<noteq> [] \<and> u_ConfirmedExploit (account_view g now uid)
            \<longrightarrow> v_Recommended (fst (Gatekeeper g ip uid now)) = Ban)"
proof -
  have ok: "ip_ok (ip_view g ip)" "user_ok (account_view g now uid)"
    using reachable_ok[OF assms] ip_ok_view user_ok_view by blast+
  then show ?thesis
    by (auto simp: Gatekeeper_verdict verdict_of_def Let_def ip_ok_def user_ok_def makeDecision_def)
qed

lemma view_after_rasp:
  assumes "parseSeverity (x_Severity ev) \<noteq> SevNone" and "x_IP ev \<noteq> []"
  shows "ip_view (ProcessRASPEvent ev g) (x_IP ev) = AddRASPHit (ip_view g (x_IP ev)) (hit_of ev)"
    and "x_UserID ev = [] \<Longrightarrow> account_view (ProcessRASPEvent ev g) now uid = account_view g now uid"
    and "x_UserID ev \<noteq> [] \<Longrightarrow> account_view (ProcessRASPEvent ev g) now (x_UserID ev) =
           AddUserRASPHit (account_view g (x_Timestamp ev) (x_UserID ev)) (hit_of ev)"
  by (simp_all add: ip_view_def[of "ProcessRASPEvent ev g"] account_view_def[of "ProcessRASPEvent ev g"]
      ProcessRASPEvent_stores[OF assms]) (simp add: account_view_def)

lemma gatekeeper_bans_exploit_witness:
  "v_Recommended (fst (Gatekeeper (ProcessRASPEvent exploit_report init_engine) ''10.0.0.1'' [] 8)) = Ban
   \<and> v_Recommended (fst (Gatekeeper (ProcessRASPEvent exploit_report init_engine) ''10.9.9.9'' ''anna'' 8)) = Ban"
proof -
  let ?g = "ProcessRASPEvent exploit_report init_engine"
  have sev: "parseSeverity (x_Severity exploit_report) \<noteq> SevNone" "x_IP exploit_report \<noteq> []"
    by (simp_all add: exploit_report_def parseSeverity_def)
  have "p_ConfirmedExploit (ip_view ?g (x_IP exploit_report))"
    by (simp add: view_after_rasp(1)[OF sev] step_simps hit_of_def)
      (simp add: exploit_report_def parseSeverity_def)
  moreover have "u_ConfirmedExploit (account_view ?g 8 (x_UserID exploit_report))"
    by (subst view_after_rasp(3)[OF sev])
      (simp_all add: hit_of_def exploit_report_def parseSeverity_def AddUserRASPHit_def)
  ultimately show ?thesis
    using gatekeeper_bans_exploit[OF reachable.step[OF reachable.start engine_step.rasp[of _ _ exploit_report]],
        of "''10.0.0.1''" 8] gatekeeper_bans_exploit[OF reachable.step[OF reachable.start
          engine_step.rasp[of _ _ exploit_report]], of "''10.9.9.9''" 8 "''anna''"]
    by (simp add: exploit_report_def)
qed

text \<open>A critical effect takes hold at once: the next anonymous request from the address it names
  is banned at the gate, and the next request of the user it names from any address.\<close>

theorem critical_report_bans_next_request:
  assumes "parseSeverity (x_Severity ev) = SevCritical" and "x_IP ev \<noteq> []"
  shows "v_Recommended (fst (Gatekeeper (ProcessRASPEvent ev g) (x_IP ev) [] now)) = Ban \<and>
         (x_UserID ev \<noteq> [] \<longrightarrow>
            v_Recommended (fst (Gatekeeper (ProcessRASPEvent ev g) ip (x_UserID ev) now)) = Ban)"
proof -
  have sev: "parseSeverity (x_Severity ev) \<noteq> SevNone" using assms(1) by simp
  show ?thesis
    using assms view_after_rasp(1)[OF sev assms(2)] view_after_rasp(3)[OF sev assms(2)]
    by (auto simp: Gatekeeper_verdict verdict_of_def Let_def step_simps hit_of_def makeDecision_def
        AddUserRASPHit_def)
qed

lemma critical_report_bans_next_request_witness:
  "v_Recommended (fst (Gatekeeper (ProcessRASPEvent exploit_report init_engine) ''10.0.0.1'' [] 8)) = Ban"
  using critical_report_bans_next_request[of exploit_report init_engine 8]
  by (simp add: exploit_report_def parseSeverity_def)

text \<open>The ban of an address does not reach signed-in users: right after a critical effect that
  names no user, a user whose account score is at least 5 is only challenged at the same address,
  because the gatekeeper uses the user's score instead of the address's.\<close>

theorem signed_in_user_escapes_address_ban:
  assumes "parseSeverity (x_Severity ev) = SevCritical" and "x_IP ev \<noteq> []" and "x_UserID ev = []"
    and "uid \<noteq> []" and "5 \<le> u_Score (account_view g now uid)"
  shows "v_Recommended (fst (Gatekeeper (ProcessRASPEvent ev g) (x_IP ev) uid now)) = Challenge"
proof -
  have sev: "parseSeverity (x_Severity ev) \<noteq> SevNone" using assms(1) by simp
  show ?thesis
    using assms view_after_rasp(1)[OF sev assms(2)] view_after_rasp(2)[OF sev assms(2,3), of g now uid]
    by (auto simp: Gatekeeper_verdict verdict_of_def Let_def step_simps hit_of_def makeDecision_def)
qed

lemma signed_in_user_escapes_address_ban_witness:
  "v_Recommended (fst (Gatekeeper (ProcessRASPEvent (exploit_report\<lparr>x_UserID := []\<rparr>) init_engine)
     ''10.0.0.1'' ''bob'' 8)) = Challenge"
  using signed_in_user_escapes_address_ban[of "exploit_report\<lparr>x_UserID := []\<rparr>" "''bob''" init_engine 8]
    fl_repr[of "15 / 2"]
  by (simp add: exploit_report_def parseSeverity_def account_view_def LoadUser_def Let_def init_engine_def
      NewUserProfile_def)

text \<open>Asking the gatekeeper changes no profile that any later call can see, asking it again
  gives the same answer, and an entity that was ever blocked is never simply let through.\<close>

theorem gatekeeper_only_reads:
  "let (v, g') = Gatekeeper g ip uid now in
     ip_view g' ip' = ip_view g ip' \<and> account_view g' now uid' = account_view g now uid' \<and>
     fst (Gatekeeper g' ip uid now) = v \<and>
     (v_EverBlocked v \<longrightarrow> Challenge \<le> v_Recommended v)"
proof -
  have g': "g_IPs (snd (Gatekeeper g ip uid now)) = snd (LoadIP (g_IPs g) ip)"
    "g_Users (snd (Gatekeeper g ip uid now)) =
       (if uid = [] then g_Users g else snd (LoadUser now (g_Users g) uid))"
    by (simp_all add: Gatekeeper_def GetGatekeeperProfiles_def Let_def case_prod_unfold)
  have ips: "ip_view (snd (Gatekeeper g ip uid now)) i = ip_view g i" for i
    using ips.view_load[of "g_IPs g" ip i] by (simp add: ip_view_def g' ips.view_def)
  have users: "account_view (snd (Gatekeeper g ip uid now)) now u = account_view g now u" for u
    using users.view_load[of now "g_Users g" uid u] by (simp add: account_view_def g' users.view_def)
  have "v_EverBlocked (verdict_of p u) \<longrightarrow> Challenge \<le> v_Recommended (verdict_of p u)" for p u
  proof -
    have "Challenge \<le> (if d = Allow \<or> d = AllowStricter then Challenge else d)" for d
      by (cases d) (auto simp: decision_order)
    then show ?thesis by (cases u) (simp_all add: verdict_of_def Let_def)
  qed
  then show ?thesis by (simp add: case_prod_unfold ips users Gatekeeper_verdict)
qed

lemma gatekeeper_only_reads_witness:
  "fst (Gatekeeper (snd (Gatekeeper init_engine ''10.0.0.1'' [] 8)) ''10.0.0.1'' [] 8)
     = fst (Gatekeeper init_engine ''10.0.0.1'' [] 8)"
  using gatekeeper_only_reads[of init_engine "''10.0.0.1''" "[]" 8 "[]" "[]"]
  by (simp add: Let_def case_prod_unfold)

lemma verdict_of_user:
  "u_Score u = u_Score u' \<Longrightarrow> u_EverBlocked u = u_EverBlocked u' \<Longrightarrow>
     verdict_of p (Some u) = verdict_of p (Some u')"
  by (simp only: verdict_of_def option.case)

text \<open>The gatekeeper does not see a high effect: its answer for any address and user is the same
  before and after, although the score published for them says block.\<close>

theorem high_report_unseen_at_gate:
  assumes "parseSeverity (x_Severity ev) \<in> {SevLow, SevMedium, SevHigh}"
  shows "fst (Gatekeeper (ProcessRASPEvent ev g) ip uid now) = fst (Gatekeeper g ip uid now)"
proof (cases "x_IP ev = []")
  case False
  have sev: "parseSeverity (x_Severity ev) \<noteq> SevNone" "rh_Severity (hit_of ev) \<noteq> SevCritical"
    using assms(1) by (auto simp: hit_of_def)
  have "p_PreviousScores (AddRASPHit p (hit_of ev)) = p_PreviousScores p"
    "p_WasBlocked (AddRASPHit p (hit_of ev)) = p_WasBlocked p"
    "p_LastSeen (AddRASPHit p (hit_of ev)) = p_LastSeen p" for p
    using sev(2) by (simp_all add: AddRASPHit_def Let_def)
  then have ipv: "verdict_of (AddRASPHit p (hit_of ev)) u = verdict_of p u" for p u
    by (simp only: verdict_of_def)
  have "u_Score (AddUserRASPHit u (hit_of ev)) = u_Score u"
    "u_EverBlocked (AddUserRASPHit u (hit_of ev)) = u_EverBlocked u" for u
    using sev(2) by (simp_all add: AddUserRASPHit_def Let_def)
  then have uv: "verdict_of p (Some (AddUserRASPHit u (hit_of ev))) = verdict_of p (Some u)" for p u
    by (simp only: verdict_of_def option.case)
  have ip: "ip_view (ProcessRASPEvent ev g) ip =
      (if ip = x_IP ev then AddRASPHit (ip_view g (x_IP ev)) (hit_of ev) else ip_view g ip)"
    by (simp add: ip_view_def[of "ProcessRASPEvent ev g"] ProcessRASPEvent_stores[OF sev(1) False])
      (simp add: ip_view_def)
  show ?thesis
  proof (cases "uid = x_UserID ev \<and> uid \<noteq> []")
    case True
    have "u_Score (account_view g t uid) = u_Score (account_view g now uid)"
      "u_EverBlocked (account_view g t uid) = u_EverBlocked (account_view g now uid)" for t
      by (simp_all add: account_view_def LoadUser_def NewUserProfile_def Let_def split: option.split)
    then have time: "verdict_of p (Some (account_view g t uid)) = verdict_of p (Some (account_view g now uid))" for p t
      by (rule verdict_of_user)
    have "account_view (ProcessRASPEvent ev g) now uid = AddUserRASPHit (account_view g (x_Timestamp ev) uid) (hit_of ev)"
      using True by (auto simp: account_view_def[of "ProcessRASPEvent ev g"] ProcessRASPEvent_stores[OF sev(1) False])
    then show ?thesis using True time[of _ "x_Timestamp ev"] by (auto simp: Gatekeeper_verdict ip ipv uv)
  next
    case other: False
    then have "account_view (ProcessRASPEvent ev g) now uid = account_view g now uid" if "uid \<noteq> []"
      using that by (auto simp: account_view_def ProcessRASPEvent_stores[OF sev(1) False])
    then show ?thesis by (simp add: Gatekeeper_verdict ip ipv)
  qed
qed (simp add: ProcessRASPEvent_def Let_def)

lemma high_report_unseen_at_gate_witness:
  "fst (Gatekeeper (ProcessRASPEvent (exploit_report\<lparr>x_Severity := ''high''\<rparr>) init_engine) ''10.0.0.1'' [] 8)
     = fst (Gatekeeper init_engine ''10.0.0.1'' [] 8)"
  by (rule high_report_unseen_at_gate) (simp_all add: exploit_report_def parseSeverity_def)

section \<open>How long an exploit is remembered\<close>

text \<open>A profile in the store that is marked, and the steps that leave the profile in the store, which are
  all but a sweep that finds it idle and a reset of the data.\<close>

definition marked :: "engine \<Rightarrow> string \<Rightarrow> bool" where
  "marked g ip \<longleftrightarrow> (\<exists>p. g_IPs g ip = Some p \<and> p_ConfirmedExploit p)"

definition kept_step :: "lookups \<Rightarrow> string \<Rightarrow> engine \<Rightarrow> engine \<Rightarrow> bool" where
  "kept_step db ip g g' \<longleftrightarrow> engine_step db g g' \<and> g_IPs g' ip \<noteq> None"

lemma marked_view: "marked g ip \<Longrightarrow> p_ConfirmedExploit (ip_view g ip)"
  by (auto simp: marked_def ip_view_def LoadIP_def)

lemma marked_put:
  "marked g ip \<Longrightarrow> (ip' = ip \<Longrightarrow> p_ConfirmedExploit p) \<Longrightarrow> g_IPs g' = PutIP (g_IPs g) ip' p \<Longrightarrow> marked g' ip"
  by (auto simp: marked_def PutIP_def)

lemma marked_cong: "marked g ip \<Longrightarrow> g_IPs g' ip = g_IPs g ip \<Longrightarrow> marked g' ip"
  by (simp add: marked_def)

lemma marked_scored: "p_ConfirmedExploit p \<Longrightarrow> p_ConfirmedExploit (snd (ComputeTrustScore cfg w p event))"
  by (simp add: ComputeTrustScore_profile step_simps)

lemma marked_step:
  assumes "engine_step db g g'" and "marked g ip" and "g_IPs g' ip \<noteq> None"
  shows "marked g' ip"
  using assms(1)
proof (cases rule: engine_step.cases)
  case (event raw)
  show ?thesis unfolding event
    by (rule marked_put[OF assms(2) _ ProcessEvent_stores(1)]) (use assms(2) in \<open>auto intro: marked_scored marked_view\<close>)
next
  case (user_event ctx raw)
  show ?thesis unfolding user_event
    by (rule marked_put[OF assms(2) _ ProcessEventForUser_stores(1)[unfolded ComputeUserTrustScore_ips]])
      (use assms(2) in \<open>auto intro: marked_scored marked_view\<close>)
next
  case (gatekeeper ip' uid now)
  have "g_IPs g' = snd (LoadIP (g_IPs g) ip')"
    by (simp add: gatekeeper Gatekeeper_def GetGatekeeperProfiles_def Let_def case_prod_unfold)
  then show ?thesis using assms(2) by (auto simp: marked_def LoadIP_def Let_def split: option.splits)
next
  case (solved ip' uid now)
  have "g_IPs g' = PutIP (g_IPs g) ip' ((ip_view g ip')\<lparr>p_ChallengeSolvedRecently := True, p_ChallengeSolvedAt := now\<rparr>)"
    by (simp add: solved RecordChallengeSolved_def Let_def case_prod_unfold ip_view_def PutIP_load)
  from marked_put[OF assms(2) _ this] show ?thesis using marked_view[OF assms(2)] by simp
next
  case (rasp ev)
  show ?thesis
  proof (cases "parseSeverity (x_Severity ev) = SevNone \<or> x_IP ev = []")
    case True
    then show ?thesis using rasp assms(2) by (auto simp: ProcessRASPEvent_def Let_def)
  next
    case False
    then have n: "parseSeverity (x_Severity ev) \<noteq> SevNone" "x_IP ev \<noteq> []" by auto
    show ?thesis unfolding rasp
      by (rule marked_put[OF assms(2) _ ProcessRASPEvent_stores(1)[OF n]])
        (use marked_view[OF assms(2)] in \<open>auto simp: step_simps\<close>)
  qed
next
  case (feedback f job result now)
  show ?thesis
  proof (cases "correction f job result")
    case None
    then show ?thesis using feedback assms(2) by (simp add: ApplyFeedback_none)
  next
    case (Some c)
    then obtain delta reason where c: "correction f job result = Some (delta, reason)" by (cases c) auto
    show ?thesis unfolding feedback
      by (rule marked_put[OF assms(2) _ ApplyFeedback_stores(1)[OF c]])
        (use marked_view[OF assms(2)] in \<open>auto simp: step_simps\<close>)
  qed
next
  case (evict now)
  then show ?thesis
    using assms(2,3) by (auto simp: marked_def evict_profiles_def evict_def split: option.splits if_splits)
qed (use assms(2,3) in \<open>auto simp: marked_def cleanup_sessions_def ResetAllData_def SetConfig_def SetModuleWeights_def
    SetUserWeights_def\<close>)

lemma marked_run: "(kept_step db ip)\<^sup>*\<^sup>* g g' \<Longrightarrow> marked g ip \<Longrightarrow> marked g' ip"
  by (induction rule: rtranclp_induct) (auto simp: kept_step_def intro: marked_step)

lemma marked_report:
  assumes "parseSeverity (x_Severity ev) = SevCritical" and "x_IP ev \<noteq> []"
  shows "marked (ProcessRASPEvent ev g) (x_IP ev)"
proof -
  have sev: "parseSeverity (x_Severity ev) \<noteq> SevNone" using assms(1) by simp
  show ?thesis
    using assms(1) by (simp add: marked_def ProcessRASPEvent_stores(1)[OF sev assms(2)] PutIP_def step_simps hit_of_def)
qed


lemma two_steps: "r a b \<Longrightarrow> r b c \<Longrightarrow> r\<^sup>*\<^sup>* a c"
  by (rule rtranclp.rtrancl_into_rtrancl[OF r_into_rtranclp])


section \<open>What the sweeps forget\<close>

text \<open>The eviction forgets a confirmed exploit: a critical effect on an address that no request
  was scored for is gone after the next sweep, and the gatekeeper answers as for a stranger.\<close>

theorem eviction_forgets_exploit:
  assumes "parseSeverity (x_Severity ev) = SevCritical" and "x_IP ev \<noteq> []"
    and "g_IPs g (x_IP ev) = None" and "3600 < fsub now 0"
  shows "ip_view (evict_profiles now (ProcessRASPEvent ev g)) (x_IP ev) = NewIPProfile (x_IP ev) \<and>
         v_Recommended (fst (Gatekeeper (evict_profiles now (ProcessRASPEvent ev g)) (x_IP ev) [] t)) = AllowStricter"
proof -
  have sev: "parseSeverity (x_Severity ev) \<noteq> SevNone" using assms(1) by simp
  have "ip_view g (x_IP ev) = NewIPProfile (x_IP ev)" using assms(3) by (simp add: ip_view_def LoadIP_def Let_def)
  then have "g_IPs (ProcessRASPEvent ev g) (x_IP ev) = Some (AddRASPHit (NewIPProfile (x_IP ev)) (hit_of ev))"
    by (simp add: ProcessRASPEvent_stores[OF sev assms(2)] PutIP_def)
  moreover have "p_LastSeen (AddRASPHit (NewIPProfile (x_IP ev)) (hit_of ev)) = 0"
    by (simp add: AddRASPHit_def NewIPProfile_def Let_def)
  ultimately have v: "ip_view (evict_profiles now (ProcessRASPEvent ev g)) (x_IP ev) = NewIPProfile (x_IP ev)"
    using assms(4) by (simp add: ip_view_def evict_profiles_def evict_drops)
  then show ?thesis
    by (simp add: Gatekeeper_verdict verdict_of_def Let_def makeDecision_def NewIPProfile_def)
qed

lemma eviction_forgets_exploit_witness:
  "v_Recommended (fst (Gatekeeper (evict_profiles 4000 (ProcessRASPEvent exploit_report init_engine))
     ''10.0.0.1'' [] 4001)) = AllowStricter"
  using eviction_forgets_exploit[of exploit_report init_engine 4000 4001] fl_repr[of 4000]
    repr_of_int[of 4000]
  by (simp add: exploit_report_def parseSeverity_def init_engine_def fsub_def)

text \<open>Runtime effects do not respect the bound of the recent scores: every critical effect makes
  the list one longer, and the requests that follow never shorten it again.\<close>

theorem critical_effects_outgrow_recent_scores:
  assumes "list_all (\<lambda>hit. rh_Severity hit = SevCritical) hits" and "length (p_PreviousScores p) = 10"
  shows "length (p_PreviousScores (fold (\<lambda>hit p. AddRASPHit p hit) hits p)) = 10 + length hits \<and>
         length (p_PreviousScores (snd (ComputeTrustScore cfg w
            (fold (\<lambda>hit p. AddRASPHit p hit) hits p) event))) = 10 + length hits"
proof -
  have grow: "list_all (\<lambda>hit. rh_Severity hit = SevCritical) hs \<Longrightarrow>
      length (p_PreviousScores (fold (\<lambda>hit p. AddRASPHit p hit) hs q)) = length (p_PreviousScores q) + length hs" for hs q
    by (induction hs arbitrary: q) (auto simp: step_simps)
  have "length (append_trim 10 xs x) = length xs" if "10 \<le> length xs" for xs :: "real list" and x
    using that by (simp add: append_trim_def Let_def)
  then show ?thesis using grow[OF assms(1), of p] assms(2)
    by (simp add: ComputeTrustScore_profile step_simps make_outcome_def)
qed

lemma critical_effects_outgrow_recent_scores_witness:
  "length (p_PreviousScores (fold (\<lambda>hit p. AddRASPHit p hit) (replicate 5 critical_hit)
     ((NewIPProfile ''10.0.0.1'')\<lparr>p_PreviousScores := replicate 10 9\<rparr>))) = 15"
  using critical_effects_outgrow_recent_scores[of "replicate 5 critical_hit"
      "(NewIPProfile ''10.0.0.1'')\<lparr>p_PreviousScores := replicate 10 9\<rparr>" DefaultConfig liveWeights plain_event]
  by (simp add: list_all_iff critical_hit_def)

section \<open>Addresses do not affect each other\<close>

definition process_all :: "lookups \<Rightarrow> raw_event list \<Rightarrow> engine \<Rightarrow> engine" where
  "process_all db raws g = fold (\<lambda>raw g. snd (ProcessEvent db g raw)) raws g"

text \<open>C11: The profile of an address after any sequence of events of any addresses is what its own
  events alone make of it, in their order: no traffic of others can raise or lower its score.\<close>

theorem addresses_are_isolated:
  "ip_view (process_all db raws g) ip =
     fold (\<lambda>event p. snd (ComputeTrustScore (g_Config g) (g_Weights g) p event))
       (filter (\<lambda>event. e_IP event = ip) (map (ParseRawEvent db) raws)) (ip_view g ip)"
proof (induction raws arbitrary: g)
  case (Cons raw raws)
  have "g_Config (snd (ProcessEvent db g raw)) = g_Config g" "g_Weights (snd (ProcessEvent db g raw)) = g_Weights g"
    by (simp_all add: ProcessEvent_def Let_def case_prod_unfold step_simps)
  moreover have "ip_view (snd (ProcessEvent db g raw)) ip =
      (if e_IP (ParseRawEvent db raw) = ip
       then snd (ComputeTrustScore (g_Config g) (g_Weights g) (ip_view g ip) (ParseRawEvent db raw))
       else ip_view g ip)"
    by (simp add: ip_view_def[of "snd (ProcessEvent db g raw)"] ProcessEvent_stores) (simp add: ip_view_def)
  ultimately show ?case using Cons[of "snd (ProcessEvent db g raw)"] by (simp add: process_all_def)
qed (simp add: process_all_def)

section \<open>Feedback of the deep tier\<close>

text \<open>C34: A verdict of the deep tier is applied exactly when it is confident enough and contradicts
  the first tier; it then moves the correction score of the address by the delta, upwards for a
  false positive and downwards for a false negative, clamped to [0, 1], and records the
  correction last; otherwise nothing changes.\<close>

theorem feedback_applies_on_disagreement:
  "let ((applied, delta, reason, err), g') = ApplyFeedback f job result now g;
       flagged = j_Tier0Decision job \<in> {''challenge'', ''block'', ''ban''};
       passed = j_Tier0Decision job \<in> {''allow'', ''allow+stricter''};
       fp = flagged \<and> m_Label result = ''benign'';
       fn = passed \<and> m_Label result = ''malicious'';
       p = ip_view g (j_ClientIP job); p' = ip_view g' (j_ClientIP job)
   in (applied \<longleftrightarrow> f_confidenceThreshold f \<le> m_Confidence result \<and> (fp \<or> fn)) \<and>
      (if applied
       then delta = (if fp then f_correctionDelta f else - f_correctionDelta f) \<and>
            p_EWMAScore p' = max 0 (min 1 (fadd (p_EWMAScore p) delta)) \<and>
            tc_Delta (last (p_Tier1Corrections p')) = delta
       else g' = g)"
proof (cases "correction f job result")
  case None
  then show ?thesis
    by (auto simp: ApplyFeedback_def correction_def Let_def split: if_splits)
next
  case (Some c)
  obtain delta reason where c: "correction f job result = Some (delta, reason)" using Some by (cases c) auto
  obtain err where r: "fst (ApplyFeedback f job result now g) = (True, delta, reason, err)"
    by (simp add: ApplyFeedback_def c Let_def case_prod_unfold)
  have clamp: "clamp01 x = max 0 (min 1 x)" for x by (auto simp: clamp01_def Let_def)
  have v: "ip_view (snd (ApplyFeedback f job result now g)) (j_ClientIP job) =
      correct_ip delta reason now (ip_view g (j_ClientIP job))"
    by (simp add: ip_view_def[of "snd (ApplyFeedback f job result now g)"] ApplyFeedback_stores[OF c])
  show ?thesis
    using c by (auto simp: case_prod_unfold Let_def r v step_simps clamp correction_def split: if_splits)
qed

end
