(* ===== verification/Front.thy ===== *)
theory Front
  imports Admin_Safety Engine_Safety
begin

text \<open>
  The deployment as a state machine: requests, pending tasks of the learner, workers of the deep
  tier, runtime effects, sweeps and administration, in any order. Its engine refines the engine's
  own state machine (\<open>Engine_Steps\<close>), so what holds of every reachable engine holds of the
  deployed one.
\<close>

section \<open>Steps\<close>

definition with_proxy :: "(proxy \<Rightarrow> proxy) \<Rightarrow> admin_server \<Rightarrow> admin_server" where
  "with_proxy f ad = ad\<lparr>ad_Proxy := f (ad_Proxy ad)\<rparr>"

definition sweep_limits :: "int \<Rightarrow> proxy \<Rightarrow> proxy" where
  "sweep_limits now st = st\<lparr>y_RateLimiter := evict_buckets now maxIdle (y_RateLimiter st),
     y_ChallengeLimiter := evict_buckets now maxIdle (y_ChallengeLimiter st)\<rparr>"

definition sweep_resolver :: "int \<Rightarrow> proxy \<Rightarrow> proxy" where
  "sweep_resolver now st =
     st\<lparr>y_Resolver := (case y_Resolver st of Opaque o' \<Rightarrow> Opaque (sweep_cache now o') | res \<Rightarrow> res)\<rparr>"

definition work :: "tier1_config \<Rightarrow> worker_env \<Rightarrow> string \<Rightarrow> proxy \<Rightarrow> proxy" where
  "work cfg env w st = st\<lparr>y_Pipeline := worker_round cfg env w (y_Pipeline st)\<rparr>"

text \<open>The steps, where the outcomes of writing the configuration satisfy \<open>io_ok\<close>.\<close>

inductive front_step :: "(save_io \<Rightarrow> bool) \<Rightarrow> surroundings \<Rightarrow> admin_libs \<Rightarrow> admin_server \<Rightarrow> admin_server \<Rightarrow> bool"
  for io_ok sv lb where
  serve: "front_step io_ok sv lb ad (with_proxy (\<lambda>st. snd (ServeHTTP sv ca r st)) ad)"
| learn: "front_step io_ok sv lb ad (with_proxy (run_task (sv_db sv) i) ad)"
| work: "y_Tier1 (ad_Proxy ad) = Some cfg \<Longrightarrow> front_step io_ok sv lb ad (with_proxy (work cfg env w) ad)"
| rasp: "front_step io_ok sv lb ad (with_proxy (\<lambda>st. set_engine (ProcessRASPEvent ev (y_Engine st)) st) ad)"
| evict: "front_step io_ok sv lb ad (with_proxy (\<lambda>st. set_engine (evict_profiles now (y_Engine st)) st) ad)"
| sessions: "front_step io_ok sv lb ad (with_proxy (\<lambda>st. set_engine (cleanup_sessions now (y_Engine st)) st) ad)"
| limits: "front_step io_ok sv lb ad (with_proxy (sweep_limits t) ad)"
| cache: "front_step io_ok sv lb ad (with_proxy (sweep_resolver t) ad)"
| admin: "io_ok (aq_save aq) \<Longrightarrow> front_step io_ok sv lb ad (snd (admin_ServeHTTP lb aq r ad))"

inductive_cases front_stepE: "front_step io_ok sv lb ad ad'"

inductive front_reachable :: "(save_io \<Rightarrow> bool) \<Rightarrow> surroundings \<Rightarrow> admin_libs \<Rightarrow> admin_server \<Rightarrow> bool"
  for io_ok sv lb where
  start: "loadAdminStore admins random writable = Some store \<Longrightarrow>
    front_reachable io_ok sv lb
      \<lparr> ad_Store = store, ad_Proxy = start_proxy file threshold secret key env (lb_build lb) auditOpens \<rparr>"
| step: "front_reachable io_ok sv lb ad \<Longrightarrow> front_step io_ok sv lb ad ad' \<Longrightarrow> front_reachable io_ok sv lb ad'"

section \<open>The engine of the deployment\<close>

definition ad_Engine :: "admin_server \<Rightarrow> engine" where
  "ad_Engine ad = y_Engine (ad_Proxy ad)"

lemma engine_sel [simp]:
  "y_Engine (set_engine g st) = g" "y_Engine (st\<lparr>y_Config := c\<rparr>) = y_Engine st"
  "y_Engine (st\<lparr>y_Threshold := t\<rparr>) = y_Engine st" "y_Engine (st\<lparr>y_Resolver := x\<rparr>) = y_Engine st"
  "y_Engine (st\<lparr>y_Coraza := w\<rparr>) = y_Engine st" "y_Engine (st\<lparr>y_Pending := ts\<rparr>) = y_Engine st"
  "y_Engine (st\<lparr>y_RateLimiter := rl\<rparr>) = y_Engine st" "y_Engine (st\<lparr>y_ChallengeLimiter := rl\<rparr>) = y_Engine st"
  "y_Engine (st\<lparr>y_Feed := f\<rparr>) = y_Engine st" "y_Engine (writeLog entry st) = y_Engine st"
  by (simp_all add: y_Engine_def set_engine_def writeLog_def)

lemma serve_checked_front:
  "y_Engine (snd (serve_checked sv ca cx verdict st)) = y_Engine st"
  "y_Config (snd (serve_checked sv ca cx verdict st)) = y_Config st"
  "y_Threshold (snd (serve_checked sv ca cx verdict st)) = y_Threshold st"
  "y_Coraza (snd (serve_checked sv ca cx verdict st)) = y_Coraza st"
proof -
  obtain a st1 where g: "gate_stage ca cx (v_Recommended verdict) st = (a, st1)" by fastforce
  have s1: "same_front st st1"
    using gate_stage_ok[of cx st ca "v_Recommended verdict"] by (simp add: g stage_ok_def)
  have s2: "same_front st1 (enqueue_stage ca cx (v_Recommended verdict) prob st1)" for prob
    by (rule enqueue_stage_keeps)
  have s3: "same_front st' (snd (threshold_stage cx prob st'))" for prob st'
    using threshold_stage_ok[of cx st' prob] by (simp add: stage_ok_def)
  have s4: "same_front st' (fireAsyncLearner cx status n passed st')" for status n passed st'
    by (simp add: fireAsyncLearner_def spawn_def same_front_def y_Engine_def)
  have "\<exists>st'. same_front st st' \<and> (snd (serve_checked sv ca cx verdict st) = st' \<or>
      (\<exists>entry. snd (serve_checked sv ca cx verdict st) = writeLog entry st'))"
  proof (cases a)
    case (Some x)
    then show ?thesis using g s1 by (cases x) (auto simp: serve_checked_def Let_def)
  next
    case None
    show ?thesis
    proof (cases "classify sv cx")
      case None
      then show ?thesis using \<open>a = None\<close> g s1 by (auto simp: serve_checked_def Let_def)
    next
      case (Some prob)
      let ?st2 = "enqueue_stage ca cx (v_Recommended verdict) prob st1"
      obtain b st3 where t: "threshold_stage cx prob ?st2 = (b, st3)" by fastforce
      have "same_front ?st2 st3" using s3[of ?st2 prob] by (simp add: t)
      then have f: "same_front st st3" using s1 s2[of prob] same_front_trans by blast
      show ?thesis
        using \<open>a = None\<close> Some g t f same_front_trans[OF f s4[of st3]]
        by (cases b; cases "sv_backend sv (ReverseProxy (outgoing ca cx))")
          (auto simp: serve_checked_def Let_def, blast+)
    qed
  qed
  then show "y_Engine (snd (serve_checked sv ca cx verdict st)) = y_Engine st"
    "y_Config (snd (serve_checked sv ca cx verdict st)) = y_Config st"
    "y_Threshold (snd (serve_checked sv ca cx verdict st)) = y_Threshold st"
    "y_Coraza (snd (serve_checked sv ca cx verdict st)) = y_Coraza st"
    by (auto simp: same_front_def writeLog_def)
qed

lemma Gatekeeper_front:
  "ask_gatekeeper cx st = (verdict, st1) \<Longrightarrow> \<exists>ip uid now. y_Engine st1 = snd (Gatekeeper (y_Engine st) ip uid now)"
  by (auto simp: ask_gatekeeper_def Let_def case_prod_unfold) blast

text \<open>A request asks the gatekeeper, records a solved challenge, or leaves the engine alone.\<close>

lemma ServeHTTP_engine:
  "(\<exists>ip uid now. y_Engine (snd (ServeHTTP sv ca r st)) = snd (Gatekeeper (y_Engine st) ip uid now)) \<or>
   (\<exists>ip uid now. y_Engine (snd (ServeHTTP sv ca r st)) = RecordChallengeSolved ip uid now (y_Engine st)) \<or>
   y_Engine (snd (ServeHTTP sv ca r st)) = y_Engine st"
proof (cases "h_Path r = ''/challenge-solve''")
  case True
  have "y_Engine (snd (handleChallengeSolve sv ca r st)) = y_Engine st \<or>
      (\<exists>ip uid now. y_Engine (snd (handleChallengeSolve sv ca r st)) = RecordChallengeSolved ip uid now (y_Engine st))"
    using solve_engine[of sv ca r st] by auto
  then show ?thesis using True by (auto simp: ServeHTTP_def Let_def case_prod_unfold)
next
  case False
  obtain c st1 where rc: "read_context sv ca r st = (c, st1)" by fastforce
  have e: "y_Engine st1 = y_Engine st" using read_context_keeps[OF rc] by (simp add: same_front_def)
  show ?thesis
  proof (cases c)
    case None
    then show ?thesis using False rc e by (simp add: ServeHTTP_def)
  next
    case (Some cx)
    obtain verdict st2 where a: "ask_gatekeeper cx st1 = (verdict, st2)" by fastforce
    show ?thesis
      using Gatekeeper_front[OF a] False rc Some a e serve_checked_front(1)[of sv ca cx verdict st2]
      by (simp add: ServeHTTP_def)
  qed
qed

lemma run_task_engine:
  "(\<exists>raw. y_Engine (run_task db i st) = snd (ProcessEvent db (y_Engine st) raw)) \<or>
   (\<exists>ctx raw. y_Engine (run_task db i st) = snd (ProcessEventForUser db (y_Engine st) ctx raw)) \<or>
   y_Engine (run_task db i st) = y_Engine st"
  by (auto simp: run_task_def learn_def)

lemma worker_round_engine:
  "pl_engine (worker_round cfg env w p) = pl_engine p \<or>
   (\<exists>f job result now. pl_engine (worker_round cfg env w p) = snd (ApplyFeedback f job result now (pl_engine p)))"
proof (rule worker_round_cases[of p cfg env w])
  fix job jobs
  assume r: "worker_round cfg env w p = process cfg env w job (p\<lparr>pl_queue := (pl_queue p)\<lparr>q_jobs := jobs\<rparr>\<rparr>)"
  show ?thesis
    unfolding r
    by (auto simp: process_def process_reply_def Let_def case_prod_unfold step_simps split: sum.split)
qed simp

lemma save_engine:
  "y_Engine (snd (SaveWafConfig io build key cfg st)) =
     (if io = Saved then apply_trustscore cfg (y_Engine st) else y_Engine st)"
  by (simp add: SaveWafConfig_def Let_def initCorazaWAF_def)

text \<open>What a request to the administration server does to the proxy.\<close>

lemma admin_proxy_cases:
  obtains (same) "ad_Proxy (snd (admin_ServeHTTP lb aq r ad)) = ad_Proxy ad"
  | (save) cfg where "ad_Proxy (snd (admin_ServeHTTP lb aq r ad)) =
      snd (SaveWafConfig (aq_save aq) (lb_build lb) (aq_random aq) cfg (ad_Proxy ad))"
  | (reset) "ad_Proxy (snd (admin_ServeHTTP lb aq r ad)) = flush (ad_Proxy ad)"
proof -
  have s: "ad_Proxy (snd (save_config lb aq cfg failed ok ad)) =
      snd (SaveWafConfig (aq_save aq) (lb_build lb) (aq_random aq) cfg (ad_Proxy ad))" for cfg failed ok
    by (simp add: save_config_def Let_def case_prod_unfold)
  define out where "out = ad_Proxy (snd (protectedMux lb aq r ad))"
  have c: "ad_Proxy (snd (admin_create lb aq r ad)) = ad_Proxy ad" "ad_Proxy (snd (admin_login lb aq r ad)) = ad_Proxy ad"
    "ad_Proxy (snd (admin_setup lb aq r ad)) = ad_Proxy ad"
    by (auto simp: admin_create_def admin_login_def admin_setup_def setup_create_def Let_def case_prod_unfold
        split: option.split)
  have m: "out = ad_Proxy ad \<or> out = flush (ad_Proxy ad) \<or>
      (\<exists>cfg. out = snd (SaveWafConfig (aq_save aq) (lb_build lb) (aq_random aq) cfg (ad_Proxy ad)))"
  proof -
    have "ad_Proxy (snd (admin_config lb aq r ad)) = ad_Proxy ad \<or>
        (\<exists>cfg. ad_Proxy (snd (admin_config lb aq r ad)) =
           snd (SaveWafConfig (aq_save aq) (lb_build lb) (aq_random aq) cfg (ad_Proxy ad)))"
      unfolding admin_config_def using s by (simp split: option.split) blast
    moreover have "ad_Proxy (snd (admin_reset lb aq r ad)) = ad_Proxy ad \<or>
        (\<exists>cfg. ad_Proxy (snd (admin_reset lb aq r ad)) =
           snd (SaveWafConfig (aq_save aq) (lb_build lb) (aq_random aq) cfg (ad_Proxy ad)))"
      unfolding admin_reset_def using s by simp blast
    moreover have "ad_Proxy (snd (admin_reset_data r ad)) \<in> {ad_Proxy ad, flush (ad_Proxy ad)}"
      by (simp add: admin_reset_data_def)
    moreover have "out \<in> {ad_Proxy (snd (admin_config lb aq r ad)), ad_Proxy (snd (admin_reset lb aq r ad)),
        ad_Proxy (snd (admin_reset_data r ad)), ad_Proxy (snd (admin_create lb aq r ad)), ad_Proxy ad}"
      by (simp add: out_def protectedMux_def)
    ultimately show ?thesis using c(1) by auto
  qed
  have "ad_Proxy (snd (secureApiMiddleware (protectedMux lb aq) aq r ad)) \<in> {ad_Proxy ad, out}"
    by (simp add: secureApiMiddleware_def out_def)
  then have "ad_Proxy (snd (admin_ServeHTTP lb aq r ad)) \<in> {ad_Proxy ad, out}"
    using c by (simp add: admin_ServeHTTP_def)
  with m show thesis using same save reset by auto
qed

section \<open>The deployment refines the engine\<close>

lemma one_step: "engine_step db g g' \<Longrightarrow> (engine_step db)\<^sup>*\<^sup>* g g'"
  by (rule r_into_rtranclp)

lemmas engine_steps = engine_step.intros[THEN one_step]

lemma apply_trustscore_steps: "(engine_step db)\<^sup>*\<^sup>* g (apply_trustscore cfg g)"
  unfolding apply_trustscore_def
  by (rule rtranclp.rtrancl_into_rtrancl[OF one_step]) (rule engine_step.user_weights engine_step.config)+

lemma flush_engine: "y_Engine (flush st) = ResetAllData (y_Engine st)"
  by (simp add: flush_def Let_def) (simp add: y_Engine_def set_engine_def)

lemma front_step_engine:
  assumes "front_step io_ok sv lb ad ad'"
  shows "(engine_step (sv_db sv))\<^sup>*\<^sup>* (ad_Engine ad) (ad_Engine ad')"
  using assms
proof (cases rule: front_step.cases)
  case (serve ca r)
  then show ?thesis
    using ServeHTTP_engine[of sv ca r "ad_Proxy ad"]
    by (auto simp: ad_Engine_def with_proxy_def intro: engine_steps)
next
  case (learn i)
  then show ?thesis
    using run_task_engine[of "sv_db sv" i "ad_Proxy ad"]
    by (auto simp: ad_Engine_def with_proxy_def intro: engine_steps)
next
  case (work cfg env w)
  then show ?thesis
    using worker_round_engine[of cfg env w "y_Pipeline (ad_Proxy ad)"]
    by (auto simp: ad_Engine_def with_proxy_def work_def y_Engine_def intro: engine_steps)
next
  case (admin aq r)
  show ?thesis
  proof (rule admin_proxy_cases[of lb aq r ad])
    fix cfg
    assume "ad_Proxy (snd (admin_ServeHTTP lb aq r ad)) =
      snd (SaveWafConfig (aq_save aq) (lb_build lb) (aq_random aq) cfg (ad_Proxy ad))"
    then show ?thesis
      using admin(1) apply_trustscore_steps by (simp add: ad_Engine_def save_engine)
  qed (use admin(1) in \<open>auto simp: ad_Engine_def flush_engine intro: engine_steps\<close>)
qed (auto simp: ad_Engine_def with_proxy_def sweep_limits_def sweep_resolver_def
    intro: engine_steps)

text \<open>C1: The deployment refines the engine: whatever step it takes, a request of any kind, a pending
  task, a job of the deep tier, a runtime effect, a sweep or an administrator's request, its
  engine takes a sequence of the engine's own steps.\<close>

theorem deployment_refines_engine:
  assumes "front_step io_ok sv lb ad ad'"
  shows "(engine_step (sv_db sv))\<^sup>*\<^sup>* (ad_Engine ad) (ad_Engine ad')"
  by (rule front_step_engine[OF assms])

lemma deployment_refines_engine_witness:
  "(engine_step (sv_db demo_surroundings))\<^sup>*\<^sup>* init_engine
     (y_Engine (snd (ServeHTTP demo_surroundings demo_call plain_request (demo_proxy init_engine None))))"
  using deployment_refines_engine[OF front_step.serve[of "\<lambda>_. True" demo_surroundings demo_admin_libs
      "demo_server demo_store" demo_call plain_request]]
  by (simp add: ad_Engine_def with_proxy_def demo_server_def) (simp add: y_Engine_def demo_proxy_def)

lemma reachable_steps: "(engine_step db)\<^sup>*\<^sup>* g g' \<Longrightarrow> reachable db g \<Longrightarrow> reachable db g'"
  by (induction rule: rtranclp_induct) (auto intro: reachable.step)

lemma start_engine:
  "\<exists>cfg. y_Engine (start_proxy file threshold secret key env build auditOpens) =
     (apply_trustscore cfg init_engine)\<lparr>g_Redis := Some \<lparr> k_Scores = Map.empty, k_Feed = [] \<rparr>\<rparr>"
  by (auto simp: start_proxy_def LoadWafConfig_def Let_def initCorazaWAF_def y_Engine_def)

lemma front_engine_reachable:
  assumes "front_reachable io_ok sv lb ad"
  shows "reachable (sv_db sv) (ad_Engine ad)"
  using assms
proof (induction rule: front_reachable.induct)
  case (start admins random writable store cf threshold secret key env auditOpens)
  obtain cfg where e: "y_Engine (start_proxy cf threshold secret key env (lb_build lb) auditOpens) =
      (apply_trustscore cfg init_engine)\<lparr>g_Redis := Some \<lparr> k_Scores = Map.empty, k_Feed = [] \<rparr>\<rparr>"
    using start_engine by metis
  have "reachable (sv_db sv) (apply_trustscore cfg init_engine)"
    by (rule reachable_steps[OF apply_trustscore_steps reachable.start])
  from reachable.step[OF this engine_step.redis] show ?case by (simp add: ad_Engine_def e)
next
  case (step ad ad')
  from reachable_steps[OF front_step_engine[OF step.hyps(2)] step.IH] show ?case .
qed

end
