(* ===== verification/Front_Config.thy ===== *)
theory Front_Config
  imports Front
begin

text \<open>
  The configuration of a deployment: as long as every save succeeds, what the administrator last
  saved is what the threshold, the resolver, the Coraza engine and the trust engine run with; a
  save that fails half-way leaves them apart.
\<close>

section \<open>The configuration in effect\<close>

text \<open>What an engine is configured with.\<close>

definition tuned :: "engine \<Rightarrow> config \<times> user_weights" where
  "tuned g = (g_Config g, g_UserWeights g)"

lemma tuned_ops [simp]:
  "tuned (snd (Gatekeeper g ip uid now)) = tuned g"
  "tuned (RecordChallengeSolved ip uid now g) = tuned g"
  "tuned (snd (ProcessEvent db g raw)) = tuned g"
  "tuned (snd (ProcessEventForUser db g ctx raw)) = tuned g"
  "tuned (ProcessRASPEvent ev g) = tuned g"
  "tuned (evict_profiles now g) = tuned g"
  "tuned (cleanup_sessions now g) = tuned g"
  "tuned (ResetAllData g) = tuned g"
proof -
  have e: "tuned (export_severity i s g) = tuned g" "tuned (pushRASPEventToRedis ev g) = tuned g"
    "tuned (ExportScore i x g) = tuned g" for i s g ev x
    by (simp_all add: tuned_def export_severity_def step_simps)
  have u: "tuned (g\<lparr>g_IPs := a\<rparr>) = tuned g" "tuned (g\<lparr>g_Users := b\<rparr>) = tuned g" "tuned (g\<lparr>g_Sessions := c\<rparr>) = tuned g"
    "tuned (g\<lparr>g_Redis := d\<rparr>) = tuned g" for g a b c d
    by (simp_all add: tuned_def)
  show "tuned (snd (Gatekeeper g ip uid now)) = tuned g" "tuned (RecordChallengeSolved ip uid now g) = tuned g"
    "tuned (snd (ProcessEvent db g raw)) = tuned g" "tuned (snd (ProcessEventForUser db g ctx raw)) = tuned g"
    "tuned (ProcessRASPEvent ev g) = tuned g" "tuned (evict_profiles now g) = tuned g"
    "tuned (cleanup_sessions now g) = tuned g" "tuned (ResetAllData g) = tuned g"
    by (simp_all add: Gatekeeper_def GetGatekeeperProfiles_def RecordChallengeSolved_def ProcessEvent_def
        ProcessEventForUser_def ComputeUserTrustScore_def ProcessRASPEvent_def evict_profiles_def
        cleanup_sessions_def ResetAllData_def Let_def case_prod_unfold e u)
qed

lemma tuned_feedback [simp]: "tuned (snd (ApplyFeedback f job result now g)) = tuned g"
  by (simp add: ApplyFeedback_def tuned_def Let_def case_prod_unfold split: option.split)

text \<open>The resolver up to what it has cached.\<close>

definition uncached :: "resolver \<Rightarrow> resolver" where
  "uncached res = (case res of Opaque o' \<Rightarrow> Opaque (o'\<lparr>or_cache := Map.empty\<rparr>) | _ \<Rightarrow> res)"

text \<open>
  The saved configuration is in effect when all four consumers run with it; \<open>build\<close> makes the
  Coraza engine from the path of its rules.
\<close>

definition in_effect :: "(string \<Rightarrow> coraza option) \<Rightarrow> proxy \<Rightarrow> bool" where
  "in_effect build st \<longleftrightarrow>
     (let cfg = y_Config st
      in y_Threshold st = d_Threshold cfg \<and> (\<exists>key. uncached (y_Resolver st) = new_resolver key cfg) \<and>
         y_Coraza st = (if d_EnableCoraza cfg then build (d_CorazaRulesPath cfg) else None) \<and>
         tuned (y_Engine st) =
           (d_Trustscore cfg, \<lparr> uw_IP = d_WeightIP cfg, uw_User = d_WeightUser cfg, uw_Boost = d_WeightBoost cfg \<rparr>))"

definition same_settings :: "proxy \<Rightarrow> proxy \<Rightarrow> bool" where
  "same_settings st st' \<longleftrightarrow> y_Config st' = y_Config st \<and> y_Threshold st' = y_Threshold st \<and>
     y_Coraza st' = y_Coraza st \<and> uncached (y_Resolver st') = uncached (y_Resolver st) \<and>
     tuned (y_Engine st') = tuned (y_Engine st)"

lemma in_effect_cong: "same_settings st st' \<Longrightarrow> in_effect build st \<Longrightarrow> in_effect build st'"
  by (simp add: same_settings_def in_effect_def Let_def)

lemma new_resolver_uncached [simp]: "uncached (new_resolver key cfg) = new_resolver key cfg"
  by (simp add: uncached_def new_resolver_def NewOpaqueResolver_def)

lemma tuned_apply: "tuned (apply_trustscore cfg g) =
    (d_Trustscore cfg, \<lparr> uw_IP = d_WeightIP cfg, uw_User = d_WeightUser cfg, uw_Boost = d_WeightBoost cfg \<rparr>)"
  by (simp add: apply_trustscore_def tuned_def SetConfig_def SetUserWeights_def)

lemma set_engine_settings [simp]:
  "y_Config (set_engine g st) = y_Config st" "y_Threshold (set_engine g st) = y_Threshold st"
  "y_Resolver (set_engine g st) = y_Resolver st" "y_Coraza (set_engine g st) = y_Coraza st"
  by (simp_all add: set_engine_def)

lemma in_effect_saved: "in_effect build (snd (SaveWafConfig Saved build key cfg st))"
  by (auto simp: in_effect_def SaveWafConfig_def initCorazaWAF_def Let_def tuned_apply intro: exI[of _ key])

lemma Resolve_uncached: "uncached (snd (snd (Resolve libs now res r))) = uncached res"
proof (cases res)
  case (Opaque o')
  have a: "(snd (ask_service libs now o' token key))\<lparr>or_cache := Map.empty\<rparr> = o'\<lparr>or_cache := Map.empty\<rparr>" for token key
    by (cases "al_api libs (or_URL o') token") (simp_all add: ask_service_def Let_def)
  have "(snd (opaque_Resolve libs now o' r))\<lparr>or_cache := Map.empty\<rparr> = o'\<lparr>or_cache := Map.empty\<rparr>"
    unfolding opaque_Resolve_ask Let_def using a by (simp split: option.split)
  then show ?thesis using Opaque by (simp add: Resolve_def uncached_def Let_def case_prod_unfold)
qed (simp_all add: Resolve_def Let_def case_prod_unfold uncached_def)

lemma resolve_identity_settings:
  "resolve_identity sv ca r st = (identity, r', st') \<Longrightarrow> same_settings st st'"
  using Resolve_uncached[of "sv_auth sv" "tm_Nanos (ca_now ca)" "y_Resolver st" r]
  by (auto simp: resolve_identity_def same_settings_def Let_def case_prod_unfold)

lemma same_settings_trans: "same_settings st st' \<Longrightarrow> same_settings st' st'' \<Longrightarrow> same_settings st st''"
  by (simp add: same_settings_def)

lemma read_context_settings:
  "read_context sv ca r st = (c, st1) \<Longrightarrow> same_settings st st1"
  using resolve_identity_settings by (auto simp: read_context_def Let_def split: option.splits prod.splits)

lemma solve_settings: "same_settings st (snd (handleChallengeSolve sv ca r st))"
proof -
  obtain identity r' st1 where res: "resolve_identity sv ca r st = (identity, r', st1)" by (rule prod_cases3)
  have l: "same_settings st (st1\<lparr>y_ChallengeLimiter := rl\<rparr>)" for rl
    using resolve_identity_settings[OF res] by (simp add: same_settings_def)
  have e: "same_settings st1 (set_engine (RecordChallengeSolved ip uid now (y_Engine st1)) (st1\<lparr>y_ChallengeLimiter := rl\<rparr>))"
    for ip uid now rl
    by (simp add: same_settings_def)
  have "same_settings st st" by (simp add: same_settings_def)
  then show ?thesis
    using l same_settings_trans[OF resolve_identity_settings[OF res] e]
    by (auto simp: handleChallengeSolve_def res Let_def case_prod_unfold split: option.split)
qed

lemma same_front_settings:
  "same_front st st' \<Longrightarrow> y_Resolver st' = y_Resolver st \<Longrightarrow> same_settings st st'"
  by (simp add: same_front_def same_settings_def)

lemma serve_checked_settings: "same_settings st (snd (serve_checked sv ca cx verdict st))"
  using serve_checked_front[of sv ca cx verdict st] keeps_resolver[of "serve_checked sv ca cx verdict" st, OF serve_checked_res]
  by (simp add: same_settings_def)

lemma ask_gatekeeper_settings: "ask_gatekeeper cx st = (verdict, st1) \<Longrightarrow> same_settings st st1"
  by (auto simp: ask_gatekeeper_def same_settings_def Let_def case_prod_unfold)

lemma ServeHTTP_settings: "same_settings st (snd (ServeHTTP sv ca r st))"
proof (cases "h_Path r = ''/challenge-solve''")
  case True
  then show ?thesis using solve_settings[of st sv ca r] by (simp add: ServeHTTP_def Let_def case_prod_unfold)
next
  case False
  obtain c st1 where rc: "read_context sv ca r st = (c, st1)" by fastforce
  show ?thesis
  proof (cases c)
    case None
    then show ?thesis using False rc read_context_settings[OF rc] by (simp add: ServeHTTP_def)
  next
    case (Some cx)
    obtain verdict st2 where a: "ask_gatekeeper cx st1 = (verdict, st2)" by fastforce
    have "same_settings st st2"
      using read_context_settings[OF rc] ask_gatekeeper_settings[OF a] by (rule same_settings_trans)
    then show ?thesis
      using False rc Some a same_settings_trans[OF _ serve_checked_settings] by (simp add: ServeHTTP_def)
  qed
qed

lemma engine_settings: "tuned g = tuned (y_Engine st) \<Longrightarrow> same_settings st (set_engine g st)"
  by (simp add: same_settings_def)

lemma run_task_settings: "same_settings st (run_task db i st)"
proof -
  have "tuned (learn db t g) = tuned g" for t g
    by (auto simp: learn_def)
  then show ?thesis by (simp add: run_task_def same_settings_def)
qed

lemma work_settings: "same_settings st (work cfg env w st)"
proof -
  have "tuned (pl_engine (worker_round cfg env w (y_Pipeline st))) = tuned (y_Engine st)"
    using worker_round_engine[of cfg env w "y_Pipeline st"] by (auto simp: y_Engine_def)
  then show ?thesis by (simp add: work_def same_settings_def y_Engine_def)
qed

lemma sweep_settings:
  "same_settings st (sweep_limits t st)" "same_settings st (sweep_resolver t st)" "same_settings st (flush st)"
proof -
  show "same_settings st (sweep_limits t st)" by (simp add: sweep_limits_def same_settings_def)
  show "same_settings st (sweep_resolver t st)"
    by (simp add: sweep_resolver_def same_settings_def uncached_def sweep_cache_def split: resolver.split)
  have "tuned (y_Engine (flush st)) = tuned (y_Engine st)" by (simp add: flush_engine)
  then show "same_settings st (flush st)" by (simp add: same_settings_def) (simp add: flush_def Let_def)
qed

lemma start_in_effect: "in_effect build (start_proxy cf threshold secret key env build auditOpens)"
proof -
  have e: "d_Threshold (env_overrides env cfg) = d_Threshold cfg" "d_Trustscore (env_overrides env cfg) = d_Trustscore cfg"
    "d_WeightIP (env_overrides env cfg) = d_WeightIP cfg" "d_WeightUser (env_overrides env cfg) = d_WeightUser cfg"
    "d_WeightBoost (env_overrides env cfg) = d_WeightBoost cfg" for cfg
    by (simp_all add: env_overrides_def Let_def)
  have r: "tuned (g\<lparr>g_Redis := x\<rparr>) = tuned g" for g x by (simp add: tuned_def)
  show ?thesis
    by (auto simp: in_effect_def start_proxy_def LoadWafConfig_def initCorazaWAF_def Let_def y_Engine_def e r tuned_apply
        intro: exI[of _ key])
qed

text \<open>C12: As long as every save succeeds, the configuration that the administration shows is the one
  in effect: the threshold, the identity resolver, the rule engine and the trust engine all run with
  it, in every state the deployment can reach.\<close>

theorem config_is_in_effect:
  assumes "front_reachable (\<lambda>io. io = Saved) sv lb ad"
  shows "in_effect (lb_build lb) (ad_Proxy ad)"
  using assms
proof (induction rule: front_reachable.induct)
  case (start admins random writable store cf threshold secret key env auditOpens)
  show ?case by (simp add: start_in_effect)
next
  case (step ad ad')
  from step.hyps(2) have "same_settings (ad_Proxy ad) (ad_Proxy ad') \<or> in_effect (lb_build lb) (ad_Proxy ad')"
  proof (cases rule: front_step.cases)
    case (admin aq r)
    show ?thesis
    proof (rule admin_proxy_cases[of lb aq r ad])
      fix cfg
      assume "ad_Proxy (snd (admin_ServeHTTP lb aq r ad)) =
        snd (SaveWafConfig (aq_save aq) (lb_build lb) (aq_random aq) cfg (ad_Proxy ad))"
      then show ?thesis using admin in_effect_saved by simp
    qed (use admin(1) sweep_settings(3) in \<open>simp_all add: same_settings_def\<close>)
  qed (auto simp: with_proxy_def ServeHTTP_settings run_task_settings work_settings sweep_settings engine_settings)
  then show ?case using step.IH in_effect_cong by blast
qed

end
