(* ===== verification/Front_Safety.thy ===== *)
theory Front_Safety
  imports Front_Config
begin

text \<open>
  Properties of the whole deployment: what a confirmed exploit does to the requests of an address,
  what a save that fails leaves behind, and witnesses on a deployment started without files.
\<close>

section \<open>A deployment started without files\<close>

definition bare_env :: deploy_env where
  "bare_env = \<lparr> en_ENABLE_RASP = [], en_RASP_SOCKET_PATH = [], en_TRUST_XFORWARDED = [], en_ENABLE_CORAZA = [] \<rparr>"

definition started :: admin_server where
  "started = \<lparr> ad_Store = demo_store,
     ad_Proxy = start_proxy Unreadable (fl 0.9) ''key'' [] bare_env (lb_build demo_admin_libs) False \<rparr>"

lemma started_reachable: "front_reachable io_ok sv demo_admin_libs started"
  unfolding started_def
  by (rule front_reachable.start[of "Some demo_store" "[]" False]) (simp add: loadAdminStore_def demo_store_def)

lemma started_proxy: "\<exists>g. ad_Proxy started = demo_proxy g None"
  by (simp add: started_def start_proxy_def LoadWafConfig_def env_overrides_def bare_env_def initCorazaWAF_def
      demo_proxy_def demo_config_def lb_build_def NewCorazaWAF_def demo_admin_libs_def defaultConfig_def new_resolver_def y_Engine_def
      init_engine_def Let_def)

lemma config_is_in_effect_witness:
  "in_effect (lb_build demo_admin_libs)
     (snd (ServeHTTP demo_surroundings demo_call plain_request (ad_Proxy started)))"
  using config_is_in_effect[OF front_reachable.step[OF started_reachable
      front_step.serve[of _ demo_surroundings demo_admin_libs started demo_call plain_request]]]
  by (simp add: with_proxy_def)

section \<open>Who sends a request\<close>

lemma identity_headers_kept:
  assumes "CanonicalHeaderKey k \<notin> CanonicalHeaderKey ` {''X-User-ID'', ''X-Email-Verified'', ''X-MFA-Enabled'', ''X-Account-Created''}"
    and "resolve_identity sv ca r st = (identity, r', st')"
  shows "header_Get (h_Header r') k = header_Get (h_Header r) k"
  using assms
  by (auto simp: resolve_identity_def Resolve_def header_Resolve_def strip_identity_def header_Del_get Let_def
      case_prod_unfold split: resolver.splits)

lemma forwarded_for_kept:
  "CanonicalHeaderKey ''X-Forwarded-For'' \<notin>
     CanonicalHeaderKey ` {''X-User-ID'', ''X-Email-Verified'', ''X-MFA-Enabled'', ''X-Account-Created''}"
  by (simp add: canonical_eval)

lemma read_context_who:
  assumes "fst (read_context sv ca r st) = Some cx" and "resolve_identity sv ca r st = (identity, r', st')"
  shows "cx_identity cx = identity \<and> cx_ip cx = getClientIP (y_Config st) r'"
  using assms resolve_identity_keeps(1)[OF assms(2)]
  by (auto simp: read_context_def same_front_def Let_def split: option.splits)

lemma getClientIP_kept:
  assumes "resolve_identity sv ca r st = (identity, r', st')"
  shows "getClientIP cfg r' = getClientIP cfg r"
proof -
  have "h_RemoteAddr r' = h_RemoteAddr r"
    using assms by (auto simp: resolve_identity_def Resolve_def header_Resolve_def Let_def case_prod_unfold
        split: resolver.splits)
  then show ?thesis using identity_headers_kept[OF forwarded_for_kept assms] by (simp only: getClientIP_def)
qed

lemma read_context_sender:
  assumes "fst (read_context sv ca r st) = Some cx"
  shows "cx_identity cx = fst (resolve_identity sv ca r st) \<and> cx_ip cx = getClientIP (y_Config st) r"
proof -
  obtain identity r' st' where res: "resolve_identity sv ca r st = (identity, r', st')" by (rule prod_cases3)
  then show ?thesis using read_context_who[OF assms res] getClientIP_kept[OF res] by simp
qed

section \<open>A confirmed exploit\<close>

lemma exploit_verdict:
  assumes "reachable db g" and "p_ConfirmedExploit (ip_view g ip)"
  shows "uid = [] \<Longrightarrow> v_Recommended (fst (Gatekeeper g ip uid now)) = Ban"
    and "v_Recommended (fst (Gatekeeper g ip uid now)) \<in> {Ban, Block, Challenge}"
proof -
  have "ip_ok (ip_view g ip)" using reachable_ok[OF assms(1)] ip_ok_view by blast
  then show "uid = [] \<Longrightarrow> v_Recommended (fst (Gatekeeper g ip uid now)) = Ban"
    and "v_Recommended (fst (Gatekeeper g ip uid now)) \<in> {Ban, Block, Challenge}"
    using assms(2)
    by (auto simp: Gatekeeper_verdict verdict_of_def Let_def ip_ok_def makeDecision_def)
qed

text \<open>A request that the gatekeeper bans gets the error page and goes no further.\<close>

lemma serve_banned:
  "v_Recommended verdict = Ban \<Longrightarrow>
     fst (serve_checked sv ca cx verdict st) = Some \<lparr> oc_response = forbidden Ban, oc_forwarded = None \<rparr>"
  by (simp add: serve_checked_def gate_stage_def)

text \<open>A step of the deployment is one step of its engine, or keeps the profiles.\<close>

lemma front_step_profiles:
  assumes "front_step io_ok sv lb ad ad'"
  shows "engine_step (sv_db sv) (ad_Engine ad) (ad_Engine ad') \<or> g_IPs (ad_Engine ad') = g_IPs (ad_Engine ad)"
  using assms
proof (cases rule: front_step.cases)
  case (serve ca r)
  then show ?thesis
    using ServeHTTP_engine[of sv ca r "ad_Proxy ad"]
    by (auto simp: ad_Engine_def with_proxy_def intro: engine_step.intros)
next
  case (learn i)
  then show ?thesis
    using run_task_engine[of "sv_db sv" i "ad_Proxy ad"]
    by (auto simp: ad_Engine_def with_proxy_def intro: engine_step.intros)
next
  case (work cfg env w)
  then show ?thesis
    using worker_round_engine[of cfg env w "y_Pipeline (ad_Proxy ad)"]
    by (auto simp: ad_Engine_def with_proxy_def work_def y_Engine_def intro: engine_step.intros)
next
  case (admin aq r)
  show ?thesis
    by (rule admin_proxy_cases[of lb aq r ad])
      (use admin(1) in \<open>auto simp: ad_Engine_def save_engine apply_trustscore_def SetConfig_def SetUserWeights_def
         flush_engine intro: engine_step.intros\<close>)
qed (auto simp: ad_Engine_def with_proxy_def sweep_limits_def sweep_resolver_def intro: engine_step.intros)

lemma marked_front:
  assumes "(\<lambda>ad ad'. front_step io_ok sv lb ad ad' \<and> g_IPs (ad_Engine ad') ip \<noteq> None)\<^sup>*\<^sup>* ad ad'"
    and "marked (ad_Engine ad) ip"
  shows "marked (ad_Engine ad') ip"
  using assms
proof (induction rule: rtranclp_induct)
  case (step ad1 ad2)
  then have m: "marked (ad_Engine ad1) ip" by blast
  from step.hyps(2) front_step_profiles
  have "engine_step (sv_db sv) (ad_Engine ad1) (ad_Engine ad2) \<or> g_IPs (ad_Engine ad2) = g_IPs (ad_Engine ad1)" by blast
  then show ?case using marked_step[OF _ m] marked_cong[OF m] step.hyps(2) by metis
qed

lemma front_run_reachable:
  "(\<lambda>ad ad'. front_step io_ok sv lb ad ad' \<and> P ad')\<^sup>*\<^sup>* ad ad' \<Longrightarrow> front_reachable io_ok sv lb ad \<Longrightarrow>
     front_reachable io_ok sv lb ad'"
  by (induction rule: rtranclp_induct) (auto intro: front_reachable.step)

text \<open>What happens to a request from a marked address.\<close>

lemma marked_anonymous:
  assumes "reachable db (y_Engine st)" and "marked (y_Engine st) (getClientIP (y_Config st) r)"
    and "i_UserID (fst (resolve_identity sv ca r st)) = []"
  shows "\<exists>w. fst (ServeHTTP sv ca r st) = Some \<lparr> oc_response = w, oc_forwarded = None \<rparr> \<and>
    (h_Path r = ''/challenge-solve'' \<or> h_Body r = None \<and> sent_status w = 400 \<or> w = forbidden Ban)"
proof (cases "h_Path r = ''/challenge-solve''")
  case True
  then show ?thesis by (simp add: ServeHTTP_def Let_def case_prod_unfold)
next
  case p: False
  obtain c st1 where c: "read_context sv ca r st = (c, st1)" by fastforce
  show ?thesis
  proof (cases c)
    case None
    then have "h_Body r = None" using read_context_None[of sv ca r st] c by simp
    with None p c show ?thesis by (simp add: ServeHTTP_def)
  next
    case (Some cx)
    have "fst (read_context sv ca r st) = Some cx" using c Some by simp
    note who = read_context_sender[OF this]
    have "y_Engine st1 = y_Engine st" using read_context_keeps[OF c] by (auto simp: same_front_def)
    with exploit_verdict(1)[OF assms(1) marked_view[OF assms(2)]] who assms(3)
    have "v_Recommended (fst (ask_gatekeeper cx st1)) = Ban"
      by (simp add: ask_gatekeeper_def Let_def case_prod_unfold)
    then show ?thesis
      using p c Some by (simp add: ServeHTTP_def Let_def case_prod_unfold serve_banned)
  qed
qed

lemma marked_forwarded:
  assumes "reachable db (y_Engine st)" and "marked (y_Engine st) (getClientIP (y_Config st) r)"
    and "fst (ServeHTTP sv ca r st) = Some oc" "oc_forwarded oc \<noteq> None"
  shows "\<exists>cx. fst (read_context sv ca r st) = Some cx \<and> i_UserID (cx_identity cx) \<noteq> [] \<and> cx_bypassed cx \<and>
    \<not> coraza_blocks st cx"
proof -
  obtain out where out: "oc_forwarded oc = Some out" using assms(4) by blast
  have s: "ServeHTTP sv ca r st = (Some oc, snd (ServeHTTP sv ca r st))" using assms(3) by (metis prod.collapse)
  obtain cx prob where cx: "fst (read_context sv ca r st) = Some cx"
    "let_through sv cx (v_Recommended (fst (Gatekeeper (y_Engine st) (cx_ip cx) (i_UserID (cx_identity cx))
       (time_float (ca_now ca))))) prob st"
    using forwarded_let_through[OF s out] by blast
  note who = read_context_sender[OF cx(1)]
  have "i_UserID (cx_identity cx) \<noteq> []"
  proof
    assume "i_UserID (cx_identity cx) = []"
    then have "i_UserID (fst (resolve_identity sv ca r st)) = []" using who by simp
    from marked_anonymous[OF assms(1,2) this] show False using assms(3,4) by auto
  qed
  moreover have "v_Recommended (fst (Gatekeeper (y_Engine st) (cx_ip cx) (i_UserID (cx_identity cx))
       (time_float (ca_now ca)))) \<in> {Ban, Block, Challenge}"
    using exploit_verdict(2)[OF assms(1) marked_view[OF assms(2)]] who by simp
  ultimately show ?thesis using cx by (auto simp: let_through_def)
qed

text \<open>C4: A critical effect cuts its address off, until the sweep drops the profile of the address, an hour
  after its last scored request or, if none was ever scored, in its next round, or until an
  administrator resets the data. As long as the profile stays in the store, whatever else
  the deployment does, nothing that an anonymous client sends from the address reaches the backend:
  its requests get the error page 403 of the gatekeeper, unless the path is /challenge-solve,
  which the solver's endpoint answers, or the body cannot be read, which is answered 400. A request
  from the address that is forwarded is one of a signed-in user who has a valid clearance
  cookie, and the rule engine does not block it.\<close>

theorem exploit_is_cut_off:
  assumes "front_reachable io_ok sv lb ad0"
    and "parseSeverity (x_Severity ev) = SevCritical" and "x_IP ev \<noteq> []"
    and "(\<lambda>ad ad'. front_step io_ok sv lb ad ad' \<and> g_IPs (ad_Engine ad') (x_IP ev) \<noteq> None)\<^sup>*\<^sup>*
           (with_proxy (\<lambda>st. set_engine (ProcessRASPEvent ev (y_Engine st)) st) ad0) ad"
    and "getClientIP (y_Config (ad_Proxy ad)) r = x_IP ev"
  shows "(i_UserID (fst (resolve_identity sv ca r (ad_Proxy ad))) = [] \<longrightarrow>
      (\<exists>w. fst (ServeHTTP sv ca r (ad_Proxy ad)) = Some \<lparr> oc_response = w, oc_forwarded = None \<rparr> \<and>
         (h_Path r = ''/challenge-solve'' \<or> h_Body r = None \<and> sent_status w = 400 \<or> w = forbidden Ban))) \<and>
    (\<forall>oc. fst (ServeHTTP sv ca r (ad_Proxy ad)) = Some oc \<and> oc_forwarded oc \<noteq> None \<longrightarrow>
      (\<exists>cx. fst (read_context sv ca r (ad_Proxy ad)) = Some cx \<and> i_UserID (cx_identity cx) \<noteq> [] \<and>
         cx_bypassed cx \<and> \<not> coraza_blocks (ad_Proxy ad) cx))"
proof -
  let ?ad1 = "with_proxy (\<lambda>st. set_engine (ProcessRASPEvent ev (y_Engine st)) st) ad0"
  have "marked (ad_Engine ?ad1) (x_IP ev)"
    using marked_report[OF assms(2,3)] by (simp add: ad_Engine_def with_proxy_def)
  from marked_front[OF assms(4) this] have m: "marked (y_Engine (ad_Proxy ad)) (getClientIP (y_Config (ad_Proxy ad)) r)"
    by (simp add: ad_Engine_def assms(5))
  have "front_reachable io_ok sv lb ?ad1" by (rule front_reachable.step[OF assms(1) front_step.rasp])
  from front_engine_reachable[OF front_run_reachable[OF assms(4) this]]
  have e: "reachable (sv_db sv) (y_Engine (ad_Proxy ad))" by (simp add: ad_Engine_def)
  show ?thesis using marked_anonymous[OF e m] marked_forwarded[OF e m] by blast
qed

text \<open>The sweep of the limiters comes between the effect and the request.\<close>

lemma exploit_is_cut_off_witness:
  "let st = sweep_limits 60 (set_engine (ProcessRASPEvent exploit_report (y_Engine (ad_Proxy started))) (ad_Proxy started))
   in fst (ServeHTTP demo_surroundings demo_call plain_request st) =
        Some \<lparr> oc_response = forbidden Ban, oc_forwarded = None \<rparr>"
proof -
  let ?f = "\<lambda>st. set_engine (ProcessRASPEvent exploit_report (y_Engine st)) st"
  let ?ad1 = "with_proxy ?f started" and ?ad2 = "with_proxy (sweep_limits 60) (with_proxy ?f started)"
  obtain g where g: "ad_Proxy started = demo_proxy g None" using started_proxy by blast
  have r: "parseSeverity (x_Severity exploit_report) = SevCritical" "x_IP exploit_report \<noteq> []"
    "x_IP exploit_report = ''10.0.0.1''"
    by (simp_all add: exploit_report_def parseSeverity_def)
  have "marked (ad_Engine ?ad1) (x_IP exploit_report)"
    using marked_report[OF r(1,2)] by (simp add: ad_Engine_def with_proxy_def)
  then have "g_IPs (ad_Engine ?ad2) (x_IP exploit_report) \<noteq> None"
    by (auto simp: marked_def ad_Engine_def with_proxy_def sweep_limits_def)
  then have run: "(\<lambda>ad ad'. front_step (\<lambda>_. True) demo_surroundings demo_admin_libs ad ad' \<and>
      g_IPs (ad_Engine ad') (x_IP exploit_report) \<noteq> None)\<^sup>*\<^sup>* ?ad1 ?ad2"
    by (intro r_into_rtranclp conjI front_step.limits)
  have cfg: "y_Config (ad_Proxy ?ad2) = demo_config" "y_Resolver (ad_Proxy ?ad2) = JWT (NewJWTResolver ''key'')"
    by (simp_all add: with_proxy_def sweep_limits_def set_engine_def g demo_proxy_def)
  have ip: "getClientIP demo_config plain_request = x_IP exploit_report"
    by (simp add: getClientIP_def demo_config_def defaultConfig_def plain_request_def split_last_def r(3))
  have anon: "i_UserID (fst (resolve_identity demo_surroundings demo_call plain_request (ad_Proxy ?ad2))) = []"
    by (simp add: resolve_identity_def cfg(2) Resolve_def jwt_Resolve_def NewJWTResolver_def plain_request_def
        header_Get_def Let_def)
  have req: "h_Path plain_request \<noteq> ''/challenge-solve''" "h_Body plain_request \<noteq> None"
    by (simp_all add: plain_request_def)
  have "getClientIP (y_Config (ad_Proxy ?ad2)) plain_request = x_IP exploit_report" by (simp only: cfg(1) ip)
  from exploit_is_cut_off[OF started_reachable r(1,2) run this, THEN conjunct1, THEN mp, OF anon] req
  have "fst (ServeHTTP demo_surroundings demo_call plain_request (ad_Proxy ?ad2)) =
      Some \<lparr> oc_response = forbidden Ban, oc_forwarded = None \<rparr>" by blast
  then show ?thesis by (simp add: Let_def with_proxy_def)
qed

section \<open>A save that fails\<close>

text \<open>C38: When writing the configuration fails, the administrator is told so, and yet the new
  configuration is the live one: it is what is shown, and the limits of the tiers follow it at
  once, while the threshold and the trust engine keep the old one, which is in effect no longer.\<close>

theorem failed_save_is_half_applied:
  assumes "in_effect build (ad_Proxy ad)" and "h_Method r = ''POST''"
    and "Option.bind (h_Body r) (lb_config lb) = Some cfg" and "aq_save aq \<noteq> Saved"
    and "d_Threshold cfg \<noteq> d_Threshold (y_Config (ad_Proxy ad))" and "h_Method r' = ''GET''"
  shows "let (w, ad') = admin_config lb aq r ad;
             shown = fst (admin_config lb aq' r' ad')
         in sent_status w = 500 \<and> rs_Body shown = Encoded cfg \<and>
            tier_limits (y_Config (ad_Proxy ad')) = tier_limits cfg \<and>
            y_Threshold (ad_Proxy ad') = y_Threshold (ad_Proxy ad) \<and>
            y_Engine (ad_Proxy ad') = y_Engine (ad_Proxy ad) \<and>
            \<not> in_effect build (ad_Proxy ad')"
  using assms
  by (simp add: admin_config_def save_config_def SaveWafConfig_def in_effect_def Let_def)

lemma failed_save_is_half_applied_witness:
  "\<not> in_effect (lb_build demo_admin_libs) (ad_Proxy (snd (admin_config
       (demo_admin_libs\<lparr>lb_config := \<lambda>_. Some (demo_config\<lparr>d_Threshold := 0\<rparr>)\<rparr>)
       (demo_admin_call\<lparr>aq_save := WriteError\<rparr>) (post ''/api/admin/config'' []) started)))"
proof -
  have "in_effect (lb_build demo_admin_libs) (ad_Proxy started)"
    unfolding started_def by (simp add: start_in_effect)
  moreover have "fl 0.9 \<noteq> 0" using fl_ge[of "1/2" "0.9"] by auto
  moreover obtain g where "ad_Proxy started = demo_proxy g None" using started_proxy by blast
  ultimately show ?thesis
    using failed_save_is_half_applied[of "lb_build demo_admin_libs" started "post ''/api/admin/config'' []"
        "demo_admin_libs\<lparr>lb_config := \<lambda>_. Some (demo_config\<lparr>d_Threshold := 0\<rparr>)\<rparr>"
        "demo_config\<lparr>d_Threshold := 0\<rparr>" "demo_admin_call\<lparr>aq_save := WriteError\<rparr>" plain_request]
    by (simp add: post_def plain_request_def demo_proxy_def demo_config_def defaultConfig_def case_prod_unfold Let_def)
qed

end
