(* ===== verification/Rasp_Ingest.thy ===== *)
theory Rasp_Ingest
  imports Engine_Safety
begin

text \<open>
  The ingest of runtime effects (\<open>trustscore/rasp.go\<close>): an agent in the backend writes one report
  per line to a socket. A connection is the bytes that arrive on it; what it does to the engine
  does not depend on how they are cut into reads. The decoder of JSON is a parameter.
\<close>

section \<open>Lines\<close>

text \<open>
  \<open>bufio.Scanner\<close> with \<open>ScanLines\<close> and a buffer of a mebibyte: a line that does not fit with its end
  stops the scan, and a carriage return before the end is dropped.
\<close>

definition maxLine :: nat where
  "maxLine = 1048576"

definition dropCR :: "string \<Rightarrow> string" where
  "dropCR line = (if line \<noteq> [] \<and> last line = CHR 0x0D then butlast line else line)"

function scan_lines :: "string \<Rightarrow> string list" where
  "scan_lines s =
     (let line = takeWhile (\<lambda>c. c \<noteq> CHR 0x0A) s
      in if s = [] \<or> length line \<ge> maxLine then []
         else dropCR line # scan_lines (drop (Suc (length line)) s))"
  by pat_completeness auto
termination by (relation "measure length") auto

declare scan_lines.simps [simp del]

definition ingest_line :: "(string \<Rightarrow> rasp_event option) \<Rightarrow> string \<Rightarrow> engine \<Rightarrow> engine" where
  "ingest_line decode line g =
     (if line = [] then g
      else (case decode line of None \<Rightarrow> g | Some ev \<Rightarrow> ProcessRASPEvent ev g))"

definition handleRASPConn :: "(string \<Rightarrow> rasp_event option) \<Rightarrow> string \<Rightarrow> engine \<Rightarrow> engine" where
  "handleRASPConn decode stream g = fold (ingest_line decode) (scan_lines stream) g"

section \<open>What a connection does\<close>

definition on_the_wire :: "string list \<Rightarrow> string" where
  "on_the_wire ls = concat (map (\<lambda>l. l @ [CHR 0x0A]) ls)"

definition fits :: "string \<Rightarrow> bool" where
  "fits l \<longleftrightarrow> CHR 0x0A \<notin> set l \<and> length l < maxLine"

lemma takeWhile_line: "CHR 0x0A \<notin> set l \<Longrightarrow> takeWhile (\<lambda>c. c \<noteq> CHR 0x0A) (l @ CHR 0x0A # s) = l"
  by (induction l) auto

lemma scan_line: "fits l \<Longrightarrow> scan_lines (l @ CHR 0x0A # s) = dropCR l # scan_lines s"
  by (subst scan_lines.simps) (simp add: fits_def takeWhile_line)

lemma scan_last_line: "fits l \<Longrightarrow> l \<noteq> [] \<Longrightarrow> scan_lines l = [dropCR l]"
proof -
  assume l: "fits l" "l \<noteq> []"
  then have "takeWhile (\<lambda>c. c \<noteq> CHR 0x0A) l = l" by (auto simp: fits_def takeWhile_eq_all_conv)
  moreover have "scan_lines [] = []" by (simp add: scan_lines.simps)
  ultimately show ?thesis using l by (subst scan_lines.simps) (simp add: fits_def del: takeWhile_eq_all_conv)
qed

lemma scan_wire: "\<forall>l\<in>set ls. fits l \<Longrightarrow> scan_lines (on_the_wire ls @ s) = map dropCR ls @ scan_lines s"
  by (induction ls) (simp_all add: on_the_wire_def scan_line)

lemma scan_too_long:
  assumes "CHR 0x0A \<notin> set l" and "maxLine \<le> length l"
  shows "scan_lines (l @ s) = []"
proof -
  have "takeWhile (\<lambda>c. c \<noteq> CHR 0x0A) (l @ s) = l @ takeWhile (\<lambda>c. c \<noteq> CHR 0x0A) s"
    using assms(1) by (subst takeWhile_append2) auto
  with assms(2) show ?thesis by (subst scan_lines.simps) simp
qed

lemma scan_empty [simp]: "scan_lines [] = []"
  by (simp add: scan_lines.simps)

text \<open>A connection is a sequence of the engine's own steps.\<close>

lemma handleRASPConn_steps: "(engine_step db)\<^sup>*\<^sup>* g (handleRASPConn decode stream g)"
proof -
  have "(engine_step db)\<^sup>*\<^sup>* g (fold (ingest_line decode) ls g)" for ls
  proof (induction ls arbitrary: g)
    case (Cons l ls)
    have "(engine_step db)\<^sup>*\<^sup>* g (ingest_line decode l g)"
      by (auto simp: ingest_line_def intro: engine_step.rasp split: option.split)
    with Cons.IH[of "ingest_line decode l g"] show ?case by simp
  qed simp
  then show ?thesis by (simp add: handleRASPConn_def)
qed

text \<open>C28: Every report that an agent sends is ingested, in order, until a line is too long: of a stream
  of lines each shorter than a mebibyte, every one that decodes is processed, whatever stands
  between them, and so is a last line without its end; a line of a mebibyte ends the connection,
  and no report after it is seen.\<close>

theorem reports_until_too_long:
  assumes "\<forall>l\<in>set ls. fits l" and "fits final" "final \<noteq> []"
    and "CHR 0x0A \<notin> set long" "maxLine \<le> length long"
  shows "handleRASPConn decode (on_the_wire ls @ final) g =
           fold ProcessRASPEvent (List.map_filter decode (filter (\<lambda>l. l \<noteq> []) (map dropCR (ls @ [final])))) g \<and>
         handleRASPConn decode (on_the_wire ls @ long @ rest) g = handleRASPConn decode (on_the_wire ls) g"
proof -
  have f: "fold (ingest_line decode) ls g =
      fold ProcessRASPEvent (List.map_filter decode (filter (\<lambda>l. l \<noteq> []) ls)) g" for ls
    by (induction ls arbitrary: g) (auto simp: ingest_line_def List.map_filter_simps split: option.split)
  have "scan_lines (on_the_wire ls @ final) = map dropCR (ls @ [final])"
    using assms(1-3) by (simp add: scan_wire scan_last_line)
  moreover have "scan_lines (on_the_wire ls @ long @ rest) = scan_lines (on_the_wire ls)"
    using scan_wire[OF assms(1), of "long @ rest"] scan_wire[OF assms(1), of "[]"] scan_too_long[OF assms(4,5)]
    by simp
  ultimately show ?thesis by (simp only: handleRASPConn_def f)
qed

lemma reports_until_too_long_witness:
  "handleRASPConn (\<lambda>l. if l = ''x'' then Some exploit_report else None) (''y'' @ [CHR 0x0A] @ ''x'') init_engine =
     ProcessRASPEvent exploit_report init_engine"
proof -
  have "\<forall>l\<in>set [''y'']. fits l" "fits ''x''" by (simp_all add: fits_def maxLine_def)
  from reports_until_too_long[OF this, of "replicate maxLine (CHR ''z'')"
      "\<lambda>l. if l = ''x'' then Some exploit_report else None" init_engine "[]"]
  show ?thesis by (simp add: on_the_wire_def dropCR_def List.map_filter_simps)
qed

end
