(* ===== verification/Front_Keys.thy ===== *)
theory Front_Keys
  imports Front_Safety Rasp_Ingest
begin

text \<open>
  Names that a client chooses. The engine exports the score of an address under the address
  itself as the key, into the database that also holds the queue of the deep tier, its results and
  the feeds under fixed keys; here is shown that a client can choose which key is written when the
  deployment trusts \<open>X-Forwarded-For\<close>.
\<close>

section \<open>The address of a forwarded request\<close>

lemma getClientIP_forwarded:
  assumes "d_TrustXForwardedFor cfg" and "header_Get (h_Header r) ''X-Forwarded-For'' = name"
    and "name \<noteq> []" "CHR '','' \<notin> set name" "TrimSpace name = name"
  shows "getClientIP cfg r = name"
  using assms by (simp add: getClientIP_def go_split_single Let_def)

section \<open>What the learner then exports\<close>

lemma Gatekeeper_redis: "g_Redis (snd (Gatekeeper g ip uid now)) = g_Redis g"
  by (simp add: Gatekeeper_def GetGatekeeperProfiles_def Let_def case_prod_unfold)

lemma RecordChallengeSolved_redis: "g_Redis (RecordChallengeSolved ip uid now g) = g_Redis g"
  by (simp add: RecordChallengeSolved_def Let_def case_prod_unfold)

lemma ServeHTTP_redis: "g_Redis (y_Engine (snd (ServeHTTP sv ca r st))) = g_Redis (y_Engine st)"
  using ServeHTTP_engine[of sv ca r st] Gatekeeper_redis RecordChallengeSolved_redis by metis

lemma ServeHTTP_reports:
  assumes "ServeHTTP sv ca r st = (Some oc, st')" and "h_Path r \<noteq> ''/challenge-solve''" and "h_Body r \<noteq> None"
    and "rs_Body (oc_response oc) \<noteq> Aborted"
  shows "\<exists>cx status. fst (read_context sv ca r st) = Some cx \<and> reported cx status st st'"
proof -
  obtain cx st1 verdict where c: "fst (read_context sv ca r st) = Some cx"
      "serve_checked sv ca cx verdict st1 = (Some oc, st')" "y_Pending st1 = y_Pending st"
    by (rule ServeHTTP_cases[OF assms(1-3)])
  from c(2) have "\<exists>status. reported cx status st1 st'"
    by (cases rule: serve_checked_cases) (use assms(4) in \<open>auto simp: reported_def writeLog_def\<close>)
  with c show ?thesis by (auto simp: reported_def)
qed

lemma ProcessEvent_exports:
  "g_Redis g = Some k \<Longrightarrow> \<exists>k' x. g_Redis (snd (ProcessEvent db g raw)) = Some k' \<and>
     k_Scores k' = (k_Scores k)(safeString raw ''ip'' \<mapsto> x)"
  by (auto simp: ProcessEvent_def ExportScore_def ParseRawEvent_def Let_def case_prod_unfold)

text \<open>C39: A client can choose the key under which its score is exported: where X-Forwarded-For is
  trusted, an anonymous request whose field holds any name without commas or outer blanks makes
  the learner write a score under exactly that name, also when the name is the key of the queue
  of the deep tier, which a write of a score replaces. Only a request whose response from the
  backend is cut off does not reach the learner.\<close>

theorem address_can_name_the_queue:
  assumes "d_TrustXForwardedFor (y_Config st)" and "header_Get (h_Header r) ''X-Forwarded-For'' = name"
    and "name \<noteq> []" "CHR '','' \<notin> set name" "TrimSpace name = name"
    and "ServeHTTP sv ca r st = (Some oc, st')" "h_Path r \<noteq> ''/challenge-solve''" "h_Body r \<noteq> None"
    and "rs_Body (oc_response oc) \<noteq> Aborted"
    and "i_UserID (fst (resolve_identity sv ca r st)) = []"
    and "g_Redis (y_Engine st) = Some k" "y_Pending st = []"
  shows "\<exists>k' x. g_Redis (y_Engine (run_task (sv_db sv) 0 st')) = Some k' \<and> k_Scores k' = (k_Scores k)(name \<mapsto> x)"
proof -
  obtain identity r' st1 where res: "resolve_identity sv ca r st = (identity, r', st1)" by (rule prod_cases3)
  obtain cx status where c: "fst (read_context sv ca r st) = Some cx" "reported cx status st st'"
    using ServeHTTP_reports[OF assms(6-9)] by blast
  have "header_Get (h_Header r') ''X-Forwarded-For'' = name"
    using identity_headers_kept[OF forwarded_for_kept res] assms(2) by simp
  then have ip: "cx_ip cx = name" "i_UserID (cx_identity cx) = []"
    using read_context_who[OF c(1) res] getClientIP_forwarded[OF assms(1) _ assms(3-5)] assms(10) res by auto
  obtain ev where p: "y_Pending st' = [\<lparr> lt_identity = cx_identity cx, lt_event = ev \<rparr>]"
      "ev ''ip'' = Some (RawString name)"
    using c(2) assms(12) ip(1) by (auto simp: reported_def)
  have "g_Redis (y_Engine st') = Some k" using ServeHTTP_redis[of sv ca r st] assms(6,11) by simp
  from ProcessEvent_exports[OF this, of "sv_db sv" ev] p(2)
  show ?thesis by (simp add: run_task_def learn_def p(1) ip(2) safeString_def)
qed

lemma demo_classified: "classify demo_surroundings cx \<noteq> None"
  by (simp add: classify_def demo_surroundings_def Transform_def LoadTfidf_def Let_def)

definition behind_balancer :: proxy where
  "behind_balancer =
     (demo_proxy (init_engine\<lparr>g_Redis := Some \<lparr> k_Scores = Map.empty, k_Feed = [] \<rparr>\<rparr>) None)
       \<lparr>y_Config := demo_config\<lparr>d_TrustXForwardedFor := True\<rparr>\<rparr>"

definition naming_request :: http_request where
  "naming_request = plain_request\<lparr>h_Header := [CanonicalHeaderKey ''X-Forwarded-For'' \<mapsto> [''tier1:queue'']]\<rparr>"

lemma address_can_name_the_queue_witness:
  "\<exists>k x. g_Redis (y_Engine (run_task (sv_db demo_surroundings) 0
       (snd (ServeHTTP demo_surroundings demo_call naming_request behind_balancer)))) = Some k \<and>
     k_Scores k (tk_RedisQueueKey (d_Tier1Config demo_config)) = Some x"
proof -
  have "sv_backend demo_surroundings out \<noteq> CutOff status" for out status by (simp add: demo_surroundings_def)
  then obtain oc st' where s: "ServeHTTP demo_surroundings demo_call naming_request behind_balancer = (Some oc, st')"
    and whole: "rs_Body (oc_response oc) \<noteq> Aborted"
    using ServeHTTP_answers[OF demo_classified] by metis
  have name: "CHR '','' \<notin> set ''tier1:queue''" "TrimSpace ''tier1:queue'' = ''tier1:queue''" by code_simp+
  have h: "header_Get (h_Header naming_request) ''X-Forwarded-For'' = ''tier1:queue''"
    by (simp add: header_Get_def naming_request_def)
  have "header_Get (h_Header naming_request) ''Authorization'' = []"
    by (simp add: header_Get_def naming_request_def canonical_eval)
  then have a: "i_UserID (fst (resolve_identity demo_surroundings demo_call naming_request behind_balancer)) = []"
    by (simp add: resolve_identity_def behind_balancer_def demo_proxy_def Resolve_def jwt_Resolve_def NewJWTResolver_def
        anonymous_def Let_def)
  have st: "d_TrustXForwardedFor (y_Config behind_balancer)" "y_Pending behind_balancer = []"
      "g_Redis (y_Engine behind_balancer) = Some \<lparr> k_Scores = Map.empty, k_Feed = [] \<rparr>"
      "h_Path naming_request \<noteq> ''/challenge-solve''" "h_Body naming_request \<noteq> None"
    by (simp_all add: behind_balancer_def demo_proxy_def y_Engine_def naming_request_def plain_request_def)
  from address_can_name_the_queue[OF st(1) h _ name s st(4,5) whole a st(3,2)]
  show ?thesis
    by (auto simp: s demo_config_def defaultConfig_def default_tier1_def)
qed

end
