(* ===== verification/Spec2Isabelle.thy ===== *)
theory Spec2Isabelle
  imports Front_Keys
begin

text \<open>
  A verification library for an AI-powered web application firewall written in Go: the reverse
  proxy of \<^verbatim>\<open>src/tier-0\<close> and the trust engine \<^verbatim>\<open>trustscore\<close> of \<^verbatim>\<open>src/trustscore\<close>.

  The program. The proxy resolves who sends a request, asks the gatekeeper of the trust engine for
  one of five decisions, and acts on it: it forbids the request, asks for a proof of work, limits
  its rate, or runs a rule engine; what is left goes through a classifier on engineered features and
  n-grams, with the rule engine once more for uncertain cases, and then to the backend. Requests are
  logged and learned from in the background; requests in a grey zone of the classifier are queued
  for a slower deep tier, whose workers feed corrections back. The trust engine keeps a behavioural
  profile of every client address and a long-term profile of every authenticated user, scores each
  request against them on a scale from 0 (ban) to 10 (allow), and turns the score into the decision.
  Eight behavioural detectors and a module for confirmed runtime effects each give a sub-score
  between 0 and 1; the fusion weighs them, lets some evidence override the weights, applies the
  correction of the deep tier, and records the request in the profile. A second server administrates
  accounts, the live configuration and the data.

  The trust engine, in the order the theories build on each other, with the code each models:

    \<^item> \<open>Float64\<close>: Go's \<^verbatim>\<open>float64\<close>. Every operation of the code is the operation on the reals followed
      by \<open>fl\<close>, rounding to nearest even with 53 bits and gradual underflow; \<^verbatim>\<open>math.Round(x*k)/k\<close> is
      \<open>round_to k x\<close>. Monotonicity, exactness on small integers and dyadics, error bounds.
    \<^item> \<open>Prelude\<close>: strings, \<^verbatim>\<open>strconv.Atoi\<close> with its 64-bit range, wrapping differences, bounded
      histories (the interface \<open>bounded_log\<close> and both ways the code pushes), decisions, severities.
    \<^item> \<open>Trust_Types\<close>: \<^verbatim>\<open>types.go\<close>, \<^verbatim>\<open>config.go\<close>, \<^verbatim>\<open>detection_signals.go\<close>: events, configuration,
      signals, \<open>ip_profile\<close> and its \<open>Update\<close>, block by block.
    \<^item> \<open>Time_Window\<close> (\<^verbatim>\<open>time_window.go\<close>): windows, the in-place quicksort, interval statistics.
    \<^item> \<open>Go_Regexp\<close>: leftmost-first matching with captures, for the program's patterns.
    \<^item> \<open>Scoring\<close>: what detectors share; the interface \<open>risk_module\<close>, a sub-score in [0, 1].
    \<^item> \<open>Recon\<close>, \<open>Detectors\<close>, \<open>Vuln_Probe\<close>, \<open>Rasp_Effects\<close>: the detectors (\<^verbatim>\<open>recon.go\<close>, \<^verbatim>\<open>bruteforce.go\<close>,
      \<^verbatim>\<open>ddos.go\<close>, \<^verbatim>\<open>session.go\<close>, \<^verbatim>\<open>scraping.go\<close>, \<^verbatim>\<open>evasion.go\<close>, \<^verbatim>\<open>account_abuse.go\<close>,
      \<^verbatim>\<open>trust_boosters.go\<close>, \<^verbatim>\<open>vuln_probe.go\<close>, \<^verbatim>\<open>rasp.go\<close>), each an interpretation of \<open>risk_module\<close>.
    \<^item> \<open>Fusion\<close> (\<^verbatim>\<open>fusion.go\<close>): overrides, weighted risk, bands, policy layer, \<open>ComputeTrustScore\<close>;
      \<open>Fusion_Safety\<close>: its properties, over single requests and over runs.
    \<^item> \<open>User_Profile\<close>, \<open>User_Behavior\<close>, \<open>User_Fusion\<close> (\<^verbatim>\<open>user_profile.go\<close>, \<^verbatim>\<open>user_behavior.go\<close>,
      \<^verbatim>\<open>user_fusion.go\<close>): the user layer; \<open>User_Safety\<close>: its properties.
    \<^item> \<open>Stores\<close> (\<^verbatim>\<open>ip_store.go\<close>, \<^verbatim>\<open>user_store.go\<close>): the interface \<open>profile_store\<close> and its two
      interpretations; \<open>Engine\<close>: the package's global state and the operations on it as a whole
      (\<^verbatim>\<open>redis_exporter.go\<close>, setters, sweeps).
    \<^item> \<open>Event_Parsing\<close> (\<^verbatim>\<open>api.go\<close>, \<^verbatim>\<open>assets.go\<close>, \<^verbatim>\<open>proxy_detect.go\<close>, \<^verbatim>\<open>location_detect.go\<close>): raw events.
    \<^item> \<open>Api\<close> (\<^verbatim>\<open>api.go\<close>, \<^verbatim>\<open>rasp.go\<close>): gatekeeper, entry points, ingest of effects.
    \<^item> \<open>Tier1_Feedback\<close> (\<^verbatim>\<open>tier1_feedback.go\<close>, \<^verbatim>\<open>tier1_types.go\<close>): the deep tier's corrections.
    \<^item> \<open>Engine_Steps\<close>: the engine as a state machine with its invariants; \<open>Engine_Safety\<close>: the
      properties that span components; \<open>Rasp_Ingest\<close> (\<^verbatim>\<open>rasp.go\<close>): the lines of an agent's connection.

  The front and the deep tier:

    \<^item> \<open>Sha256\<close>, \<open>Go_Time\<close>, \<open>Go_Http\<close>: what the code uses of Go's \<^verbatim>\<open>crypto\<close>, \<^verbatim>\<open>time\<close>, \<^verbatim>\<open>net/http\<close> and \<^verbatim>\<open>net\<close>:
      digests and HMAC, calendar days and durations, header maps, cookies, addresses.
    \<^item> \<open>Waf_Config\<close> (\<^verbatim>\<open>config_manager.go\<close>): the configuration and its defaults.
    \<^item> \<open>Clearance\<close> (\<^verbatim>\<open>crypto.go\<close>, \<^verbatim>\<open>proxy.go\<close>): clearance tokens, client addresses, session identifiers.
    \<^item> \<open>Rate_Limiter\<close> (\<^verbatim>\<open>rate_limiter.go\<close>, \<^verbatim>\<open>redis_rate_limiter.go\<close>): the interface \<open>rate_backend\<close>,
      interpreted on the token buckets in memory and on the windows in Redis.
    \<^item> \<open>Resolver\<close> (\<^verbatim>\<open>middleware/resolver.go\<close>): tokens, headers of an upstream, and opaque tokens with
      their cache.
    \<^item> \<open>Tfidf\<close> (\<^verbatim>\<open>tfidf.go\<close>), \<open>Features\<close> (\<^verbatim>\<open>features.go\<close>): what the classifier sees of a request.
    \<^item> \<open>Tier1_Queue\<close> (\<^verbatim>\<open>tier1_redis.go\<close>, \<^verbatim>\<open>tier1_audit.go\<close>): the interfaces \<open>job_queue\<close> and
      \<open>retry_queue\<close>, the queue, which refines a list of jobs, the audit table; \<open>Tier1_Pipeline\<close> (\<^verbatim>\<open>tier1.go\<close>, \<^verbatim>\<open>tier1_model.go\<close>): the client of the model and the workers.
    \<^item> \<open>Proxy\<close> (\<^verbatim>\<open>proxy.go\<close>, \<^verbatim>\<open>coraza.go\<close>): the handler, stage by stage, in the order of \<^verbatim>\<open>ServeHTTP\<close>;
      \<open>Proxy_Safety\<close>, \<open>Proxy_Edges\<close>: its properties.
    \<^item> \<open>Admin\<close> (\<^verbatim>\<open>admin.go\<close>, \<^verbatim>\<open>config_manager.go\<close>, \<^verbatim>\<open>main.go\<close>): saving the configuration, the proxy that
      \<^verbatim>\<open>main\<close> starts with, accounts, sessions, routes; \<open>Admin_Safety\<close>: their properties.
    \<^item> \<open>Front\<close>: the deployment as a state machine and its refinement of the engine's;
      \<open>Front_Config\<close>: the configuration in effect; \<open>Front_Safety\<close>, \<open>Front_Keys\<close>: properties end to end.

  Conventions. A struct is a record whose fields carry the source's names behind a prefix:
  \<open>c_\<close> Config, \<open>e_\<close> RequestEvent, \<open>p_\<close> IPProfile,
  \<open>s_\<close> signals, \<open>o_\<close> RequestOutcome, \<open>r_\<close> TrustScoreResult,
  \<open>u_\<close> UserTrustProfile, \<open>b_\<close> UserBehaviorSignals, \<open>ur_\<close>
  UserTrustScoreResult, \<open>i_\<close> IdentityContext, \<open>g_\<close> the package's global
  state, \<open>v_\<close> GatekeeperVerdict, \<open>x_\<close> RASPEvent, \<open>j_\<close>
  Tier1Job, \<open>tk_\<close> Tier1Config, \<open>d_\<close> WafConfig, \<open>h_\<close>
  http.Request, \<open>tb_\<close> TokenBucket, \<open>rl_\<close> RateLimiter, \<open>jr_\<close>,
  \<open>hr_\<close>, \<open>or_\<close> the resolvers, \<open>vz_\<close> TfidfVectorizer,
  \<open>q_\<close> RedisQueue, \<open>au_\<close> a row of the audit table, \<open>pl_\<close>
  Tier1Pipeline, \<open>y_\<close> WAFProxy with its tasks and feed, \<open>am_\<close> AdminStore.
  What the surroundings decide is an argument: \<open>sv_\<close> fixes the databases, the
  libraries, the model and the backend; \<open>ca_\<close>, \<open>aq_\<close> and
  \<open>we_\<close> the instant, the fresh identifiers and which commands succeed, for one request,
  one administration request and one job. A pipeline of Redis commands is not a transaction:
  \<open>pipe_io\<close> says which of its two commands took effect when it fails. The backend
  copies its response or is cut off, which ends the handler (\<open>backend_reply\<close>,
  \<open>Aborted\<close>). A cookie that is set goes through the sanitising of
  \<^verbatim>\<open>http.SetCookie\<close> (\<open>cookie_text\<close>). \<open>rs_\<close> is the
  response written so far, \<open>oc_\<close> the outcome of a request, \<open>cx_\<close> what the
  handler has read of it. A stage of the handler (type \<open>stage\<close>) answers, with what it
  logs, or passes. A \<^verbatim>\<open>map[string]bool\<close> that is only ever set to true is an
  \<open>fset\<close>. An \<^verbatim>\<open>if\<close>/\<^verbatim>\<open>else if\<close> chain of
  a detector is a list of guarded penalties, taken by \<open>add_first\<close>; a condition that an
  enclosing \<^verbatim>\<open>if\<close> tests is a conjunct of the guards. A reason is the
  unrendered \<^verbatim>\<open>fmt.Sprintf\<close> call. Long methods are compositions of their
  blocks, in order. A goroutine of the learner is an entry of \<open>y_Pending\<close> that some
  later step runs.

  What the groups of lemmas show. The trust engine: sub-scores are in [0, 1] and scores in [0, 10];
  the fusion is monotone in the evidence, up to the override for Tor; final evidence decides on its
  own for as long as the profile that carries it is kept; profiles stay well-formed in every
  reachable state; addresses do not affect each other; the long-term score of a user moves convexly;
  the quicksort sorts; the identifier pattern, the run of identifiers, the incremental test and the
  worst runtime effect mean what they should. The front: whatever the deployment does, its engine
  takes steps of the engine's own machine, so the engine's invariants hold of it; nothing reaches
  the backend that a stage stopped; a critical effect cuts an address off end to end until the sweep
  or a reset drops its profile; no request makes the handler's own code panic if the files of the
  model fit together; what is logged and learned once, and what leaves no trace; nobody chooses an
  identity, whatever the resolver has cached; the limiter keeps its bound and its promise of when to
  come back; a clearance costs work and comes back as it was set; a session lasts a day for the
  names that survive the cookie; strangers change nothing but a deployment without accounts; the
  saved configuration is in effect. The deep tier: every job is accounted for up to the number of
  faults, the queue is first-in first-out and drains, only checked answers move a score. Several
  theorems state where the code does less than its comments promise: a dead policy rule, a harmless
  first request, a rule for blocked addresses that a new-country login skips, a ban that signed-in
  users escape, a blocked request that is answered 200, attribution that a client can strip, a
  fail-closed setting without effect, a set-up that can succeed twice, a failed save that is half
  applied, an exported score whose key the client chooses, Tor evidence that softens a ban.

  Bounds and fuel. \<open>star_iter\<close> has as many rounds as bytes are left, and every round
  consumes one; the loops of the quicksort and the decoder of UTF-8 terminate by measures; the loop
  over layers of encoding is bounded by eleven in the code itself; nothing else recurses on more
  than its data.

  What is not modelled, and why. Locks: an operation is one call with the locks held as the code
  holds them, and one request sees one instant of the clock; the set-up of the administration, where
  two critical sections matter, is split in two. The entries of the audit table, written in
  goroutines, take effect in the order of the calls. Background sweeps and workers are steps;
  starting and stopping them, listeners, TLS, flags, the loading of the model's files and the health
  check of the model are left out. Overflow to infinity, NaN and fused multiply-add: no operation
  leaves the finite range for the values the code forms from bounded counters, and the code is taken
  as compiled without fusion; what a feature divided by zero would be is the argument
  \<open>ml_nan\<close>, on which nothing depends. Counters are unbounded. Third-party code is a
  parameter or left out: the address databases, the JWT library, the authentication service, bcrypt,
  JSON, compression, libinjection, Coraza with its rules, LightGBM and the model of the deep tier
  are functions; Redis and SQLite are the contents that the commands and statements give, one part
  for each use, so a key that two uses share (\<open>Front_Keys\<close>) does not show in the
  other's part. Of \<^verbatim>\<open>httputil.ReverseProxy\<close> the effect on the headers is
  modelled, without protocol upgrades and \<^verbatim>\<open>Te: trailers\<close>. Rendering for
  logs is left out.
\<close>

end
